(* ===== verification/Prelude.thy ===== *)
theory Prelude
  imports Main "HOL-Library.Sublist"
begin

text \<open>
  Shared vocabulary of the development: the JavaScript string built-ins the
  application calls (\<open>String.prototype.includes\<close>, \<open>trim\<close>,
  \<open>Array.prototype.join\<close>, \<open>toLowerCase\<close> on ASCII), with executable
  definitions and their equivalence to the library's reference predicates
  (\<open>prefix\<close>, \<open>sublist\<close> of HOL-Library.Sublist), and the generic list
  lemmas the component theories share.  JavaScript strings are modelled as
  \<open>string\<close>, a list of 8-bit characters (the UTF-8 bytes of the text).
\<close>

named_theorems js_simps "evaluation rules for the modelled JavaScript built-ins"

subsection \<open>\<open>startsWith\<close> and \<open>includes\<close>\<close>

fun js_starts_with :: "string \<Rightarrow> string \<Rightarrow> bool" where
  "js_starts_with s [] = True"
| "js_starts_with [] (c # p) = False"
| "js_starts_with (d # s) (c # p) = (d = c \<and> js_starts_with s p)"

text \<open>\<open>s.includes(p)\<close>: the search tries every start position from the left.\<close>

fun js_includes :: "string \<Rightarrow> string \<Rightarrow> bool" where
  "js_includes [] p = (p = [])"
| "js_includes (c # s) p = (js_starts_with (c # s) p \<or> js_includes s p)"

lemma js_starts_with_prefix [js_simps]: "js_starts_with s p \<longleftrightarrow> prefix p s"
  by (induction s p rule: js_starts_with.induct) auto

lemma js_includes_sublist [js_simps]: "js_includes s p \<longleftrightarrow> sublist p s"
  by (induction s) (auto simp: js_starts_with_prefix sublist_Cons_right)

lemma js_includes_Nil [simp]: "js_includes s []"
  by (simp add: js_includes_sublist)

lemma js_includes_append_left: "js_includes s p \<Longrightarrow> js_includes (s @ t) p"
  using sublist_order.order_trans [OF _ sublist_append_rightI] by (simp add: js_includes_sublist)

lemma js_includes_append_right: "js_includes t p \<Longrightarrow> js_includes (s @ t) p"
  using sublist_order.order_trans [OF _ sublist_append_leftI] by (simp add: js_includes_sublist)

lemma js_includes_self [simp]: "js_includes s s"
  by (simp add: js_includes_sublist)

subsection \<open>\<open>Array.prototype.join\<close>\<close>

fun join_with :: "string \<Rightarrow> string list \<Rightarrow> string" where
  "join_with sep [] = []"
| "join_with sep [m] = m"
| "join_with sep (m # ms) = m @ sep @ join_with sep ms"

lemma join_with_Cons_Cons [simp]:
  "join_with sep (m # m' # ms) = m @ sep @ join_with sep (m' # ms)"
  by simp

lemma join_with_Cons_append:
  "ys \<noteq> [] \<Longrightarrow> join_with sep (x # ys) = x @ sep @ join_with sep ys"
  by (cases ys) simp_all

lemma join_with_includes_member:
  "m \<in> set ms \<Longrightarrow> js_includes m p \<Longrightarrow> js_includes (join_with sep ms) p"
proof (induction sep ms rule: join_with.induct)
  case (3 sep m v vs)
  then show ?case
    by (auto intro: js_includes_append_left js_includes_append_right)
qed auto

text \<open>A pattern that contains no \<open>;\<close> and does not start with a space
  occurs in \<open>ms.join('; ')\<close> exactly when it occurs in one of the parts: the
  separator creates no new occurrence.\<close>

lemma sublist_append_Cons_notin:
  assumes "sublist p (a @ c # b)" "c \<notin> set p"
  shows "sublist p a \<or> sublist p b"
proof -
  from assms(1) consider "sublist p a" | "sublist p (c # b)"
    | p1 p2 where "p = p1 @ p2" "suffix p1 a" "prefix p2 (c # b)"
    unfolding sublist_append by blast
  then show ?thesis
  proof cases
    case 2
    then have "prefix p (c # b) \<or> sublist p b" by (simp add: sublist_Cons_right)
    with assms(2) show ?thesis by (cases p) auto
  next
    case (3 p1 p2)
    with assms(2) have "p2 = []" by (cases p2) auto
    with 3 show ?thesis by (auto intro: suffix_imp_sublist)
  qed simp
qed

lemma sublist_Cons_hd_neq:
  "sublist p (c # b) \<Longrightarrow> p \<noteq> [] \<Longrightarrow> hd p \<noteq> c \<Longrightarrow> sublist p b"
  by (cases p) (auto simp: sublist_Cons_right)

lemma join_semicolon_includes:
  assumes "p \<noteq> []" "CHR '';'' \<notin> set p" "hd p \<noteq> CHR '' ''"
  shows "js_includes (join_with ''; '' ms) p \<longleftrightarrow> list_ex (\<lambda>m. js_includes m p) ms"
proof (induction "''; ''" ms rule: join_with.induct)
  case (3 m v vs)
  let ?r = "join_with ''; '' (v # vs)"
  have "js_includes (m @ CHR '';'' # CHR '' '' # ?r) p \<longleftrightarrow> js_includes m p \<or> js_includes ?r p"
  proof
    assume "js_includes (m @ CHR '';'' # CHR '' '' # ?r) p"
    then have "sublist p m \<or> sublist p (CHR '' '' # ?r)"
      using assms(2) by (auto simp: js_includes_sublist dest: sublist_append_Cons_notin)
    then show "js_includes m p \<or> js_includes ?r p"
      using assms(1,3) by (auto simp: js_includes_sublist dest: sublist_Cons_hd_neq)
  next
    assume "js_includes m p \<or> js_includes ?r p"
    then show "js_includes (m @ CHR '';'' # CHR '' '' # ?r) p"
      using js_includes_append_left js_includes_append_right [of ?r p "m @ ''; ''"] by auto
  qed
  with 3 show ?case by simp
qed (use assms(1) in simp_all)

subsection \<open>\<open>trim\<close> and ASCII case folding\<close>

text \<open>
  The white space \<open>trim\<close> removes, restricted to single-byte characters:
  tab, line feed, vertical tab, form feed, carriage return and space.
\<close>

definition js_is_space :: "char \<Rightarrow> bool" where
  "js_is_space c \<longleftrightarrow> (of_char c :: nat) \<in> {9, 10, 11, 12, 13, 32}"

definition js_trim :: "string \<Rightarrow> string" where
  "js_trim s = rev (dropWhile js_is_space (rev (dropWhile js_is_space s)))"

lemma js_trim_Nil [simp]: "js_trim [] = []"
  by (simp add: js_trim_def)

lemma js_trim_Cons_space [simp]: "js_is_space c \<Longrightarrow> js_trim (c # s) = js_trim s"
  by (simp add: js_trim_def)

subsection \<open>ASCII case folding\<close>

definition js_lower_char :: "char \<Rightarrow> char" where
  "js_lower_char c =
     (let n = (of_char c :: nat) in if 65 \<le> n \<and> n \<le> 90 then char_of (n + 32) else c)"

definition js_lower :: "string \<Rightarrow> string" where
  "js_lower s = map js_lower_char s"

subsection \<open>Lists\<close>

lemma in_set_map_filter: "y \<in> set (List.map_filter f xs) \<longleftrightarrow> (\<exists>x \<in> set xs. f x = Some y)"
  by (induction xs) (auto simp: List.map_filter_simps split: option.splits)

lemma find_SomeD: "find P xs = Some x \<Longrightarrow> P x \<and> x \<in> set xs"
  by (induction xs) (auto split: if_splits)

lemma those_map_Some_set:
  "those (map f xs) = Some ys \<Longrightarrow> y \<in> set ys \<Longrightarrow> \<exists>x \<in> set xs. f x = Some y"
  by (induction xs arbitrary: ys) (auto split: option.splits)

lemma those_length: "those xs = Some ys \<Longrightarrow> length ys = length xs"
  by (induction xs arbitrary: ys) (auto split: option.splits)

end
