(* ===== verification/Retry.thy ===== *)
theory Retry
  imports Prelude
begin

text \<open>
  The two retrying request executors of the application.
  \<^item> \<open>queryMonday\<close> (src/unnamed/part_001, the hook \<open>useMondayAPI\<close>):
    one call of \<open>monday.api\<close>; a response carrying an \<open>errors\<close> list
    is retried when one message reports a rate limit, otherwise turned into
    \<open>new Error(messages.join('; '))\<close>; a rejected call is retried when
    its message contains \<open>Rate limit passed\<close>.  Default budget 3 retries,
    first delay 500 ms, doubling.
  \<^item> \<open>retry\<close> (src/unnamed/part_005, App.jsx): wraps a thunk and retries it
    on concurrency-limit, GraphQL-validation, HTTP 429 and
    \<open>FIELD_LIMIT_EXCEEDED\<close> errors.  Default budget 5 retries, first delay
    2000 ms, factor 2.
  The platform API is an oracle \<open>api q n\<close>: the outcome of the \<open>n\<close>-th call
  of \<open>monday.api\<close> in the session, made with query document \<open>q\<close>.  The
  network state counts the calls made and records every \<open>setTimeout\<close> delay
  awaited, in order.
\<close>

subsection \<open>Errors, outcomes, network state\<close>

text \<open>A JavaScript error as the executors inspect it: \<open>error.message\<close>,
  \<open>error.response.status\<close> and \<open>error.response.errors[0].extensions.code\<close>.\<close>

record api_error =
  message :: string
  response_status :: "int option"
  first_error_code :: "string option"

text \<open>\<open>new Error(m)\<close>: an error with a message and no response.\<close>

definition plain_error :: "string \<Rightarrow> api_error" where
  "plain_error m = \<lparr>message = m, response_status = None, first_error_code = None\<rparr>"

text \<open>What one call of \<open>monday.api\<close> gives: a response with data, a response
  whose \<open>errors\<close> field holds a list of messages, or a rejected promise.\<close>

datatype 'd api_outcome =
    Api_data 'd
  | Api_errors "string list"
  | Api_reject api_error

type_synonym 'd api = "string \<Rightarrow> nat \<Rightarrow> 'd api_outcome"

record net =
  calls :: nat
  waits :: "nat list"

definition after_call :: "net \<Rightarrow> net" where
  "after_call s = s\<lparr>calls := Suc (calls s)\<rparr>"

definition after_wait :: "nat \<Rightarrow> net \<Rightarrow> net" where
  "after_wait d s = s\<lparr>waits := waits s @ [d]\<rparr>"

lemma after_call_simps [simp]:
  "calls (after_call s) = Suc (calls s)" "waits (after_call s) = waits s"
  by (simp_all add: after_call_def)

lemma after_wait_simps [simp]:
  "calls (after_wait d s) = calls s" "waits (after_wait d s) = waits s @ [d]"
  by (simp_all add: after_wait_def)

text \<open>The delays of \<open>k\<close> successive waits of an exponential backoff.\<close>

definition backoff :: "nat \<Rightarrow> nat \<Rightarrow> nat \<Rightarrow> nat list" where
  "backoff d f k = map (\<lambda>i. d * f ^ i) [0..<k]"

lemma backoff_0 [simp]: "backoff d f 0 = []"
  by (simp add: backoff_def)

lemma backoff_Suc: "backoff d f (Suc k) = d # backoff (d * f) f k"
proof -
  have "[0..<Suc k] = 0 # map Suc [0..<k]"
    by (simp add: map_Suc_upt upt_conv_Cons)
  then show ?thesis
    by (simp add: backoff_def mult.assoc)
qed

lemma length_backoff [simp]: "length (backoff d f k) = k"
  by (simp add: backoff_def)

subsection \<open>\<open>queryMonday\<close>\<close>

text \<open>One attempt: the outcome of the \<open>try\<close> block, then of the \<open>catch\<close>
  block for what it threw.  A recursive call made from the \<open>try\<close> block is
  returned without \<open>await\<close>, so its failure is not seen by this frame's
  \<open>catch\<close>: the recursion happens outside both blocks.\<close>

datatype 'd attempt = Attempt_ok 'd | Attempt_retry | Attempt_throw api_error

definition rate_limit_hit :: "string list \<Rightarrow> bool" where
  "rate_limit_hit ms \<longleftrightarrow>
     list_ex (\<lambda>m. js_includes m ''Rate limit passed'' \<or> js_includes m ''Rate limit exceeded'') ms"

definition query_try :: "nat \<Rightarrow> 'd api_outcome \<Rightarrow> 'd attempt" where
  "query_try retries r =
     (case r of
        Api_errors ms \<Rightarrow>
          if rate_limit_hit ms \<and> 0 < retries then Attempt_retry
          else Attempt_throw (plain_error (join_with ''; '' ms))
      | Api_data d \<Rightarrow> Attempt_ok d
      | Api_reject e \<Rightarrow> Attempt_throw e)"

definition query_catch :: "nat \<Rightarrow> 'd attempt \<Rightarrow> 'd attempt" where
  "query_catch retries a =
     (case a of
        Attempt_throw e \<Rightarrow>
          if js_includes (message e) ''Rate limit passed'' \<and> 0 < retries then Attempt_retry
          else Attempt_throw e
      | _ \<Rightarrow> a)"

lemma query_catch_try_retry:
  "query_catch retries (query_try retries r) = Attempt_retry \<Longrightarrow> 0 < retries"
  by (auto simp: query_catch_def query_try_def split: api_outcome.splits attempt.splits if_splits)

function query_monday :: "'d api \<Rightarrow> string \<Rightarrow> nat \<Rightarrow> nat \<Rightarrow> net \<Rightarrow> (api_error + 'd) \<times> net" where
  "query_monday api q retries delay s =
     (case query_catch retries (query_try retries (api q (calls s))) of
        Attempt_ok d \<Rightarrow> (Inr d, after_call s)
      | Attempt_throw e \<Rightarrow> (Inl e, after_call s)
      | Attempt_retry \<Rightarrow>
          query_monday api q (retries - 1) (delay * 2) (after_wait delay (after_call s)))"
  by pat_completeness auto
termination
  by (relation "measure (\<lambda>(api, q, retries, delay, s). retries)")
     (auto dest: query_catch_try_retry)

declare query_monday.simps [simp del]

subsection \<open>\<open>retry\<close>\<close>

definition retry_transient :: "api_error \<Rightarrow> bool" where
  "retry_transient e \<longleftrightarrow>
     js_includes (message e) ''Concurrency limit exceeded''
   \<or> js_includes (message e) ''Graphql validation errors''
   \<or> response_status e = Some 429
   \<or> first_error_code e = Some ''FIELD_LIMIT_EXCEEDED''"

fun retry :: "(net \<Rightarrow> (api_error + 'a) \<times> net) \<Rightarrow> nat \<Rightarrow> nat \<Rightarrow> nat \<Rightarrow> net
              \<Rightarrow> (api_error + 'a) \<times> net" where
  "retry fn retries delay factor s =
     (case fn s of
        (Inr v, s') \<Rightarrow> (Inr v, s')
      | (Inl e, s') \<Rightarrow>
          if 0 < retries \<and> retry_transient e
          then retry fn (retries - 1) (delay * factor) factor (after_wait delay s')
          else (Inl e, s'))"

declare retry.simps [simp del]

text \<open>Every network call of App.jsx is \<open>retry(() => queryMonday(q))\<close>
  with both executors at their default budgets.\<close>

definition api_call :: "'d api \<Rightarrow> string \<Rightarrow> net \<Rightarrow> (api_error + 'd) \<times> net" where
  "api_call api q = retry (query_monday api q 3 500) 5 2000 2"

subsection \<open>Behaviour of \<open>queryMonday\<close>\<close>

text \<open>The \<open>catch\<close> block never turns an error-list response into a retry:
  the thrown message is the \<open>'; '\<close>-join of the messages, and it contains
  \<open>Rate limit passed\<close> only if one message does, in which case the \<open>try\<close>
  block has already retried (or the budget is spent).\<close>

lemma query_catch_errors_redundant:
  "query_catch n (query_try n (Api_errors ms)) = query_try n (Api_errors ms)"
proof -
  have "js_includes (join_with ''; '' ms) ''Rate limit passed'' \<Longrightarrow> rate_limit_hit ms"
    by (simp add: join_semicolon_includes rate_limit_hit_def list_ex_iff) blast
  then show ?thesis
    by (auto simp: query_catch_def query_try_def plain_error_def)
qed

lemma query_monday_data:
  "api q (calls s) = Api_data x \<Longrightarrow> query_monday api q n d s = (Inr x, after_call s)"
  by (simp add: query_monday.simps query_try_def query_catch_def)

lemma query_monday_calls:
  "query_monday api q n d s = (r, s') \<Longrightarrow>
   \<exists>k \<le> n. calls s' = calls s + Suc k \<and> waits s' = waits s @ backoff d 2 k"
proof (induction api q n d s arbitrary: r s' rule: query_monday.induct)
  case (1 api q retries delay s)
  show ?case
  proof (cases "query_catch retries (query_try retries (api q (calls s)))")
    case (Attempt_ok x)
    with "1.prems" show ?thesis by (auto simp: query_monday.simps)
  next
    case (Attempt_throw e)
    with "1.prems" show ?thesis by (auto simp: query_monday.simps)
  next
    case Attempt_retry
    then have pos: "0 < retries" by (rule query_catch_try_retry)
    from "1.prems" Attempt_retry
    have "query_monday api q (retries - 1) (delay * 2) (after_wait delay (after_call s)) = (r, s')"
      by (simp add: query_monday.simps)
    from "1.IH" [OF Attempt_retry this] obtain k where
      "k \<le> retries - 1" "calls s' = Suc (calls s) + Suc k"
      "waits s' = waits s @ [delay] @ backoff (delay * 2) 2 k"
      by auto
    with pos show ?thesis
      by (intro exI [of _ "Suc k"]) (simp add: backoff_Suc)
  qed
qed

text \<open>An outcome that the executor retries whenever budget is left, and that
  ends as the error \<open>e\<close> when the budget is spent, made on every call.\<close>

definition persistently_retried :: "'d api_outcome \<Rightarrow> api_error \<Rightarrow> bool" where
  "persistently_retried r e \<longleftrightarrow>
     (\<forall>m. 0 < m \<longrightarrow> query_catch m (query_try m r) = Attempt_retry)
   \<and> query_catch 0 (query_try 0 r) = Attempt_throw e"

lemma query_monday_persistent:
  assumes "\<forall>k. api q k = r" "persistently_retried r e"
  shows "query_monday api q n d s =
           (Inl e, s\<lparr>calls := calls s + Suc n, waits := waits s @ backoff d 2 n\<rparr>)"
proof (induction n arbitrary: d s)
  case 0
  then show ?case using assms
    by (simp add: query_monday.simps persistently_retried_def after_call_def)
next
  case (Suc n)
  have "query_monday api q (Suc n) d s =
          query_monday api q n (d * 2) (after_wait d (after_call s))"
    using assms by (simp add: query_monday.simps persistently_retried_def)
  also have "\<dots> = (Inl e, s\<lparr>calls := calls s + Suc (Suc n), waits := waits s @ backoff d 2 (Suc n)\<rparr>)"
    by (simp add: Suc.IH backoff_Suc after_call_def after_wait_def)
  finally show ?case .
qed

lemma persistently_retried_errors:
  "rate_limit_hit ms \<Longrightarrow>
   persistently_retried (Api_errors ms) (plain_error (join_with ''; '' ms))"
  by (simp add: persistently_retried_def query_catch_errors_redundant)
     (simp add: query_try_def)

lemma persistently_retried_reject:
  "js_includes (message e) ''Rate limit passed'' \<Longrightarrow> persistently_retried (Api_reject e) e"
  by (simp add: persistently_retried_def query_try_def query_catch_def)

subsection \<open>Behaviour of \<open>retry\<close>\<close>

lemma retry_ok:
  "fn s = (Inr v, s') \<Longrightarrow> retry fn n d f s = (Inr v, s')"
  by (simp add: retry.simps)

lemma retry_not_transient:
  "fn s = (Inl e, s') \<Longrightarrow> \<not> retry_transient e \<Longrightarrow> retry fn n d f s = (Inl e, s')"
  by (simp add: retry.simps)

lemma retry_calls_bound:
  assumes fn: "\<And>s r s'. fn s = (r, s') \<Longrightarrow> calls s < calls s' \<and> calls s' \<le> calls s + b"
  shows "retry fn n d f s = (r, s') \<Longrightarrow> calls s < calls s' \<and> calls s' \<le> calls s + Suc n * b"
proof (induction n arbitrary: d s r s')
  case 0
  obtain r1 s1 where f1: "fn s = (r1, s1)" by fastforce
  with "0" have "s' = s1" by (cases r1) (auto simp: retry.simps)
  with fn [OF f1] show ?case by simp
next
  case (Suc n)
  obtain r1 s1 where f1: "fn s = (r1, s1)" by fastforce
  from fn [OF f1] have b1: "calls s < calls s1" "calls s1 \<le> calls s + b" by auto
  show ?case
  proof (cases "\<exists>e. r1 = Inl e \<and> retry_transient e")
    case True
    then obtain e where e: "r1 = Inl e" "retry_transient e" by blast
    with Suc.prems f1 have "retry fn n (d * f) f (after_wait d s1) = (r, s')"
      by (simp add: retry.simps)
    from Suc.IH [OF this] b1 show ?thesis by simp
  next
    case False
    with Suc.prems f1 have "s' = s1"
      by (cases r1) (auto simp: retry.simps)
    with b1 show ?thesis by simp
  qed
qed

text \<open>A thunk that fails the same transient way from every state, spending
  \<open>c\<close> calls and the waits \<open>ws\<close> each time.\<close>

lemma retry_persistent:
  assumes "\<And>s. fn s = (Inl e, s\<lparr>calls := calls s + c, waits := waits s @ ws\<rparr>)"
    and "retry_transient e"
  shows "retry fn n d f s =
           (Inl e, s\<lparr>calls := calls s + Suc n * c,
                     waits := waits s @ concat (map (\<lambda>x. ws @ [x]) (backoff d f n)) @ ws\<rparr>)"
proof (induction n arbitrary: d s)
  case 0
  then show ?case using assms by (simp add: retry.simps)
next
  case (Suc n)
  let ?s1 = "s\<lparr>calls := calls s + c, waits := waits s @ ws\<rparr>"
  have "retry fn (Suc n) d f s = retry fn n (d * f) f (after_wait d ?s1)"
    using assms by (simp add: retry.simps [of fn "Suc n"])
  also have "\<dots> = (Inl e, s\<lparr>calls := calls s + Suc (Suc n) * c,
                     waits := waits s @ concat (map (\<lambda>x. ws @ [x]) (backoff d f (Suc n))) @ ws\<rparr>)"
    by (simp add: Suc.IH after_wait_def backoff_Suc)
  finally show ?case .
qed

subsection \<open>Properties of the executors\<close>

lemma query_monday_at_most:
  "query_monday api q n d s = (r, s') \<Longrightarrow> calls s < calls s' \<and> calls s' \<le> calls s + Suc n"
  by (fastforce dest: query_monday_calls)

lemma backoff_500_3: "backoff 500 2 3 = [500, 1000, 2000]"
  by (simp add: backoff_def upt_rec)

lemma backoff_2000_5: "backoff 2000 2 5 = [2000, 4000, 8000, 16000, 32000]"
  by (simp add: backoff_def upt_rec)

lemma query_catch_errors_throw:
  "\<not> rate_limit_hit ms \<Longrightarrow>
   query_catch n (query_try n (Api_errors ms)) = Attempt_throw (plain_error (join_with ''; '' ms))"
  using query_catch_errors_redundant [of n ms] by (simp add: query_try_def)

lemma query_monday_errors_not_rate_limited:
  "api q (calls s) = Api_errors ms \<Longrightarrow> \<not> rate_limit_hit ms \<Longrightarrow>
   query_monday api q n d s = (Inl (plain_error (join_with ''; '' ms)), after_call s)"
  by (simp add: query_monday.simps query_catch_errors_throw)

subsection \<open>The composed request\<close>

text \<open>A data answer is returned at once; a transport rejection that neither
  executor retries is surfaced after one call.\<close>

lemma api_call_data:
  "api q (calls s) = Api_data d \<Longrightarrow> api_call api q s = (Inr d, after_call s)"
  by (simp add: api_call_def retry.simps query_monday.simps query_try_def query_catch_def)

lemma api_call_reject:
  assumes "api q (calls s) = Api_reject e"
    and "\<not> js_includes (message e) ''Rate limit passed''" and "\<not> retry_transient e"
  shows "api_call api q s = (Inl e, after_call s)"
proof -
  have "query_monday api q 3 500 s = (Inl e, after_call s)"
    using assms(1,2) by (simp add: query_monday.simps query_try_def query_catch_def)
  with assms(3) show ?thesis by (simp add: api_call_def retry_not_transient)
qed

text \<open>Every request makes between 1 and 24 calls: 6 outer attempts of at most
  4 inner ones.\<close>

lemma api_call_calls:
  "api_call api q s = (r, s') \<Longrightarrow> calls s < calls s' \<and> calls s' \<le> calls s + 24"
proof -
  have inner: "\<And>s r s'. query_monday api q 3 500 s = (r, s') \<Longrightarrow>
                 calls s < calls s' \<and> calls s' \<le> calls s + 4"
    by (fastforce dest: query_monday_at_most)
  assume "api_call api q s = (r, s')"
  then show ?thesis
    using retry_calls_bound [OF inner, where n = 5 and d = 2000 and f = 2]
    by (simp add: api_call_def)
qed

text \<open>A successful request returns what the platform answered to that
  query at one of its calls.\<close>

lemma query_monday_Inr:
  "query_monday api q n d s = (Inr x, s') \<Longrightarrow> \<exists>k. api q k = Api_data x"
proof (induction api q n d s arbitrary: x s' rule: query_monday.induct)
  case (1 api q retries delay s)
  show ?case
  proof (cases "query_catch retries (query_try retries (api q (calls s)))")
    case (Attempt_ok v)
    then have "api q (calls s) = Api_data v"
      by (auto simp: query_catch_def query_try_def split: api_outcome.splits if_splits attempt.splits)
    with Attempt_ok "1.prems" show ?thesis by (auto simp: query_monday.simps)
  next
    case (Attempt_throw e)
    with "1.prems" show ?thesis by (simp add: query_monday.simps)
  next
    case Attempt_retry
    with "1.prems" show ?thesis by (auto simp: query_monday.simps intro: "1.IH")
  qed
qed

lemma retry_Inr:
  assumes "\<And>s x s'. fn s = (Inr x, s') \<Longrightarrow> P x"
  shows "retry fn n d f s = (Inr x, s') \<Longrightarrow> P x"
proof (induction n arbitrary: d s)
  case 0
  then show ?case using assms by (auto simp: retry.simps split: prod.splits sum.splits if_splits)
next
  case (Suc n)
  then show ?case using assms by (auto simp: retry.simps [of fn "Suc n"] split: prod.splits sum.splits if_splits)
qed

lemma api_call_Inr: "api_call api q s = (Inr x, s') \<Longrightarrow> \<exists>k. api q k = Api_data x"
  unfolding api_call_def by (rule retry_Inr [where P = "\<lambda>x. \<exists>k. api q k = Api_data x"]) (auto dest: query_monday_Inr)

text \<open>Claim C1.  Whatever the platform answers, one network request of the
  application (\<open>retry(() => queryMonday(q))\<close> at the default budgets) calls
  \<open>monday.api\<close> at least once and at most 24 times: the two executors nest,
  so their budgets multiply (6 outer attempts of 4 inner ones).\<close>

theorem api_call_attempts_bounded:
  "api_call api q s = (r, s') \<Longrightarrow> calls s < calls s' \<and> calls s' \<le> calls s + 24"
  by (rule api_call_calls)

theorem api_call_attempts_bounded_witness:
  "api_call (\<lambda>q k. Api_data (7::nat)) ''query'' \<lparr>calls = 0, waits = []\<rparr>
     = (Inr 7, \<lparr>calls = 1, waits = []\<rparr>)
   \<and> 0 < (1::nat) \<and> (1::nat) \<le> 0 + 24"
proof -
  have h: "api_call (\<lambda>q k. Api_data (7::nat)) ''query'' \<lparr>calls = 0, waits = []\<rparr>
             = (Inr 7, \<lparr>calls = 1, waits = []\<rparr>)"
    by (simp add: api_call_def retry.simps query_monday.simps query_try_def
                  query_catch_def after_call_def)
  show ?thesis using api_call_attempts_bounded [OF h] h by simp
qed

text \<open>Claim C2.  The bound of C1 is reached: a request whose every call is
  rejected with HTTP status 429 and the message \<open>Rate limit passed\<close> is sent
  24 times; the waits are the inner backoff 500, 1000, 2000 ms between the
  inner attempts and the outer backoff 2000 ms to 32000 ms between the outer
  ones, and the last rejection is surfaced unchanged.\<close>

theorem api_call_persistent_429:
  assumes "\<forall>k. api q k = Api_reject e"
    and "js_includes (message e) ''Rate limit passed''"
    and "response_status e = Some 429"
  shows "api_call api q s =
           (Inl e, s\<lparr>calls := calls s + 24,
                     waits := waits s @ concat (map (\<lambda>x. [500, 1000, 2000] @ [x])
                                 [2000, 4000, 8000, 16000, 32000]) @ [500, 1000, 2000]\<rparr>)"
proof -
  have inner: "\<And>s. query_monday api q 3 500 s =
      (Inl e, s\<lparr>calls := calls s + 4, waits := waits s @ [500, 1000, 2000]\<rparr>)"
    using query_monday_persistent [of api q, OF assms(1) persistently_retried_reject [OF assms(2)]]
    by (simp add: backoff_500_3)
  have "retry_transient e" using assms(3) by (simp add: retry_transient_def)
  from retry_persistent [OF inner this, of 5 2000 2 s] show ?thesis
    by (simp add: api_call_def backoff_2000_5)
qed

theorem api_call_persistent_429_witness:
  "api_call (\<lambda>q k. Api_reject \<lparr>message = ''Rate limit passed'', response_status = Some 429,
                                first_error_code = None\<rparr>) ''query'' \<lparr>calls = 0, waits = []\<rparr>
     = (Inl \<lparr>message = ''Rate limit passed'', response_status = Some 429, first_error_code = None\<rparr>,
        \<lparr>calls = 24, waits = concat (map (\<lambda>x. [500, 1000, 2000] @ [x])
                                 [2000, 4000, 8000, 16000, 32000]) @ [500, 1000, 2000]\<rparr>)"
  using api_call_persistent_429
    [of "\<lambda>q k. Api_reject \<lparr>message = ''Rate limit passed'', response_status = Some 429,
                           first_error_code = None\<rparr>" "''query''"
        "\<lparr>message = ''Rate limit passed'', response_status = Some 429, first_error_code = None\<rparr>"
        "\<lparr>calls = 0, waits = []\<rparr>"]
  by simp

text \<open>Claim C3.  \<open>queryMonday\<close> with budget \<open>n\<close> and first delay \<open>d\<close>, on a
  platform that answers every call with an error list reporting a rate limit,
  calls \<open>monday.api\<close> exactly \<open>n + 1\<close> times, waits \<open>d, 2d, 4d, ...\<close>
  (\<open>n\<close> waits) in between, and rejects with the joined messages.\<close>

theorem query_monday_rate_limit_budget:
  assumes "\<forall>k. api q k = Api_errors ms" and "rate_limit_hit ms"
  shows "query_monday api q n d s =
           (Inl (plain_error (join_with ''; '' ms)),
            s\<lparr>calls := calls s + Suc n, waits := waits s @ backoff d 2 n\<rparr>)"
  using query_monday_persistent [of api q, OF assms(1) persistently_retried_errors [OF assms(2)]] .

theorem query_monday_rate_limit_budget_witness:
  "query_monday (\<lambda>q k. Api_errors [''Rate limit exceeded''] :: nat api_outcome) ''query'' 3 500
      \<lparr>calls = 0, waits = []\<rparr>
     = (Inl (plain_error ''Rate limit exceeded''), \<lparr>calls = 4, waits = [500, 1000, 2000]\<rparr>)"
proof -
  have "rate_limit_hit [''Rate limit exceeded'']" by (simp add: rate_limit_hit_def)
  from query_monday_rate_limit_budget
    [of "\<lambda>q k. Api_errors [''Rate limit exceeded''] :: nat api_outcome" "''query''", OF _ this,
     of 3 500 "\<lparr>calls = 0, waits = []\<rparr>"]
  show ?thesis by (simp add: backoff_500_3)
qed



text \<open>A request whose every answer is an error list reporting a
  rate limit (and nothing \<open>retry\<close> classifies as transient) is sent exactly
  4 times, with waits 500, 1000 and 2000 ms: only the inner executor retries it.\<close>

theorem api_call_rate_limited:
  assumes "\<forall>k. api q k = Api_errors ms" and "rate_limit_hit ms"
    and "\<not> retry_transient (plain_error (join_with ''; '' ms))"
  shows "api_call api q s =
           (Inl (plain_error (join_with ''; '' ms)),
            s\<lparr>calls := calls s + 4, waits := waits s @ [500, 1000, 2000]\<rparr>)"
proof -
  have "query_monday api q 3 500 s =
          (Inl (plain_error (join_with ''; '' ms)),
           s\<lparr>calls := calls s + 4, waits := waits s @ [500, 1000, 2000]\<rparr>)"
    using query_monday_persistent [of api q, OF assms(1) persistently_retried_errors [OF assms(2)]]
    by (simp add: backoff_500_3)
  then show ?thesis
    using assms(3) by (simp add: api_call_def retry_not_transient)
qed

theorem api_call_rate_limited_witness:
  "api_call (\<lambda>q k. Api_errors [''Rate limit exceeded''] :: nat api_outcome) ''query''
      \<lparr>calls = 0, waits = []\<rparr>
     = (Inl (plain_error ''Rate limit exceeded''), \<lparr>calls = 4, waits = [500, 1000, 2000]\<rparr>)"
proof -
  have "rate_limit_hit [''Rate limit exceeded'']" by (simp add: rate_limit_hit_def)
  moreover have "\<not> retry_transient (plain_error (join_with ''; '' [''Rate limit exceeded'']))"
    by (simp add: retry_transient_def plain_error_def)
  ultimately show ?thesis
    using api_call_rate_limited
      [of "\<lambda>q k. Api_errors [''Rate limit exceeded''] :: nat api_outcome" "''query''"]
    by simp
qed

text \<open>A request whose every answer is an error list reporting a
  concurrency limit (no rate limit) is sent exactly 6 times: \<open>queryMonday\<close>
  throws at once and \<open>retry\<close> retries 5 times after 2000, 4000, 8000, 16000
  and 32000 ms.\<close>

theorem api_call_concurrency_limited:
  assumes "\<forall>k. api q k = Api_errors ms" and "\<not> rate_limit_hit ms"
    and "retry_transient (plain_error (join_with ''; '' ms))"
  shows "api_call api q s =
           (Inl (plain_error (join_with ''; '' ms)),
            s\<lparr>calls := calls s + 6, waits := waits s @ [2000, 4000, 8000, 16000, 32000]\<rparr>)"
proof -
  have inner: "\<And>s. query_monday api q 3 500 s =
      (Inl (plain_error (join_with ''; '' ms)), s\<lparr>calls := calls s + 1, waits := waits s @ []\<rparr>)"
    using query_monday_errors_not_rate_limited [of api q _ ms] assms(1,2)
    by (simp add: after_call_def)
  from retry_persistent [OF inner assms(3), of 5 2000 2 s] show ?thesis
    by (simp add: api_call_def backoff_2000_5)
qed

theorem api_call_concurrency_limited_witness:
  "api_call (\<lambda>q k. Api_errors [''Concurrency limit exceeded''] :: nat api_outcome) ''query''
      \<lparr>calls = 0, waits = []\<rparr>
     = (Inl (plain_error ''Concurrency limit exceeded''),
        \<lparr>calls = 6, waits = [2000, 4000, 8000, 16000, 32000]\<rparr>)"
proof -
  have "\<not> rate_limit_hit [''Concurrency limit exceeded'']" by (simp add: rate_limit_hit_def)
  moreover have "retry_transient (plain_error (join_with ''; '' [''Concurrency limit exceeded'']))"
    by (simp add: retry_transient_def plain_error_def)
  ultimately show ?thesis
    using api_call_concurrency_limited
      [of "\<lambda>q k. Api_errors [''Concurrency limit exceeded''] :: nat api_outcome" "''query''"]
    by simp
qed

text \<open>A call rejected by the transport with a rate-limit message
  other than \<open>Rate limit passed\<close> (for instance \<open>Rate limit exceeded\<close>),
  without a 429 status or a transient marker, is not retried by either
  executor: one call, and the rejection is surfaced.\<close>

theorem api_call_reject_not_retried:
  assumes "api q (calls s) = Api_reject e"
    and "\<not> js_includes (message e) ''Rate limit passed''" and "\<not> retry_transient e"
  shows "api_call api q s = (Inl e, after_call s)"
  using assms by (rule api_call_reject)

theorem api_call_reject_not_retried_witness:
  "api_call (\<lambda>q k. Api_reject (plain_error ''Rate limit exceeded'') :: nat api_outcome) ''query''
      \<lparr>calls = 0, waits = []\<rparr>
     = (Inl (plain_error ''Rate limit exceeded''), \<lparr>calls = 1, waits = []\<rparr>)"
proof -
  have "\<not> js_includes (message (plain_error ''Rate limit exceeded'')) ''Rate limit passed''"
    by (simp add: plain_error_def)
  moreover have "\<not> retry_transient (plain_error ''Rate limit exceeded'')"
    by (simp add: retry_transient_def plain_error_def)
  ultimately show ?thesis
    using api_call_reject_not_retried
      [of "\<lambda>q k. Api_reject (plain_error ''Rate limit exceeded'') :: nat api_outcome" "''query''"
          "\<lparr>calls = 0, waits = []\<rparr>"]
    by (simp add: after_call_def)
qed

end
