(* ===== verification/Json.thy ===== *)
theory Json
  imports Prelude
begin

text \<open>
  JSON values and the two JavaScript built-ins the application applies to them:
  \<open>JSON.stringify\<close> (\<open>json_print\<close>) when it saves its settings and
  builds mutation payloads, and \<open>JSON.parse\<close> (\<open>json_parse\<close>) when it
  reloads settings and reads person, link and status column values.  Neither
  is code of the repository: both are modelled from the JSON grammar (RFC 8259).
  The datatype follows the usual abstract syntax (object, array, number,
  string, boolean, null); a number is kept as mantissa and decimal exponent,
  \<open>JNum m e\<close> standing for \<open>m * 10^e\<close>, so that parsing is exact.  The
  printer writes a number with a non-zero exponent in exponent notation
  (\<open>12e-3\<close>), which JavaScript would print as \<open>0.012\<close>: the same value.
  A \<open>\u\<close> escape is decoded to the UTF-8 bytes of its code unit.

  The parser runs on fuel: \<open>parse_value n s\<close> fails with
  \<open>Out_of_fuel\<close> when \<open>n\<close> runs out; \<open>json_parse\<close> gives it one unit
  more than the length of the input.  The main result is the round trip
  \<open>json_parse (json_print v) = Some v\<close> for every value.  Last, the
  property reads of JavaScript (\<open>obj.key\<close>, \<open>arr[i]\<close>, truthiness) on
  parsed values.
\<close>


datatype json =
    JNull
  | JBool bool
  | JNum int int
  | JStr string
  | JArr "json list"
  | JObj "(string \<times> json) list"

fun nat_to_dec :: "nat \<Rightarrow> string" where
  "nat_to_dec n = (if n < 10 then [char_of (48 + n)] else nat_to_dec (n div 10) @ [char_of (48 + n mod 10)])"

declare nat_to_dec.simps [simp del]

definition int_to_dec :: "int \<Rightarrow> string" where
  "int_to_dec i = (if i < 0 then CHR ''-'' # nat_to_dec (nat (- i)) else nat_to_dec (nat i))"

definition hex_digit :: "nat \<Rightarrow> char" where
  "hex_digit n = (if n < 10 then char_of (48 + n) else char_of (87 + n))"

definition json_escape_char :: "char \<Rightarrow> string" where
  "json_escape_char c =
     (if c = CHR 0x22 then [CHR 0x5C, CHR 0x22]
      else if c = CHR 0x5C then [CHR 0x5C, CHR 0x5C]
      else if c = CHR 0x08 then [CHR 0x5C, CHR ''b'']
      else if c = CHR 0x09 then [CHR 0x5C, CHR ''t'']
      else if c = CHR 0x0A then [CHR 0x5C, CHR ''n'']
      else if c = CHR 0x0C then [CHR 0x5C, CHR ''f'']
      else if c = CHR 0x0D then [CHR 0x5C, CHR ''r'']
      else if (of_char c :: nat) < 32
        then [CHR 0x5C, CHR ''u'', CHR ''0'', CHR ''0'',
              hex_digit (of_char c div 16), hex_digit (of_char c mod 16)]
      else [c])"

definition json_quote :: "string \<Rightarrow> string" where
  "json_quote s = CHR 0x22 # concat (map json_escape_char s) @ [CHR 0x22]"

fun json_print :: "json \<Rightarrow> string" where
  "json_print JNull = ''null''"
| "json_print (JBool b) = (if b then ''true'' else ''false'')"
| "json_print (JNum m e) = int_to_dec m @ (if e = 0 then [] else CHR ''e'' # int_to_dec e)"
| "json_print (JStr s) = json_quote s"
| "json_print (JArr vs) = CHR ''['' # join_with '','' (map json_print vs) @ '']''"
| "json_print (JObj kvs) =
     CHR ''{'' # join_with '','' (map (\<lambda>(k, v). json_quote k @ CHR '':'' # json_print v) kvs) @ ''}''"


datatype parse_error = Syntax_error | Out_of_fuel

definition is_json_ws :: "char \<Rightarrow> bool" where
  "is_json_ws c \<longleftrightarrow> c \<in> {CHR '' '', CHR 0x09, CHR 0x0A, CHR 0x0D}"

abbreviation skip_ws :: "string \<Rightarrow> string" where
  "skip_ws \<equiv> dropWhile is_json_ws"

definition is_digit :: "char \<Rightarrow> bool" where
  "is_digit c \<longleftrightarrow> 48 \<le> (of_char c :: nat) \<and> (of_char c :: nat) \<le> 57"

definition digits_to_nat :: "string \<Rightarrow> nat" where
  "digits_to_nat ds = foldl (\<lambda>acc d. 10 * acc + (of_char d - 48)) 0 ds"

definition hex_val :: "char \<Rightarrow> nat option" where
  "hex_val c =
     (let n = (of_char c :: nat) in
      if 48 \<le> n \<and> n \<le> 57 then Some (n - 48)
      else if 97 \<le> n \<and> n \<le> 102 then Some (n - 87)
      else if 65 \<le> n \<and> n \<le> 70 then Some (n - 55)
      else None)"

definition utf8_of :: "nat \<Rightarrow> string" where
  "utf8_of n =
     (if n < 128 then [char_of n]
      else if n < 2048 then [char_of (192 + n div 64), char_of (128 + n mod 64)]
      else [char_of (224 + n div 4096), char_of (128 + (n div 64) mod 64), char_of (128 + n mod 64)])"

definition unescape :: "char \<Rightarrow> char option" where
  "unescape e =
     (if e = CHR 0x22 then Some (CHR 0x22)
      else if e = CHR 0x5C then Some (CHR 0x5C)
      else if e = CHR ''/'' then Some (CHR ''/'')
      else if e = CHR ''b'' then Some (CHR 0x08)
      else if e = CHR ''f'' then Some (CHR 0x0C)
      else if e = CHR ''n'' then Some (CHR 0x0A)
      else if e = CHR ''r'' then Some (CHR 0x0D)
      else if e = CHR ''t'' then Some (CHR 0x09)
      else None)"

fun parse_chars :: "string \<Rightarrow> (string \<times> string) option" where
  "parse_chars [] = None"
| "parse_chars (c # s) =
     (if c = CHR 0x22 then Some ([], s)
      else if c = CHR 0x5C then
        (case s of
           [] \<Rightarrow> None
         | e # s' \<Rightarrow>
             if e = CHR ''u'' then
               (case s' of
                  h1 # h2 # h3 # h4 # s'' \<Rightarrow>
                    (case (hex_val h1, hex_val h2, hex_val h3, hex_val h4) of
                       (Some x1, Some x2, Some x3, Some x4) \<Rightarrow>
                         map_option (\<lambda>(t, r). (utf8_of (4096 * x1 + 256 * x2 + 16 * x3 + x4) @ t, r))
                           (parse_chars s'')
                     | _ \<Rightarrow> None)
                | _ \<Rightarrow> None)
             else
               (case unescape e of
                  None \<Rightarrow> None
                | Some u \<Rightarrow> map_option (\<lambda>(t, r). (u # t, r)) (parse_chars s')))
      else if (of_char c :: nat) < 32 then None
      else map_option (\<lambda>(t, r). (c # t, r)) (parse_chars s))"

definition parse_frac :: "string \<Rightarrow> (string \<times> string) option" where
  "parse_frac s =
     (case s of
        c # r \<Rightarrow>
          if c = CHR ''.'' then
            (if takeWhile is_digit r = [] then None
             else Some (takeWhile is_digit r, dropWhile is_digit r))
          else Some ([], s)
      | [] \<Rightarrow> Some ([], []))"

definition parse_exp :: "string \<Rightarrow> (int \<times> string) option" where
  "parse_exp s =
     (case s of
        c # r \<Rightarrow>
          if c = CHR ''e'' \<or> c = CHR ''E'' then
            (let (sg, r1) = (case r of
                               d # r' \<Rightarrow> if d = CHR ''-'' then (-1 :: int, r')
                                         else if d = CHR ''+'' then (1, r') else (1, r)
                             | [] \<Rightarrow> (1, r))
             in if takeWhile is_digit r1 = [] then None
                else Some (sg * int (digits_to_nat (takeWhile is_digit r1)), dropWhile is_digit r1))
          else Some (0, s)
      | [] \<Rightarrow> Some (0, []))"

definition parse_int_digits :: "string \<Rightarrow> (string \<times> string) option" where
  "parse_int_digits s =
     (case s of
        c # r \<Rightarrow>
          if c = CHR ''0'' then Some (''0'', r)
          else if is_digit c then Some (c # takeWhile is_digit r, dropWhile is_digit r)
          else None
      | [] \<Rightarrow> None)"

definition parse_number :: "string \<Rightarrow> (json \<times> string) option" where
  "parse_number s =
     (let (neg, s1) = (case s of
                         c # r \<Rightarrow> if c = CHR ''-'' then (True, r) else (False, s)
                       | [] \<Rightarrow> (False, s))
      in case parse_int_digits s1 of
           None \<Rightarrow> None
         | Some (ip, s2) \<Rightarrow>
             (case parse_frac s2 of
                None \<Rightarrow> None
              | Some (fp, s3) \<Rightarrow>
                  (case parse_exp s3 of
                     None \<Rightarrow> None
                   | Some (ex, s4) \<Rightarrow>
                       Some (JNum ((if neg then -1 else 1) * int (digits_to_nat (ip @ fp)))
                                  (ex - int (length fp)), s4))))"

definition parse_lit :: "string \<Rightarrow> json \<Rightarrow> string \<Rightarrow> parse_error + (json \<times> string)" where
  "parse_lit w v s = (if take (length w) s = w then Inr (v, drop (length w) s) else Inl Syntax_error)"

function parse_value :: "nat \<Rightarrow> string \<Rightarrow> parse_error + (json \<times> string)"
  and parse_elems :: "nat \<Rightarrow> json list \<Rightarrow> string \<Rightarrow> parse_error + (json \<times> string)"
  and parse_members :: "nat \<Rightarrow> (string \<times> json) list \<Rightarrow> string \<Rightarrow> parse_error + (json \<times> string)"
where
  "parse_value 0 s = Inl Out_of_fuel"
| "parse_value (Suc n) s =
     (case skip_ws s of
        [] \<Rightarrow> Inl Syntax_error
      | c # r \<Rightarrow>
          if c = CHR ''n'' then parse_lit ''ull'' JNull r
          else if c = CHR ''t'' then parse_lit ''rue'' (JBool True) r
          else if c = CHR ''f'' then parse_lit ''alse'' (JBool False) r
          else if c = CHR 0x22 then
            (case parse_chars r of None \<Rightarrow> Inl Syntax_error | Some (t, r') \<Rightarrow> Inr (JStr t, r'))
          else if c = CHR ''['' then
            (case skip_ws r of
               d # r' \<Rightarrow> if d = CHR '']'' then Inr (JArr [], r') else parse_elems n [] r
             | [] \<Rightarrow> Inl Syntax_error)
          else if c = CHR ''{'' then
            (case skip_ws r of
               d # r' \<Rightarrow> if d = CHR ''}'' then Inr (JObj [], r') else parse_members n [] r
             | [] \<Rightarrow> Inl Syntax_error)
          else if c = CHR ''-'' \<or> is_digit c then
            (case parse_number (c # r) of None \<Rightarrow> Inl Syntax_error | Some x \<Rightarrow> Inr x)
          else Inl Syntax_error)"
| "parse_elems 0 acc s = Inl Out_of_fuel"
| "parse_elems (Suc n) acc s =
     (case parse_value (Suc n) s of
        Inl err \<Rightarrow> Inl err
      | Inr (v, r) \<Rightarrow>
          (case skip_ws r of
             d # r' \<Rightarrow>
               if d = CHR '','' then parse_elems n (acc @ [v]) r'
               else if d = CHR '']'' then Inr (JArr (acc @ [v]), r')
               else Inl Syntax_error
           | [] \<Rightarrow> Inl Syntax_error))"
| "parse_members 0 acc s = Inl Out_of_fuel"
| "parse_members (Suc n) acc s =
     (case skip_ws s of
        q # r \<Rightarrow>
          if q \<noteq> CHR 0x22 then Inl Syntax_error
          else
            (case parse_chars r of
               None \<Rightarrow> Inl Syntax_error
             | Some (k, r1) \<Rightarrow>
                 (case skip_ws r1 of
                    c # r2 \<Rightarrow>
                      if c \<noteq> CHR '':'' then Inl Syntax_error
                      else
                        (case parse_value (Suc n) r2 of
                           Inl err \<Rightarrow> Inl err
                         | Inr (v, r3) \<Rightarrow>
                             (case skip_ws r3 of
                                d # r4 \<Rightarrow>
                                  if d = CHR '','' then parse_members n (acc @ [(k, v)]) r4
                                  else if d = CHR ''}'' then Inr (JObj (acc @ [(k, v)]), r4)
                                  else Inl Syntax_error
                              | [] \<Rightarrow> Inl Syntax_error))
                  | [] \<Rightarrow> Inl Syntax_error))
      | [] \<Rightarrow> Inl Syntax_error)"
  by pat_completeness auto
termination
  by (relation "measure (\<lambda>x. case x of Inl (n, s) \<Rightarrow> 2 * n
                                   | Inr (Inl (n, acc, s)) \<Rightarrow> 2 * n + 1
                                   | Inr (Inr (n, acc, s)) \<Rightarrow> 2 * n + 1)") auto

declare parse_value.simps [simp del] parse_elems.simps [simp del] parse_members.simps [simp del]

lemma is_json_ws_simps [simp]:
  "\<not> is_json_ws CHR '','' " "\<not> is_json_ws CHR '']''" "\<not> is_json_ws CHR ''}''"
  "\<not> is_json_ws CHR '':''" "\<not> is_json_ws (CHR 0x22)"
  by (simp_all add: is_json_ws_def)

definition json_parse :: "string \<Rightarrow> json option" where
  "json_parse s =
     (case parse_value (Suc (length s)) s of
        Inr (v, r) \<Rightarrow> if skip_ws r = [] then Some v else None
      | Inl _ \<Rightarrow> None)"


lemma is_digit_char_of: "n < (10::nat) \<Longrightarrow> is_digit (char_of (48 + n))"
  by (simp add: is_digit_def)

lemma nat_to_dec_digits: "\<forall>c \<in> set (nat_to_dec n). is_digit c"
proof (induction n rule: nat_to_dec.induct)
  case (1 n)
  show ?case
  proof (cases "n < 10")
    case True
    then show ?thesis by (simp add: nat_to_dec.simps [of n] is_digit_char_of)
  next
    case False
    with "1.IH" show ?thesis by (simp add: nat_to_dec.simps [of n] is_digit_char_of)
  qed
qed

lemma nat_to_dec_ne [simp]: "nat_to_dec n \<noteq> []"
  by (simp add: nat_to_dec.simps [of n])

lemma digits_to_nat_snoc: "digits_to_nat (ds @ [d]) = 10 * digits_to_nat ds + (of_char d - 48)"
  by (simp add: digits_to_nat_def)

lemma digits_to_nat_nat_to_dec [simp]: "digits_to_nat (nat_to_dec n) = n"
proof (induction n rule: nat_to_dec.induct)
  case (1 n)
  show ?case
  proof (cases "n < 10")
    case True
    then show ?thesis by (simp add: nat_to_dec.simps [of n] digits_to_nat_def)
  next
    case False
    with "1.IH" show ?thesis
      by (simp add: nat_to_dec.simps [of n] digits_to_nat_snoc)
  qed
qed

lemma take_1_append: "xs \<noteq> [] \<Longrightarrow> take (Suc 0) (xs @ ys) = take (Suc 0) xs"
  by (cases xs) auto

lemma hd_nat_to_dec: "0 < n \<Longrightarrow> take 1 (nat_to_dec n) \<noteq> ''0''"
proof (induction n rule: nat_to_dec.induct)
  case (1 n)
  show ?case
  proof (cases "n < 10")
    case True
    with "1.prems" show ?thesis by (simp add: nat_to_dec.simps [of n] char_of_eq_iff take_bit_eq_mod)
  next
    case False
    then have "0 < n div 10" by simp
    with "1.IH" False show ?thesis
      by (simp add: nat_to_dec.simps [of n] take_1_append del: take_append)
  qed
qed

lemma nat_to_dec_0: "nat_to_dec 0 = ''0''"
  by (simp add: nat_to_dec.simps [of 0] char_of_eq_iff take_bit_eq_mod)


definition json_stop :: "string \<Rightarrow> bool" where
  "json_stop r \<longleftrightarrow>
     (case r of [] \<Rightarrow> True | c # _ \<Rightarrow> c = CHR '','' \<or> c = CHR '']'' \<or> c = CHR ''}'')"

lemma digits_to_nat_eq: "nat_to_dec k = ds \<Longrightarrow> digits_to_nat ds = k"
  by (drule sym) simp

lemma nat_to_dec_Cons: "\<exists>d ds. nat_to_dec k = d # ds \<and> is_digit d"
  using nat_to_dec_digits [of k] by (cases "nat_to_dec k") auto

lemma digit_not_sign: "is_digit d \<Longrightarrow> d \<noteq> CHR ''-'' \<and> d \<noteq> CHR ''+'' \<and> d \<noteq> CHR ''.''
   \<and> d \<noteq> CHR ''e'' \<and> d \<noteq> CHR ''E''"
  by (auto simp: is_digit_def)

lemma json_stop_not_digit:
  "json_stop r \<Longrightarrow> takeWhile is_digit r = [] \<and> dropWhile is_digit r = r"
  by (cases r) (auto simp: json_stop_def is_digit_def)

lemma take_drop_digits:
  "\<not> (r \<noteq> [] \<and> is_digit (hd r)) \<Longrightarrow>
   takeWhile is_digit (nat_to_dec k @ r) = nat_to_dec k \<and> dropWhile is_digit (nat_to_dec k @ r) = r"
  using nat_to_dec_digits [of k]
  by (cases r) (simp_all add: takeWhile_append2 dropWhile_append2)

lemma parse_exp_print:
  assumes "json_stop rest"
  shows "parse_exp ((if e = 0 then [] else CHR ''e'' # int_to_dec e) @ rest) = Some (e, rest)"
proof (cases "e = 0")
  case True
  with assms show ?thesis by (cases rest) (auto simp: parse_exp_def json_stop_def)
next
  case False
  have stop: "\<not> (rest \<noteq> [] \<and> is_digit (hd rest))"
    using assms by (cases rest) (auto simp: json_stop_def is_digit_def)
  obtain d ds where d: "nat_to_dec (nat \<bar>e\<bar>) = d # ds" "is_digit d"
    using nat_to_dec_Cons by blast
  show ?thesis
  proof (cases "e < 0")
    case True
    with False take_drop_digits [OF stop, of "nat \<bar>e\<bar>"] show ?thesis
      by (simp add: parse_exp_def int_to_dec_def)
  next
    case pos: False
    have "digits_to_nat (d # ds) = nat \<bar>e\<bar>"
      by (rule digits_to_nat_eq [OF d(1)])
    then have v: "int (digits_to_nat (d # ds)) = e"
      using pos by simp
    with pos False d digit_not_sign [OF d(2)] take_drop_digits [OF stop, of "nat \<bar>e\<bar>"]
    show ?thesis
      by (simp add: parse_exp_def int_to_dec_def)
  qed
qed


lemma parse_int_digits_print:
  assumes "\<not> (tail \<noteq> [] \<and> is_digit (hd tail))"
  shows "parse_int_digits (nat_to_dec k @ tail) = Some (nat_to_dec k, tail)"
proof -
  obtain d ds where d: "nat_to_dec k = d # ds" "is_digit d"
    using nat_to_dec_Cons by blast
  have ds: "\<forall>c \<in> set ds. is_digit c" using nat_to_dec_digits [of k] d(1) by simp
  show ?thesis
  proof (cases "k = 0")
    case True
    with d(1) show ?thesis by (simp add: nat_to_dec_0 parse_int_digits_def)
  next
    case False
    then have "d \<noteq> CHR ''0''" using hd_nat_to_dec [of k] d(1) by auto
    moreover have "takeWhile is_digit (ds @ tail) = ds" "dropWhile is_digit (ds @ tail) = tail"
      using ds assms by (cases tail; simp add: takeWhile_append2 dropWhile_append2)+
    ultimately show ?thesis using d by (simp add: parse_int_digits_def)
  qed
qed

lemma parse_number_print:
  assumes "json_stop rest"
  shows "parse_number (json_print (JNum m e) @ rest) = Some (JNum m e, rest)"
proof -
  define tail where "tail = (if e = 0 then [] else CHR ''e'' # int_to_dec e) @ rest"
  have nd: "\<not> (tail \<noteq> [] \<and> is_digit (hd tail))"
    using assms by (cases rest) (auto simp: tail_def json_stop_def is_digit_def)
  have frac: "parse_frac tail = Some ([], tail)"
    using assms by (cases rest) (auto simp: tail_def json_stop_def parse_frac_def)
  have ex: "parse_exp tail = Some (e, rest)"
    unfolding tail_def by (rule parse_exp_print [OF assms])
  have ip: "parse_int_digits (nat_to_dec (nat \<bar>m\<bar>) @ tail) = Some (nat_to_dec (nat \<bar>m\<bar>), tail)"
    by (rule parse_int_digits_print [OF nd])
  obtain d ds where d: "nat_to_dec (nat \<bar>m\<bar>) = d # ds" "is_digit d"
    using nat_to_dec_Cons by blast
  have print: "json_print (JNum m e) @ rest = int_to_dec m @ tail"
    by (simp add: tail_def)
  show ?thesis
  proof (cases "m < 0")
    case True
    then have "int_to_dec m @ tail = CHR ''-'' # (nat_to_dec (nat \<bar>m\<bar>) @ tail)"
      by (simp add: int_to_dec_def)
    with True ip frac ex show ?thesis
      unfolding print by (simp add: parse_number_def)
  next
    case False
    then have s: "int_to_dec m @ tail = d # (ds @ tail)"
      using d(1) by (simp add: int_to_dec_def)
    have "d \<noteq> CHR ''-''" using digit_not_sign [OF d(2)] by simp
    with False ip [unfolded d(1)] frac ex digits_to_nat_eq [OF d(1)] show ?thesis
      unfolding print s by (simp add: parse_number_def)
  qed
qed


lemma hex_val_hex_digit: "k < 16 \<Longrightarrow> hex_val (hex_digit k) = Some k"
  by (auto simp: hex_val_def hex_digit_def Let_def)

lemma hex_val_0: "hex_val (CHR ''0'') = Some 0"
  by (simp add: hex_val_def)

lemma utf8_of_small: "n < 128 \<Longrightarrow> utf8_of n = [char_of n]"
  by (simp add: utf8_of_def)

lemma parse_chars_escape:
  "parse_chars (json_escape_char c @ s) = map_option (\<lambda>(t, r). (c # t, r)) (parse_chars s)"
proof -
  define n where "n = (of_char c :: nat)"
  have ctrl: "n < 32 \<Longrightarrow>
      parse_chars ([CHR 0x5C, CHR ''u'', CHR ''0'', CHR ''0'', hex_digit (n div 16),
                    hex_digit (n mod 16)] @ s) = map_option (\<lambda>(t, r). (c # t, r)) (parse_chars s)"
  proof -
    assume "n < 32"
    then have "n div 16 < 16" "n mod 16 < 16" "16 * (n div 16) + n mod 16 = n" by simp_all
    moreover have "utf8_of n = [c]"
      using \<open>n < 32\<close> by (simp add: utf8_of_small n_def)
    ultimately show ?thesis
      by (simp add: hex_val_hex_digit hex_val_0 split: option.split)
  qed
  show ?thesis
    unfolding json_escape_char_def
    using ctrl by (simp add: unescape_def n_def split: option.split)
qed


lemma parse_chars_quoted:
  "parse_chars (concat (map json_escape_char t) @ CHR 0x22 # rest) = Some (t, rest)"
  by (induction t) (simp_all add: parse_chars_escape)

lemma json_print_hd:
  "\<exists>c cs. json_print v = c # cs \<and> \<not> is_json_ws c \<and> c \<noteq> CHR '']'' \<and> c \<noteq> CHR ''}''"
proof (cases v)
  case (JNum m e)
  obtain d ds where d: "nat_to_dec (nat \<bar>m\<bar>) = d # ds" "is_digit d"
    using nat_to_dec_Cons by blast
  then have "\<not> is_json_ws d \<and> d \<noteq> CHR '']'' \<and> d \<noteq> CHR ''}''"
    by (auto simp: is_digit_def is_json_ws_def)
  with JNum d show ?thesis
    by (cases "m < 0") (auto simp: int_to_dec_def is_json_ws_def)
qed (auto simp: is_json_ws_def json_quote_def)

lemma skip_ws_print: "skip_ws (json_print v @ rest) = json_print v @ rest"
  using json_print_hd [of v] by auto

lemma json_print_ne [simp]: "json_print v \<noteq> []"
  using json_print_hd [of v] by auto

lemma json_stop_Cons [simp]:
  "json_stop (CHR '','' # r)" "json_stop (CHR '']'' # r)" "json_stop (CHR ''}'' # r)"
  by (simp_all add: json_stop_def)

lemma parse_elems_print:
  assumes IH: "\<And>v n rest. v \<in> set vs \<Longrightarrow> json_stop rest \<Longrightarrow> length (json_print v) < n \<Longrightarrow>
                 parse_value n (json_print v @ rest) = Inr (v, rest)"
  shows "vs \<noteq> [] \<Longrightarrow> length (join_with '','' (map json_print vs)) < n \<Longrightarrow>
         parse_elems n acc (join_with '','' (map json_print vs) @ CHR '']'' # rest)
           = Inr (JArr (acc @ vs), rest)"
  using IH
proof (induction vs arbitrary: acc n)
  case (Cons v vs)
  obtain n' where n: "n = Suc n'" using Cons.prems(2) by (cases n) auto
  show ?case
  proof (cases vs)
    case Nil
    have "parse_value n (json_print v @ CHR '']'' # rest) = Inr (v, CHR '']'' # rest)"
      using Cons.prems Nil by simp
    with Nil n show ?thesis by (simp add: parse_elems.simps(2))
  next
    case (Cons v' vs')
    let ?tl = "join_with '','' (map json_print vs) @ CHR '']'' # rest"
    have "length (json_print v) < n"
      using Cons.prems(2) \<open>vs = v' # vs'\<close> by simp
    then have pv: "parse_value n (json_print v @ CHR '','' # ?tl) = Inr (v, CHR '','' # ?tl)"
      using Cons.prems(3) [of v] by simp
    have len: "length (join_with '','' (map json_print vs)) < n'"
      using Cons.prems(2) \<open>vs = v' # vs'\<close> n json_print_ne [of v]
      by (simp add: length_greater_0_conv [symmetric] del: length_greater_0_conv)
    have "parse_elems n' (acc @ [v]) ?tl = Inr (JArr ((acc @ [v]) @ vs), rest)"
      using Cons.IH [of n' "acc @ [v]"] Cons.prems(3) len \<open>vs = v' # vs'\<close> by simp
    with pv n \<open>vs = v' # vs'\<close> show ?thesis by (simp add: parse_elems.simps(2))
  qed
qed simp


abbreviation json_member :: "string \<times> json \<Rightarrow> string" where
  "json_member \<equiv> (\<lambda>(k, v). json_quote k @ CHR '':'' # json_print v)"

lemma parse_member_step:
  assumes "parse_value (Suc n) (json_print v @ rest) = Inr (v, rest)"
  shows "parse_members (Suc n) acc (json_quote k @ CHR '':'' # json_print v @ rest)
         = (case skip_ws rest of
              d # r4 \<Rightarrow>
                if d = CHR '','' then parse_members n (acc @ [(k, v)]) r4
                else if d = CHR ''}'' then Inr (JObj (acc @ [(k, v)]), r4)
                else Inl Syntax_error
            | [] \<Rightarrow> Inl Syntax_error)"
  using assms by (simp add: parse_members.simps(2) json_quote_def parse_chars_quoted)

lemma parse_members_print:
  assumes IH: "\<And>k v n rest. (k, v) \<in> set kvs \<Longrightarrow> json_stop rest \<Longrightarrow> length (json_print v) < n \<Longrightarrow>
                 parse_value n (json_print v @ rest) = Inr (v, rest)"
  shows "kvs \<noteq> [] \<Longrightarrow> length (join_with '','' (map json_member kvs)) < n \<Longrightarrow>
         parse_members n acc (join_with '','' (map json_member kvs) @ CHR ''}'' # rest)
           = Inr (JObj (acc @ kvs), rest)"
  using IH
proof (induction kvs arbitrary: acc n)
  case (Cons kv kvs)
  obtain k v where kv: "kv = (k, v)" by fastforce
  obtain n' where n: "n = Suc n'" using Cons.prems(2) by (cases n) auto
  have lv: "length (json_print v) < n"
    using Cons.prems(2) kv by (cases kvs) (auto simp: json_quote_def)
  show ?case
  proof (cases kvs)
    case Nil
    have "parse_value n (json_print v @ CHR ''}'' # rest) = Inr (v, CHR ''}'' # rest)"
      using Cons.prems(3) [of k v] kv lv by simp
    with Nil n kv show ?thesis by (simp add: parse_member_step)
  next
    case (Cons kv' kvs')
    let ?tl = "join_with '','' (map json_member kvs) @ CHR ''}'' # rest"
    have pv: "parse_value n (json_print v @ CHR '','' # ?tl) = Inr (v, CHR '','' # ?tl)"
      using Cons.prems(3) [of k v] kv lv by simp
    have len: "length (join_with '','' (map json_member kvs)) < n'"
      using Cons.prems(2) \<open>kvs = kv' # kvs'\<close> n kv by (simp add: json_quote_def)
    have "parse_members n' (acc @ [(k, v)]) ?tl = Inr (JObj ((acc @ [(k, v)]) @ kvs), rest)"
      using Cons.IH [of n' "acc @ [(k, v)]"] Cons.prems(3) len \<open>kvs = kv' # kvs'\<close> by auto
    with pv n kv \<open>kvs = kv' # kvs'\<close> show ?thesis by (simp add: parse_member_step)
  qed
qed simp

lemma parse_value_print_num:
  "json_stop rest \<Longrightarrow> length (json_print (JNum m e)) < n \<Longrightarrow> parse_value n (json_print (JNum m e) @ rest) = Inr (JNum m e, rest)"
proof -
  assume stop: "json_stop rest" and len: "length (json_print (JNum m e)) < n"
  then obtain n' where n: "n = Suc n'" by (cases n) auto
  obtain c cs where c: "json_print (JNum m e) = c # cs"
    using json_print_hd [of "JNum m e"] by blast
  have sign: "c = CHR ''-'' \<or> is_digit c"
  proof -
    obtain d ds where d: "nat_to_dec (nat \<bar>m\<bar>) = d # ds" "is_digit d"
      using nat_to_dec_Cons by blast
    with c show ?thesis by (cases "m < 0") (auto simp: int_to_dec_def)
  qed
  have ne: "c \<noteq> CHR ''{'' \<and> c \<noteq> CHR ''['' \<and> c \<noteq> CHR 0x22 \<and> c \<noteq> CHR ''f''
             \<and> c \<noteq> CHR ''t'' \<and> c \<noteq> CHR ''n''"
    using sign by (auto simp: is_digit_def)
  have ws: "\<not> is_json_ws c" using c json_print_hd [of "JNum m e"] by auto
  have pn: "parse_number (c # cs @ rest) = Some (JNum m e, rest)"
    using parse_number_print [OF stop, of m e] by (simp only: c append_Cons)
  show ?thesis using sign ne ws pn n c
    by (simp add: parse_value.simps(2) del: json_print.simps)
qed
lemma parse_value_print_arr:
  assumes IH: "\<And>v n rest. v \<in> set vs \<Longrightarrow> json_stop rest \<Longrightarrow> length (json_print v) < n \<Longrightarrow>
                 parse_value n (json_print v @ rest) = Inr (v, rest)"
    and len: "length (json_print (JArr vs)) < n"
  shows "parse_value n (json_print (JArr vs) @ rest) = Inr (JArr vs, rest)"
proof -
  obtain n' where n: "n = Suc n'" using len by (cases n) auto
  show ?thesis
  proof (cases vs)
    case Nil
    with n show ?thesis by (simp add: parse_value.simps(2) is_json_ws_def)
  next
    case (Cons v vs')
    obtain c cs where c: "json_print v = c # cs" "\<not> is_json_ws c" "c \<noteq> CHR '']''"
      using json_print_hd [of v] by blast
    have "length (join_with '','' (map json_print vs)) < n'"
      using len n by simp
    then have el: "parse_elems n' [] (join_with '','' (map json_print vs) @ CHR '']'' # rest)
                 = Inr (JArr vs, rest)"
      using parse_elems_print [of vs n' "[]" rest] IH Cons by auto
    have "join_with '','' (map json_print vs) = c # (cs @ (if vs' = [] then [] else CHR '','' # join_with '','' (map json_print vs')))"
      using Cons c(1) by (cases vs') simp_all
    with el n c Cons show ?thesis
      by (simp add: parse_value.simps(2) is_json_ws_def del: join_with.simps join_with_Cons_Cons)
  qed
qed
lemma parse_value_print_obj:
  assumes IH: "\<And>k v n rest. (k, v) \<in> set kvs \<Longrightarrow> json_stop rest \<Longrightarrow> length (json_print v) < n \<Longrightarrow>
                 parse_value n (json_print v @ rest) = Inr (v, rest)"
    and len: "length (json_print (JObj kvs)) < n"
  shows "parse_value n (json_print (JObj kvs) @ rest) = Inr (JObj kvs, rest)"
proof -
  obtain n' where n: "n = Suc n'" using len by (cases n) auto
  show ?thesis
  proof (cases kvs)
    case Nil
    with n show ?thesis by (simp add: parse_value.simps(2) is_json_ws_def)
  next
    case (Cons kv kvs')
    have "length (join_with '','' (map json_member kvs)) < n'"
      using len n by simp
    then have el: "parse_members n' [] (join_with '','' (map json_member kvs) @ CHR ''}'' # rest)
                 = Inr (JObj kvs, rest)"
      using parse_members_print [of kvs n' "[]" rest] IH Cons by auto
    obtain t where t: "join_with '','' (map json_member kvs) = CHR 0x22 # t"
      using Cons by (cases kv; cases kvs') (auto simp: json_quote_def)
    with el n Cons show ?thesis
      by (simp add: parse_value.simps(2) is_json_ws_def del: join_with.simps join_with_Cons_Cons)
  qed
qed

lemma parse_value_print:
  "json_stop rest \<Longrightarrow> length (json_print v) < n \<Longrightarrow> parse_value n (json_print v @ rest) = Inr (v, rest)"
proof (induction v arbitrary: n rest)
  case JNull
  then show ?case
    by (cases n) (simp_all add: parse_value.simps(2) parse_lit_def is_json_ws_def)
next
  case (JBool b)
  then show ?case
    by (cases n) (simp_all add: parse_value.simps(2) parse_lit_def is_json_ws_def)
next
  case (JNum m e)
  then show ?case by (rule parse_value_print_num)
next
  case (JStr t)
  then show ?case
    by (cases n) (simp_all add: parse_value.simps(2) json_quote_def parse_chars_quoted is_json_ws_def)
next
  case (JArr vs)
  then show ?case by (intro parse_value_print_arr) auto
next
  case (JObj kvs)
  then show ?case by (intro parse_value_print_obj) fastforce+
qed

theorem json_parse_print: "json_parse (json_print v) = Some v"
  using parse_value_print [of "[]" v "Suc (length (json_print v))"]
  by (simp add: json_parse_def json_stop_def)


subsection \<open>Property access and truthiness\<close>

text \<open>\<open>v.k\<close> on a parsed value: the last binding of \<open>k\<close> in an object
  (\<open>JSON.parse\<close> keeps the last of duplicated keys), \<open>undefined\<close>
  (\<open>None\<close>) on anything else.  \<open>js_prop\<close> is the guarded read
  \<open>x && x.k\<close> the code writes for possibly absent values.\<close>

definition js_get :: "json \<Rightarrow> string \<Rightarrow> json option" where
  "js_get v k = (case v of JObj kvs \<Rightarrow> map_of (rev kvs) k | _ \<Rightarrow> None)"

definition js_truthy :: "json option \<Rightarrow> bool" where
  "js_truthy v =
     (case v of
        None \<Rightarrow> False
      | Some JNull \<Rightarrow> False
      | Some (JBool b) \<Rightarrow> b
      | Some (JNum m e) \<Rightarrow> m \<noteq> 0
      | Some (JStr s) \<Rightarrow> s \<noteq> []
      | Some _ \<Rightarrow> True)"

definition js_prop :: "json option \<Rightarrow> string \<Rightarrow> json option" where
  "js_prop v k = (if js_truthy v then js_get (the v) k else None)"

definition js_index :: "json option \<Rightarrow> nat \<Rightarrow> json option" where
  "js_index v i =
     (case v of Some (JArr vs) \<Rightarrow> if i < length vs then Some (vs ! i) else None | _ \<Rightarrow> None)"

lemma js_get_JObj_Cons:
  "js_get (JObj ((k, v) # kvs)) k' = (case js_get (JObj kvs) k' of None \<Rightarrow> if k' = k then Some v else None | r \<Rightarrow> r)"
  by (auto simp: js_get_def map_add_def split: option.split)

text \<open>A guarded read \<open>a && a.k\<close> of a present value is the plain read: every
  falsy value has no properties.\<close>

lemma js_prop_Some: "js_prop (Some v) k = js_get v k"
  by (cases v) (simp_all add: js_prop_def js_truthy_def js_get_def)

end
