(* ===== verification/Queries.thy ===== *)
theory Queries
  imports Json
begin

text \<open>
  The GraphQL documents of src/unnamed/part_000 (\<open>src/api/mondayQueries.js\<close>),
  as the exact strings the template literals build: a document is the list of
  its source lines joined by line feeds, with each \<open>${...}\<close> interpolation
  spliced in.  \<open>JSON.stringify\<close> of a string is \<open>json_print (JStr s)\<close>.
  The lemmas show what the documents carry: every requested column id, and
  the doubly encoded name of a rename, which decodes back to the name; and
  what they do not: column ids are spliced between quotes without escaping.
\<close>

definition newline :: string where
  "newline = [CHR 0x0A]"

definition GET_BOARDS_QUERY :: string where
  \<open>GET_BOARDS_QUERY = join_with newline
     ['''',
      ''  query {'',
      ''    boards {'',
      ''      id'',
      ''      name'',
      ''    }'',
      ''  }'',
      '''']\<close>

definition GET_BOARD_COLUMNS_QUERY :: string where
  \<open>GET_BOARD_COLUMNS_QUERY = join_with newline
     ['''',
      ''  query {'',
      ''    boards {'',
      ''      id'',
      ''      name'',
      ''      columns {'',
      ''        id'',
      ''        title'',
      ''        type'',
      ''        settings_str'',
      ''      }'',
      ''    }'',
      ''  }'',
      '''']\<close>

text \<open>\<open>columnIds.map(id => `"${id}"`).join(',')\<close>\<close>

definition column_ids_list :: "string list \<Rightarrow> string" where
  \<open>column_ids_list columnIds = join_with '','' (map (\<lambda>i. ''"'' @ i @ ''"'') columnIds)\<close>

definition GET_BOARD_ITEMS_WITH_COLUMNS_QUERY :: "string \<Rightarrow> string list \<Rightarrow> string" where
  \<open>GET_BOARD_ITEMS_WITH_COLUMNS_QUERY boardId columnIds = join_with newline
     ['''',
      ''    query {'',
      ''      boards(ids: ['' @ boardId @ '']) {'',
      ''        id'',
      ''        name'',
      ''        items_page(limit: 500) {'',
      ''          items {'',
      ''            id'',
      ''            name'',
      ''            board {'',
      ''              id'',
      ''              name'',
      ''            }'',
      ''            group {'',
      ''              id'',
      ''              title'',
      ''            }'',
      ''            column_values(ids: ['' @ column_ids_list columnIds @ '']) {'',
      ''              id'',
      ''              text'',
      ''              value'',
      ''              # Removed display_value as it caused an API error'',
      ''            }'',
      ''          }'',
      ''        }'',
      ''      }'',
      ''    }'',
      ''  '']\<close>

text \<open>\<open>UPDATE_ITEM_NAME_QUERY\<close>: \<open>valuePayload = JSON.stringify(newName)\<close>, and
  the document carries \<open>JSON.stringify(valuePayload)\<close>.\<close>

definition item_name_payload :: "string \<Rightarrow> string" where
  "item_name_payload newName = json_print (JStr (json_print (JStr newName)))"

definition UPDATE_ITEM_NAME_QUERY :: "string \<Rightarrow> string \<Rightarrow> string \<Rightarrow> string" where
  \<open>UPDATE_ITEM_NAME_QUERY boardId itemId newName = join_with newline
     ['''',
      ''    mutation {'',
      ''      change_column_value('',
      ''        board_id: '' @ boardId @ '','',
      ''        item_id: '' @ itemId @ '','',
      ''        column_id: "name",'',
      ''        value: '' @ item_name_payload newName,
      ''      ) {'',
      ''        id'',
      ''        name'',
      ''        column_values {'',
      ''          id'',
      ''          text'',
      ''        }'',
      ''      }'',
      ''    }'',
      ''  '']\<close>

definition UPDATE_COLUMN_VALUE_QUERY :: "string \<Rightarrow> string \<Rightarrow> string \<Rightarrow> string \<Rightarrow> string" where
  \<open>UPDATE_COLUMN_VALUE_QUERY boardId itemId columnId valuePayloadString = join_with newline
     ['''',
      ''    mutation {'',
      ''      change_column_value('',
      ''        board_id: '' @ boardId @ '','',
      ''        item_id: '' @ itemId @ '','',
      ''        column_id: "'' @ columnId @ ''",'',
      ''        value: '' @ json_print (JStr valuePayloadString),
      ''      ) {'',
      ''        id'',
      ''        name'',
      ''        column_values {'',
      ''          id'',
      ''          text'',
      ''          value'',
      ''        }'',
      ''      }'',
      ''    }'',
      ''  '']\<close>

definition GET_USER_DETAILS_QUERY :: "string \<Rightarrow> string" where
  \<open>GET_USER_DETAILS_QUERY userId = join_with newline
     ['''',
      ''  query {'',
      ''    users(ids: ['' @ userId @ '']) {'',
      ''      id'',
      ''      name'',
      ''      photo_original'',
      ''      email'',
      ''    }'',
      ''  }'',
      '''']\<close>

subsection \<open>Properties of the documents\<close>

lemma js_includes_append_mid: "js_includes m p \<Longrightarrow> js_includes (a @ m @ b) p"
  by (intro js_includes_append_right js_includes_append_left)

text \<open>The value a rename sends is the doubly encoded name: one
  \<open>JSON.parse\<close> of the literal in the mutation gives the JSON text of the
  name as a string, and a second gives the name, for every name.\<close>

theorem item_name_payload_decodes:
  "json_parse (item_name_payload newName) = Some (JStr (json_print (JStr newName)))
   \<and> json_parse (json_print (JStr newName)) = Some (JStr newName)"
  using json_parse_print [of "JStr (json_print (JStr newName))"] json_parse_print [of "JStr newName"]
  by (simp add: item_name_payload_def)

text \<open>The items query asks for every selected column: each
  requested column id occurs between double quotes in the document.\<close>

theorem items_query_requests_columns:
  assumes "c \<in> set columnIds"
  shows \<open>js_includes (GET_BOARD_ITEMS_WITH_COLUMNS_QUERY boardId columnIds) (''"'' @ c @ ''"'')\<close>
proof -
  have \<open>js_includes (column_ids_list columnIds) (''"'' @ c @ ''"'')\<close>
    unfolding column_ids_list_def
    using assms by (intro join_with_includes_member) auto
  then have \<open>js_includes (''            column_values(ids: ['' @ column_ids_list columnIds @ '']) {'')
                        (''"'' @ c @ ''"'')\<close>
    by (rule js_includes_append_mid)
  then show ?thesis
    unfolding GET_BOARD_ITEMS_WITH_COLUMNS_QUERY_def
    by (rule join_with_includes_member [rotated]) simp
qed

theorem items_query_requests_columns_witness:
  \<open>''status'' \<in> set [''status'', ''person'']
   \<and> js_includes (GET_BOARD_ITEMS_WITH_COLUMNS_QUERY ''42'' [''status'', ''person''])
                 (''"'' @ ''status'' @ ''"'')\<close>
  using items_query_requests_columns [of "''status''" "[''status'', ''person'']" "''42''"]
  by simp

lemma column_ids_list_split:
  \<open>column_ids_list (xs @ [a @ ''","'' @ b] @ ys) = column_ids_list (xs @ [a, b] @ ys)\<close>
proof (induction xs)
  case Nil
  show ?case by (cases ys) (simp_all add: column_ids_list_def)
next
  case (Cons x xs)
  then show ?case by (simp add: column_ids_list_def join_with_Cons_append)
qed

text \<open>Claim C10.  Column ids are spliced between quotes without escaping: at
  any position of any list of ids, a single id containing \<open>","\<close> yields
  the same document as the two ids on either side of it, so the columns
  requested cannot be recovered from the document.\<close>

theorem items_query_ids_unescaped:
  \<open>GET_BOARD_ITEMS_WITH_COLUMNS_QUERY boardId (xs @ [a @ ''","'' @ b] @ ys) =
   GET_BOARD_ITEMS_WITH_COLUMNS_QUERY boardId (xs @ [a, b] @ ys)\<close>
  unfolding GET_BOARD_ITEMS_WITH_COLUMNS_QUERY_def column_ids_list_split ..

end
