(* ===== verification/AppState.thy ===== *)
theory AppState
  imports Json
begin

text \<open>
  The state of the \<open>App\<close> component (src/unnamed/part_005, App.jsx): one
  field per \<open>useState\<close> hook, in the order the component declares them.
  Board and item data are kept as the JSON the platform returned: an entry of
  \<open>allBoardsData\<close> is the object \<open>{id, name, columns}\<close> built from a board
  of the columns query, and \<open>boardItems\<close> holds the item objects of the items
  queries, each extended with \<open>boardId\<close> and \<open>boardName\<close>.  A JavaScript
  object keyed by board id is a map from strings.
\<close>

record board_entry =
  entry_id :: json
  entry_name :: "json option"
  entry_columns :: json

record app =
  is_sidebar_open :: bool
  selected_board_ids :: "string list"
  selected_column_ids :: "string list"
  all_boards_data :: "string \<rightharpoonup> board_entry"
  board_items :: "json list"
  available_boards :: "json list"
  fetching_available_boards :: bool
  available_boards_error :: "string option"
  is_app_loading :: bool
  is_loading_columns :: bool
  is_loading_items :: bool
  is_polling :: bool
  app_error :: "string option"
  columns_error :: "string option"
  items_error :: "string option"

text \<open>The state of the first render: every \<open>useState\<close> initial value.\<close>

definition initial_app :: app where
  "initial_app =
     \<lparr>is_sidebar_open = False, selected_board_ids = [], selected_column_ids = [],
      all_boards_data = Map.empty, board_items = [], available_boards = [],
      fetching_available_boards = False, available_boards_error = None,
      is_app_loading = True, is_loading_columns = False, is_loading_items = False,
      is_polling = False, app_error = None, columns_error = None, items_error = None\<rparr>"

end
