(* ===== verification/Aggregation.thy ===== *)
theory Aggregation
  imports Retry Queries AppState
begin

text \<open>
  \<open>fetchBoardData\<close> of App.jsx (src/unnamed/part_005, lines 83--155): one
  columns request for all boards, then one items request per selected board,
  in selection order, each through \<open>retry(() => queryMonday(q))\<close>
  (\<open>api_call\<close> of Retry.thy).  The first failure aborts the loop; the
  \<open>catch\<close> block routes its message to the columns or the items error by
  the substring \<open>columns\<close>, and \<open>finally\<close> clears \<open>isPolling\<close>.
  React state setters are modelled as record updates applied in the order the
  code calls them; the closure reads the selection of the state it starts in.
  Property reads of the responses use the JavaScript accessors of Json.thy.
\<close>

subsection \<open>Reading the columns response\<close>

text \<open>\<open>newAllBoardsData[board.id] = {id, name, columns: board.columns || []}\<close>
  for every board whose id is selected (\<open>Array.prototype.includes\<close>: only a
  string id can equal a selected id).  A later board with the same id
  overwrites an earlier one.\<close>

definition board_entry_of :: "json \<Rightarrow> board_entry" where
  "board_entry_of b =
     \<lparr>entry_id = (case js_get b ''id'' of Some v \<Rightarrow> v | None \<Rightarrow> JNull),
      entry_name = js_get b ''name'',
      entry_columns = (if js_truthy (js_get b ''columns'') then the (js_get b ''columns'') else JArr [])\<rparr>"

definition collect_board :: "string list \<Rightarrow> json \<Rightarrow> (string \<rightharpoonup> board_entry) \<Rightarrow> (string \<rightharpoonup> board_entry)" where
  "collect_board sel b m =
     (case js_get b ''id'' of
        Some (JStr i) \<Rightarrow> if i \<in> set sel then m(i \<mapsto> board_entry_of b) else m
      | _ \<Rightarrow> m)"

text \<open>\<open>if (columnsData && columnsData.boards) columnsData.boards.forEach(...)\<close>:
  a truthy \<open>boards\<close> that is not an array makes \<open>forEach\<close> throw a
  \<open>TypeError\<close>, and so does a \<open>null\<close> board, at \<open>board.id\<close> (the
  partial map is then discarded: \<open>setAllBoardsData\<close> is never reached).\<close>

definition columns_of_response :: "string list \<Rightarrow> json \<Rightarrow> api_error + (string \<rightharpoonup> board_entry)" where
  "columns_of_response sel cd =
     (let bs = js_prop (Some cd) ''boards'' in
      if \<not> js_truthy bs then Inr Map.empty
      else (case bs of
              Some (JArr xs) \<Rightarrow> if JNull \<in> set xs
                                  then Inl (plain_error ''Cannot read properties of null (reading 'id')'')
                                  else Inr (fold (collect_board sel) xs Map.empty)
            | _ \<Rightarrow> Inl (plain_error ''columnsData.boards.forEach is not a function'')))"

subsection \<open>Reading an items response\<close>

text \<open>The guard \<open>itemsData && itemsData.boards && itemsData.boards[0] &&
  itemsData.boards[0].items_page && itemsData.boards[0].items_page.items\<close>
  is truthy exactly when the last read is; \<open>None\<close> is the \<open>else\<close> branch
  (no items for this board).\<close>

definition board_items_of_response :: "json \<Rightarrow> json option" where
  "board_items_of_response d =
     (let b0 = js_index (js_prop (Some d) ''boards'') 0;
          its = js_prop (js_prop b0 ''items_page'') ''items''
      in if js_truthy its then its else None)"

text \<open>\<open>{...item, boardId, boardName}\<close>: the spread copies the item's own
  fields in order, and an assignment to a present key replaces it in place.\<close>

definition obj_fields :: "json \<Rightarrow> (string \<times> json) list" where
  "obj_fields v = (case v of JObj kvs \<Rightarrow> kvs | _ \<Rightarrow> [])"

definition obj_set :: "(string \<times> json) list \<Rightarrow> string \<Rightarrow> json \<Rightarrow> (string \<times> json) list" where
  "obj_set kvs k v =
     (if k \<in> fst ` set kvs then map (\<lambda>(k', v'). if k' = k then (k', v) else (k', v')) kvs
      else kvs @ [(k, v)])"

text \<open>\<open>newAllBoardsData[boardId]?.name || `Board ${boardId}`\<close>\<close>

definition board_name_for :: "(string \<rightharpoonup> board_entry) \<Rightarrow> string \<Rightarrow> json" where
  "board_name_for m b =
     (let n = (case m b of Some e \<Rightarrow> entry_name e | None \<Rightarrow> None)
      in if js_truthy n then the n else JStr (''Board '' @ b))"

definition tag_item :: "string \<Rightarrow> json \<Rightarrow> json \<Rightarrow> json" where
  "tag_item b nm item = JObj (obj_set (obj_set (obj_fields item) ''boardId'' (JStr b)) ''boardName'' nm)"

text \<open>\<open>items.map(...)\<close> on a truthy non-array throws a \<open>TypeError\<close>.\<close>

definition items_of_response :: "(string \<rightharpoonup> board_entry) \<Rightarrow> string \<Rightarrow> json \<Rightarrow> api_error + json list" where
  "items_of_response m b d =
     (case board_items_of_response d of
        None \<Rightarrow> Inr []
      | Some (JArr xs) \<Rightarrow> Inr (map (tag_item b (board_name_for m b)) xs)
      | Some _ \<Rightarrow> Inl (plain_error ''itemsData.boards[0].items_page.items.map is not a function''))"

subsection \<open>The fetch\<close>

text \<open>The \<open>for ... of selectedBoardIds\<close> loop, accumulating \<open>fetchedItems\<close>;
  an empty column selection skips every request (\<open>continue\<close>).\<close>

fun fetch_items :: "json api \<Rightarrow> string list \<Rightarrow> (string \<rightharpoonup> board_entry) \<Rightarrow> string list
                    \<Rightarrow> json list \<Rightarrow> net \<Rightarrow> (api_error + json list) \<times> net" where
  "fetch_items api cols m [] acc s = (Inr acc, s)"
| "fetch_items api cols m (b # bs) acc s =
     (if cols = [] then fetch_items api cols m bs acc s
      else (case api_call api (GET_BOARD_ITEMS_WITH_COLUMNS_QUERY b cols) s of
              (Inl e, s') \<Rightarrow> (Inl e, s')
            | (Inr d, s') \<Rightarrow>
                (case items_of_response m b d of
                   Inl e \<Rightarrow> (Inl e, s')
                 | Inr its \<Rightarrow> fetch_items api cols m bs (acc @ its) s')))"

text \<open>The \<open>catch\<close> block.\<close>

definition record_fetch_error :: "api_error \<Rightarrow> app \<Rightarrow> app" where
  "record_fetch_error e a =
     (if js_includes (message e) ''columns''
      then a\<lparr>columns_error := Some (''Error loading columns: '' @ message e @ ''. Please check selected boards.'')\<rparr>
      else a\<lparr>items_error := Some (''Error loading items: '' @ message e @ ''.'')\<rparr>)"

definition fetch_board_data :: "json api \<Rightarrow> app \<Rightarrow> net \<Rightarrow> app \<times> net" where
  "fetch_board_data api a s =
     (if selected_board_ids a = []
      then (a\<lparr>all_boards_data := Map.empty, board_items := [], columns_error := None, items_error := None\<rparr>, s)
      else
        (let sel = selected_board_ids a; cols = selected_column_ids a;
             a1 = a\<lparr>is_polling := True, columns_error := None, items_error := None\<rparr>
         in case api_call api GET_BOARD_COLUMNS_QUERY s of
              (Inl e, s1) \<Rightarrow> ((record_fetch_error e a1)\<lparr>is_polling := False\<rparr>, s1)
            | (Inr cd, s1) \<Rightarrow>
                (case columns_of_response sel cd of
                   Inl e \<Rightarrow> ((record_fetch_error e a1)\<lparr>is_polling := False\<rparr>, s1)
                 | Inr m \<Rightarrow>
                     (let a2 = a1\<lparr>all_boards_data := m\<rparr> in
                      case fetch_items api cols m sel [] s1 of
                        (Inl e, s2) \<Rightarrow> ((record_fetch_error e a2)\<lparr>is_polling := False\<rparr>, s2)
                      | (Inr its, s2) \<Rightarrow> (a2\<lparr>board_items := its, is_polling := False\<rparr>, s2)))))"

subsection \<open>Lemmas\<close>

lemma map_of_map_set_key:
  "map_of (map (\<lambda>(k', v'). if k' = k then (k', v) else (k', v')) ys) k' =
   (if k' = k then (if k \<in> fst ` set ys then Some v else None) else map_of ys k')"
proof (induction ys)
  case (Cons p ys)
  then show ?case by (cases p) (auto simp: image_iff; metis fst_conv)
qed simp

lemma js_get_obj_set_same [simp]: "js_get (JObj (obj_set kvs k v)) k = Some v"
  by (simp add: js_get_def obj_set_def rev_map map_of_map_set_key map_add_def)

lemma js_get_obj_set_other [simp]:
  "k' \<noteq> k \<Longrightarrow> js_get (JObj (obj_set kvs k v)) k' = js_get (JObj kvs) k'"
  by (simp add: js_get_def obj_set_def rev_map map_of_map_set_key map_add_def)

lemma tag_item_boardId [simp]: "js_get (tag_item b nm it) ''boardId'' = Some (JStr b)"
  by (simp add: tag_item_def)

lemma tag_item_boardName [simp]: "js_get (tag_item b nm it) ''boardName'' = Some nm"
  by (simp add: tag_item_def)

text \<open>A board's items in the response are exactly what the loop appends for
  it, each tagged with the board.\<close>

abbreviation tagged_with :: "string \<Rightarrow> json list \<Rightarrow> bool" where
  "tagged_with b xs \<equiv> \<forall>it\<in>set xs. js_get it ''boardId'' = Some (JStr b)"

lemma items_of_response_tagged:
  "items_of_response m b d = Inr its \<Longrightarrow> tagged_with b its"
  by (auto simp: items_of_response_def split: option.splits json.splits)

text \<open>The block the loop appends for board \<open>b\<close>: nothing when no column is
  selected, otherwise the items of an answer the platform gave to the items
  query of \<open>b\<close>.\<close>

abbreviation fetched_block :: "json api \<Rightarrow> string list \<Rightarrow> (string \<rightharpoonup> board_entry) \<Rightarrow> string \<Rightarrow> json list \<Rightarrow> bool" where
  "fetched_block api cols m b its \<equiv>
     (cols = [] \<and> its = [])
     \<or> (\<exists>k d. api (GET_BOARD_ITEMS_WITH_COLUMNS_QUERY b cols) k = Api_data d \<and> items_of_response m b d = Inr its)"

lemma fetched_block_tagged:
  "fetched_block api cols m b its \<Longrightarrow> tagged_with b its \<and> fetched_block api cols m b its"
  by (auto dest: items_of_response_tagged)

text \<open>The loop's result is the accumulator followed by one block per board of
  the selection, in selection order.\<close>

lemma fetch_items_blocks:
  "fetch_items api cols m bs acc s = (Inr r, s') \<Longrightarrow>
   \<exists>xss. r = acc @ concat xss \<and> list_all2 (fetched_block api cols m) bs xss"
proof (induction api cols m bs acc s arbitrary: r s' rule: fetch_items.induct)
  case (2 api cols m b bs acc s)
  show ?case
  proof (cases "cols = []")
    case True
    with 2 obtain xss where "r = acc @ concat xss" "list_all2 (fetched_block api cols m) bs xss" by auto
    with True show ?thesis by (intro exI [of _ "[] # xss"]) simp
  next
    case False
    with "2.prems" obtain d s1 its where
      d: "api_call api (GET_BOARD_ITEMS_WITH_COLUMNS_QUERY b cols) s = (Inr d, s1)"
      and its: "items_of_response m b d = Inr its"
      and rest: "fetch_items api cols m bs (acc @ its) s1 = (Inr r, s')"
      by (auto split: prod.splits sum.splits)
    from "2.IH"(2) [OF False d [symmetric] refl its rest] obtain xss where
      "r = (acc @ its) @ concat xss" "list_all2 (fetched_block api cols m) bs xss" by blast
    moreover from api_call_Inr [OF d] its have "fetched_block api cols m b its" by blast
    ultimately show ?thesis by (intro exI [of _ "its # xss"]) simp
  qed
qed simp

text \<open>The loop makes at most 24 calls per board, and none when no column is
  selected.\<close>

lemma fetch_items_calls:
  "fetch_items api cols m bs acc s = (r, s') \<Longrightarrow>
   calls s \<le> calls s' \<and> calls s' \<le> calls s + 24 * length bs \<and> (cols = [] \<longrightarrow> s' = s)"
proof (induction api cols m bs acc s arbitrary: r s' rule: fetch_items.induct)
  case (2 api cols m b bs acc s)
  show ?case
  proof (cases "cols = []")
    case False
    obtain r1 s1 where c: "api_call api (GET_BOARD_ITEMS_WITH_COLUMNS_QUERY b cols) s = (r1, s1)"
      by fastforce
    from api_call_calls [OF c] have b1: "calls s < calls s1" "calls s1 \<le> calls s + 24" by auto
    show ?thesis
    proof (cases "\<exists>d its. r1 = Inr d \<and> items_of_response m b d = Inr its")
      case True
      then obtain d its where "r1 = Inr d" "items_of_response m b d = Inr its" by blast
      with "2.prems" c False have "fetch_items api cols m bs (acc @ its) s1 = (r, s')" by simp
      from "2.IH"(2) [OF False c [unfolded \<open>r1 = Inr d\<close>, symmetric] refl \<open>items_of_response m b d = Inr its\<close> this]
      show ?thesis using b1 False by simp
    next
      case False
      with "2.prems" c \<open>cols \<noteq> []\<close> have "s' = s1"
        by (auto split: sum.splits)
      with b1 \<open>cols \<noteq> []\<close> show ?thesis by simp
    qed
  qed (use 2 in simp)
qed simp

text \<open>The \<open>catch\<close> block records exactly one of the two errors and touches
  nothing else.\<close>

lemma record_fetch_error_fields [simp]:
  "board_items (record_fetch_error e a) = board_items a"
  "all_boards_data (record_fetch_error e a) = all_boards_data a"
  "selected_board_ids (record_fetch_error e a) = selected_board_ids a"
  "selected_column_ids (record_fetch_error e a) = selected_column_ids a"
  "is_polling (record_fetch_error e a) = is_polling a"
  "is_loading_columns (record_fetch_error e a) = is_loading_columns a"
  "is_loading_items (record_fetch_error e a) = is_loading_items a"
  "is_app_loading (record_fetch_error e a) = is_app_loading a"
  by (simp_all add: record_fetch_error_def)

lemma record_fetch_error_some:
  "columns_error (record_fetch_error e a) \<noteq> None \<or> items_error (record_fetch_error e a) \<noteq> None"
  by (simp add: record_fetch_error_def)

text \<open>The three ways \<open>fetchBoardData\<close> ends: the early return on an empty
  selection, the \<open>catch\<close> block (after the columns request, its reading, or
  the items loop failed), and the end of the \<open>try\<close> block.\<close>

lemma fetch_board_data_outcome:
  assumes "fetch_board_data api a s = (a', s')"
  obtains (empty) "selected_board_ids a = []" "s' = s"
      "a' = a\<lparr>all_boards_data := Map.empty, board_items := [], columns_error := None, items_error := None\<rparr>"
  | (failed) e bd where "selected_board_ids a \<noteq> []"
      "a' = (record_fetch_error e (a\<lparr>is_polling := True, columns_error := None, items_error := None,
                                      all_boards_data := bd\<rparr>))\<lparr>is_polling := False\<rparr>"
  | (completed) cd s1 m its where "selected_board_ids a \<noteq> []"
      "api_call api GET_BOARD_COLUMNS_QUERY s = (Inr cd, s1)"
      "columns_of_response (selected_board_ids a) cd = Inr m"
      "fetch_items api (selected_column_ids a) m (selected_board_ids a) [] s1 = (Inr its, s')"
      "a' = a\<lparr>is_polling := False, columns_error := None, items_error := None,
              all_boards_data := m, board_items := its\<rparr>"
proof (cases "selected_board_ids a = []")
  case True
  with assms show ?thesis using empty by (simp add: fetch_board_data_def)
next
  case sel: False
  obtain r1 s1 where c: "api_call api GET_BOARD_COLUMNS_QUERY s = (r1, s1)" by fastforce
  show ?thesis
  proof (cases r1)
    case (Inl e)
    with assms sel c show ?thesis
      using failed [of e "all_boards_data a"] by (simp add: fetch_board_data_def)
  next
    case (Inr cd)
    show ?thesis
    proof (cases "columns_of_response (selected_board_ids a) cd")
      case (Inl e)
      with assms sel c \<open>r1 = Inr cd\<close> show ?thesis
        using failed [of e "all_boards_data a"] by (simp add: fetch_board_data_def)
    next
      case (Inr m)
      obtain r2 s2 where f: "fetch_items api (selected_column_ids a) m (selected_board_ids a) [] s1 = (r2, s2)"
        by fastforce
      show ?thesis
      proof (cases r2)
        case (Inl e)
        with assms sel c f \<open>r1 = Inr cd\<close> \<open>columns_of_response _ cd = Inr m\<close> show ?thesis
          using failed [of e m] by (simp add: fetch_board_data_def)
      next
        case (Inr its)
        with assms sel c f \<open>r1 = Inr cd\<close> \<open>columns_of_response _ cd = Inr m\<close> show ?thesis
          using completed [of cd s1 m its] by (auto simp: fetch_board_data_def)
      qed
    qed
  qed
qed

text \<open>Claim C11.  When a fetch ends without recording an error, the item list
  it installs is the concatenation, board by board in the order of the
  selection, of one block per board: the items of an answer the platform
  gave to that board's items query (none when no column is selected), each
  tagged (\<open>boardId\<close>) with the board.\<close>

theorem fetch_board_data_attribution:
  assumes "fetch_board_data api a s = (a', s')"
    and "columns_error a' = None" and "items_error a' = None"
  shows "\<exists>xss. board_items a' = concat xss
           \<and> list_all2 (\<lambda>b its. tagged_with b its \<and> fetched_block api (selected_column_ids a) (all_boards_data a') b its)
                       (selected_board_ids a) xss"
  using assms(1)
proof (cases rule: fetch_board_data_outcome)
  case (failed e bd)
  with assms(2,3) show ?thesis
    using record_fetch_error_some
      [of e "a\<lparr>is_polling := True, columns_error := None, items_error := None, all_boards_data := bd\<rparr>"]
    by simp
next
  case (completed cd s1 m its)
  from fetch_items_blocks [OF completed(4)] obtain xss where
    its: "its = concat xss" and
    bl: "list_all2 (fetched_block api (selected_column_ids a) m) (selected_board_ids a) xss" by auto
  from bl have "list_all2 (\<lambda>b its. tagged_with b its \<and> fetched_block api (selected_column_ids a) m b its)
                          (selected_board_ids a) xss"
    by (rule list_all2_mono) (rule fetched_block_tagged)
  with its completed(5) show ?thesis by auto
qed simp

theorem fetch_board_data_attribution_witness:
  "let W = (\<lambda>q k. Api_data (JObj [(''boards'', JArr [JObj [(''id'', JStr ''1''), (''name'', JStr ''B''),
                    (''items_page'', JObj [(''items'', JArr [JObj [(''id'', JStr ''9'')]])])]])]));
       A = initial_app\<lparr>selected_board_ids := [''1''], selected_column_ids := [''status'']\<rparr>;
       S = \<lparr>calls = 0, waits = []\<rparr>
   in columns_error (fst (fetch_board_data W A S)) = None
      \<and> items_error (fst (fetch_board_data W A S)) = None
      \<and> (\<exists>xss. board_items (fst (fetch_board_data W A S)) = concat xss
              \<and> list_all2 (\<lambda>b its. tagged_with b its
                                    \<and> fetched_block W [''status''] (all_boards_data (fst (fetch_board_data W A S))) b its)
                          [''1''] xss)"
proof -
  define W where "W = (\<lambda>(q::string) (k::nat). Api_data (JObj [(''boards'', JArr [JObj [(''id'', JStr ''1''), (''name'', JStr ''B''),
                    (''items_page'', JObj [(''items'', JArr [JObj [(''id'', JStr ''9'')]])])]])]))"
  define A where "A = initial_app\<lparr>selected_board_ids := [''1''], selected_column_ids := [''status'']\<rparr>"
  define S :: net where "S = \<lparr>calls = 0, waits = []\<rparr>"
  have c: "api_call W q s = (Inr (JObj [(''boards'', JArr [JObj [(''id'', JStr ''1''), (''name'', JStr ''B''),
                    (''items_page'', JObj [(''items'', JArr [JObj [(''id'', JStr ''9'')]])])]])]), after_call s)" for q s
    by (rule api_call_data) (simp add: W_def)
  have e: "columns_error (fst (fetch_board_data W A S)) = None \<and> items_error (fst (fetch_board_data W A S)) = None"
    by (simp add: fetch_board_data_def A_def initial_app_def c columns_of_response_def
                  items_of_response_def board_items_of_response_def js_prop_def js_truthy_def
                  js_get_def js_index_def Let_def collect_board_def)
  then show ?thesis
    using fetch_board_data_attribution [of W A S "fst (fetch_board_data W A S)" "snd (fetch_board_data W A S)"]
    by (simp add: A_def W_def S_def Let_def)
qed

text \<open>Claim C12.  A fetch that fails leaves the displayed items as they were,
  records exactly one of the two errors and ends with \<open>isPolling\<close> false.\<close>

theorem fetch_board_data_failure_keeps_items:
  assumes "fetch_board_data api a s = (a', s')"
    and "columns_error a' \<noteq> None \<or> items_error a' \<noteq> None"
  shows "board_items a' = board_items a \<and> \<not> is_polling a'
         \<and> (columns_error a' = None \<or> items_error a' = None)"
  using assms(1)
proof (cases rule: fetch_board_data_outcome)
  case (failed e bd)
  then show ?thesis by (simp add: record_fetch_error_def)
qed (use assms(2) in simp_all)

theorem fetch_board_data_failure_keeps_items_witness:
  "let W = (\<lambda>q k. Api_reject (plain_error ''Boom''));
       A = initial_app\<lparr>selected_board_ids := [''1''], selected_column_ids := [''status''],
                       board_items := [JStr ''old'']\<rparr>;
       S = \<lparr>calls = 0, waits = []\<rparr>
   in (columns_error (fst (fetch_board_data W A S)) \<noteq> None
       \<or> items_error (fst (fetch_board_data W A S)) \<noteq> None)
      \<and> board_items (fst (fetch_board_data W A S)) = [JStr ''old'']
      \<and> \<not> is_polling (fst (fetch_board_data W A S))
      \<and> (columns_error (fst (fetch_board_data W A S)) = None
         \<or> items_error (fst (fetch_board_data W A S)) = None)"
proof -
  define W :: "json api" where "W = (\<lambda>q k. Api_reject (plain_error ''Boom''))"
  define A where "A = initial_app\<lparr>selected_board_ids := [''1''], selected_column_ids := [''status''],
                       board_items := [JStr ''old'']\<rparr>"
  define S :: net where "S = \<lparr>calls = 0, waits = []\<rparr>"
  have c: "api_call W q s = (Inl (plain_error ''Boom''), after_call s)" for q s
    by (rule api_call_reject) (simp_all add: W_def plain_error_def retry_transient_def)
  have e: "items_error (fst (fetch_board_data W A S)) \<noteq> None"
    by (simp add: fetch_board_data_def A_def initial_app_def c record_fetch_error_def plain_error_def)
  then show ?thesis
    using fetch_board_data_failure_keeps_items
      [of W A S "fst (fetch_board_data W A S)" "snd (fetch_board_data W A S)"]
    by (simp add: A_def W_def S_def Let_def)
qed

text \<open>Claim C13.  \<open>allBoardsData\<close> is committed before the items are
  fetched: when the columns request succeeds and an items request then fails,
  the new board data stays installed next to the old item list, so the two
  no longer describe the same fetch.\<close>

theorem fetch_board_data_partial_commit:
  assumes "selected_board_ids a \<noteq> []"
    and "api_call api GET_BOARD_COLUMNS_QUERY s = (Inr cd, s1)"
    and "columns_of_response (selected_board_ids a) cd = Inr m"
    and "fetch_items api (selected_column_ids a) m (selected_board_ids a) [] s1 = (Inl e, s2)"
  shows "all_boards_data (fst (fetch_board_data api a s)) = m
         \<and> board_items (fst (fetch_board_data api a s)) = board_items a
         \<and> snd (fetch_board_data api a s) = s2"
  using assms by (simp add: fetch_board_data_def)

theorem fetch_board_data_partial_commit_witness:
  "let W = (\<lambda>q k. if k = 0 then Api_data (JObj [(''boards'', JArr [JObj [(''id'', JStr ''1''), (''name'', JStr ''B''),
                    (''items_page'', JObj [(''items'', JArr [JObj [(''id'', JStr ''9'')]])])]])]) else Api_reject (plain_error ''Boom''));
       A = initial_app\<lparr>selected_board_ids := [''1''], selected_column_ids := [''status''],
                       board_items := [JStr ''old'']\<rparr>;
       S = \<lparr>calls = 0, waits = []\<rparr>
   in all_boards_data (fst (fetch_board_data W A S)) \<noteq> all_boards_data A
      \<and> board_items (fst (fetch_board_data W A S)) = [JStr ''old'']
      \<and> items_error (fst (fetch_board_data W A S)) = Some ''Error loading items: Boom.''"
proof -
  define W :: "json api" where
    "W = (\<lambda>q k. if k = 0 then Api_data (JObj [(''boards'', JArr [JObj [(''id'', JStr ''1''), (''name'', JStr ''B''),
                    (''items_page'', JObj [(''items'', JArr [JObj [(''id'', JStr ''9'')]])])]])]) else Api_reject (plain_error ''Boom''))"
  define A where "A = initial_app\<lparr>selected_board_ids := [''1''], selected_column_ids := [''status''],
                       board_items := [JStr ''old'']\<rparr>"
  define S :: net where "S = \<lparr>calls = 0, waits = []\<rparr>"
  define m where "m = fold (collect_board [''1'']) [JObj [(''id'', JStr ''1''), (''name'', JStr ''B''),
                    (''items_page'', JObj [(''items'', JArr [JObj [(''id'', JStr ''9'')]])])]] Map.empty"
  have c: "api_call W GET_BOARD_COLUMNS_QUERY S = (Inr (JObj [(''boards'', JArr [JObj [(''id'', JStr ''1''), (''name'', JStr ''B''),
                    (''items_page'', JObj [(''items'', JArr [JObj [(''id'', JStr ''9'')]])])]])]), after_call S)"
    by (rule api_call_data) (simp add: W_def S_def)
  have i: "api_call W q (after_call S) = (Inl (plain_error ''Boom''), after_call (after_call S))" for q
    by (rule api_call_reject) (simp_all add: W_def S_def plain_error_def retry_transient_def)
  have cr: "columns_of_response [''1''] (JObj [(''boards'', JArr [JObj [(''id'', JStr ''1''), (''name'', JStr ''B''),
                    (''items_page'', JObj [(''items'', JArr [JObj [(''id'', JStr ''9'')]])])]])]) = Inr m"
    by (simp add: columns_of_response_def m_def js_prop_def js_truthy_def js_get_def)
  have f: "fetch_items W [''status''] m [''1''] [] (after_call S) = (Inl (plain_error ''Boom''), after_call (after_call S))"
    by (simp add: i)
  have m1: "m ''1'' \<noteq> None"
    by (simp add: m_def collect_board_def js_get_def)
  have sa: "selected_board_ids A = [''1'']" "selected_column_ids A = [''status'']"
    "board_items A = [JStr ''old'']"
    by (simp_all add: A_def)
  have p: "all_boards_data (fst (fetch_board_data W A S)) = m \<and> board_items (fst (fetch_board_data W A S)) = [JStr ''old'']"
    using fetch_board_data_partial_commit [of A W S "JObj [(''boards'', JArr [JObj [(''id'', JStr ''1''), (''name'', JStr ''B''),
                    (''items_page'', JObj [(''items'', JArr [JObj [(''id'', JStr ''9'')]])])]])]"
            "after_call S" m "plain_error ''Boom''" "after_call (after_call S)"] sa c cr f
    by simp
  have e: "items_error (fst (fetch_board_data W A S)) = Some ''Error loading items: Boom.''"
    by (simp add: fetch_board_data_def A_def c cr i Let_def record_fetch_error_def plain_error_def)
  show ?thesis
    using p e m1 by (auto simp: Let_def A_def W_def S_def initial_app_def)
qed

text \<open>Claim C14.  One refresh reaches \<open>monday.api\<close> at most 24 times per
  selected board plus 24 times for the columns, at most 24 times in all when no
  column is selected, and not at all when no board is selected.\<close>

theorem fetch_board_data_calls_bound:
  assumes "fetch_board_data api a s = (a', s')"
  shows "calls s' \<le> calls s + 24 * (1 + length (selected_board_ids a))
         \<and> (selected_column_ids a = [] \<longrightarrow> calls s' \<le> calls s + 24)
         \<and> (selected_board_ids a = [] \<longrightarrow> s' = s)"
proof (cases "selected_board_ids a = []")
  case True
  with assms show ?thesis by (simp add: fetch_board_data_def)
next
  case sel: False
  obtain r1 s1 where c: "api_call api GET_BOARD_COLUMNS_QUERY s = (r1, s1)" by fastforce
  from api_call_calls [OF c] have b1: "calls s1 \<le> calls s + 24" by simp
  show ?thesis
  proof (cases "\<exists>cd m. r1 = Inr cd \<and> columns_of_response (selected_board_ids a) cd = Inr m")
    case True
    then obtain cd m where r1: "r1 = Inr cd" "columns_of_response (selected_board_ids a) cd = Inr m"
      by blast
    obtain r2 s2 where f: "fetch_items api (selected_column_ids a) m (selected_board_ids a) [] s1 = (r2, s2)"
      by fastforce
    from assms sel c r1 f have "s' = s2"
      by (simp add: fetch_board_data_def Let_def split: sum.splits)
    with fetch_items_calls [OF f] b1 sel show ?thesis by auto
  next
    case False
    with assms sel c have "s' = s1"
      by (auto simp: fetch_board_data_def Let_def split: sum.splits)
    with b1 sel show ?thesis by simp
  qed
qed

theorem fetch_board_data_calls_bound_witness:
  "let W = (\<lambda>q k. Api_data (JObj [(''boards'', JArr [JObj [(''id'', JStr ''1''), (''name'', JStr ''B''),
                    (''items_page'', JObj [(''items'', JArr [JObj [(''id'', JStr ''9'')]])])]])]));
       A = initial_app\<lparr>selected_board_ids := [''1''], selected_column_ids := [''status'']\<rparr>;
       S = \<lparr>calls = 0, waits = []\<rparr>
   in calls (snd (fetch_board_data W A S)) = 2
      \<and> calls (snd (fetch_board_data W A S)) \<le> 0 + 24 * (1 + 1)"
proof -
  define W where "W = (\<lambda>(q::string) (k::nat). Api_data (JObj [(''boards'', JArr [JObj [(''id'', JStr ''1''), (''name'', JStr ''B''),
                    (''items_page'', JObj [(''items'', JArr [JObj [(''id'', JStr ''9'')]])])]])]))"
  define A where "A = initial_app\<lparr>selected_board_ids := [''1''], selected_column_ids := [''status'']\<rparr>"
  define S :: net where "S = \<lparr>calls = 0, waits = []\<rparr>"
  have c: "api_call W q s = (Inr (JObj [(''boards'', JArr [JObj [(''id'', JStr ''1''), (''name'', JStr ''B''),
                    (''items_page'', JObj [(''items'', JArr [JObj [(''id'', JStr ''9'')]])])]])]), after_call s)" for q s
    by (rule api_call_data) (simp add: W_def)
  have e: "calls (snd (fetch_board_data W A S)) = 2"
    by (simp add: fetch_board_data_def A_def S_def c columns_of_response_def
                  items_of_response_def board_items_of_response_def js_prop_def js_truthy_def
                  js_get_def js_index_def Let_def collect_board_def)
  show ?thesis
    using fetch_board_data_calls_bound [of W A S "fst (fetch_board_data W A S)" "snd (fetch_board_data W A S)"] e
    by (simp add: A_def W_def S_def Let_def)
qed

text \<open>Claim C15.  The \<open>catch\<close> block classifies an error by whether its
  message contains \<open>columns\<close>, not by the request that failed: when the
  columns request itself is rejected with a message that does not mention
  columns (a rate limit, a network error), the app shows an items error and
  no columns error.\<close>

theorem fetch_board_data_error_routing:
  assumes "selected_board_ids a \<noteq> []"
    and "api_call api GET_BOARD_COLUMNS_QUERY s = (Inl e, s1)"
    and "\<not> js_includes (message e) ''columns''"
  shows "columns_error (fst (fetch_board_data api a s)) = None
         \<and> items_error (fst (fetch_board_data api a s)) = Some (''Error loading items: '' @ message e @ ''.'')"
  using assms by (simp add: fetch_board_data_def record_fetch_error_def)

theorem fetch_board_data_error_routing_witness:
  "let W = (\<lambda>q k. Api_reject (plain_error ''Rate limit exceeded''));
       A = initial_app\<lparr>selected_board_ids := [''1''], selected_column_ids := [''status'']\<rparr>;
       S = \<lparr>calls = 0, waits = []\<rparr>
   in columns_error (fst (fetch_board_data W A S)) = None
      \<and> items_error (fst (fetch_board_data W A S)) = Some ''Error loading items: Rate limit exceeded.''"
proof -
  define W :: "json api" where "W = (\<lambda>q k. Api_reject (plain_error ''Rate limit exceeded''))"
  define A where "A = initial_app\<lparr>selected_board_ids := [''1''], selected_column_ids := [''status'']\<rparr>"
  define S :: net where "S = \<lparr>calls = 0, waits = []\<rparr>"
  have c: "api_call W GET_BOARD_COLUMNS_QUERY S = (Inl (plain_error ''Rate limit exceeded''), after_call S)"
    by (rule api_call_reject) (simp_all add: W_def plain_error_def retry_transient_def)
  have "\<not> js_includes (message (plain_error ''Rate limit exceeded'')) ''columns''"
    by (simp add: plain_error_def)
  with fetch_board_data_error_routing [OF _ c] show ?thesis
    by (simp add: A_def W_def S_def Let_def plain_error_def)
qed

end
