(* ===== verification/Settings.thy ===== *)
theory Settings
  imports AppState Retry
begin

text \<open>
  The settings store of App.jsx (src/unnamed/part_005): the \<open>loadSettings\<close>
  effect (lines 158--226) and the auto-save effect (lines 229--250) over the
  instance storage of the platform, a map from keys to stored values.
  \<open>monday.storage.instance.getItem\<close> answers with the JSON response it
  resolves to, or rejects (\<open>Inl\<close>); \<open>setItem\<close> and \<open>removeItem\<close> are the
  map updates they perform (the model assumes \<open>removeItem\<close> is available and
  succeeds).  The parsed settings are written into the typed state record: a
  stored field of another shape (a selection that is not an array of strings,
  a panel flag that is not a boolean) would put a value of another type into
  React state, and the model stops there with \<open>None\<close>.
\<close>

type_synonym store = "string \<rightharpoonup> json"

definition settings_key :: string where
  "settings_key = ''appSettings''"

text \<open>The response of \<open>getItem(key)\<close>: \<open>{data: {success, value}}\<close>, the value
  \<open>null\<close> when the key is absent.\<close>

definition storage_get :: "store \<Rightarrow> string \<Rightarrow> json" where
  "storage_get st k =
     JObj [(''data'', JObj [(''success'', JBool True),
                            (''value'', case st k of Some v \<Rightarrow> v | None \<Rightarrow> JNull)])]"

definition storage_remove :: "string \<Rightarrow> store \<Rightarrow> store" where
  "storage_remove k st = st(k := None)"

definition storage_set :: "string \<Rightarrow> string \<Rightarrow> store \<Rightarrow> store" where
  "storage_set k v st = st(k \<mapsto> JStr v)"

subsection \<open>Loading\<close>

text \<open>\<open>response && response.data ? response.data.value : null\<close>\<close>

definition settings_value :: "json \<Rightarrow> json option" where
  "settings_value resp =
     (if js_truthy (Some resp) \<and> js_truthy (js_prop (Some resp) ''data'')
      then js_prop (js_prop (Some resp) ''data'') ''value'' else Some JNull)"

definition js_string_list :: "json \<Rightarrow> string list option" where
  "js_string_list v =
     (case v of
        JArr xs \<Rightarrow> those (map (\<lambda>x. case x of JStr s \<Rightarrow> Some s | _ \<Rightarrow> None) xs)
      | _ \<Rightarrow> None)"

definition js_bool :: "json \<Rightarrow> bool option" where
  "js_bool v = (case v of JBool b \<Rightarrow> Some b | _ \<Rightarrow> None)"

text \<open>The \<open>typeof p.k !== 'undefined'\<close> chain: the first present key.\<close>

fun first_defined :: "json \<Rightarrow> string list \<Rightarrow> json option" where
  "first_defined p [] = None"
| "first_defined p (k # ks) = (case js_get p k of Some v \<Rightarrow> Some v | None \<Rightarrow> first_defined p ks)"

text \<open>\<open>if (parsedSettings.selectedBoardIds) setSelectedBoardIds(...)\<close> and the
  same for the columns: a truthy field replaces the selection.\<close>

definition apply_selection :: "json \<Rightarrow> string \<Rightarrow> (string list \<Rightarrow> app \<Rightarrow> app) \<Rightarrow> app \<Rightarrow> app option" where
  "apply_selection p k upd a =
     (if js_truthy (js_get p k)
      then map_option (\<lambda>l. upd l a) (js_string_list (the (js_get p k)))
      else Some a)"

definition apply_settings :: "json \<Rightarrow> app \<Rightarrow> app option" where
  "apply_settings p a =
     (case apply_selection p ''selectedBoardIds'' (\<lambda>l a. a\<lparr>selected_board_ids := l\<rparr>) a of
        None \<Rightarrow> None
      | Some a1 \<Rightarrow>
          (case apply_selection p ''selectedColumnIds'' (\<lambda>l a. a\<lparr>selected_column_ids := l\<rparr>) a1 of
             None \<Rightarrow> None
           | Some a2 \<Rightarrow>
               (case first_defined p [''isDialogOpen'', ''isPopoverOpen'', ''isSidebarOpen''] of
                  None \<Rightarrow> Some a2
                | Some v \<Rightarrow> map_option (\<lambda>b. a2\<lparr>is_sidebar_open := b\<rparr>) (js_bool v))))"

text \<open>The whole effect.  A parse failure, and a parsed \<open>null\<close> (whose property
  read throws inside the inner \<open>try\<close>), remove the stored value; so does a
  stored value that is not a string; a rejected \<open>getItem\<close> sets the app
  error and removes it too.  \<open>finally\<close> clears \<open>isAppLoading\<close>.\<close>

definition load_settings :: "api_error + json \<Rightarrow> app \<Rightarrow> store \<Rightarrow> (app \<times> store) option" where
  "load_settings got a st =
     (let a0 = a\<lparr>is_app_loading := True, app_error := None\<rparr>;
          fin = (\<lambda>a'. a'\<lparr>is_app_loading := False\<rparr>)
      in case got of
           Inl err \<Rightarrow>
             Some (fin (a0\<lparr>app_error := Some (''Error loading settings: '' @ message err)\<rparr>),
                   storage_remove settings_key st)
         | Inr resp \<Rightarrow>
             (let v = settings_value resp in
              if \<not> js_truthy v then Some (fin a0, st)
              else (case the v of
                      JStr str \<Rightarrow>
                        (case json_parse str of
                           None \<Rightarrow> Some (fin a0, storage_remove settings_key st)
                         | Some JNull \<Rightarrow> Some (fin a0, storage_remove settings_key st)
                         | Some p \<Rightarrow> map_option (\<lambda>a'. (fin a', st)) (apply_settings p a0))
                    | _ \<Rightarrow> Some (fin a0, storage_remove settings_key st))))"

subsection \<open>Saving\<close>

text \<open>\<open>settingsToSave = {selectedBoardIds, selectedColumnIds, isSidebarOpen}\<close>\<close>

definition settings_json :: "app \<Rightarrow> json" where
  "settings_json a =
     JObj [(''selectedBoardIds'', JArr (map JStr (selected_board_ids a))),
           (''selectedColumnIds'', JArr (map JStr (selected_column_ids a))),
           (''isSidebarOpen'', JBool (is_sidebar_open a))]"

text \<open>The auto-save effect: nothing while the settings are loading, else
  \<open>setItem('appSettings', JSON.stringify(settingsToSave))\<close>.\<close>

definition save_settings :: "app \<Rightarrow> store \<Rightarrow> store" where
  "save_settings a st =
     (if \<not> is_app_loading a then storage_set settings_key (json_print (settings_json a)) st else st)"

subsection \<open>Lemmas\<close>

lemma js_string_list_JStrs [simp]: "js_string_list (JArr (map JStr l)) = Some l"
proof -
  have "those (map (\<lambda>x. case x of JStr s \<Rightarrow> Some s | _ \<Rightarrow> None) (map JStr l)) = Some l"
    by (induction l) auto
  then show ?thesis by (simp add: js_string_list_def)
qed

lemma settings_value_storage_get [simp]:
  "settings_value (storage_get st k) = Some (case st k of Some v \<Rightarrow> v | None \<Rightarrow> JNull)"
  by (simp add: settings_value_def storage_get_def js_prop_def js_truthy_def js_get_def)

text \<open>Reading back the object \<open>save\<close> writes sets the three fields.\<close>

lemma apply_settings_json [simp]:
  "apply_settings (settings_json a) b =
     Some (b\<lparr>selected_board_ids := selected_board_ids a, selected_column_ids := selected_column_ids a,
             is_sidebar_open := is_sidebar_open a\<rparr>)"
  by (simp add: apply_settings_def apply_selection_def settings_json_def js_get_def js_truthy_def js_bool_def)

lemma settings_json_not_null [simp]: "settings_json a \<noteq> JNull"
  by (simp add: settings_json_def)

text \<open>A stored string that parses to a non-null value is applied to the state
  and the store is left as it is.\<close>

lemma load_settings_parsed:
  assumes "st settings_key = Some (JStr str)" "str \<noteq> []" "json_parse str = Some p" "p \<noteq> JNull"
  shows "load_settings (Inr (storage_get st settings_key)) b st =
           map_option (\<lambda>a'. (a'\<lparr>is_app_loading := False\<rparr>, st))
             (apply_settings p (b\<lparr>is_app_loading := True, app_error := None\<rparr>))"
  using assms by (cases p) (simp_all add: load_settings_def js_truthy_def)

text \<open>Loading what the auto-save of \<open>a\<close> wrote restores the saved fields.\<close>

lemma load_settings_saved:
  assumes "\<not> is_app_loading a"
  shows "load_settings (Inr (storage_get (save_settings a st) settings_key)) b (save_settings a st) =
           Some (b\<lparr>is_app_loading := False, app_error := None,
                   selected_board_ids := selected_board_ids a, selected_column_ids := selected_column_ids a,
                   is_sidebar_open := is_sidebar_open a\<rparr>, save_settings a st)"
proof -
  have "save_settings a st settings_key = Some (JStr (json_print (settings_json a)))"
    using assms by (simp add: save_settings_def storage_set_def)
  from load_settings_parsed [of "save_settings a st" "json_print (settings_json a)" "settings_json a" b,
                             OF this json_print_ne json_parse_print settings_json_not_null]
  show ?thesis by simp
qed

text \<open>Claim C16.  Settings round trip: after the auto-save of a loaded state
  \<open>a\<close>, loading the store into any state restores the board selection, the
  column selection and the panel flag of \<open>a\<close>, clears the loading flag and the
  app error, and leaves the store as it is.\<close>

theorem settings_roundtrip:
  assumes "\<not> is_app_loading a"
  shows "load_settings (Inr (storage_get (save_settings a st) settings_key)) b (save_settings a st) =
           Some (b\<lparr>is_app_loading := False, app_error := None,
                   selected_board_ids := selected_board_ids a, selected_column_ids := selected_column_ids a,
                   is_sidebar_open := is_sidebar_open a\<rparr>, save_settings a st)"
  using assms by (rule load_settings_saved)

theorem settings_roundtrip_witness:
  "\<not> is_app_loading (initial_app\<lparr>is_app_loading := False, selected_board_ids := [''7''],
                                  selected_column_ids := [''status'', ''date''], is_sidebar_open := True\<rparr>)
   \<and> load_settings
       (Inr (storage_get (save_settings (initial_app\<lparr>is_app_loading := False, selected_board_ids := [''7''],
                                  selected_column_ids := [''status'', ''date''], is_sidebar_open := True\<rparr>) Map.empty)
                         settings_key))
       initial_app
       (save_settings (initial_app\<lparr>is_app_loading := False, selected_board_ids := [''7''],
                                  selected_column_ids := [''status'', ''date''], is_sidebar_open := True\<rparr>) Map.empty)
     = Some (initial_app\<lparr>is_app_loading := False, selected_board_ids := [''7''],
                         selected_column_ids := [''status'', ''date''], is_sidebar_open := True\<rparr>,
             save_settings (initial_app\<lparr>is_app_loading := False, selected_board_ids := [''7''],
                                  selected_column_ids := [''status'', ''date''], is_sidebar_open := True\<rparr>) Map.empty)"
  using settings_roundtrip
    [of "initial_app\<lparr>is_app_loading := False, selected_board_ids := [''7''],
                     selected_column_ids := [''status'', ''date''], is_sidebar_open := True\<rparr>"
        Map.empty initial_app]
  by (simp add: initial_app_def)

text \<open>Claim C17.  A stored value that is not valid JSON is discarded: the load
  leaves the selection at its current (default) values, sets no error, and
  removes the stored entry.\<close>

theorem settings_corrupted_discarded:
  assumes "st settings_key = Some (JStr str)" and "str \<noteq> []" and "json_parse str = None"
  shows "load_settings (Inr (storage_get st settings_key)) b st =
           Some (b\<lparr>is_app_loading := False, app_error := None\<rparr>, st(settings_key := None))"
  using assms by (simp add: load_settings_def js_truthy_def storage_remove_def)

theorem settings_corrupted_discarded_witness:
  "(Map.empty(settings_key \<mapsto> JStr ''{oops'')) settings_key = Some (JStr ''{oops'')
   \<and> ''{oops'' \<noteq> [] \<and> json_parse ''{oops'' = None
   \<and> load_settings (Inr (storage_get (Map.empty(settings_key \<mapsto> JStr ''{oops'')) settings_key)) initial_app
       (Map.empty(settings_key \<mapsto> JStr ''{oops''))
     = Some (initial_app\<lparr>is_app_loading := False\<rparr>, Map.empty)"
proof -
  have p: "json_parse ''{oops'' = None" by code_simp
  show ?thesis
    using settings_corrupted_discarded [of "Map.empty(settings_key \<mapsto> JStr ''{oops'')" "''{oops''" initial_app, OF _ _ p]
    by (simp add: p initial_app_def)
qed

text \<open>Claim C27.  An empty stored string is not valid JSON, but it is falsy,
  so the load treats it as absent settings and never removes it: the entry
  survives every load until the next save overwrites it.\<close>

theorem settings_empty_string_kept:
  assumes "st settings_key = Some (JStr [])"
  shows "load_settings (Inr (storage_get st settings_key)) b st =
           Some (b\<lparr>is_app_loading := False, app_error := None\<rparr>, st)
         \<and> json_parse [] = None"
proof -
  have "json_parse [] = None" by code_simp
  with assms show ?thesis by (simp add: load_settings_def js_truthy_def)
qed

theorem settings_empty_string_kept_witness:
  "(Map.empty(settings_key \<mapsto> JStr [])) settings_key = Some (JStr [])
   \<and> load_settings (Inr (storage_get (Map.empty(settings_key \<mapsto> JStr [])) settings_key)) initial_app
       (Map.empty(settings_key \<mapsto> JStr []))
     = Some (initial_app\<lparr>is_app_loading := False\<rparr>, Map.empty(settings_key \<mapsto> JStr []))"
  using settings_empty_string_kept [of "Map.empty(settings_key \<mapsto> JStr [])" initial_app]
  by (simp add: initial_app_def)

text \<open>The auto-save that follows a load of saved settings writes
  back exactly what is stored: loading and saving reach a fixed point after
  one save.\<close>

theorem settings_resave_stable:
  assumes "\<not> is_app_loading a"
    and "load_settings (Inr (storage_get (save_settings a st) settings_key)) b (save_settings a st) = Some (a', st')"
  shows "save_settings a' st' = st'"
proof -
  from load_settings_saved [OF assms(1), of st b] assms(2)
  have a': "a' = b\<lparr>is_app_loading := False, app_error := None,
                   selected_board_ids := selected_board_ids a, selected_column_ids := selected_column_ids a,
                   is_sidebar_open := is_sidebar_open a\<rparr>" and st': "st' = save_settings a st"
    by simp_all
  have "settings_json a' = settings_json a" by (simp add: a' settings_json_def)
  with assms(1) show ?thesis
    by (simp add: a' st' save_settings_def storage_set_def)
qed

theorem settings_resave_stable_witness:
  "\<not> is_app_loading (initial_app\<lparr>is_app_loading := False, selected_board_ids := [''7''],
                                  selected_column_ids := [''status''], is_sidebar_open := True\<rparr>)
   \<and> load_settings (Inr (storage_get (save_settings (initial_app\<lparr>is_app_loading := False, selected_board_ids := [''7''],
                                  selected_column_ids := [''status''], is_sidebar_open := True\<rparr>) Map.empty) settings_key))
       initial_app (save_settings (initial_app\<lparr>is_app_loading := False, selected_board_ids := [''7''],
                                  selected_column_ids := [''status''], is_sidebar_open := True\<rparr>) Map.empty)
     = Some (initial_app\<lparr>is_app_loading := False, selected_board_ids := [''7''],
                                  selected_column_ids := [''status''], is_sidebar_open := True\<rparr>, save_settings (initial_app\<lparr>is_app_loading := False, selected_board_ids := [''7''],
                                  selected_column_ids := [''status''], is_sidebar_open := True\<rparr>) Map.empty)
   \<and> save_settings (initial_app\<lparr>is_app_loading := False, selected_board_ids := [''7''],
                                  selected_column_ids := [''status''], is_sidebar_open := True\<rparr>) (save_settings (initial_app\<lparr>is_app_loading := False, selected_board_ids := [''7''],
                                  selected_column_ids := [''status''], is_sidebar_open := True\<rparr>) Map.empty)
     = save_settings (initial_app\<lparr>is_app_loading := False, selected_board_ids := [''7''],
                                  selected_column_ids := [''status''], is_sidebar_open := True\<rparr>) Map.empty"
proof -
  have l: "load_settings (Inr (storage_get (save_settings (initial_app\<lparr>is_app_loading := False, selected_board_ids := [''7''],
                                  selected_column_ids := [''status''], is_sidebar_open := True\<rparr>) Map.empty) settings_key))
       initial_app (save_settings (initial_app\<lparr>is_app_loading := False, selected_board_ids := [''7''],
                                  selected_column_ids := [''status''], is_sidebar_open := True\<rparr>) Map.empty)
     = Some (initial_app\<lparr>is_app_loading := False, selected_board_ids := [''7''],
                                  selected_column_ids := [''status''], is_sidebar_open := True\<rparr>, save_settings (initial_app\<lparr>is_app_loading := False, selected_board_ids := [''7''],
                                  selected_column_ids := [''status''], is_sidebar_open := True\<rparr>) Map.empty)"
    using load_settings_saved [of "initial_app\<lparr>is_app_loading := False, selected_board_ids := [''7''],
                                  selected_column_ids := [''status''], is_sidebar_open := True\<rparr>" Map.empty initial_app]
    by (simp add: initial_app_def)
  show ?thesis
    using settings_resave_stable [OF _ l] l by simp
qed

end
