(* ===== verification/Selection.thy ===== *)
theory Selection
  imports Retry Queries AppState
begin

text \<open>
  The selection handlers and column memos of App.jsx (src/unnamed/part_005,
  lines 293--449): the board and column toggles, select-all and deselect-all,
  the sidebar board list fetch, \<open>allAvailableColumnsForSelectedBoards\<close> (the
  columns of the selected boards, duplicates removed by id, first seen kept),
  \<open>columnsToDisplayInTable\<close> and \<open>toggleSidebar\<close>.  Toasts are not modelled.
  A handler that would store a value of another type than the state field's
  (a board id that is not a string) returns \<open>None\<close>; a memo that would throw
  during render (\<open>forEach\<close> of a non-array) returns \<open>None\<close>.
\<close>

subsection \<open>Toggles\<close>

text \<open>\<open>prev.includes(x) ? prev.filter(id => id !== x) : [...prev, x]\<close>, the
  updater of \<open>handleBoardToggle\<close> and \<open>handleColumnToggle\<close>.\<close>

definition toggle_id :: "string \<Rightarrow> string list \<Rightarrow> string list" where
  "toggle_id x prev = (if x \<in> set prev then filter (\<lambda>i. i \<noteq> x) prev else prev @ [x])"

definition handle_board_toggle :: "string \<Rightarrow> app \<Rightarrow> app" where
  "handle_board_toggle b a = a\<lparr>selected_board_ids := toggle_id b (selected_board_ids a)\<rparr>"

definition handle_column_toggle :: "string \<Rightarrow> app \<Rightarrow> app" where
  "handle_column_toggle c a = a\<lparr>selected_column_ids := toggle_id c (selected_column_ids a)\<rparr>"

definition handle_deselect_all_boards :: "app \<Rightarrow> app" where
  "handle_deselect_all_boards a = a\<lparr>selected_board_ids := []\<rparr>"

definition handle_deselect_all_columns :: "app \<Rightarrow> app" where
  "handle_deselect_all_columns a = a\<lparr>selected_column_ids := []\<rparr>"

subsection \<open>Board lists\<close>

text \<open>\<open>boards.map(board => board.id)\<close> into a state of string ids.\<close>

definition string_ids :: "json list \<Rightarrow> string list option" where
  "string_ids bs = those (map (\<lambda>b. case js_get b ''id'' of Some (JStr i) \<Rightarrow> Some i | _ \<Rightarrow> None) bs)"

text \<open>\<open>fetchBoardsForSidebarSelection\<close>: skipped while a fetch is running; a
  truthy \<open>data.boards\<close> is stored as the sidebar's board list.\<close>

definition fetch_boards_for_sidebar :: "json api \<Rightarrow> app \<Rightarrow> net \<Rightarrow> (app \<times> net) option" where
  "fetch_boards_for_sidebar api a s =
     (if fetching_available_boards a then Some (a, s)
      else
        (let a1 = a\<lparr>fetching_available_boards := True, available_boards_error := None\<rparr>;
             fin = (\<lambda>a'. a'\<lparr>fetching_available_boards := False\<rparr>)
         in case api_call api GET_BOARDS_QUERY s of
              (Inl e, s1) \<Rightarrow>
                Some (fin (a1\<lparr>available_boards_error := Some (''Error loading all boards: '' @ message e)\<rparr>), s1)
            | (Inr d, s1) \<Rightarrow>
                (let bs = js_prop (Some d) ''boards'' in
                 if \<not> js_truthy bs then Some (fin a1, s1)
                 else (case bs of
                         Some (JArr xs) \<Rightarrow> Some (fin (a1\<lparr>available_boards := xs\<rparr>), s1)
                       | _ \<Rightarrow> None))))"

text \<open>\<open>handleSelectAllBoards\<close>: with a known board list it selects its ids at
  once; otherwise it fetches the list under \<open>isLoadingColumns\<close>.  A truthy
  non-array \<open>data.boards\<close> makes \<open>map\<close> throw into the \<open>catch\<close> block.\<close>

definition handle_select_all_boards :: "json api \<Rightarrow> app \<Rightarrow> net \<Rightarrow> (app \<times> net) option" where
  "handle_select_all_boards api a s =
     (if available_boards a \<noteq> []
      then map_option (\<lambda>ids. (a\<lparr>selected_board_ids := ids\<rparr>, s)) (string_ids (available_boards a))
      else
        (let a1 = a\<lparr>is_loading_columns := True, available_boards_error := None\<rparr>;
             fin = (\<lambda>a'. a'\<lparr>is_loading_columns := False\<rparr>);
             fail = (\<lambda>m. fin (a1\<lparr>available_boards_error := Some (''Error selecting all boards: '' @ m)\<rparr>))
         in case api_call api GET_BOARDS_QUERY s of
              (Inl e, s1) \<Rightarrow> Some (fail (message e), s1)
            | (Inr d, s1) \<Rightarrow>
                (let bs = js_prop (Some d) ''boards'' in
                 if \<not> js_truthy bs then Some (fin a1, s1)
                 else (case bs of
                         Some (JArr xs) \<Rightarrow>
                           map_option (\<lambda>ids. (fin (a1\<lparr>selected_board_ids := ids, available_boards := xs\<rparr>), s1))
                             (string_ids xs)
                       | _ \<Rightarrow> Some (fail ''data.boards.map is not a function'', s1)))))"

subsection \<open>Columns\<close>

text \<open>\<open>if (!columnsMap.has(col.id)) columnsMap.set(col.id, col)\<close>: a map in
  insertion order, as an association list keyed by the (possibly absent) id.\<close>

fun add_columns :: "(json option \<times> json) list \<Rightarrow> json list \<Rightarrow> (json option \<times> json) list" where
  "add_columns m [] = m"
| "add_columns m (c # cs) =
     add_columns (if js_get c ''id'' \<in> fst ` set m then m else m @ [(js_get c ''id'', c)]) cs"

text \<open>\<open>allAvailableColumnsForSelectedBoards\<close>: the boards in selection order;
  a board without an entry or with falsy columns is skipped.\<close>

fun collect_columns :: "(string \<rightharpoonup> board_entry) \<Rightarrow> string list \<Rightarrow> (json option \<times> json) list
                        \<Rightarrow> (json option \<times> json) list option" where
  "collect_columns bd [] m = Some m"
| "collect_columns bd (b # bs) m =
     (case bd b of
        None \<Rightarrow> collect_columns bd bs m
      | Some e \<Rightarrow>
          if \<not> js_truthy (Some (entry_columns e)) then collect_columns bd bs m
          else (case entry_columns e of
                  JArr cs \<Rightarrow> collect_columns bd bs (add_columns m cs)
                | _ \<Rightarrow> None))"

definition all_available_columns :: "string list \<Rightarrow> (string \<rightharpoonup> board_entry) \<Rightarrow> json list option" where
  "all_available_columns sel bd = map_option (map snd) (collect_columns bd sel [])"

text \<open>The columns a board contributes to the memo (a reading aid for the
  lemmas: the columns array of its entry).\<close>

definition board_columns_list :: "(string \<rightharpoonup> board_entry) \<Rightarrow> string \<Rightarrow> json list" where
  "board_columns_list bd b =
     (case bd b of Some e \<Rightarrow> (case entry_columns e of JArr cs \<Rightarrow> cs | _ \<Rightarrow> []) | None \<Rightarrow> [])"

text \<open>\<open>handleSelectAllColumns\<close>\<close>

definition handle_select_all_columns :: "json list \<Rightarrow> app \<Rightarrow> app option" where
  "handle_select_all_columns cols a = map_option (\<lambda>ids. a\<lparr>selected_column_ids := ids\<rparr>) (string_ids cols)"

text \<open>\<open>columnsToDisplayInTable\<close>: the board-name and item-name columns, then
  the available columns whose id is selected.\<close>

definition board_name_column :: json where
  "board_name_column = JObj [(''id'', JStr ''board_name_column''), (''title'', JStr ''Board''),
                             (''type'', JStr ''board_name'')]"

definition item_name_column :: json where
  "item_name_column = JObj [(''id'', JStr ''item_name_column''), (''title'', JStr ''Task Name''),
                            (''type'', JStr ''item_name'')]"

definition selected_column :: "string list \<Rightarrow> json \<Rightarrow> bool" where
  "selected_column sel c = (case js_get c ''id'' of Some (JStr i) \<Rightarrow> i \<in> set sel | _ \<Rightarrow> False)"

definition columns_to_display :: "json list \<Rightarrow> string list \<Rightarrow> json list" where
  "columns_to_display cols sel = board_name_column # item_name_column # filter (selected_column sel) cols"

subsection \<open>The sidebar\<close>

text \<open>\<open>toggleSidebar\<close>: the flag flips, and opening it with no board list and
  no fetch running starts \<open>fetchBoardsForSidebarSelection\<close> (the second
  component).\<close>

definition toggle_sidebar :: "app \<Rightarrow> app \<times> bool" where
  "toggle_sidebar a =
     (let open' = \<not> is_sidebar_open a
      in (a\<lparr>is_sidebar_open := open'\<rparr>,
          open' \<and> available_boards a = [] \<and> \<not> fetching_available_boards a))"

subsection \<open>Lemmas\<close>

lemma set_toggle_id:
  "set (toggle_id x l) = (if x \<in> set l then set l - {x} else insert x (set l))"
  by (auto simp: toggle_id_def)

lemma distinct_toggle_id: "distinct l \<Longrightarrow> distinct (toggle_id x l)"
  by (simp add: toggle_id_def)

lemma toggle_id_twice:
  "distinct l \<Longrightarrow> toggle_id x (toggle_id x l) = (if x \<in> set l then filter (\<lambda>i. i \<noteq> x) l @ [x] else l)"
proof -
  assume "distinct l"
  have "filter (\<lambda>i. i \<noteq> x) (l @ [x]) = l" if "x \<notin> set l"
    using that by (auto simp: filter_id_conv)
  then show ?thesis by (auto simp: toggle_id_def)
qed

text \<open>The id a column is keyed by.\<close>

abbreviation col_id :: "json \<Rightarrow> json option" where
  "col_id c \<equiv> js_get c ''id''"

lemma add_columns_append: "add_columns m (xs @ ys) = add_columns (add_columns m xs) ys"
  by (induction m xs rule: add_columns.induct) auto

lemma add_columns_keys: "fst ` set (add_columns m xs) = fst ` set m \<union> col_id ` set xs"
  by (induction m xs rule: add_columns.induct) auto

lemma add_columns_distinct: "distinct (map fst m) \<Longrightarrow> distinct (map fst (add_columns m xs))"
  by (induction m xs rule: add_columns.induct) auto

lemma add_columns_keyed:
  "list_all (\<lambda>p. fst p = col_id (snd p)) m \<Longrightarrow> list_all (\<lambda>p. fst p = col_id (snd p)) (add_columns m xs)"
proof (induction m xs rule: add_columns.induct)
  case (2 m c cs)
  show ?case
  proof (cases "col_id c \<in> fst ` set m")
    case True
    with 2 show ?thesis by simp
  next
    case False
    with "2.prems" have "list_all (\<lambda>p. fst p = col_id (snd p)) (m @ [(col_id c, c)])" by simp
    with 2 False show ?thesis by simp
  qed
qed simp

text \<open>A column added to the map is the first of the input with its id.\<close>

lemma add_columns_first:
  "(k, c) \<in> set (add_columns m xs) \<Longrightarrow>
   (k, c) \<in> set m \<or> (k \<notin> fst ` set m \<and> find (\<lambda>d. col_id d = k) xs = Some c)"
proof (induction m xs rule: add_columns.induct)
  case (2 m d cs)
  show ?case
  proof (cases "col_id d \<in> fst ` set m")
    case True
    with "2.IH" "2.prems" have "(k, c) \<in> set m \<or> (k \<notin> fst ` set m \<and> find (\<lambda>d. col_id d = k) cs = Some c)"
      by simp
    with True show ?thesis by auto
  next
    case False
    with "2.IH" "2.prems" have "(k, c) \<in> set (m @ [(col_id d, d)])
        \<or> (k \<notin> fst ` set (m @ [(col_id d, d)]) \<and> find (\<lambda>d. col_id d = k) cs = Some c)"
      by simp
    with False show ?thesis by auto
  qed
qed simp

lemma collect_columns_concat:
  "collect_columns bd bs m = Some r \<Longrightarrow> r = add_columns m (concat (map (board_columns_list bd) bs))"
proof (induction bd bs m rule: collect_columns.induct)
  case (2 bd b bs m)
  show ?case
  proof (cases "bd b")
    case None
    with 2 show ?thesis by (simp add: board_columns_list_def)
  next
    case (Some e)
    show ?thesis
    proof (cases "entry_columns e")
      case (JArr cs)
      with 2 Some show ?thesis
        by (simp add: board_columns_list_def add_columns_append js_truthy_def)
    qed (use 2 Some in \<open>simp_all add: board_columns_list_def js_truthy_def split: if_splits\<close>)
  qed
qed simp

lemma keyed_map_fst:
  "list_all (\<lambda>p. fst p = col_id (snd p)) r \<Longrightarrow> map fst r = map col_id (map snd r)"
  by (induction r) auto

lemma string_ids_Some:
  "string_ids bs = Some ids \<Longrightarrow> \<forall>b\<in>set bs. \<exists>i. js_get b ''id'' = Some (JStr i) \<and> i \<in> set ids"
proof (induction bs arbitrary: ids)
  case (Cons b bs)
  then obtain i ids' where "js_get b ''id'' = Some (JStr i)" "string_ids bs = Some ids'" "ids = i # ids'"
    by (auto simp: string_ids_def split: option.splits json.splits)
  with Cons.IH show ?case by auto
qed simp

lemma string_ids_col_ids:
  "string_ids cs = Some ids \<Longrightarrow> map col_id cs = map (\<lambda>i. Some (JStr i)) ids"
proof (induction cs arbitrary: ids)
  case (Cons c cs)
  then obtain i ids' where "col_id c = Some (JStr i)" "string_ids cs = Some ids'" "ids = i # ids'"
    by (auto simp: string_ids_def split: option.splits json.splits)
  with Cons.IH show ?case by simp
qed (simp add: string_ids_def)

lemma string_ids_distinct:
  assumes "string_ids cs = Some ids" and "distinct (map col_id cs)"
  shows "distinct ids"
proof -
  from assms have "distinct (map (\<lambda>i. Some (JStr i)) ids)" by (simp add: string_ids_col_ids)
  then show ?thesis by (simp add: distinct_map inj_on_def)
qed

text \<open>The memo as the association list it is built from.\<close>

lemma all_available_columns_map:
  assumes "all_available_columns sel bd = Some cols"
  obtains r where "r = add_columns [] (concat (map (board_columns_list bd) sel))" and "cols = map snd r"
    and "list_all (\<lambda>p. fst p = col_id (snd p)) r" and "map fst r = map col_id cols"
proof -
  from assms obtain r where r: "collect_columns bd sel [] = Some r" and cols: "cols = map snd r"
    by (auto simp: all_available_columns_def)
  from collect_columns_concat [OF r] have r': "r = add_columns [] (concat (map (board_columns_list bd) sel))" .
  have k: "list_all (\<lambda>p. fst p = col_id (snd p)) r"
    unfolding r' by (rule add_columns_keyed) simp
  then have "map fst r = map col_id cols" unfolding cols by (rule keyed_map_fst)
  with that r' cols k show ?thesis by blast
qed

lemma all_available_columns_distinct:
  "all_available_columns sel bd = Some cols \<Longrightarrow> distinct (map col_id cols)"
  by (erule all_available_columns_map) (metis add_columns_distinct distinct.simps(1) list.simps(8))

text \<open>Claim C20.  Toggling a board refines the symmetric difference of the
  selection, read as a set, with that board, and keeps the selection free of
  duplicates.\<close>

theorem handle_board_toggle_set:
  assumes "distinct (selected_board_ids a)"
  shows "distinct (selected_board_ids (handle_board_toggle b a))
         \<and> set (selected_board_ids (handle_board_toggle b a)) =
             (if b \<in> set (selected_board_ids a) then set (selected_board_ids a) - {b}
              else insert b (set (selected_board_ids a)))"
  using assms by (simp add: handle_board_toggle_def distinct_toggle_id set_toggle_id)

theorem handle_board_toggle_set_witness:
  "distinct (selected_board_ids (initial_app\<lparr>selected_board_ids := [''1'', ''2'']\<rparr>))
   \<and> selected_board_ids (handle_board_toggle ''1'' (initial_app\<lparr>selected_board_ids := [''1'', ''2'']\<rparr>)) = [''2'']
   \<and> distinct (selected_board_ids (handle_board_toggle ''1'' (initial_app\<lparr>selected_board_ids := [''1'', ''2'']\<rparr>)))"
  using handle_board_toggle_set [of "initial_app\<lparr>selected_board_ids := [''1'', ''2'']\<rparr>" "''1''"]
  by (simp add: handle_board_toggle_def toggle_id_def)

text \<open>Toggling a selected board off and on again does not restore the
  selection: the board moves to the end, and with it its items move to the
  end of the aggregated list, whose order is the selection's.\<close>

theorem handle_board_toggle_twice:
  assumes "distinct (selected_board_ids a)" and "b \<in> set (selected_board_ids a)"
  shows "selected_board_ids (handle_board_toggle b (handle_board_toggle b a)) =
           filter (\<lambda>i. i \<noteq> b) (selected_board_ids a) @ [b]"
  using assms by (simp add: handle_board_toggle_def toggle_id_twice)

theorem handle_board_toggle_twice_witness:
  "distinct (selected_board_ids (initial_app\<lparr>selected_board_ids := [''1'', ''2'']\<rparr>))
   \<and> ''1'' \<in> set (selected_board_ids (initial_app\<lparr>selected_board_ids := [''1'', ''2'']\<rparr>))
   \<and> selected_board_ids (handle_board_toggle ''1'' (handle_board_toggle ''1''
       (initial_app\<lparr>selected_board_ids := [''1'', ''2'']\<rparr>))) = [''2'', ''1'']"
  using handle_board_toggle_twice [of "initial_app\<lparr>selected_board_ids := [''1'', ''2'']\<rparr>" "''1''"]
  by simp

text \<open>Claim C22.  The column list offered for selection has one column per id,
  covers every id of the selected boards' columns, and for each id keeps the
  column of the first selected board that has it (first seen wins).\<close>

theorem all_available_columns_first_seen:
  assumes "all_available_columns sel bd = Some cols"
  shows "distinct (map col_id cols)
         \<and> col_id ` set cols = col_id ` set (concat (map (board_columns_list bd) sel))
         \<and> (\<forall>c\<in>set cols. find (\<lambda>d. col_id d = col_id c) (concat (map (board_columns_list bd) sel)) = Some c)"
proof -
  let ?X = "concat (map (board_columns_list bd) sel)"
  obtain r where r': "r = add_columns [] ?X" and cols: "cols = map snd r"
    and "list_all (\<lambda>p. fst p = col_id (snd p)) r" and keys: "map fst r = map col_id cols"
    using assms by (rule all_available_columns_map)
  have "distinct (map col_id cols)" using assms by (rule all_available_columns_distinct)
  moreover have "fst ` set r = col_id ` set ?X" unfolding r' by (simp add: add_columns_keys)
  moreover have "find (\<lambda>d. col_id d = col_id c) ?X = Some c" if "c \<in> set cols" for c
  proof -
    from that obtain k where kc: "(k, c) \<in> set r" unfolding cols by auto
    with \<open>list_all (\<lambda>p. fst p = col_id (snd p)) r\<close> have "k = col_id c"
      by (auto simp: list_all_iff)
    with add_columns_first [of k c "[]" ?X] kc show ?thesis by (simp add: r')
  qed
  moreover have "fst ` set r = col_id ` set cols"
    using arg_cong [OF keys, of set] by simp
  ultimately show ?thesis by simp
qed

theorem all_available_columns_first_seen_witness:
  "all_available_columns [''1'', ''2''] [''1'' \<mapsto> \<lparr>entry_id = JStr ''1'', entry_name = Some (JStr ''A''),
                  entry_columns = JArr [JObj [(''id'', JStr ''status''), (''title'', JStr ''Status A'')]]\<rparr>,
          ''2'' \<mapsto> \<lparr>entry_id = JStr ''2'', entry_name = Some (JStr ''B''),
                  entry_columns = JArr [JObj [(''id'', JStr ''status''), (''title'', JStr ''Status B'')],
                                        JObj [(''id'', JStr ''date''), (''title'', JStr ''Due'')]]\<rparr>] =
     Some [JObj [(''id'', JStr ''status''), (''title'', JStr ''Status A'')],
           JObj [(''id'', JStr ''date''), (''title'', JStr ''Due'')]]
   \<and> find (\<lambda>d. col_id d = Some (JStr ''status''))
       (concat (map (board_columns_list [''1'' \<mapsto> \<lparr>entry_id = JStr ''1'', entry_name = Some (JStr ''A''),
                  entry_columns = JArr [JObj [(''id'', JStr ''status''), (''title'', JStr ''Status A'')]]\<rparr>,
          ''2'' \<mapsto> \<lparr>entry_id = JStr ''2'', entry_name = Some (JStr ''B''),
                  entry_columns = JArr [JObj [(''id'', JStr ''status''), (''title'', JStr ''Status B'')],
                                        JObj [(''id'', JStr ''date''), (''title'', JStr ''Due'')]]\<rparr>]) [''1'', ''2'']))
     = Some (JObj [(''id'', JStr ''status''), (''title'', JStr ''Status A'')])"
proof -
  have e: "all_available_columns [''1'', ''2''] [''1'' \<mapsto> \<lparr>entry_id = JStr ''1'', entry_name = Some (JStr ''A''),
                  entry_columns = JArr [JObj [(''id'', JStr ''status''), (''title'', JStr ''Status A'')]]\<rparr>,
          ''2'' \<mapsto> \<lparr>entry_id = JStr ''2'', entry_name = Some (JStr ''B''),
                  entry_columns = JArr [JObj [(''id'', JStr ''status''), (''title'', JStr ''Status B'')],
                                        JObj [(''id'', JStr ''date''), (''title'', JStr ''Due'')]]\<rparr>] =
     Some [JObj [(''id'', JStr ''status''), (''title'', JStr ''Status A'')],
           JObj [(''id'', JStr ''date''), (''title'', JStr ''Due'')]]"
    by code_simp
  have ci: "col_id (JObj [(''id'', JStr ''status''), (''title'', JStr ''Status A'')]) = Some (JStr ''status'')"
    by (simp add: js_get_def)
  from all_available_columns_first_seen [OF e]
  have "find (\<lambda>d. col_id d = col_id (JObj [(''id'', JStr ''status''), (''title'', JStr ''Status A'')]))
          (concat (map (board_columns_list [''1'' \<mapsto> \<lparr>entry_id = JStr ''1'', entry_name = Some (JStr ''A''),
                  entry_columns = JArr [JObj [(''id'', JStr ''status''), (''title'', JStr ''Status A'')]]\<rparr>,
          ''2'' \<mapsto> \<lparr>entry_id = JStr ''2'', entry_name = Some (JStr ''B''),
                  entry_columns = JArr [JObj [(''id'', JStr ''status''), (''title'', JStr ''Status B'')],
                                        JObj [(''id'', JStr ''date''), (''title'', JStr ''Due'')]]\<rparr>]) [''1'', ''2'']))
        = Some (JObj [(''id'', JStr ''status''), (''title'', JStr ''Status A'')])"
    by (simp only: list.set ball_simps)
  with e ci show ?thesis by simp
qed

text \<open>Claim C36.  After \<open>handleSelectAllColumns\<close> the table shows the
  board-name and item-name columns followed by every available column, in
  order.\<close>

theorem select_all_columns_displays_all:
  assumes "handle_select_all_columns cols a = Some a'"
  shows "columns_to_display cols (selected_column_ids a') = board_name_column # item_name_column # cols"
proof -
  from assms obtain ids where ids: "string_ids cols = Some ids" and a': "a' = a\<lparr>selected_column_ids := ids\<rparr>"
    by (auto simp: handle_select_all_columns_def)
  from string_ids_Some [OF ids] have "\<forall>c\<in>set cols. selected_column ids c"
    by (fastforce simp: selected_column_def)
  then show ?thesis by (simp add: columns_to_display_def a' filter_id_conv)
qed

theorem select_all_columns_displays_all_witness:
  "handle_select_all_columns [JObj [(''id'', JStr ''status'')]] initial_app
     = Some (initial_app\<lparr>selected_column_ids := [''status'']\<rparr>)
   \<and> columns_to_display [JObj [(''id'', JStr ''status'')]] [''status'']
     = [board_name_column, item_name_column, JObj [(''id'', JStr ''status'')]]"
proof -
  have e: "handle_select_all_columns [JObj [(''id'', JStr ''status'')]] initial_app
     = Some (initial_app\<lparr>selected_column_ids := [''status'']\<rparr>)"
    by (simp add: handle_select_all_columns_def string_ids_def js_get_def)
  from select_all_columns_displays_all [OF e] e show ?thesis by simp
qed

end
