(* ===== verification/Table.thy ===== *)
theory Table
  imports Json "HOL-Library.AList"
begin

text \<open>
  The state and the column metadata of the \<open>TaskTable\<close> component
  (src/unnamed/part_003, TaskTable.jsx): the \<open>useState\<close> fields the view
  computation and the editing handlers read, \<open>String(x)\<close> of a JSON value,
  \<open>getStatusColorStyle\<close> (lines 38--64) and \<open>columnsForTable\<close> (lines
  260--302) with the status options parsed from a column's \<open>settings_str\<close>.
  The order of \<open>Object.entries\<close> is the ECMAScript one: array-index keys in
  ascending numeric order, then the other keys in creation order.  Numbers are
  the exact decimals of Json.thy; \<open>String\<close> of a number is its shortest
  fixed-point decimal (the exponent forms JavaScript uses below \<open>1e-6\<close> and
  from \<open>1e21\<close> are not modelled).  Dialog, hover and focus state is
  presentation only and is not modelled.
\<close>

record table_state =
  editing_item_id :: "json option"
  edited_item_name :: string
  cached_users :: "string \<rightharpoonup> json"
  current_user_id :: "json option"
  sorting :: "(string \<times> json option) option"
  active_filters :: "(string \<times> string list) list"

definition initial_table :: table_state where
  "initial_table =
     \<lparr>editing_item_id = None, edited_item_name = [], cached_users = Map.empty,
      current_user_id = None, sorting = None, active_filters = []\<rparr>"

subsection \<open>\<open>String(x)\<close>\<close>

text \<open>The decimal of \<open>m * 10^e\<close>: no exponent, no trailing zeros after the
  point.\<close>

definition strip_zeros :: "string \<Rightarrow> string" where
  "strip_zeros s = rev (dropWhile (\<lambda>c. c = CHR ''0'') (rev s))"

definition js_number_string :: "int \<Rightarrow> int \<Rightarrow> string" where
  "js_number_string m e =
     (if 0 \<le> e then int_to_dec (m * 10 ^ nat e)
      else
        (let d = nat (- e); a = nat \<bar>m\<bar>; ip = a div 10 ^ d; fp = a mod 10 ^ d;
             digits = nat_to_dec fp;
             fs = strip_zeros (replicate (d - length digits) CHR ''0'' @ digits)
         in (if m < 0 then ''-'' else []) @ nat_to_dec ip @ (if fs = [] then [] else CHR ''.'' # fs)))"

text \<open>\<open>String(v)\<close>: an array is joined by commas with \<open>null\<close> elements empty.\<close>

fun js_string_val :: "json \<Rightarrow> string" where
  "js_string_val JNull = ''null''"
| "js_string_val (JBool b) = (if b then ''true'' else ''false'')"
| "js_string_val (JNum m e) = js_number_string m e"
| "js_string_val (JStr s) = s"
| "js_string_val (JArr vs) = join_with '','' (map (\<lambda>v. if v = JNull then [] else js_string_val v) vs)"
| "js_string_val (JObj kvs) = ''[object Object]''"

definition js_string :: "json option \<Rightarrow> string" where
  "js_string v = (case v of None \<Rightarrow> ''undefined'' | Some x \<Rightarrow> js_string_val x)"

subsection \<open>\<open>getStatusColorStyle\<close>\<close>

record status_style =
  st_background :: string
  st_color :: string
  st_border :: "string option"

definition get_status_color_style :: "json option \<Rightarrow> status_style" where
  "get_status_color_style statusText =
     (let s = js_lower (js_trim (js_string (if js_truthy statusText then statusText else Some (JStr ''''))))
      in if s = ''done'' \<or> s = ''completed''
         then \<lparr>st_background = ''#00c875'', st_color = ''#fff'', st_border = None\<rparr>
         else if s = ''working on it'' \<or> s = ''in progress'' \<or> s = ''working''
         then \<lparr>st_background = ''#fdab3d'', st_color = ''#fff'', st_border = None\<rparr>
         else if s = ''stuck'' \<or> s = ''blocked''
         then \<lparr>st_background = ''#e2445c'', st_color = ''#fff'', st_border = None\<rparr>
         else if s = ''not started'' \<or> s = ''ready''
         then \<lparr>st_background = ''#a1a1a1'', st_color = ''#fff'', st_border = None\<rparr>
         else if s = [] \<or> s = ''undefined'' \<or> s = ''null'' \<or> s = ''-''
         then \<lparr>st_background = ''#c4c4c4'', st_color = ''#323338'', st_border = Some ''1px solid #b0b0b0''\<rparr>
         else \<lparr>st_background = ''#e0e0e0'', st_color = ''#323338'', st_border = Some ''1px solid #d0d0d0''\<rparr>)"

subsection \<open>\<open>Object.entries\<close>\<close>

text \<open>A canonical array index: the decimal of a number below \<open>2^32 - 1\<close>.\<close>

definition is_array_index :: "string \<Rightarrow> bool" where
  "is_array_index k \<longleftrightarrow>
     k \<noteq> [] \<and> list_all is_digit k \<and> (k = ''0'' \<or> hd k \<noteq> CHR ''0'') \<and> digits_to_nat k < 2 ^ 32 - 1"

text \<open>The own properties of a parsed object: one per key, at the position the
  key was first created, with the last value assigned to it.\<close>

definition object_props :: "(string \<times> json) list \<Rightarrow> (string \<times> json) list" where
  "object_props kvs = map (\<lambda>k. (k, the (map_of (rev kvs) k))) (rev (remdups (rev (map fst kvs))))"

definition object_entries :: "(string \<times> json) list \<Rightarrow> (string \<times> json) list" where
  "object_entries kvs =
     (let ps = object_props kvs
      in sort_key (\<lambda>p. digits_to_nat (fst p)) (filter (\<lambda>p. is_array_index (fst p)) ps)
         @ filter (\<lambda>p. \<not> is_array_index (fst p)) ps)"

text \<open>\<open>Object.entries(v)\<close> of any non-null value: an array's indices, a
  string's characters, nothing for a number or a boolean.\<close>

definition js_entries :: "json \<Rightarrow> (string \<times> json) list" where
  "js_entries v =
     (case v of
        JObj kvs \<Rightarrow> object_entries kvs
      | JArr vs \<Rightarrow> map (\<lambda>(i, x). (nat_to_dec i, x)) (zip [0..<length vs] vs)
      | JStr s \<Rightarrow> map (\<lambda>(i, c). (nat_to_dec i, JStr [c])) (zip [0..<length s] s)
      | _ \<Rightarrow> [])"

subsection \<open>Status options and \<open>columnsForTable\<close>\<close>

record status_option =
  so_id :: string
  so_label :: json
  so_value :: json
  so_color :: json

definition clear_status_option :: status_option where
  "clear_status_option = \<lparr>so_id = ''clear'', so_label = JStr ''No status'', so_value = JStr [],
                          so_color = JStr ''#c4c4c4''\<rparr>"

text \<open>One option per label; the color is \<open>labels_colors[key]?.color\<close> when
  the settings have colors and it is truthy, else the style's background.\<close>

definition status_option_of :: "json \<Rightarrow> string \<times> json \<Rightarrow> status_option" where
  "status_option_of settings kv =
     (let (key, value) = kv;
          fallback = JStr (st_background (get_status_color_style (Some value)));
          lc = js_get settings ''labels_colors'';
          c = js_prop (js_prop lc key) ''color''
      in \<lparr>so_id = key, so_label = value, so_value = value,
          so_color = (if js_truthy lc then (if js_truthy c then the c else fallback) else fallback)\<rparr>)"

text \<open>The \<open>try\<close> block of \<open>columnsForTable\<close>: \<open>None\<close> when the settings do not
  parse (the \<open>catch\<close>) or have no truthy \<open>labels\<close>.\<close>

definition status_options_of :: "json option \<Rightarrow> status_option list option" where
  "status_options_of settings_str =
     (case json_parse (js_string settings_str) of
        None \<Rightarrow> None
      | Some st \<Rightarrow>
          if js_truthy (Some st) \<and> js_truthy (js_get st ''labels'')
          then Some (map (status_option_of st) (js_entries (the (js_get st ''labels''))) @ [clear_status_option])
          else None)"

record col_meta =
  cm_id :: "json option"
  cm_title :: "json option"
  cm_type :: "json option"
  cm_status_options :: "status_option list option"

definition column_data :: "json \<Rightarrow> col_meta" where
  "column_data col =
     \<lparr>cm_id = js_get col ''id'', cm_title = js_get col ''title'', cm_type = js_get col ''type'',
      cm_status_options =
        (if js_get col ''type'' = Some (JStr ''status'') \<and> js_truthy (js_get col ''settings_str'')
         then status_options_of (js_get col ''settings_str'') else None)\<rparr>"

definition virtual_columns :: "json list" where
  "virtual_columns =
     [JObj [(''id'', JStr ''item_name_column''), (''title'', JStr ''Task Name''), (''type'', JStr ''item_name'')],
      JObj [(''id'', JStr ''board_name_column''), (''title'', JStr ''Board''), (''type'', JStr ''board_link'')]]"

definition has_id :: "string \<Rightarrow> json \<Rightarrow> bool" where
  "has_id cid c \<longleftrightarrow> js_get c ''id'' = Some (JStr cid)"

definition ordered_column_metas :: "string list \<Rightarrow> json list \<Rightarrow> json list" where
  "ordered_column_metas columnIds allBoardColumns =
     List.map_filter
       (\<lambda>cid. case find (has_id cid) virtual_columns of
                Some vc \<Rightarrow> Some vc
              | None \<Rightarrow> find (has_id cid) allBoardColumns)
       columnIds"

definition columns_for_table :: "string list \<Rightarrow> json list \<Rightarrow> col_meta list" where
  "columns_for_table columnIds allBoardColumns = map column_data (ordered_column_metas columnIds allBoardColumns)"

end
