(* ===== verification/ViewFilter.thy ===== *)
theory ViewFilter
  imports Table
begin

text \<open>
  The filter half of \<open>filteredAndSortedBoardItems\<close> (src/unnamed/part_003,
  lines 454--534) and the filter and sort handlers of TaskTable.jsx (lines
  229--258).  \<open>activeFilters\<close> is an object from column ids to the selected
  values, as an association list updated in place (\<open>AList.update\<close>, the
  object spread) and deleted from (\<open>AList.delete\<close>).  An item passes when it
  passes the current-user filter and every per-column filter.  The column
  values of an item are read with \<open>item.column_values\<close>; the model reads a
  missing array as empty where the code would throw (the platform always
  returns the array the items query asks for).
\<close>

subsection \<open>Reading column values\<close>

definition item_cvs :: "json \<Rightarrow> json list" where
  "item_cvs item = (case js_get item ''column_values'' of Some (JArr cvs) \<Rightarrow> cvs | _ \<Rightarrow> [])"

text \<open>\<open>item.column_values.find(cv => cv.id === columnId)\<close>\<close>

definition cv_find :: "json \<Rightarrow> string \<Rightarrow> json option" where
  "cv_find item columnId = find (has_id columnId) (item_cvs item)"

text \<open>\<open>String(itemColumnValue ? itemColumnValue.text : '').trim()\<close> and its
  normalisation.\<close>

definition status_text :: "json option \<Rightarrow> string" where
  "status_text cv = js_trim (js_string (case cv of Some c \<Rightarrow> js_get c ''text'' | None \<Rightarrow> Some (JStr [])))"

definition normalize_status :: "string \<Rightarrow> string" where
  "normalize_status t = (if t = ''-'' \<or> t = ''undefined'' \<or> t = ''null'' \<or> t = [] then ''No status'' else t)"

text \<open>\<open>persons.filter(p => p.kind === 'person')\<close>, which throws on a \<open>null\<close>
  element.\<close>

definition filter_persons :: "json list \<Rightarrow> json list option" where
  "filter_persons xs =
     (if JNull \<in> set xs then None else Some (filter (\<lambda>p. js_get p ''kind'' = Some (JStr ''person'')) xs))"

text \<open>The persons of a parsed person value: its \<open>personsAndTeams\<close> array, or the
  value itself when it is an array, else none.\<close>

definition persons_of :: "json \<Rightarrow> json list option" where
  "persons_of pv =
     (case js_prop (Some pv) ''personsAndTeams'' of
        Some (JArr xs) \<Rightarrow> filter_persons xs
      | _ \<Rightarrow> (case pv of JArr xs \<Rightarrow> filter_persons xs | _ \<Rightarrow> Some []))"

text \<open>\<open>!cv || !cv.value || String(cv.value).trim() === ''\<close>\<close>

definition cv_value_blank :: "json option \<Rightarrow> bool" where
  "cv_value_blank cv =
     (case cv of
        None \<Rightarrow> True
      | Some c \<Rightarrow> \<not> js_truthy (js_get c ''value'') \<or> js_trim (js_string (js_get c ''value'')) = [])"

text \<open>\<open>JSON.parse(cv.value)\<close> and its persons; \<open>None\<close> is the \<open>catch\<close>.\<close>

definition parsed_persons :: "json \<Rightarrow> json list option" where
  "parsed_persons c = (case json_parse (js_string (js_get c ''value'')) of None \<Rightarrow> None | Some pv \<Rightarrow> persons_of pv)"

definition person_filter :: "json option \<Rightarrow> string list \<Rightarrow> bool" where
  "person_filter cv vals =
     (if cv_value_blank cv then ''No user'' \<in> set vals
      else (case parsed_persons (the cv) of
              None \<Rightarrow> False
            | Some ps \<Rightarrow> list_ex (\<lambda>p. js_truthy (js_get p ''id'') \<and> js_string (js_get p ''id'') \<in> set vals) ps))"

text \<open>\<open>String(cv ? (cv.display_value || cv.text || '') : '')\<close>\<close>

definition display_text :: "json option \<Rightarrow> string" where
  "display_text cv =
     js_string (case cv of
                  None \<Rightarrow> Some (JStr [])
                | Some c \<Rightarrow>
                    if js_truthy (js_get c ''display_value'') then js_get c ''display_value''
                    else if js_truthy (js_get c ''text'') then js_get c ''text'' else Some (JStr []))"

definition default_filter :: "json option \<Rightarrow> string list \<Rightarrow> bool" where
  "default_filter cv vals = list_ex (\<lambda>v. js_includes (js_trim (display_text cv)) v) vals"

subsection \<open>The filters\<close>

definition meta_type_is :: "col_meta \<Rightarrow> string \<Rightarrow> bool" where
  "meta_type_is m t \<longleftrightarrow> cm_type m = Some (JStr t)"

definition column_filter :: "col_meta list \<Rightarrow> json \<Rightarrow> string \<times> string list \<Rightarrow> bool" where
  "column_filter metas item f =
     (let (columnId, vals) = f
      in if columnId = ''current_user_filter'' then True
         else if vals = [] then True
         else (case find (\<lambda>m. cm_id m = Some (JStr columnId)) metas of
                 None \<Rightarrow> True
               | Some meta \<Rightarrow>
                   (let cv = cv_find item columnId
                    in if meta_type_is meta ''status'' then normalize_status (status_text cv) \<in> set vals
                       else if meta_type_is meta ''person'' \<or> meta_type_is meta ''people''
                       then person_filter cv vals
                       else default_filter cv vals)))"

text \<open>The current-user filter reads the column types from \<open>allBoardColumns\<close>.\<close>

definition mentions_user :: "json list \<Rightarrow> json \<Rightarrow> json \<Rightarrow> bool" where
  "mentions_user cols uid cv =
     (case find (\<lambda>col. js_get col ''id'' = js_get cv ''id'') cols of
        None \<Rightarrow> False
      | Some meta \<Rightarrow>
          (js_get meta ''type'' = Some (JStr ''person'') \<or> js_get meta ''type'' = Some (JStr ''people''))
          \<and> \<not> cv_value_blank (Some cv)
          \<and> (case parsed_persons cv of
               None \<Rightarrow> False
             | Some ps \<Rightarrow> list_ex (\<lambda>p. js_truthy (js_get p ''id'') \<and> js_string (js_get p ''id'') = js_string (Some uid)) ps))"

definition current_user_filter_on :: "(string \<times> string list) list \<Rightarrow> bool" where
  "current_user_filter_on fs =
     (case map_of fs ''current_user_filter'' of Some vs \<Rightarrow> ''true'' \<in> set vs | None \<Rightarrow> False)"

definition filter_by_current_user :: "json list \<Rightarrow> (string \<times> string list) list \<Rightarrow> json option \<Rightarrow> json list \<Rightarrow> json list" where
  "filter_by_current_user cols fs uid items =
     (if current_user_filter_on fs \<and> js_truthy uid
      then filter (\<lambda>it. list_ex (mentions_user cols (the uid)) (item_cvs it)) items else items)"

definition filter_items :: "col_meta list \<Rightarrow> json list \<Rightarrow> (string \<times> string list) list \<Rightarrow> json option
                            \<Rightarrow> json list \<Rightarrow> json list" where
  "filter_items metas cols fs uid items =
     filter (\<lambda>it. list_all (column_filter metas it) fs) (filter_by_current_user cols fs uid items)"

subsection \<open>Handlers\<close>

text \<open>\<open>handleFilterChange\<close>: \<open>{...prev, [columnId]: next}\<close>.\<close>

definition handle_filter_change :: "string \<Rightarrow> string \<Rightarrow> bool \<Rightarrow> table_state \<Rightarrow> table_state" where
  "handle_filter_change columnId value isChecked t =
     (let fs = active_filters t;
          cur = (case map_of fs columnId of Some l \<Rightarrow> l | None \<Rightarrow> [])
      in t\<lparr>active_filters :=
             AList.update columnId (if isChecked then cur @ [value] else filter (\<lambda>v. v \<noteq> value) cur) fs\<rparr>)"

definition handle_clear_filter :: "string \<Rightarrow> table_state \<Rightarrow> table_state" where
  "handle_clear_filter columnId t = t\<lparr>active_filters := AList.delete columnId (active_filters t)\<rparr>"

text \<open>\<open>onSort\<close>: \<open>setSorting({[columnId]: sortState})\<close> replaces any earlier key.\<close>

definition on_sort :: "string \<Rightarrow> json option \<Rightarrow> table_state \<Rightarrow> table_state" where
  "on_sort columnId sortState t = t\<lparr>sorting := Some (columnId, sortState)\<rparr>"

subsection \<open>The table's filter and sort state machine\<close>

text \<open>The handlers that change \<open>activeFilters\<close> and \<open>sorting\<close>, as steps from
  the first render's state.\<close>

inductive table_step :: "table_state \<Rightarrow> table_state \<Rightarrow> bool" where
  filter_change: "table_step t (handle_filter_change c v b t)"
| clear_filter: "table_step t (handle_clear_filter c t)"
| sort: "table_step t (on_sort c st t)"

inductive_cases table_step_cases: "table_step t t'"

definition table_reachable :: "table_state \<Rightarrow> bool" where
  "table_reachable t \<longleftrightarrow> table_step\<^sup>*\<^sup>* initial_table t"

subsection \<open>Lemmas\<close>

text \<open>Replacing the values of a key whose filter passes every item by deleting
  the key does not change the filter.\<close>

lemma list_all_update_passing:
  assumes "distinct (map fst fs)" and "P (c, vals)"
  shows "list_all P (AList.update c vals fs) = list_all P (AList.delete c fs)"
  using assms
proof (induction fs)
  case (Cons p ps)
  show ?case
  proof (cases "fst p = c")
    case True
    with Cons.prems(1) have "c \<notin> fst ` set ps" by auto
    then have "AList.delete c ps = ps" by (simp add: delete_id)
    with True Cons.prems(2) show ?thesis by (cases p) simp
  next
    case False
    with Cons show ?thesis by (cases p) simp
  qed
qed simp

lemma filter_items_Nil [simp]: "filter_items metas cols fs uid [] = []"
  by (simp add: filter_items_def filter_by_current_user_def)

lemma current_user_filter_on_update:
  "c \<noteq> ''current_user_filter'' \<Longrightarrow> current_user_filter_on (AList.update c vals fs) = current_user_filter_on fs"
  by (simp add: current_user_filter_on_def update_conv')

lemma current_user_filter_on_delete:
  "c \<noteq> ''current_user_filter'' \<Longrightarrow> current_user_filter_on (AList.delete c fs) = current_user_filter_on fs"
  by (simp add: current_user_filter_on_def delete_conv')

lemma filter_items_update_passing:
  assumes "distinct (map fst fs)" and "c \<noteq> ''current_user_filter''"
    and "\<And>it. column_filter metas it (c, vals)"
  shows "filter_items metas cols (AList.update c vals fs) uid items =
         filter_items metas cols (AList.delete c fs) uid items"
proof -
  have "list_all (column_filter metas it) (AList.update c vals fs) =
        list_all (column_filter metas it) (AList.delete c fs)" for it
    using list_all_update_passing [OF assms(1), of "column_filter metas it"] assms(3) by simp
  then show ?thesis
    using assms(2)
    by (simp add: filter_items_def filter_by_current_user_def current_user_filter_on_update
                  current_user_filter_on_delete)
qed

lemma has_id_JObj_id [simp]: "has_id c (JObj ((''id'', JStr i) # kvs)) \<longleftrightarrow> (js_get (JObj kvs) ''id'' = None \<and> i = c) \<or> js_get (JObj kvs) ''id'' = Some (JStr c)"
  by (auto simp: has_id_def js_get_JObj_Cons split: option.split)



text \<open>Claim C39.  A filter on a column that is not displayed is inert: the
  view is the one without it, and the handlers keep it (no pruning).\<close>

theorem hidden_column_filter_inert:
  assumes "distinct (map fst fs)" and "c \<noteq> ''current_user_filter''"
    and "find (\<lambda>m. cm_id m = Some (JStr c)) metas = None"
  shows "filter_items metas cols (AList.update c vals fs) uid items =
         filter_items metas cols (AList.delete c fs) uid items"
  using assms
  by (intro filter_items_update_passing) (auto simp: column_filter_def)

theorem hidden_column_filter_inert_witness:
  "distinct (map fst [(''person'', [''No user''])]) \<and> ''status'' \<noteq> ''current_user_filter''
   \<and> find (\<lambda>m. cm_id m = Some (JStr ''status'')) ([] :: col_meta list) = None
   \<and> filter_items [] [] (AList.update ''status'' [''Done''] [(''person'', [''No user''])]) None [JNull]
     = filter_items [] [] (AList.delete ''status'' [(''person'', [''No user''])]) None [JNull]"
  using hidden_column_filter_inert [of "[(''person'', [''No user''])]" "''status''" "[]" "[]" "[''Done'']" None "[JNull]"]
  by simp

text \<open>In every state the table reaches through its filter and sort
  handlers, \<open>activeFilters\<close> has at most one entry per column.\<close>

theorem table_reachable_filters_distinct:
  assumes "table_reachable t"
  shows "distinct (map fst (active_filters t))"
proof -
  have "table_step\<^sup>*\<^sup>* initial_table t" using assms by (simp add: table_reachable_def)
  then show ?thesis
  proof (induction rule: rtranclp_induct)
    case base
    then show ?case by (simp add: initial_table_def)
  next
    case (step t t')
    from step.hyps(2) step.IH show ?case
      by (cases rule: table_step.cases)
         (simp_all add: handle_filter_change_def handle_clear_filter_def on_sort_def Let_def
                        distinct_update distinct_delete)
  qed
qed

theorem table_reachable_filters_distinct_witness:
  "table_reachable (handle_filter_change ''status'' ''Done'' True (handle_filter_change ''status'' ''Stuck'' True initial_table))
   \<and> distinct (map fst (active_filters
       (handle_filter_change ''status'' ''Done'' True (handle_filter_change ''status'' ''Stuck'' True initial_table))))"
proof -
  have r: "table_reachable (handle_filter_change ''status'' ''Done'' True (handle_filter_change ''status'' ''Stuck'' True initial_table))"
    unfolding table_reachable_def
    by (meson rtranclp.rtrancl_into_rtrancl rtranclp.rtrancl_refl table_step.filter_change)
  from table_reachable_filters_distinct [OF r] r show ?thesis by simp
qed

text \<open>Checking a value in a column's filter and unchecking it again
  leaves the view as it was, whether or not the column had a filter before.\<close>

theorem filter_check_uncheck_view:
  assumes "distinct (map fst (active_filters t))" and "c \<noteq> ''current_user_filter''"
    and "v \<notin> set (case map_of (active_filters t) c of Some l \<Rightarrow> l | None \<Rightarrow> [])"
  shows "filter_items metas cols (active_filters (handle_filter_change c v False (handle_filter_change c v True t))) uid items
         = filter_items metas cols (active_filters t) uid items"
proof (cases "map_of (active_filters t) c")
  case None
  then have "active_filters (handle_filter_change c v False (handle_filter_change c v True t))
               = AList.update c [] (active_filters t)"
    by (simp add: handle_filter_change_def Let_def update_conv')
  moreover have "AList.delete c (active_filters t) = active_filters t"
    using None by (simp add: delete_id map_of_eq_None_iff)
  ultimately show ?thesis
    using filter_items_update_passing [OF assms(1,2), of metas "[]"]
    by (simp add: column_filter_def)
next
  case (Some l)
  with assms(3) have "filter (\<lambda>x. x \<noteq> v) (l @ [v]) = l" by (auto simp: filter_id_conv)
  with Some have "active_filters (handle_filter_change c v False (handle_filter_change c v True t))
               = AList.update c l (active_filters t)"
    by (simp add: handle_filter_change_def Let_def update_conv')
  also have "\<dots> = active_filters t"
    using Some assms(1) by (simp add: update_triv)
  finally show ?thesis by simp
qed

theorem filter_check_uncheck_view_witness:
  "distinct (map fst (active_filters initial_table)) \<and> ''status'' \<noteq> ''current_user_filter''
   \<and> ''Done'' \<notin> set (case map_of (active_filters initial_table) ''status'' of Some l \<Rightarrow> l | None \<Rightarrow> [])
   \<and> filter_items [] [] (active_filters (handle_filter_change ''status'' ''Done'' False
        (handle_filter_change ''status'' ''Done'' True initial_table))) None [JNull]
     = filter_items [] [] (active_filters initial_table) None [JNull]"
  using filter_check_uncheck_view [of initial_table "''status''" "''Done''" "[]" "[]" None "[JNull]"]
  by (simp add: initial_table_def)

text \<open>A person column whose value was explicitly emptied (a
  non-blank value with no persons, as the platform stores a cleared person
  column) matches no selection, not even \<open>No user\<close>.\<close>

theorem person_filter_emptied_value:
  assumes "\<not> cv_value_blank (Some c)" and "parsed_persons c = Some []"
  shows "\<not> person_filter (Some c) vals"
  using assms by (simp add: person_filter_def)

theorem person_filter_emptied_value_witness:
  \<open>\<not> cv_value_blank (Some (JObj [(''id'', JStr ''person''), (''value'', JStr ''{"personsAndTeams":[]}'')]))
   \<and> parsed_persons (JObj [(''id'', JStr ''person''), (''value'', JStr ''{"personsAndTeams":[]}'')]) = Some []
   \<and> \<not> person_filter (Some (JObj [(''id'', JStr ''person''), (''value'', JStr ''{"personsAndTeams":[]}'')])) [''No user'']\<close>
proof -
  have b: \<open>\<not> cv_value_blank (Some (JObj [(''id'', JStr ''person''), (''value'', JStr ''{"personsAndTeams":[]}'')]))\<close>
    by (simp add: cv_value_blank_def js_get_def js_truthy_def js_string_def js_trim_def js_is_space_def)
  have p: \<open>parsed_persons (JObj [(''id'', JStr ''person''), (''value'', JStr ''{"personsAndTeams":[]}'')]) = Some []\<close>
    by code_simp
  from person_filter_emptied_value [OF b p] b p show ?thesis by simp
qed

end
