(* ===== verification/ViewSort.thy ===== *)
theory ViewSort
  imports Complex_Main "HOL-Library.Multiset" "HOL-Library.List_Lexorder" "HOL-Library.Char_ord" ViewFilter
begin

text \<open>
  The sort half of \<open>filteredAndSortedBoardItems\<close> (src/unnamed/part_003,
  lines 537--618) and the whole memo.  The comparator is written pairwise, as
  the code computes it: for link and person columns a parse failure of either
  cell makes both sides fall back to their text.  Two runtime functions are
  parameters: \<open>lc\<close>, \<open>String.prototype.localeCompare\<close> with
  \<open>{numeric: true, sensitivity: 'base'}\<close>, and \<open>date_of\<close>, the time value
  of \<open>new Date(text)\<close> (\<open>None\<close> for an invalid date, whose \<open>getTime()\<close> is
  NaN).  Only the sign of a comparison matters to \<open>Array.prototype.sort\<close>
  (NaN counts as 0), so comparisons are -1, 0 or 1.  The sort is a stable
  insertion sort; for a comparator that is a total preorder every stable sort
  gives its result.  \<open>parseFloat\<close> reads the longest decimal prefix as an
  exact rational or an infinity (no rounding to doubles).
\<close>

subsection \<open>Numbers\<close>

datatype xnum = NegInf | Fin rat | PosInf

instantiation xnum :: linorder
begin

fun less_eq_xnum :: "xnum \<Rightarrow> xnum \<Rightarrow> bool" where
  "less_eq_xnum NegInf _ = True"
| "less_eq_xnum (Fin x) NegInf = False"
| "less_eq_xnum (Fin x) (Fin y) = (x \<le> y)"
| "less_eq_xnum (Fin x) PosInf = True"
| "less_eq_xnum PosInf y = (y = PosInf)"

definition less_xnum :: "xnum \<Rightarrow> xnum \<Rightarrow> bool" where
  "less_xnum x y \<longleftrightarrow> x \<le> y \<and> \<not> y \<le> x"

instance
proof
  fix x y z :: xnum
  show "x < y \<longleftrightarrow> x \<le> y \<and> \<not> y \<le> x" by (simp add: less_xnum_def)
  show "x \<le> x" by (cases x) simp_all
  show "x \<le> y \<Longrightarrow> y \<le> z \<Longrightarrow> x \<le> z" by (cases x; cases y; cases z) auto
  show "x \<le> y \<Longrightarrow> y \<le> x \<Longrightarrow> x = y" by (cases x; cases y) auto
  show "x \<le> y \<or> y \<le> x" by (cases x; cases y) auto
qed

end

text \<open>\<open>parseFloat(s)\<close>: white space, a sign, then \<open>Infinity\<close> or the longest
  prefix \<open>digits [. digits] [e [sign] digits]\<close> with at least one digit;
  \<open>None\<close> is NaN.\<close>

definition take_sign :: "string \<Rightarrow> bool \<times> string" where
  "take_sign s =
     (case s of
        c # r \<Rightarrow> if c = CHR ''-'' then (True, r) else if c = CHR ''+'' then (False, r) else (False, s)
      | [] \<Rightarrow> (False, s))"

definition scale10 :: "nat \<Rightarrow> int \<Rightarrow> rat" where
  "scale10 m k = (if 0 \<le> k then of_nat m * 10 ^ nat k else of_nat m / 10 ^ nat (- k))"

definition exp_part :: "string \<Rightarrow> int" where
  "exp_part s =
     (case s of
        c # t \<Rightarrow>
          if c = CHR ''e'' \<or> c = CHR ''E''
          then (let (neg, t1) = take_sign t; ds = takeWhile is_digit t1
                in if ds = [] then 0 else (if neg then -1 else 1) * int (digits_to_nat ds))
          else 0
      | [] \<Rightarrow> 0)"

definition js_parse_float :: "string \<Rightarrow> xnum option" where
  "js_parse_float s =
     (let (neg, r) = take_sign (dropWhile js_is_space s)
      in if take 8 r = ''Infinity'' then Some (if neg then NegInf else PosInf)
         else
           (let ip = takeWhile is_digit r; r1 = dropWhile is_digit r;
                (fp, r2) = (case r1 of
                              c # t \<Rightarrow> if c = CHR ''.'' then (takeWhile is_digit t, dropWhile is_digit t) else ([], r1)
                            | [] \<Rightarrow> ([], r1))
            in if ip = [] \<and> fp = [] then None
               else Some (Fin ((if neg then -1 else 1) *
                               scale10 (digits_to_nat (ip @ fp)) (exp_part r2 - int (length fp))))))"

text \<open>\<open>parseFloat(valueA) || 0\<close>: NaN and zero read as 0.\<close>

definition num_key :: "string \<Rightarrow> xnum" where
  "num_key s = (case js_parse_float s of None \<Rightarrow> Fin 0 | Some x \<Rightarrow> x)"

text \<open>Negation, the order reversal a descending sort applies to the keys.\<close>

fun xneg :: "xnum \<Rightarrow> xnum" where
  "xneg NegInf = PosInf"
| "xneg (Fin q) = Fin (- q)"
| "xneg PosInf = NegInf"

text \<open>The sign of \<open>a - b\<close> for two numbers, 0 for \<open>Infinity - Infinity\<close> (NaN).\<close>

definition cmp_of :: "'a::linorder \<Rightarrow> 'a \<Rightarrow> int" where
  "cmp_of x y = (if x < y then -1 else if x = y then 0 else 1)"

subsection \<open>The values a comparison reads\<close>

text \<open>\<open>v || ''\<close> read as a string.\<close>

definition str_or_empty :: "json option \<Rightarrow> string" where
  "str_or_empty v = js_string (if js_truthy v then v else Some (JStr []))"

text \<open>\<open>cv && cv.text ? new Date(cv.text) : new Date(0)\<close>\<close>

definition date_value :: "(string \<Rightarrow> int option) \<Rightarrow> json option \<Rightarrow> int option" where
  "date_value date_of cv =
     (case cv of
        Some c \<Rightarrow> if js_truthy (js_get c ''text'') then date_of (js_string (js_get c ''text'')) else Some 0
      | None \<Rightarrow> Some 0)"

text \<open>\<open>getTime() - getTime()\<close>: NaN when either date is invalid.\<close>

definition date_cmp :: "int option \<Rightarrow> int option \<Rightarrow> int" where
  "date_cmp x y = (case (x, y) of (Some a, Some b) \<Rightarrow> cmp_of a b | _ \<Rightarrow> 0)"

text \<open>\<open>cv && cv.value ? JSON.parse(cv.value) : null\<close>; \<open>None\<close> is a throw.\<close>

definition parse_cell :: "json option \<Rightarrow> json option option" where
  "parse_cell cv =
     (case cv of
        Some c \<Rightarrow> if js_truthy (js_get c ''value'') then map_option Some (json_parse (js_string (js_get c ''value'')))
                  else Some None
      | None \<Rightarrow> Some None)"

text \<open>\<open>cv?.text || ''\<close>, the fallback of the \<open>catch\<close> blocks.\<close>

definition text_or_empty :: "json option \<Rightarrow> string" where
  "text_or_empty cv = str_or_empty (case cv of Some c \<Rightarrow> js_get c ''text'' | None \<Rightarrow> None)"

text \<open>\<open>parsed?.url || parsed?.text || ''\<close>\<close>

definition link_string :: "json option \<Rightarrow> string" where
  "link_string p =
     (if js_truthy (js_prop p ''url'') then js_string (js_prop p ''url'') else str_or_empty (js_prop p ''text''))"

definition link_values :: "json option \<Rightarrow> json option \<Rightarrow> string \<times> string" where
  "link_values ca cb =
     (case (parse_cell ca, parse_cell cb) of
        (Some pa, Some pb) \<Rightarrow> (link_string pa, link_string pb)
      | _ \<Rightarrow> (text_or_empty ca, text_or_empty cb))"

text \<open>\<open>parsed && parsed.personsAndTeams ? parsed.personsAndTeams.filter(...) : []\<close>:
  \<open>filter\<close> of a truthy non-array throws.\<close>

definition sort_persons :: "json option \<Rightarrow> json list option" where
  "sort_persons p =
     (let pt = js_prop p ''personsAndTeams''
      in if \<not> js_truthy pt then Some []
         else (case pt of Some (JArr xs) \<Rightarrow> filter_persons xs | _ \<Rightarrow> None))"

text \<open>\<open>persons.length > 0 ? (cachedUsers[persons[0].id]?.name || '') : ''\<close>\<close>

definition person_name :: "(string \<rightharpoonup> json) \<Rightarrow> json list \<Rightarrow> string" where
  "person_name users ps =
     (case ps of
        [] \<Rightarrow> []
      | p # _ \<Rightarrow> str_or_empty (case users (js_string (js_get p ''id'')) of Some u \<Rightarrow> js_get u ''name'' | None \<Rightarrow> None))"

definition person_values :: "(string \<rightharpoonup> json) \<Rightarrow> json option \<Rightarrow> json option \<Rightarrow> string \<times> string" where
  "person_values users ca cb =
     (case (parse_cell ca, parse_cell cb) of
        (Some pa, Some pb) \<Rightarrow>
          (case (sort_persons pa, sort_persons pb) of
             (Some xs, Some ys) \<Rightarrow> (person_name users xs, person_name users ys)
           | _ \<Rightarrow> (text_or_empty ca, text_or_empty cb))
      | _ \<Rightarrow> (text_or_empty ca, text_or_empty cb))"

subsection \<open>The comparator and the sort\<close>

definition sort_compare :: "(string \<Rightarrow> string \<Rightarrow> int) \<Rightarrow> (string \<Rightarrow> int option) \<Rightarrow> (string \<rightharpoonup> json)
                            \<Rightarrow> string \<Rightarrow> col_meta \<Rightarrow> json \<Rightarrow> json \<Rightarrow> int" where
  "sort_compare lc date_of users cid meta a b =
     (if cid = ''item_name_column'' then lc (str_or_empty (js_get a ''name'')) (str_or_empty (js_get b ''name''))
      else if cid = ''board_name_column'' then lc (str_or_empty (js_get a ''boardName'')) (str_or_empty (js_get b ''boardName''))
      else
        (let ca = cv_find a cid; cb = cv_find b cid
         in if meta_type_is meta ''numbers'' then cmp_of (num_key (display_text ca)) (num_key (display_text cb))
            else if meta_type_is meta ''date'' then date_cmp (date_value date_of ca) (date_value date_of cb)
            else if meta_type_is meta ''link'' then case_prod lc (link_values ca cb)
            else if meta_type_is meta ''person'' \<or> meta_type_is meta ''people''
            then case_prod lc (person_values users ca cb)
            else lc (display_text ca) (display_text cb)))"

text \<open>A stable insertion sort: an element goes after every element it does not
  compare below.\<close>

fun ins_by :: "('a \<Rightarrow> 'a \<Rightarrow> int) \<Rightarrow> 'a \<Rightarrow> 'a list \<Rightarrow> 'a list" where
  "ins_by cmp x [] = [x]"
| "ins_by cmp x (y # ys) = (if cmp x y < 0 then x # y # ys else y # ins_by cmp x ys)"

definition sort_by :: "('a \<Rightarrow> 'a \<Rightarrow> int) \<Rightarrow> 'a list \<Rightarrow> 'a list" where
  "sort_by cmp xs = fold (ins_by cmp) xs []"

text \<open>The sort step of the memo: no sort without a truthy column id and order,
  or without the column's metadata; \<open>'asc'\<close> keeps the comparison, anything
  else negates it.\<close>

definition sort_items :: "(string \<Rightarrow> string \<Rightarrow> int) \<Rightarrow> (string \<Rightarrow> int option) \<Rightarrow> (string \<rightharpoonup> json)
                          \<Rightarrow> col_meta list \<Rightarrow> (string \<times> json option) option \<Rightarrow> json list \<Rightarrow> json list" where
  "sort_items lc date_of users metas srt items =
     (case srt of
        None \<Rightarrow> items
      | Some (cid, order) \<Rightarrow>
          if cid = [] \<or> \<not> js_truthy order then items
          else (case find (\<lambda>m. cm_id m = Some (JStr cid)) metas of
                  None \<Rightarrow> items
                | Some meta \<Rightarrow>
                    sort_by (\<lambda>a b. if order = Some (JStr ''asc'') then sort_compare lc date_of users cid meta a b
                                   else - sort_compare lc date_of users cid meta a b) items))"

text \<open>\<open>filteredAndSortedBoardItems\<close> for the table's props and state.\<close>

definition view_items :: "(string \<Rightarrow> string \<Rightarrow> int) \<Rightarrow> (string \<Rightarrow> int option) \<Rightarrow> string list \<Rightarrow> json list
                          \<Rightarrow> json list \<Rightarrow> table_state \<Rightarrow> json list" where
  "view_items lc date_of columnIds allBoardColumns boardItems t =
     (if boardItems = [] then []
      else (let metas = columns_for_table columnIds allBoardColumns
            in sort_items lc date_of (cached_users t) metas (sorting t)
                 (filter_items metas allBoardColumns (active_filters t) (current_user_id t) boardItems)))"

subsection \<open>Lemmas on the sort\<close>

lemma mset_ins_by [simp]: "mset (ins_by cmp x ys) = add_mset x (mset ys)"
  by (induction ys) auto

lemma set_ins_by [simp]: "set (ins_by cmp x ys) = insert x (set ys)"
  by (induction ys) auto

lemma mset_sort_by_fold: "mset (fold (ins_by cmp) xs acc) = mset xs + mset acc"
  by (induction xs arbitrary: acc) auto

lemma mset_sort_by [simp]: "mset (sort_by cmp xs) = mset xs"
  by (simp add: sort_by_def mset_sort_by_fold)

lemma cmp_of_neg [simp]: "cmp_of x y < 0 \<longleftrightarrow> x < y"
  by (simp add: cmp_of_def)

lemma cmp_of_swap: "- cmp_of x y = cmp_of y x"
  by (auto simp: cmp_of_def)

lemma xneg_less [simp]: "xneg x < xneg y \<longleftrightarrow> y < x"
  by (cases x; cases y) (auto simp: less_xnum_def)

lemma cmp_of_xneg: "cmp_of (xneg x) (xneg y) = cmp_of y x"
  by (cases x; cases y) (auto simp: cmp_of_def less_xnum_def)

text \<open>Inserting by a key comparator keeps the list sorted by the key and puts
  the new element after the elements with the same key.\<close>

lemma sorted_ins_by:
  "sorted (map f ys) \<Longrightarrow> sorted (map f (ins_by (\<lambda>a b. cmp_of (f a) (f b)) x ys))"
  by (induction ys) (auto simp: not_less)

lemma filter_ins_by:
  assumes "sorted (map f ys)"
  shows "filter (\<lambda>y. f y = k) (ins_by (\<lambda>a b. cmp_of (f a) (f b)) x ys) =
           filter (\<lambda>y. f y = k) ys @ (if f x = k then [x] else [])"
  using assms
proof (induction ys)
  case (Cons y ys)
  show ?case
  proof (cases "f x < f y")
    case True
    with Cons.prems have "\<forall>z\<in>set ys. f x < f z" by (auto intro: less_le_trans)
    then have "filter (\<lambda>z. f z = f x) ys = []" by (auto simp: filter_empty_conv)
    with True show ?thesis by auto
  next
    case False
    with Cons show ?thesis by auto
  qed
qed simp

lemma sort_by_key_fold:
  assumes "sorted (map f acc)"
  shows "sorted (map f (fold (ins_by (\<lambda>a b. cmp_of (f a) (f b))) xs acc))
         \<and> filter (\<lambda>y. f y = k) (fold (ins_by (\<lambda>a b. cmp_of (f a) (f b))) xs acc)
             = filter (\<lambda>y. f y = k) acc @ filter (\<lambda>y. f y = k) xs"
  using assms
  by (induction xs arbitrary: acc) (auto simp: sorted_ins_by filter_ins_by)

text \<open>A sort by a key comparator is the library's stable sort by the key.\<close>

lemma sort_by_key: "sort_by (\<lambda>a b. cmp_of (f a) (f b)) xs = sort_key f xs"
proof -
  let ?r = "sort_by (\<lambda>a b. cmp_of (f a) (f b)) xs"
  have s: "sorted (map f ?r)"
    using sort_by_key_fold [of f "[]" xs] by (simp add: sort_by_def)
  have "filter (\<lambda>x. f k = f x) ?r = filter (\<lambda>x. f k = f x) xs" for k
    using sort_by_key_fold [of f "[]" xs "f k"] by (simp add: sort_by_def eq_commute [of "f k"])
  with s show ?thesis
    by (intro properties_for_sort_key [symmetric]) simp_all
qed

text \<open>The comparator of a numbers column, in each direction, is a key comparator.\<close>

lemma sort_compare_numbers:
  assumes "meta_type_is meta ''numbers''" "cid \<noteq> ''item_name_column''" "cid \<noteq> ''board_name_column''"
  shows "sort_compare lc date_of users cid meta a b =
           cmp_of (num_key (display_text (cv_find a cid))) (num_key (display_text (cv_find b cid)))"
  using assms by (simp add: sort_compare_def)

lemma sort_items_with_meta:
  assumes "find (\<lambda>m. cm_id m = Some (JStr cid)) metas = Some meta" "cid \<noteq> []" "js_truthy order"
  shows "sort_items lc date_of users metas (Some (cid, order)) items =
           sort_by (\<lambda>a b. if order = Some (JStr ''asc'') then sort_compare lc date_of users cid meta a b
                          else - sort_compare lc date_of users cid meta a b) items"
  using assms by (simp add: sort_items_def)

text \<open>Claim C29.  Sorting a numbers column ascending is the stable sort of the
  items by \<open>parseFloat(text) || 0\<close>: non-numeric text counts as 0.\<close>

theorem sort_numbers_asc:
  assumes "find (\<lambda>m. cm_id m = Some (JStr cid)) metas = Some meta" and "meta_type_is meta ''numbers''"
    and "cid \<noteq> []" and "cid \<noteq> ''item_name_column''" and "cid \<noteq> ''board_name_column''"
  shows "sort_items lc date_of users metas (Some (cid, Some (JStr ''asc''))) items =
           sort_key (\<lambda>it. num_key (display_text (cv_find it cid))) items"
proof -
  have "sort_items lc date_of users metas (Some (cid, Some (JStr ''asc''))) items =
          sort_by (\<lambda>a b. cmp_of (num_key (display_text (cv_find a cid))) (num_key (display_text (cv_find b cid)))) items"
    using sort_items_with_meta [OF assms(1,3)] sort_compare_numbers [OF assms(2,4,5)]
    by (simp add: js_truthy_def)
  then show ?thesis by (simp add: sort_by_key)
qed

theorem sort_numbers_asc_witness:
  "find (\<lambda>m. cm_id m = Some (JStr ''numbers'')) [\<lparr>cm_id = Some (JStr ''numbers''), cm_title = Some (JStr ''Estimate''), cm_type = Some (JStr ''numbers''), cm_status_options = None\<rparr>] = Some (\<lparr>cm_id = Some (JStr ''numbers''), cm_title = Some (JStr ''Estimate''), cm_type = Some (JStr ''numbers''), cm_status_options = None\<rparr>)
   \<and> meta_type_is (\<lparr>cm_id = Some (JStr ''numbers''), cm_title = Some (JStr ''Estimate''), cm_type = Some (JStr ''numbers''), cm_status_options = None\<rparr>) ''numbers''
   \<and> sort_items cmp_of (\<lambda>s. None) Map.empty [\<lparr>cm_id = Some (JStr ''numbers''), cm_title = Some (JStr ''Estimate''), cm_type = Some (JStr ''numbers''), cm_status_options = None\<rparr>] (Some (''numbers'', Some (JStr ''asc'')))
       [JObj [(''id'', JStr ''a''), (''column_values'', JArr [JObj [(''id'', JStr ''numbers''), (''text'', JStr ''3'')]])],
        JObj [(''id'', JStr ''b''), (''column_values'', JArr [JObj [(''id'', JStr ''numbers''), (''text'', JStr ''abc'')]])],
        JObj [(''id'', JStr ''c''), (''column_values'', JArr [JObj [(''id'', JStr ''numbers''), (''text'', JStr ''1'')]])]]
     = [JObj [(''id'', JStr ''b''), (''column_values'', JArr [JObj [(''id'', JStr ''numbers''), (''text'', JStr ''abc'')]])],
        JObj [(''id'', JStr ''c''), (''column_values'', JArr [JObj [(''id'', JStr ''numbers''), (''text'', JStr ''1'')]])],
        JObj [(''id'', JStr ''a''), (''column_values'', JArr [JObj [(''id'', JStr ''numbers''), (''text'', JStr ''3'')]])]]"
proof -
  have m: "find (\<lambda>m. cm_id m = Some (JStr ''numbers'')) [\<lparr>cm_id = Some (JStr ''numbers''), cm_title = Some (JStr ''Estimate''), cm_type = Some (JStr ''numbers''), cm_status_options = None\<rparr>] = Some (\<lparr>cm_id = Some (JStr ''numbers''), cm_title = Some (JStr ''Estimate''), cm_type = Some (JStr ''numbers''), cm_status_options = None\<rparr>)"
    "meta_type_is (\<lparr>cm_id = Some (JStr ''numbers''), cm_title = Some (JStr ''Estimate''), cm_type = Some (JStr ''numbers''), cm_status_options = None\<rparr>) ''numbers''"
    by (simp_all add: meta_type_is_def)
  have k: "sort_key (\<lambda>it. num_key (display_text (cv_find it ''numbers'')))
       [JObj [(''id'', JStr ''a''), (''column_values'', JArr [JObj [(''id'', JStr ''numbers''), (''text'', JStr ''3'')]])],
        JObj [(''id'', JStr ''b''), (''column_values'', JArr [JObj [(''id'', JStr ''numbers''), (''text'', JStr ''abc'')]])],
        JObj [(''id'', JStr ''c''), (''column_values'', JArr [JObj [(''id'', JStr ''numbers''), (''text'', JStr ''1'')]])]]
     = [JObj [(''id'', JStr ''b''), (''column_values'', JArr [JObj [(''id'', JStr ''numbers''), (''text'', JStr ''abc'')]])],
        JObj [(''id'', JStr ''c''), (''column_values'', JArr [JObj [(''id'', JStr ''numbers''), (''text'', JStr ''1'')]])],
        JObj [(''id'', JStr ''a''), (''column_values'', JArr [JObj [(''id'', JStr ''numbers''), (''text'', JStr ''3'')]])]]"
    by code_simp
  show ?thesis
    using sort_numbers_asc [OF m, of "(cmp_of :: string \<Rightarrow> string \<Rightarrow> int)" "\<lambda>s. None" "Map.empty"] k m
    by simp
qed

text \<open>Sorting a numbers column descending is the stable sort by the
  negated key: items with equal numbers keep their input order, so the
  descending order is not the ascending one reversed.\<close>

theorem sort_numbers_desc:
  assumes "find (\<lambda>m. cm_id m = Some (JStr cid)) metas = Some meta" and "meta_type_is meta ''numbers''"
    and "cid \<noteq> []" and "cid \<noteq> ''item_name_column''" and "cid \<noteq> ''board_name_column''"
  shows "sort_items lc date_of users metas (Some (cid, Some (JStr ''desc''))) items =
           sort_key (\<lambda>it. xneg (num_key (display_text (cv_find it cid)))) items"
proof -
  have "sort_items lc date_of users metas (Some (cid, Some (JStr ''desc''))) items =
          sort_by (\<lambda>a b. cmp_of (xneg (num_key (display_text (cv_find a cid))))
                                (xneg (num_key (display_text (cv_find b cid))))) items"
    using sort_items_with_meta [OF assms(1,3)] sort_compare_numbers [OF assms(2,4,5)]
    by (simp add: js_truthy_def cmp_of_xneg cmp_of_swap)
  then show ?thesis by (simp add: sort_by_key)
qed

theorem sort_numbers_desc_witness:
  "find (\<lambda>m. cm_id m = Some (JStr ''numbers'')) [\<lparr>cm_id = Some (JStr ''numbers''), cm_title = Some (JStr ''Estimate''), cm_type = Some (JStr ''numbers''), cm_status_options = None\<rparr>] = Some (\<lparr>cm_id = Some (JStr ''numbers''), cm_title = Some (JStr ''Estimate''), cm_type = Some (JStr ''numbers''), cm_status_options = None\<rparr>)
   \<and> meta_type_is (\<lparr>cm_id = Some (JStr ''numbers''), cm_title = Some (JStr ''Estimate''), cm_type = Some (JStr ''numbers''), cm_status_options = None\<rparr>) ''numbers''
   \<and> sort_items cmp_of (\<lambda>s. None) Map.empty [\<lparr>cm_id = Some (JStr ''numbers''), cm_title = Some (JStr ''Estimate''), cm_type = Some (JStr ''numbers''), cm_status_options = None\<rparr>] (Some (''numbers'', Some (JStr ''desc'')))
       [JObj [(''id'', JStr ''x''), (''column_values'', JArr [JObj [(''id'', JStr ''numbers''), (''text'', JStr ''2'')]])], JObj [(''id'', JStr ''y''), (''column_values'', JArr [JObj [(''id'', JStr ''numbers''), (''text'', JStr ''1'')]])], JObj [(''id'', JStr ''z''), (''column_values'', JArr [JObj [(''id'', JStr ''numbers''), (''text'', JStr ''2'')]])]]
     = [JObj [(''id'', JStr ''x''), (''column_values'', JArr [JObj [(''id'', JStr ''numbers''), (''text'', JStr ''2'')]])], JObj [(''id'', JStr ''z''), (''column_values'', JArr [JObj [(''id'', JStr ''numbers''), (''text'', JStr ''2'')]])], JObj [(''id'', JStr ''y''), (''column_values'', JArr [JObj [(''id'', JStr ''numbers''), (''text'', JStr ''1'')]])]]"
proof -
  have m: "find (\<lambda>m. cm_id m = Some (JStr ''numbers'')) [\<lparr>cm_id = Some (JStr ''numbers''), cm_title = Some (JStr ''Estimate''), cm_type = Some (JStr ''numbers''), cm_status_options = None\<rparr>] = Some (\<lparr>cm_id = Some (JStr ''numbers''), cm_title = Some (JStr ''Estimate''), cm_type = Some (JStr ''numbers''), cm_status_options = None\<rparr>)"
    "meta_type_is (\<lparr>cm_id = Some (JStr ''numbers''), cm_title = Some (JStr ''Estimate''), cm_type = Some (JStr ''numbers''), cm_status_options = None\<rparr>) ''numbers''"
    by (simp_all add: meta_type_is_def)
  have k: "sort_key (\<lambda>it. xneg (num_key (display_text (cv_find it ''numbers''))))
       [JObj [(''id'', JStr ''x''), (''column_values'', JArr [JObj [(''id'', JStr ''numbers''), (''text'', JStr ''2'')]])], JObj [(''id'', JStr ''y''), (''column_values'', JArr [JObj [(''id'', JStr ''numbers''), (''text'', JStr ''1'')]])], JObj [(''id'', JStr ''z''), (''column_values'', JArr [JObj [(''id'', JStr ''numbers''), (''text'', JStr ''2'')]])]]
     = [JObj [(''id'', JStr ''x''), (''column_values'', JArr [JObj [(''id'', JStr ''numbers''), (''text'', JStr ''2'')]])], JObj [(''id'', JStr ''z''), (''column_values'', JArr [JObj [(''id'', JStr ''numbers''), (''text'', JStr ''2'')]])], JObj [(''id'', JStr ''y''), (''column_values'', JArr [JObj [(''id'', JStr ''numbers''), (''text'', JStr ''1'')]])]]"
    by code_simp
  show ?thesis
    using sort_numbers_desc [OF m, of "(cmp_of :: string \<Rightarrow> string \<Rightarrow> int)" "\<lambda>s. None" "Map.empty"] k m
    by simp
qed

text \<open>Claim C31.  In a date column an item whose date does not parse compares
  equal to every item, in both directions: the comparator is not a total
  preorder (it ties an invalid date with two dates it orders), so the position
  of such an item depends on the input order.\<close>

theorem date_sort_invalid_ties:
  assumes "meta_type_is meta ''date''" and "cid \<noteq> ''item_name_column''" and "cid \<noteq> ''board_name_column''"
    and "date_value date_of (cv_find c cid) = None"
  shows "sort_compare lc date_of users cid meta c x = 0 \<and> sort_compare lc date_of users cid meta x c = 0"
  using assms by (simp add: sort_compare_def meta_type_is_def date_cmp_def split: option.split)

theorem date_sort_invalid_ties_witness:
  "meta_type_is (\<lparr>cm_id = Some (JStr ''due''), cm_title = Some (JStr ''Due''), cm_type = Some (JStr ''date''), cm_status_options = None\<rparr>) ''date''
   \<and> date_value (\<lambda>s. if s = ''2023-01-01'' then Some 1672531200000 else if s = ''2024-01-01'' then Some 1704067200000 else if s = ''1969-07-20'' then Some (-14256000000) else None) (cv_find (JObj [(''id'', JStr ''c''), (''column_values'', JArr [JObj [(''id'', JStr ''due''), (''text'', JStr ''soon'')]])]) ''due'') = None
   \<and> sort_compare cmp_of (\<lambda>s. if s = ''2023-01-01'' then Some 1672531200000 else if s = ''2024-01-01'' then Some 1704067200000 else if s = ''1969-07-20'' then Some (-14256000000) else None) Map.empty ''due'' (\<lparr>cm_id = Some (JStr ''due''), cm_title = Some (JStr ''Due''), cm_type = Some (JStr ''date''), cm_status_options = None\<rparr>)
       (JObj [(''id'', JStr ''a''), (''column_values'', JArr [JObj [(''id'', JStr ''due''), (''text'', JStr ''2023-01-01'')]])]) (JObj [(''id'', JStr ''b''), (''column_values'', JArr [JObj [(''id'', JStr ''due''), (''text'', JStr ''2024-01-01'')]])]) = -1
   \<and> sort_compare cmp_of (\<lambda>s. if s = ''2023-01-01'' then Some 1672531200000 else if s = ''2024-01-01'' then Some 1704067200000 else if s = ''1969-07-20'' then Some (-14256000000) else None) Map.empty ''due'' (\<lparr>cm_id = Some (JStr ''due''), cm_title = Some (JStr ''Due''), cm_type = Some (JStr ''date''), cm_status_options = None\<rparr>)
       (JObj [(''id'', JStr ''c''), (''column_values'', JArr [JObj [(''id'', JStr ''due''), (''text'', JStr ''soon'')]])]) (JObj [(''id'', JStr ''a''), (''column_values'', JArr [JObj [(''id'', JStr ''due''), (''text'', JStr ''2023-01-01'')]])]) = 0
   \<and> sort_compare cmp_of (\<lambda>s. if s = ''2023-01-01'' then Some 1672531200000 else if s = ''2024-01-01'' then Some 1704067200000 else if s = ''1969-07-20'' then Some (-14256000000) else None) Map.empty ''due'' (\<lparr>cm_id = Some (JStr ''due''), cm_title = Some (JStr ''Due''), cm_type = Some (JStr ''date''), cm_status_options = None\<rparr>)
       (JObj [(''id'', JStr ''b''), (''column_values'', JArr [JObj [(''id'', JStr ''due''), (''text'', JStr ''2024-01-01'')]])]) (JObj [(''id'', JStr ''c''), (''column_values'', JArr [JObj [(''id'', JStr ''due''), (''text'', JStr ''soon'')]])]) = 0"
proof -
  have m: "meta_type_is (\<lparr>cm_id = Some (JStr ''due''), cm_title = Some (JStr ''Due''), cm_type = Some (JStr ''date''), cm_status_options = None\<rparr>) ''date''" by (simp add: meta_type_is_def)
  have c: "date_value (\<lambda>s. if s = ''2023-01-01'' then Some 1672531200000 else if s = ''2024-01-01'' then Some 1704067200000 else if s = ''1969-07-20'' then Some (-14256000000) else None) (cv_find (JObj [(''id'', JStr ''c''), (''column_values'', JArr [JObj [(''id'', JStr ''due''), (''text'', JStr ''soon'')]])]) ''due'') = None"
    by code_simp
  have ab: "sort_compare cmp_of (\<lambda>s. if s = ''2023-01-01'' then Some 1672531200000 else if s = ''2024-01-01'' then Some 1704067200000 else if s = ''1969-07-20'' then Some (-14256000000) else None) Map.empty ''due'' (\<lparr>cm_id = Some (JStr ''due''), cm_title = Some (JStr ''Due''), cm_type = Some (JStr ''date''), cm_status_options = None\<rparr>)
       (JObj [(''id'', JStr ''a''), (''column_values'', JArr [JObj [(''id'', JStr ''due''), (''text'', JStr ''2023-01-01'')]])]) (JObj [(''id'', JStr ''b''), (''column_values'', JArr [JObj [(''id'', JStr ''due''), (''text'', JStr ''2024-01-01'')]])]) = -1"
    by code_simp
  from date_sort_invalid_ties [OF m _ _ c, of cmp_of Map.empty "JObj [(''id'', JStr ''a''), (''column_values'', JArr [JObj [(''id'', JStr ''due''), (''text'', JStr ''2023-01-01'')]])]"]
       date_sort_invalid_ties [OF m _ _ c, of cmp_of Map.empty "JObj [(''id'', JStr ''b''), (''column_values'', JArr [JObj [(''id'', JStr ''due''), (''text'', JStr ''2024-01-01'')]])]"] m c ab
  show ?thesis by simp
qed

text \<open>Claim C32.  An item with no date in a date column sorts as the epoch
  (\<open>new Date(0)\<close>), not as the lowest value: ascending, it comes after any
  item dated before 1970.\<close>

theorem date_sort_absent_is_epoch:
  assumes "meta_type_is meta ''date''" and "cid \<noteq> ''item_name_column''" and "cid \<noteq> ''board_name_column''"
    and "cv_find a cid = None" and "date_value date_of (cv_find b cid) = Some t" and "t < 0"
  shows "sort_compare lc date_of users cid meta a b = 1"
  using assms by (simp add: sort_compare_def meta_type_is_def date_cmp_def date_value_def cmp_of_def)

theorem date_sort_absent_is_epoch_witness:
  "meta_type_is (\<lparr>cm_id = Some (JStr ''due''), cm_title = Some (JStr ''Due''), cm_type = Some (JStr ''date''), cm_status_options = None\<rparr>) ''date''
   \<and> cv_find (JObj [(''id'', JStr ''n'')]) ''due'' = None
   \<and> date_value (\<lambda>s. if s = ''2023-01-01'' then Some 1672531200000 else if s = ''2024-01-01'' then Some 1704067200000 else if s = ''1969-07-20'' then Some (-14256000000) else None) (cv_find (JObj [(''id'', JStr ''m''), (''column_values'', JArr [JObj [(''id'', JStr ''due''), (''text'', JStr ''1969-07-20'')]])]) ''due'') = Some (-14256000000)
   \<and> sort_compare cmp_of (\<lambda>s. if s = ''2023-01-01'' then Some 1672531200000 else if s = ''2024-01-01'' then Some 1704067200000 else if s = ''1969-07-20'' then Some (-14256000000) else None) Map.empty ''due'' (\<lparr>cm_id = Some (JStr ''due''), cm_title = Some (JStr ''Due''), cm_type = Some (JStr ''date''), cm_status_options = None\<rparr>)
       (JObj [(''id'', JStr ''n'')]) (JObj [(''id'', JStr ''m''), (''column_values'', JArr [JObj [(''id'', JStr ''due''), (''text'', JStr ''1969-07-20'')]])]) = 1"
proof -
  have m: "meta_type_is (\<lparr>cm_id = Some (JStr ''due''), cm_title = Some (JStr ''Due''), cm_type = Some (JStr ''date''), cm_status_options = None\<rparr>) ''date''" by (simp add: meta_type_is_def)
  have n: "cv_find (JObj [(''id'', JStr ''n'')]) ''due'' = None" by code_simp
  have d: "date_value (\<lambda>s. if s = ''2023-01-01'' then Some 1672531200000 else if s = ''2024-01-01'' then Some 1704067200000 else if s = ''1969-07-20'' then Some (-14256000000) else None) (cv_find (JObj [(''id'', JStr ''m''), (''column_values'', JArr [JObj [(''id'', JStr ''due''), (''text'', JStr ''1969-07-20'')]])]) ''due'') = Some (-14256000000)"
    by code_simp
  from date_sort_absent_is_epoch [OF m _ _ n d, of cmp_of Map.empty] m n d show ?thesis by simp
qed

text \<open>Claim C33.  In a link column, as soon as either cell's value does not
  parse, the comparison uses the texts of both cells, also the one whose
  value parsed (the shared \<open>catch\<close> block): an item's sort key depends on
  the item it is compared with, so the comparator is not transitive (the
  witness: with the lexicographic order, \<open>a\<close> after \<open>b\<close> by URLs, \<open>b\<close>
  after \<open>c\<close> and \<open>a\<close> before \<open>c\<close> by texts).\<close>

theorem link_sort_text_fallback:
  assumes "meta_type_is meta ''link''" and "cid \<noteq> ''item_name_column''" and "cid \<noteq> ''board_name_column''"
    and "parse_cell (cv_find a cid) = None \<or> parse_cell (cv_find b cid) = None"
  shows "sort_compare lc date_of users cid meta a b = lc (text_or_empty (cv_find a cid)) (text_or_empty (cv_find b cid))"
  using assms by (auto simp: sort_compare_def meta_type_is_def link_values_def Let_def split: option.splits)

theorem link_sort_text_fallback_witness:
  \<open>let meta = \<lparr>cm_id = Some (JStr ''site''), cm_title = Some (JStr ''Site''), cm_type = Some (JStr ''link''), cm_status_options = None\<rparr>;
       a = JObj [(''id'', JStr ''a''), (''column_values'', JArr [JObj [(''id'', JStr ''site''), (''text'', JStr ''a''), (''value'', JStr ''{"url":"z"}'')]])];
       b = JObj [(''id'', JStr ''b''), (''column_values'', JArr [JObj [(''id'', JStr ''site''), (''text'', JStr ''c''), (''value'', JStr ''{"url":"m"}'')]])];
       c = JObj [(''id'', JStr ''c''), (''column_values'', JArr [JObj [(''id'', JStr ''site''), (''text'', JStr ''b''), (''value'', JStr ''{bad'')]])]
   in parse_cell (cv_find c ''site'') = None
      \<and> sort_compare cmp_of (\<lambda>_. None) Map.empty ''site'' meta a b = 1
      \<and> sort_compare cmp_of (\<lambda>_. None) Map.empty ''site'' meta b c = 1
      \<and> sort_compare cmp_of (\<lambda>_. None) Map.empty ''site'' meta a c = -1\<close>
proof -
  define meta where "meta = \<lparr>cm_id = Some (JStr ''site''), cm_title = Some (JStr ''Site''), cm_type = Some (JStr ''link''), cm_status_options = None\<rparr>"
  define a where \<open>a = JObj [(''id'', JStr ''a''), (''column_values'', JArr [JObj [(''id'', JStr ''site''), (''text'', JStr ''a''), (''value'', JStr ''{"url":"z"}'')]])]\<close>
  define b where \<open>b = JObj [(''id'', JStr ''b''), (''column_values'', JArr [JObj [(''id'', JStr ''site''), (''text'', JStr ''c''), (''value'', JStr ''{"url":"m"}'')]])]\<close>
  define c where \<open>c = JObj [(''id'', JStr ''c''), (''column_values'', JArr [JObj [(''id'', JStr ''site''), (''text'', JStr ''b''), (''value'', JStr ''{bad'')]])]\<close>
  have m: "meta_type_is meta ''link''" by (simp add: meta_def meta_type_is_def)
  have pc: "parse_cell (cv_find c ''site'') = None" unfolding c_def by code_simp
  have ab: "sort_compare cmp_of (\<lambda>_. None) Map.empty ''site'' meta a b = 1" unfolding a_def b_def meta_def by code_simp
  have tb: "text_or_empty (cv_find b ''site'') = ''c''" and tc: "text_or_empty (cv_find c ''site'') = ''b''"
    and ta: "text_or_empty (cv_find a ''site'') = ''a''"
    unfolding a_def b_def c_def by code_simp+
  from link_sort_text_fallback [where a = b and lc = cmp_of and date_of = "\<lambda>_. None" and users = Map.empty, OF m _ _ disjI2 [OF pc]] tb tc
  have bc: "sort_compare cmp_of (\<lambda>_. None) Map.empty ''site'' meta b c = 1" by (simp add: cmp_of_def)
  from link_sort_text_fallback [where a = a and lc = cmp_of and date_of = "\<lambda>_. None" and users = Map.empty, OF m _ _ disjI2 [OF pc]] ta tc
  have ac: "sort_compare cmp_of (\<lambda>_. None) Map.empty ''site'' meta a c = -1" by (simp add: cmp_of_def)
  from pc ab bc ac show ?thesis unfolding Let_def meta_def a_def b_def c_def by blast
qed

text \<open>Whatever the comparator does, the view is a permutation of
  the filtered items: sorting never loses, duplicates or invents a row.\<close>

theorem view_items_permutation:
  "mset (view_items lc date_of columnIds cols items t) =
   mset (filter_items (columns_for_table columnIds cols) cols (active_filters t) (current_user_id t) items)"
  unfolding view_items_def sort_items_def by (simp add: Let_def split: option.split prod.split)

text \<open>With no active sort the view is the filtered items in their input order:
  board by board in selection order, each board's items in the order fetched.\<close>

lemma view_items_unsorted:
  assumes "sorting t = None"
  shows "view_items lc date_of columnIds cols items t =
         filter_items (columns_for_table columnIds cols) cols (active_filters t) (current_user_id t) items"
  using assms by (simp add: view_items_def sort_items_def filter_items_def filter_by_current_user_def Let_def)

end
