(* ===== verification/Refresh.thy ===== *)
theory Refresh
  imports Aggregation
begin

text \<open>
  The refresh machinery of App.jsx (src/unnamed/part_005): the effect that
  loads the content when the selection changes (\<open>loadContentData\<close>, lines
  254--268), the polling interval (lines 270--291), and \<open>fetchBoardData\<close>
  split at its awaits.  A call of \<open>fetchBoardData\<close> runs synchronously up to
  its first \<open>await\<close> (\<open>fetch_start\<close>), then, when its requests are answered,
  applies its result to the state of that moment (\<open>fetch_finish\<close>).  Between
  the two, other events run: timer ticks and selection changes.  The
  requests of one call are answered together, so \<open>setAllBoardsData\<close>
  (line 117, between the columns and the items requests) takes effect with
  the later setters; nothing in this theory reads \<open>allBoardsData\<close>.  The system
  state is the App state with the list of calls in flight, each with the
  selection its closure captured; a step is a tick, a selection change with
  its effect, the refetch after an edit, or the completion of any call in
  flight with any outcome.
  \<open>complete_all\<close> is the schedule in which the platform answers every call
  in flight; with it the system is proved to settle from every reachable
  state.
\<close>

subsection \<open>\<open>fetchBoardData\<close> at its awaits\<close>

datatype fetch_result =
  Columns_failed api_error
| Items_failed "string \<rightharpoonup> board_entry" api_error
| Fetched "string \<rightharpoonup> board_entry" "json list"

text \<open>Lines 95--97.\<close>

definition fetch_start :: "app \<Rightarrow> app" where
  "fetch_start a = a\<lparr>is_polling := True, columns_error := None, items_error := None\<rparr>"

text \<open>The awaited part, lines 104--139: what the requests return.\<close>

definition fetch_result_of :: "json api \<Rightarrow> string list \<Rightarrow> string list \<Rightarrow> net \<Rightarrow> fetch_result \<times> net" where
  "fetch_result_of api sel cols s =
     (case api_call api GET_BOARD_COLUMNS_QUERY s of
        (Inl e, s1) \<Rightarrow> (Columns_failed e, s1)
      | (Inr cd, s1) \<Rightarrow>
          (case columns_of_response sel cd of
             Inl e \<Rightarrow> (Columns_failed e, s1)
           | Inr m \<Rightarrow>
               (case fetch_items api cols m sel [] s1 of
                  (Inl e, s2) \<Rightarrow> (Items_failed m e, s2)
                | (Inr its, s2) \<Rightarrow> (Fetched m its, s2))))"

text \<open>The setters that run after the awaits, lines 117, 140 and 142--151.\<close>

definition fetch_finish :: "fetch_result \<Rightarrow> app \<Rightarrow> app" where
  "fetch_finish r a =
     (case r of
        Columns_failed e \<Rightarrow> (record_fetch_error e a)\<lparr>is_polling := False\<rparr>
      | Items_failed m e \<Rightarrow> (record_fetch_error e (a\<lparr>all_boards_data := m\<rparr>))\<lparr>is_polling := False\<rparr>
      | Fetched m its \<Rightarrow> a\<lparr>all_boards_data := m, board_items := its, is_polling := False\<rparr>)"

text \<open>Lines 84--91: the empty selection returns before any await.\<close>

definition fetch_empty :: "app \<Rightarrow> app" where
  "fetch_empty a = a\<lparr>all_boards_data := Map.empty, board_items := [], columns_error := None, items_error := None\<rparr>"

subsection \<open>Calls in flight\<close>

datatype fetch_kind = Foreground | Background | Item_refetch

record flight =
  fl_kind :: fetch_kind
  fl_boards :: "string list"
  fl_columns :: "string list"

record sys =
  sys_app :: app
  flights :: "flight list"

text \<open>The tick's guard, line 277.\<close>

definition tick_guard :: "app \<Rightarrow> bool" where
  "tick_guard a \<longleftrightarrow>
     \<not> is_app_loading a \<and> \<not> is_loading_columns a \<and> \<not> is_loading_items a
     \<and> selected_board_ids a \<noteq> [] \<and> selected_column_ids a \<noteq> []"

definition in_flight :: "app \<Rightarrow> fetch_kind \<Rightarrow> flight" where
  "in_flight a k = \<lparr>fl_kind = k, fl_boards = selected_board_ids a, fl_columns = selected_column_ids a\<rparr>"

text \<open>The effect of a selection change, \<open>loadContentData\<close>: with the settings
  loaded it raises both loading flags and calls \<open>fetchBoardData\<close>; an empty
  selection completes at once and lowers them again.\<close>

definition load_content :: "sys \<Rightarrow> sys" where
  "load_content s =
     (let a = sys_app s
      in if is_app_loading a then s
         else if selected_board_ids a = []
         then s\<lparr>sys_app := (fetch_empty (a\<lparr>is_loading_columns := True, is_loading_items := True\<rparr>))
                              \<lparr>is_loading_columns := False, is_loading_items := False\<rparr>\<rparr>
         else s\<lparr>sys_app := fetch_start (a\<lparr>is_loading_columns := True, is_loading_items := True\<rparr>),
                flights := flights s @ [in_flight a Foreground]\<rparr>)"

text \<open>Completing the \<open>i\<close>-th call: its result is applied to the current state;
  a foreground call then lowers the loading flags (lines 263--264).\<close>

definition complete_flight :: "nat \<Rightarrow> fetch_result \<Rightarrow> sys \<Rightarrow> sys" where
  "complete_flight i r s =
     (let a' = fetch_finish r (sys_app s)
      in s\<lparr>sys_app := (if fl_kind (flights s ! i) = Foreground
                        then a'\<lparr>is_loading_columns := False, is_loading_items := False\<rparr> else a'),
           flights := take i (flights s) @ drop (Suc i) (flights s)\<rparr>)"

text \<open>\<open>handleItemUpdated\<close> (lines 434--438), which TaskTable calls after a
  successful edit: it awaits \<open>fetchBoardData()\<close> and touches no loading
  flag; with an empty selection the fetch returns before its first await.\<close>

definition item_updated :: "sys \<Rightarrow> sys" where
  "item_updated s =
     (let a = sys_app s
      in if selected_board_ids a = [] then s\<lparr>sys_app := fetch_empty a\<rparr>
         else s\<lparr>sys_app := fetch_start a, flights := flights s @ [in_flight a Item_refetch]\<rparr>)"

inductive refresh_step :: "sys \<Rightarrow> sys \<Rightarrow> bool" where
  tick: "tick_guard (sys_app s) \<Longrightarrow>
         refresh_step s (s\<lparr>sys_app := fetch_start (sys_app s),
                           flights := flights s @ [in_flight (sys_app s) Background]\<rparr>)"
| select: "refresh_step s (load_content (s\<lparr>sys_app := (sys_app s)\<lparr>selected_board_ids := bs, selected_column_ids := cs\<rparr>\<rparr>))"
| complete: "i < length (flights s) \<Longrightarrow> refresh_step s (complete_flight i r s)"
| updated: "refresh_step s (item_updated s)"

inductive_cases refresh_step_cases: "refresh_step s s'"

text \<open>A settled state: the settings are loaded and nothing is in flight.\<close>

definition settled :: "sys \<Rightarrow> bool" where
  "settled s \<longleftrightarrow>
     flights s = [] \<and> \<not> is_app_loading (sys_app s) \<and> \<not> is_loading_columns (sys_app s)
     \<and> \<not> is_loading_items (sys_app s) \<and> \<not> is_polling (sys_app s)"

text \<open>The refresh invariant: the loading flags are up only while a foreground
  call is in flight, and \<open>isPolling\<close> only while some call is.\<close>

definition refresh_inv :: "sys \<Rightarrow> bool" where
  "refresh_inv s \<longleftrightarrow>
     ((is_loading_columns (sys_app s) \<or> is_loading_items (sys_app s))
        \<longrightarrow> list_ex (\<lambda>f. fl_kind f = Foreground) (flights s))
     \<and> (is_polling (sys_app s) \<longrightarrow> flights s \<noteq> [])"

text \<open>The platform answering every call in flight, oldest first, with the
  outcomes \<open>rs\<close>: a schedule of completions, not code of the app.\<close>

primrec complete_all :: "fetch_result list \<Rightarrow> sys \<Rightarrow> sys" where
  "complete_all [] s = s"
| "complete_all (r # rs) s = complete_all rs (complete_flight 0 r s)"

subsection \<open>Lemmas\<close>

lemma fetch_finish_flags [simp]:
  "is_loading_columns (fetch_finish r a) = is_loading_columns a"
  "is_loading_items (fetch_finish r a) = is_loading_items a"
  "is_polling (fetch_finish r a) = False"
  "is_app_loading (fetch_finish r a) = is_app_loading a"
  by (simp_all add: fetch_finish_def split: fetch_result.split)

lemma remove_nth_keeps:
  assumes "j < length xs" "j \<noteq> i"
  shows "xs ! j \<in> set (take i xs @ drop (Suc i) xs)"
proof (cases "j < i")
  case True
  with assms show ?thesis by (auto simp: in_set_conv_nth intro: exI [of _ j])
next
  case False
  with assms have "Suc i \<le> j" by simp
  with assms show ?thesis
    by (auto simp: in_set_conv_nth nth_append intro!: exI [of _ "j - Suc i"] disjI2)
qed

lemma refresh_inv_step:
  assumes "refresh_step s s'" and "refresh_inv s"
  shows "refresh_inv s'"
  using assms(1)
proof cases
  case (tick)
  with assms(2) show ?thesis
    by (simp add: refresh_inv_def tick_guard_def fetch_start_def)
next
  case (select bs cs)
  with assms(2) show ?thesis
    by (auto simp: refresh_inv_def load_content_def fetch_start_def fetch_empty_def in_flight_def Let_def)
next
  case updated
  with assms(2) show ?thesis
    by (auto simp: refresh_inv_def item_updated_def fetch_start_def fetch_empty_def in_flight_def Let_def)
next
  case (complete i r)
  show ?thesis
  proof (cases "fl_kind (flights s ! i) = Foreground")
    case True
    with complete show ?thesis by (simp add: refresh_inv_def complete_flight_def Let_def)
  next
    case False
    have "list_ex (\<lambda>f. fl_kind f = Foreground) (take i (flights s) @ drop (Suc i) (flights s))"
      if "list_ex (\<lambda>f. fl_kind f = Foreground) (flights s)"
    proof -
      from that obtain j where "j < length (flights s)" "fl_kind (flights s ! j) = Foreground"
        by (auto simp: list_ex_iff in_set_conv_nth)
      moreover from this False have "j \<noteq> i" by auto
      ultimately show ?thesis
        using remove_nth_keeps [of j "flights s" i] by (auto simp: list_ex_iff)
    qed
    with complete False assms(2) show ?thesis
      by (simp add: refresh_inv_def complete_flight_def Let_def)
  qed
qed

lemma complete_flight_length [simp]:
  "i < length (flights s) \<Longrightarrow> length (flights (complete_flight i r s)) = length (flights s) - 1"
  by (simp add: complete_flight_def Let_def)

lemma complete_all_steps:
  "length rs = length (flights s) \<Longrightarrow> refresh_step\<^sup>*\<^sup>* s (complete_all rs s) \<and> flights (complete_all rs s) = []"
proof (induction rs arbitrary: s)
  case Nil
  then show ?case by simp
next
  case (Cons r rs)
  then have i: "0 < length (flights s)" by (metis length_Cons zero_less_Suc)
  then have "refresh_step s (complete_flight 0 r s)" by (rule refresh_step.complete)
  moreover from Cons.prems i have "length rs = length (flights (complete_flight 0 r s))" by simp
  ultimately show ?case
    using Cons.IH by (auto intro: converse_rtranclp_into_rtranclp)
qed

lemma app_loading_step:
  "refresh_step s s' \<Longrightarrow> is_app_loading (sys_app s') = is_app_loading (sys_app s)"
  by (induction rule: refresh_step.induct)
     (simp_all add: fetch_start_def load_content_def fetch_empty_def complete_flight_def item_updated_def Let_def)

text \<open>The invariant along every interleaving from a settled state, with the
  settings staying loaded.\<close>

lemma refresh_inv_reach:
  assumes "settled s0" and "refresh_step\<^sup>*\<^sup>* s0 s"
  shows "refresh_inv s \<and> \<not> is_app_loading (sys_app s)"
  using assms(2)
proof (induction rule: rtranclp_induct)
  case base
  with assms(1) show ?case by (simp add: settled_def refresh_inv_def)
next
  case (step s s')
  then show ?case by (simp add: refresh_inv_step app_loading_step)
qed

text \<open>\<open>fetchBoardData\<close> as one sequential function (Aggregation)
  is its synchronous start, the awaited requests, and the setters after them:
  the split the interleaving model runs is the same computation.\<close>

theorem fetch_board_data_split:
  "fetch_board_data api a s =
     (if selected_board_ids a = [] then (fetch_empty a, s)
      else (case fetch_result_of api (selected_board_ids a) (selected_column_ids a) s of
              (r, s') \<Rightarrow> (fetch_finish r (fetch_start a), s')))"
  by (simp add: fetch_board_data_def fetch_result_of_def fetch_empty_def fetch_start_def
                fetch_finish_def Let_def split: prod.split sum.split)

text \<open>From a settled state, in every interleaving of ticks,
  selection changes and completions (in any order, with any outcome), the
  loading flags are up only while a foreground call is in flight and
  \<open>isPolling\<close> only while some call is: when every call has completed, no
  spinner is left on.\<close>

theorem refresh_invariant:
  assumes "settled s0" and "refresh_step\<^sup>*\<^sup>* s0 s"
  shows "refresh_inv s"
  using refresh_inv_reach [OF assms] by blast

theorem refresh_invariant_witness:
  "settled (\<lparr>sys_app = initial_app\<lparr>is_app_loading := False, selected_board_ids := [''1''], selected_column_ids := [''status'']\<rparr>, flights = []\<rparr>)
   \<and> refresh_step\<^sup>*\<^sup>* (\<lparr>sys_app = initial_app\<lparr>is_app_loading := False, selected_board_ids := [''1''], selected_column_ids := [''status'']\<rparr>, flights = []\<rparr>) (\<lparr>sys_app = initial_app\<lparr>is_app_loading := False, selected_board_ids := [''1''], selected_column_ids := [''status'']\<rparr>, flights = []\<rparr>)
   \<and> refresh_inv (\<lparr>sys_app = initial_app\<lparr>is_app_loading := False, selected_board_ids := [''1''], selected_column_ids := [''status'']\<rparr>, flights = []\<rparr>)"
proof -
  have s: "settled (\<lparr>sys_app = initial_app\<lparr>is_app_loading := False, selected_board_ids := [''1''], selected_column_ids := [''status'']\<rparr>, flights = []\<rparr>)" by (simp add: settled_def initial_app_def)
  from refresh_invariant [OF s rtranclp.rtrancl_refl] s show ?thesis by simp
qed

text \<open>Claim C38.  The tick's guard does not test \<open>isPolling\<close>: from a settled
  state with a selection, two ticks start two background refreshes that are in
  flight together, although the refresh timer should skip a tick while a
  refresh is running.\<close>

theorem overlapping_background_refreshes:
  "\<exists>s. refresh_step\<^sup>*\<^sup>* (\<lparr>sys_app = initial_app\<lparr>is_app_loading := False, selected_board_ids := [''1''], selected_column_ids := [''status'']\<rparr>, flights = []\<rparr>) s
       \<and> length (filter (\<lambda>f. fl_kind f = Background) (flights s)) = 2"
proof -
  let ?s0 = "\<lparr>sys_app = initial_app\<lparr>is_app_loading := False, selected_board_ids := [''1''], selected_column_ids := [''status'']\<rparr>, flights = []\<rparr>"
  let ?s1 = "?s0\<lparr>sys_app := fetch_start (sys_app ?s0), flights := flights ?s0 @ [in_flight (sys_app ?s0) Background]\<rparr>"
  let ?s2 = "?s1\<lparr>sys_app := fetch_start (sys_app ?s1), flights := flights ?s1 @ [in_flight (sys_app ?s1) Background]\<rparr>"
  have "refresh_step ?s0 ?s1"
    by (rule refresh_step.tick) (simp add: tick_guard_def initial_app_def)
  moreover have "refresh_step ?s1 ?s2"
    by (rule refresh_step.tick) (simp add: tick_guard_def initial_app_def fetch_start_def)
  ultimately have "refresh_step\<^sup>*\<^sup>* ?s0 ?s2" by simp
  moreover have "length (filter (\<lambda>f. fl_kind f = Background) (flights ?s2)) = 2"
    by (simp add: in_flight_def)
  ultimately show ?thesis by blast
qed

text \<open>A background refresh can start while a foreground fetch is
  in flight: when the selection changes twice, the first foreground call to
  complete lowers the loading flags although the second is still running, and
  the next tick passes its guard.\<close>

theorem background_during_foreground:
  "\<exists>s. refresh_step\<^sup>*\<^sup>* (\<lparr>sys_app = initial_app\<lparr>is_app_loading := False, selected_board_ids := [''1''], selected_column_ids := [''status'']\<rparr>, flights = []\<rparr>) s
       \<and> list_ex (\<lambda>f. fl_kind f = Foreground) (flights s)
       \<and> list_ex (\<lambda>f. fl_kind f = Background) (flights s)"
proof -
  let ?s0 = "\<lparr>sys_app = initial_app\<lparr>is_app_loading := False, selected_board_ids := [''1''], selected_column_ids := [''status'']\<rparr>, flights = []\<rparr>"
  let ?sel = "\<lambda>s. load_content (s\<lparr>sys_app := (sys_app s)\<lparr>selected_board_ids := [''1''], selected_column_ids := [''status'']\<rparr>\<rparr>)"
  let ?s1 = "?sel ?s0"
  let ?s2 = "?sel ?s1"
  let ?s3 = "complete_flight 0 (Fetched Map.empty []) ?s2"
  let ?s4 = "?s3\<lparr>sys_app := fetch_start (sys_app ?s3), flights := flights ?s3 @ [in_flight (sys_app ?s3) Background]\<rparr>"
  have "refresh_step ?s0 ?s1" "refresh_step ?s1 ?s2" by (rule refresh_step.select)+
  moreover have "refresh_step ?s2 ?s3"
    by (rule refresh_step.complete) (simp add: load_content_def fetch_start_def initial_app_def Let_def)
  moreover have "refresh_step ?s3 ?s4"
    by (rule refresh_step.tick)
       (simp add: tick_guard_def load_content_def complete_flight_def fetch_start_def in_flight_def
                  fetch_finish_def initial_app_def Let_def)
  ultimately have "refresh_step\<^sup>*\<^sup>* ?s0 ?s4"
    by (meson rtranclp.rtrancl_into_rtrancl rtranclp.rtrancl_refl)
  moreover have "list_ex (\<lambda>f. fl_kind f = Foreground) (flights ?s4)
                 \<and> list_ex (\<lambda>f. fl_kind f = Background) (flights ?s4)"
    by (simp add: load_content_def complete_flight_def in_flight_def fetch_start_def fetch_finish_def
                  initial_app_def Let_def)
  ultimately show ?thesis by blast
qed

text \<open>Claim C24.  Every spinner goes out once the platform has answered:
  from any state reachable from a settled one, by any interleaving of ticks,
  selection changes and completions, completing the calls in flight, with
  any outcomes, is a run of the system that ends in a settled state (no call
  in flight, \<open>isLoadingColumns\<close>, \<open>isLoadingItems\<close> and \<open>isPolling\<close>
  false, the settings loaded).\<close>

theorem refresh_settles:
  assumes "settled s0" and "refresh_step\<^sup>*\<^sup>* s0 s" and "length rs = length (flights s)"
  shows "refresh_step\<^sup>*\<^sup>* s (complete_all rs s) \<and> settled (complete_all rs s)"
proof -
  from complete_all_steps [OF assms(3)]
  have run: "refresh_step\<^sup>*\<^sup>* s (complete_all rs s)" and idle: "flights (complete_all rs s) = []"
    by simp_all
  from assms(2) run have "refresh_step\<^sup>*\<^sup>* s0 (complete_all rs s)" by (rule rtranclp_trans)
  with assms(1) have "refresh_inv (complete_all rs s) \<and> \<not> is_app_loading (sys_app (complete_all rs s))"
    by (rule refresh_inv_reach)
  with run idle show ?thesis by (simp add: settled_def refresh_inv_def)
qed

theorem refresh_settles_witness:
  "let s0 = \<lparr>sys_app = initial_app\<lparr>is_app_loading := False, selected_board_ids := [''1''], selected_column_ids := [''status'']\<rparr>, flights = []\<rparr>;
       s1 = load_content (s0\<lparr>sys_app := (sys_app s0)\<lparr>selected_board_ids := [''2''], selected_column_ids := [''date'']\<rparr>\<rparr>);
       rs = [Columns_failed (plain_error ''Boom'')]
   in settled s0 \<and> refresh_step\<^sup>*\<^sup>* s0 s1 \<and> length rs = length (flights s1) \<and> is_loading_items (sys_app s1)
      \<and> refresh_step\<^sup>*\<^sup>* s1 (complete_all rs s1) \<and> settled (complete_all rs s1)"
proof -
  define s0 where "s0 = \<lparr>sys_app = initial_app\<lparr>is_app_loading := False, selected_board_ids := [''1''], selected_column_ids := [''status'']\<rparr>, flights = []\<rparr>"
  define s1 where "s1 = load_content (s0\<lparr>sys_app := (sys_app s0)\<lparr>selected_board_ids := [''2''], selected_column_ids := [''date'']\<rparr>\<rparr>)"
  have z: "settled s0" by (simp add: s0_def settled_def initial_app_def)
  have r: "refresh_step\<^sup>*\<^sup>* s0 s1" unfolding s1_def by (rule r_into_rtranclp, rule refresh_step.select)
  have l: "length [Columns_failed (plain_error ''Boom'')] = length (flights s1)"
    and f: "is_loading_items (sys_app s1)"
    by (simp_all add: s1_def s0_def load_content_def initial_app_def fetch_start_def Let_def)
  from refresh_settles [OF z r l] z r l f show ?thesis
    by (simp only: s0_def s1_def Let_def)
qed

end
