(* ===== verification/Editing.thy ===== *)
theory Editing
  imports "HOL-Library.Multiset" Retry Queries ViewFilter
begin

text \<open>
  The editing side of TaskTable.jsx (src/unnamed/part_003): the user cache
  (\<open>fetchAndCacheUser\<close>, lines 141--163, and the effect that prefetches the
  persons of the items, lines 165--193), the rename (\<open>handleSaveEdit\<close>, lines
  201--218) and the status change (\<open>handleStatusChange\<close>, lines 312--352).
  These handlers call \<open>queryMonday\<close> directly, without \<open>retry\<close>.  Their
  effects outside the table state are a list of events: the mutation sent, the
  refetch requested through \<open>onItemUpdated\<close>, the alert shown.
\<close>

datatype edit_effect = Mutation string | Refetch string string | Alert string

subsection \<open>The user cache\<close>

definition unknown_user :: "json \<Rightarrow> json" where
  "unknown_user uid = JObj [(''id'', uid), (''name'', JStr ''Unknown''), (''photo_original'', JNull)]"

text \<open>\<open>fetchAndCacheUser(userId)\<close>: the user it returns and the cache after the
  call; the cache is keyed by the property key \<open>String(userId)\<close>.\<close>

definition fetch_and_cache_user :: "json api \<Rightarrow> json option \<Rightarrow> table_state \<Rightarrow> net \<Rightarrow> json \<times> table_state \<times> net" where
  "fetch_and_cache_user api userId t s =
     (if \<not> js_truthy userId then (JObj [(''id'', JNull), (''name'', JStr ''Unknown''), (''photo_original'', JNull)], t, s)
      else
        (let key = js_string userId; cache = cached_users t
         in if js_truthy (cache key) then (the (cache key), t, s)
            else (case query_monday api (GET_USER_DETAILS_QUERY key) 3 500 s of
                    (Inr d, s1) \<Rightarrow>
                      (case js_prop (Some d) ''users'' of
                         Some (JArr (u # us)) \<Rightarrow> (u, t\<lparr>cached_users := cache(key \<mapsto> u)\<rparr>, s1)
                       | _ \<Rightarrow> (unknown_user (the userId),
                               t\<lparr>cached_users := cache(key \<mapsto> unknown_user (the userId))\<rparr>, s1))
                  | (Inl e, s1) \<Rightarrow> (unknown_user (the userId),
                                   t\<lparr>cached_users := cache(key \<mapsto> unknown_user (the userId))\<rparr>, s1))))"

text \<open>The prefetch effect: for every person of every person column of every
  item, in order, whose id is truthy and not in the cache of that render,
  \<open>fetchAndCacheUser(p.id)\<close> is called.  The ids go into a \<open>Set\<close>, but the
  call is made for each occurrence.\<close>

definition cell_person_ids :: "json list \<Rightarrow> (string \<rightharpoonup> json) \<Rightarrow> json \<Rightarrow> json list" where
  "cell_person_ids cols cache cv =
     (case find (\<lambda>col. js_get col ''id'' = js_get cv ''id'') cols of
        Some meta \<Rightarrow>
          if (js_get meta ''type'' = Some (JStr ''person'') \<or> js_get meta ''type'' = Some (JStr ''people''))
             \<and> \<not> cv_value_blank (Some cv)
          then (case parsed_persons cv of
                  Some ps \<Rightarrow> map (\<lambda>p. the (js_get p ''id''))
                               (filter (\<lambda>p. js_truthy (js_get p ''id'') \<and> \<not> js_truthy (cache (js_string (js_get p ''id'')))) ps)
                | None \<Rightarrow> [])
          else []
      | None \<Rightarrow> [])"

definition users_to_fetch :: "json list \<Rightarrow> json list \<Rightarrow> (string \<rightharpoonup> json) \<Rightarrow> json list" where
  "users_to_fetch boardItems cols cache = concat (map (\<lambda>it. concat (map (cell_person_ids cols cache) (item_cvs it))) boardItems)"

subsection \<open>Rename\<close>

definition rename_alert :: string where
  "rename_alert = ''An error occurred while updating the item name. Please try again.''"

text \<open>\<open>handleSaveEdit(itemId, boardId, currentName)\<close>: only for the item being
  edited; the trimmed name is sent when it is non-empty and differs from the
  current name; on success the item is looked up in \<open>boardItems\<close> and, if
  found, \<open>onItemUpdated\<close> refetches; the edit state is cleared in every case.\<close>

text \<open>\<open>editingItemId === itemId\<close>: the state holds \<open>null\<close> as \<open>None\<close>, and
  \<open>null === null\<close>.\<close>

definition editing_matches :: "json option \<Rightarrow> json \<Rightarrow> bool" where
  "editing_matches e v = (case e of None \<Rightarrow> v = JNull | Some i \<Rightarrow> i = v)"

definition handle_save_edit :: "json api \<Rightarrow> json \<Rightarrow> string \<Rightarrow> json \<Rightarrow> json list \<Rightarrow> table_state \<Rightarrow> net
                                \<Rightarrow> edit_effect list \<times> table_state \<times> net" where
  "handle_save_edit api itemId boardId currentName boardItems t s =
     (if \<not> editing_matches (editing_item_id t) itemId then ([], t, s)
      else
        (let nm = js_trim (edited_item_name t);
             t' = t\<lparr>editing_item_id := None, edited_item_name := []\<rparr>
         in if nm = [] \<or> JStr nm = currentName then ([], t', s)
            else
              (let q = UPDATE_ITEM_NAME_QUERY boardId (js_string (Some itemId)) nm
               in case query_monday api q 3 500 s of
                    (Inl e, s1) \<Rightarrow> ([Mutation q, Alert rename_alert], t', s1)
                  | (Inr d, s1) \<Rightarrow>
                      (case find (\<lambda>it. js_get it ''id'' = Some itemId \<and> js_get it ''boardId'' = Some (JStr boardId)) boardItems of
                         Some it \<Rightarrow> ([Mutation q, Refetch (js_string (js_get it ''boardId'')) (js_string (js_get it ''id''))], t', s1)
                       | None \<Rightarrow> ([Mutation q], t', s1)))))"

text \<open>\<open>handleDoubleClick(itemId, currentName)\<close> starts an edit;
  \<open>handleKeyDown\<close> saves on Enter and abandons the edit on Escape.\<close>

definition handle_double_click :: "json \<Rightarrow> string \<Rightarrow> table_state \<Rightarrow> table_state" where
  "handle_double_click itemId currentName t = t\<lparr>editing_item_id := Some itemId, edited_item_name := currentName\<rparr>"

definition handle_key_down :: "json api \<Rightarrow> string \<Rightarrow> json \<Rightarrow> string \<Rightarrow> json \<Rightarrow> json list \<Rightarrow> table_state \<Rightarrow> net
                               \<Rightarrow> edit_effect list \<times> table_state \<times> net" where
  "handle_key_down api key itemId boardId currentName boardItems t s =
     (if key = ''Enter'' then handle_save_edit api itemId boardId currentName boardItems t s
      else if key = ''Escape'' then ([], t\<lparr>editing_item_id := None, edited_item_name := []\<rparr>, s)
      else ([], t, s))"

subsection \<open>Status change\<close>

definition status_alert :: string where
  "status_alert = ''An error occurred while updating the status. Please try again.''"

text \<open>\<open>handleStatusChange(selectedOption, item, columnMeta)\<close>: the value sent
  is \<open>JSON.stringify({label})\<close>, empty for the clear option; the mutation is
  sent only when the normalised current status differs.\<close>

definition status_value_to_send :: "status_option option \<Rightarrow> string" where
  "status_value_to_send opt =
     (case opt of
        Some opt1 \<Rightarrow> if so_id opt1 = ''clear'' then json_print (JObj [(''label'', JStr [])])
                  else json_print (JObj [(''label'', so_label opt1)])
      | None \<Rightarrow> json_print (JObj [(''label'', JStr [])]))"

definition status_needs_update :: "status_option option \<Rightarrow> json \<Rightarrow> col_meta \<Rightarrow> bool" where
  "status_needs_update opt item meta =
     (let cur = normalize_status (status_text (find (\<lambda>cv. js_get cv ''id'' = cm_id meta) (item_cvs item)))
      in case opt of
           Some opt1 \<Rightarrow> if so_id opt1 = ''clear'' then cur \<noteq> ''No status''
                     else js_trim (js_string (Some (so_label opt1))) \<noteq> cur
         | None \<Rightarrow> [] \<noteq> cur)"

definition handle_status_change :: "json api \<Rightarrow> status_option option \<Rightarrow> json \<Rightarrow> col_meta \<Rightarrow> net
                                    \<Rightarrow> edit_effect list \<times> net" where
  "handle_status_change api opt item meta s =
     (if \<not> status_needs_update opt item meta then ([], s)
      else
        (let b = js_string (js_get item ''boardId''); i = js_string (js_get item ''id'');
             q = UPDATE_COLUMN_VALUE_QUERY b i (js_string (cm_id meta)) (status_value_to_send opt)
         in case query_monday api q 3 500 s of
              (Inl e, s1) \<Rightarrow> ([Mutation q, Alert status_alert], s1)
            | (Inr d, s1) \<Rightarrow> ([Mutation q, Refetch b i], s1)))"

subsection \<open>Lemmas\<close>

lemma users_to_fetch_append:
  "users_to_fetch (xs @ ys) cols cache = users_to_fetch xs cols cache @ users_to_fetch ys cols cache"
  by (simp add: users_to_fetch_def)

lemma users_to_fetch_replicate:
  "users_to_fetch (replicate n it) cols cache = concat (replicate n (users_to_fetch [it] cols cache))"
  by (induction n) (simp_all add: users_to_fetch_def)

lemma count_concat_replicate:
  "count (mset (concat (replicate n xs))) u = n * count (mset xs) u"
  by (induction n) simp_all

text \<open>A rename the platform rejects shows the alert and requests
  no refetch, as the spec requires of a failed mutation; but the edit state is
  cleared, so the name the user typed is discarded rather than left for a
  retry.\<close>

theorem handle_save_edit_failure:
  assumes "editing_item_id t = Some itemId"
    and "js_trim (edited_item_name t) \<noteq> []" and "JStr (js_trim (edited_item_name t)) \<noteq> currentName"
    and "query_monday api (UPDATE_ITEM_NAME_QUERY boardId (js_string (Some itemId)) (js_trim (edited_item_name t))) 3 500 s
           = (Inl e, s1)"
  shows "handle_save_edit api itemId boardId currentName items t s =
           ([Mutation (UPDATE_ITEM_NAME_QUERY boardId (js_string (Some itemId)) (js_trim (edited_item_name t))),
             Alert rename_alert],
            t\<lparr>editing_item_id := None, edited_item_name := []\<rparr>, s1)"
  using assms by (simp add: handle_save_edit_def editing_matches_def Let_def)

theorem handle_save_edit_failure_witness:
  "editing_item_id (initial_table\<lparr>editing_item_id := Some (JStr ''9''), edited_item_name := '' New name ''\<rparr>) = Some (JStr ''9'')
   \<and> js_trim (edited_item_name (initial_table\<lparr>editing_item_id := Some (JStr ''9''), edited_item_name := '' New name ''\<rparr>)) = ''New name''
   \<and> handle_save_edit (\<lambda>q k. Api_reject (plain_error ''Network error'')) (JStr ''9'') ''42'' (JStr ''Old name'') []
       (initial_table\<lparr>editing_item_id := Some (JStr ''9''), edited_item_name := '' New name ''\<rparr>) \<lparr>calls = 0, waits = []\<rparr>
     = ([Mutation (UPDATE_ITEM_NAME_QUERY ''42'' ''9'' ''New name''), Alert rename_alert],
        initial_table\<lparr>editing_item_id := None, edited_item_name := []\<rparr>, \<lparr>calls = 1, waits = []\<rparr>)"
proof -
  have tr: "js_trim '' New name '' = ''New name''"
    by (simp add: js_trim_def js_is_space_def)
  have q: "query_monday (\<lambda>q k. Api_reject (plain_error ''Network error'') :: json api_outcome)
             (UPDATE_ITEM_NAME_QUERY ''42'' ''9'' ''New name'') 3 500 \<lparr>calls = 0, waits = []\<rparr>
           = (Inl (plain_error ''Network error''), \<lparr>calls = 1, waits = []\<rparr>)"
    by (simp add: query_monday.simps query_try_def query_catch_def plain_error_def)
  show ?thesis
    using handle_save_edit_failure
      [of "initial_table\<lparr>editing_item_id := Some (JStr ''9''), edited_item_name := '' New name ''\<rparr>" "JStr ''9''" "JStr ''Old name''" "\<lambda>q k. Api_reject (plain_error ''Network error'')"
          "''42''" "\<lparr>calls = 0, waits = []\<rparr>" "plain_error ''Network error''" "\<lparr>calls = 1, waits = []\<rparr>" "[]"]
          tr q
    by (simp add: initial_table_def js_string_def)
qed

text \<open>Claim C40.  The prefetch effect does not deduplicate: when \<open>n\<close> items
  show the same uncached person, \<open>fetchAndCacheUser\<close> is called at least
  \<open>n\<close> times for that id in one pass, although the spec asks for one lookup
  per id.\<close>

theorem users_fetched_per_occurrence:
  assumes "u \<in> set (users_to_fetch [it] cols cache)"
  shows "n \<le> count (mset (users_to_fetch (replicate n it) cols cache)) u"
proof -
  from assms have "1 \<le> count (mset (users_to_fetch [it] cols cache)) u"
    by (simp add: Suc_le_eq count_mset_0_iff [symmetric])
  then show ?thesis by (simp add: users_to_fetch_replicate count_concat_replicate)
qed

theorem users_fetched_per_occurrence_witness:
  \<open>JNum 7 0 \<in> set (users_to_fetch [JObj [(''id'', JStr ''9''), (''column_values'', JArr [JObj [(''id'', JStr ''owner''), (''value'', JStr ''{"personsAndTeams":[{"id":7,"kind":"person"}]}'')]])]] [JObj [(''id'', JStr ''owner''), (''type'', JStr ''person'')]] Map.empty)
   \<and> 2 \<le> count (mset (users_to_fetch (replicate 2 (JObj [(''id'', JStr ''9''), (''column_values'', JArr [JObj [(''id'', JStr ''owner''), (''value'', JStr ''{"personsAndTeams":[{"id":7,"kind":"person"}]}'')]])])) [JObj [(''id'', JStr ''owner''), (''type'', JStr ''person'')]] Map.empty)) (JNum 7 0)\<close>
proof -
  have u: \<open>users_to_fetch [JObj [(''id'', JStr ''9''), (''column_values'', JArr [JObj [(''id'', JStr ''owner''), (''value'', JStr ''{"personsAndTeams":[{"id":7,"kind":"person"}]}'')]])]] [JObj [(''id'', JStr ''owner''), (''type'', JStr ''person'')]] Map.empty = [JNum 7 0]\<close>
    by code_simp
  then have m: \<open>JNum 7 0 \<in> set (users_to_fetch [JObj [(''id'', JStr ''9''), (''column_values'', JArr [JObj [(''id'', JStr ''owner''), (''value'', JStr ''{"personsAndTeams":[{"id":7,"kind":"person"}]}'')]])]] [JObj [(''id'', JStr ''owner''), (''type'', JStr ''person'')]] Map.empty)\<close> by simp
  from users_fetched_per_occurrence [OF m, of 2] m show ?thesis by simp
qed

end
