(* ===== verification/Sidebar.thy ===== *)
theory Sidebar
  imports Retry Json
begin

text \<open>
  The sidebar's own board list (src/src/components/Sidebar/Sidebar.jsx).
  Unlike every request of App.jsx, its mount effect \<open>fetchBoards\<close> calls
  \<open>monday.api\<close> directly, neither through \<open>queryMonday\<close> nor through
  \<open>retry\<close>: one call of the oracle of Retry, whatever its outcome.  The
  component's three \<open>useState\<close> fields are a record; the effect is a function
  of that state and the network; the board-list part of the render is a view
  function with the three branches of the JSX conditional.  A response with an
  \<open>errors\<close> field is the oracle's \<open>Api_errors\<close>, which carries no \<open>data\<close>.
\<close>

subsection \<open>State and the mount effect\<close>

text \<open>\<open>allAccessibleBoards\<close>, \<open>loadingBoards\<close>, \<open>boardsError\<close> (lines 18--20).
  The board list holds whatever \<open>response.data.boards\<close> was.\<close>

record sidebar =
  all_accessible_boards :: json
  loading_boards :: bool
  boards_error :: "string option"

definition initial_sidebar :: sidebar where
  "initial_sidebar = \<lparr>all_accessible_boards = JArr [], loading_boards = True, boards_error = None\<rparr>"

definition SIDEBAR_BOARDS_QUERY :: string where
  "SIDEBAR_BOARDS_QUERY = ''query { boards { id name } }''"

definition boards_load_error :: string where
  "boards_load_error = ''Failed to load the list of boards.''"

text \<open>\<open>fetchBoards\<close> (lines 23--39): reset the flags, one awaited call, then
  the list when \<open>response && response.data && response.data.boards\<close> is
  truthy, the empty list otherwise (a warning only), the error message on a
  rejection, and \<open>loadingBoards\<close> cleared in the \<open>finally\<close> block.\<close>

definition fetch_boards :: "json api \<Rightarrow> sidebar \<Rightarrow> net \<Rightarrow> sidebar \<times> net" where
  "fetch_boards api st s =
     (let st1 = st\<lparr>loading_boards := True, boards_error := None\<rparr>;
          fin = (\<lambda>x. x\<lparr>loading_boards := False\<rparr>)
      in case api SIDEBAR_BOARDS_QUERY (calls s) of
           Api_data d \<Rightarrow>
             (let bs = js_prop (Some d) ''boards'' in
              if js_truthy bs then (fin (st1\<lparr>all_accessible_boards := the bs\<rparr>), after_call s)
              else (fin (st1\<lparr>all_accessible_boards := JArr []\<rparr>), after_call s))
         | Api_errors ms \<Rightarrow> (fin (st1\<lparr>all_accessible_boards := JArr []\<rparr>), after_call s)
         | Api_reject e \<Rightarrow> (fin (st1\<lparr>boards_error := Some boards_load_error\<rparr>), after_call s))"

text \<open>The effect has an empty dependency list: it runs once, on mount.\<close>

definition sidebar_mount :: "json api \<Rightarrow> net \<Rightarrow> sidebar \<times> net" where
  "sidebar_mount api s = fetch_boards api initial_sidebar s"

subsection \<open>The board list as rendered\<close>

text \<open>One checkbox row: \<open>board.id\<close>, \<open>board.name\<close> as its label, and
  \<open>checked = selectedBoardIds.includes(board.id)\<close> (the selection holds
  strings, so only a string id can be checked).\<close>

record board_row =
  row_id :: "json option"
  row_label :: "json option"
  row_checked :: bool

datatype boards_view = Boards_loading | Boards_failed string | Board_rows "board_row list"

definition board_row_of :: "string list \<Rightarrow> json \<Rightarrow> board_row" where
  "board_row_of sel b =
     (let i = js_get b ''id''
      in \<lparr>row_id = i, row_label = js_get b ''name'',
          row_checked = list_ex (\<lambda>x. i = Some (JStr x)) sel\<rparr>)"

text \<open>Lines 62--80.  \<open>allAccessibleBoards.map\<close> throws on a value that is
  not an array, which is \<open>None\<close>.\<close>

definition sidebar_view :: "sidebar \<Rightarrow> string list \<Rightarrow> boards_view option" where
  "sidebar_view st sel =
     (if loading_boards st then Some Boards_loading
      else case boards_error st of
             Some m \<Rightarrow> Some (Boards_failed m)
           | None \<Rightarrow>
               (case all_accessible_boards st of
                  JArr bs \<Rightarrow> Some (Board_rows (map (board_row_of sel) bs))
                | _ \<Rightarrow> None))"

subsection \<open>Properties\<close>

lemma fetch_boards_net: "snd (fetch_boards api st s) = after_call s"
  by (simp add: fetch_boards_def Let_def split: api_outcome.splits)

lemma fetch_boards_settled: "\<not> loading_boards (fst (fetch_boards api st s))"
  by (simp add: fetch_boards_def Let_def split: api_outcome.splits)

lemma fetch_boards_reject:
  "api SIDEBAR_BOARDS_QUERY (calls s) = Api_reject e \<Longrightarrow>
   sidebar_view (fst (fetch_boards api st s)) sel = Some (Boards_failed boards_load_error)"
  by (simp add: fetch_boards_def sidebar_view_def)

text \<open>When the platform answers the sidebar's board request with an
  error list, a rate-limit error included, the request is not retried:
  mounting the sidebar calls \<open>monday.api\<close> exactly once, waits for nothing,
  and shows an empty board list with no error message, as if the account had
  no boards.\<close>

theorem sidebar_error_response_empty:
  assumes "api SIDEBAR_BOARDS_QUERY (calls s) = Api_errors ms"
  shows "snd (sidebar_mount api s) = s\<lparr>calls := Suc (calls s)\<rparr>
       \<and> sidebar_view (fst (sidebar_mount api s)) sel = Some (Board_rows [])"
  using assms by (simp add: sidebar_mount_def fetch_boards_def sidebar_view_def initial_sidebar_def
      after_call_def)

theorem sidebar_error_response_empty_witness:
  "snd (sidebar_mount (\<lambda>q n. Api_errors [''Rate limit exceeded''])
        \<lparr>calls = 0, waits = []\<rparr>) = \<lparr>calls = 1, waits = []\<rparr>
   \<and> sidebar_view (fst (sidebar_mount (\<lambda>q n. Api_errors [''Rate limit exceeded''])
        \<lparr>calls = 0, waits = []\<rparr>)) [''1''] = Some (Board_rows [])"
  using sidebar_error_response_empty [of "\<lambda>q n. Api_errors [''Rate limit exceeded'']"
      "\<lparr>calls = 0, waits = []\<rparr>" "[''Rate limit exceeded'']" "[''1'']"]
  by simp

end
