(* ===== verification/TableContext.thy ===== *)
theory TableContext
  imports Retry Table
begin

text \<open>
  The two mount effects of TaskTable that read the platform context
  (src/unnamed/part_003 lines 106--139) and the links built from their result
  (lines 305--310 and 644).  \<open>monday.get('context')\<close> is a parameter: the
  context value, or \<open>None\<close> when its promise rejects.  \<open>mondayBaseUrl\<close> is
  its own \<open>useState\<close> cell, a JavaScript value that may become \<open>undefined\<close>
  (\<open>None\<close>).  Both effects catch every exception, so a \<open>TypeError\<close> in their
  body leaves the state as it was.
\<close>

text \<open>\<open>fetchContextAndUserId\<close> (lines 106--118): \<open>currentUserId\<close> is set when
  \<open>context && context.data && context.data.userId\<close> is truthy.\<close>

definition fetch_context_and_user_id :: "json option \<Rightarrow> table_state \<Rightarrow> table_state" where
  "fetch_context_and_user_id ctx t =
     (case ctx of
        None \<Rightarrow> t
      | Some c \<Rightarrow>
          (let u = js_prop (js_prop (Some c) ''data'') ''userId''
           in if js_truthy u then t\<lparr>current_user_id := u\<rparr> else t))"

definition initial_base_url :: "json option" where
  "initial_base_url = Some (JStr ''https://monday.com'')"

definition ACCOUNT_SLUG_QUERY :: string where
  "ACCOUNT_SLUG_QUERY = ''query { account { slug } }''"

text \<open>The fallback of \<open>fetchMondayBaseUrl\<close> (lines 127--132): one direct call
  of \<open>monday.api\<close>; a truthy \<open>response.data.account.slug\<close> gives
  \<open>https://<slug>.monday.com\<close>; anything else, a rejection included, leaves
  the URL as it was.\<close>

definition base_url_from_slug :: "json api \<Rightarrow> json option \<Rightarrow> net \<Rightarrow> json option \<times> net" where
  "base_url_from_slug api url s =
     (case api ACCOUNT_SLUG_QUERY (calls s) of
        Api_data d \<Rightarrow>
          (let slug = js_prop (js_prop (Some d) ''account'') ''slug''
           in if js_truthy slug
              then (Some (JStr (''https://'' @ js_string slug @ ''.monday.com'')), after_call s)
              else (url, after_call s))
      | _ \<Rightarrow> (url, after_call s))"

text \<open>\<open>fetchMondayBaseUrl\<close> (lines 120--139).  The guard tests
  \<open>context.data.accountUrl\<close> but the body reads \<open>context.data.account.url\<close>:
  an \<open>account\<close> that is \<open>undefined\<close> or \<open>null\<close> throws a \<open>TypeError\<close> into
  the \<open>catch\<close> block; any other value gives its \<open>url\<close> property, perhaps
  \<open>undefined\<close>.\<close>

definition fetch_monday_base_url ::
  "json option \<Rightarrow> json api \<Rightarrow> json option \<Rightarrow> net \<Rightarrow> json option \<times> net" where
  "fetch_monday_base_url ctx api url s =
     (case ctx of
        None \<Rightarrow> (url, s)
      | Some c \<Rightarrow>
          (let d = js_prop (Some c) ''data''
           in if js_truthy (js_prop d ''accountUrl'')
              then (case js_get (the d) ''account'' of
                      None \<Rightarrow> (url, s)
                    | Some JNull \<Rightarrow> (url, s)
                    | Some a \<Rightarrow> (js_get a ''url'', s))
              else base_url_from_slug api url s))"

text \<open>\<open>redirectToUserProfile\<close> (lines 305--310): the URL passed to
  \<open>window.open\<close>, if any; and the board link of the board-name cell (line
  644).  Template literals convert with \<open>String\<close>.\<close>

definition redirect_to_user_profile :: "json option \<Rightarrow> json option \<Rightarrow> string option" where
  "redirect_to_user_profile url uid =
     (if js_truthy uid then Some (js_string url @ ''/users/'' @ js_string uid) else None)"

definition board_url :: "json option \<Rightarrow> json option \<Rightarrow> string" where
  "board_url url bid = js_string url @ ''/boards/'' @ js_string bid"

subsection \<open>Properties\<close>

lemma fetch_monday_base_url_calls: "calls (snd (fetch_monday_base_url ctx api url s)) \<le> Suc (calls s)"
  by (auto simp: fetch_monday_base_url_def base_url_from_slug_def Let_def
      split: option.splits json.splits api_outcome.splits)

lemma fetch_monday_base_url_account:
  "js_prop (Some c) ''data'' = Some d \<Longrightarrow> js_truthy (js_get d ''accountUrl'') \<Longrightarrow>
   js_get d ''account'' = Some a \<Longrightarrow> a \<noteq> JNull \<Longrightarrow>
   fetch_monday_base_url (Some c) api url s = (js_get a ''url'', s)"
  by (cases a) (simp_all add: fetch_monday_base_url_def js_prop_Some js_truthy_def)

text \<open>Claim C21.  A context whose \<open>data\<close> carries the account URL as
  \<open>accountUrl\<close> but no \<open>account\<close> object makes \<open>fetchMondayBaseUrl\<close> throw
  and swallow a \<open>TypeError\<close>: the base URL keeps its previous value and the
  slug fallback is never requested, so the profile and board links point to
  \<open>https://monday.com\<close> instead of the account's own domain.\<close>

theorem base_url_account_url_ignored:
  assumes "js_prop (Some c) ''data'' = Some d" and "js_truthy (js_get d ''accountUrl'')"
    and "js_get d ''account'' = None"
  shows "fetch_monday_base_url (Some c) api url s = (url, s)"
  using assms by (simp add: fetch_monday_base_url_def js_prop_Some js_truthy_def)

theorem base_url_account_url_ignored_witness:
  "js_prop (Some (JObj [(''data'', JObj [(''accountUrl'', JStr ''https://acme.monday.com''),
       (''userId'', JNum 7 0)])])) ''data''
     = Some (JObj [(''accountUrl'', JStr ''https://acme.monday.com''), (''userId'', JNum 7 0)])
   \<and> fetch_monday_base_url
       (Some (JObj [(''data'', JObj [(''accountUrl'', JStr ''https://acme.monday.com''),
          (''userId'', JNum 7 0)])]))
       (\<lambda>q n. Api_data (JObj [(''account'', JObj [(''slug'', JStr ''acme'')])]))
       initial_base_url \<lparr>calls = 0, waits = []\<rparr>
     = (initial_base_url, \<lparr>calls = 0, waits = []\<rparr>)
   \<and> redirect_to_user_profile initial_base_url (Some (JNum 7 0)) = Some ''https://monday.com/users/7''"
proof -
  have "fetch_monday_base_url
       (Some (JObj [(''data'', JObj [(''accountUrl'', JStr ''https://acme.monday.com''),
          (''userId'', JNum 7 0)])]))
       (\<lambda>q n. Api_data (JObj [(''account'', JObj [(''slug'', JStr ''acme'')])]))
       initial_base_url \<lparr>calls = 0, waits = []\<rparr>
     = (initial_base_url, \<lparr>calls = 0, waits = []\<rparr>)"
    by (rule base_url_account_url_ignored [of _ "JObj [(''accountUrl'', JStr ''https://acme.monday.com''),
          (''userId'', JNum 7 0)]"]) (simp_all add: js_prop_Some js_truthy_def js_get_def)
  moreover have "redirect_to_user_profile initial_base_url (Some (JNum 7 0)) = Some ''https://monday.com/users/7''"
    by code_simp
  ultimately show ?thesis by (simp add: js_prop_Some js_get_def)
qed

end
