(* ===== verification/FilterOptions.thy ===== *)
theory FilterOptions
  imports ViewFilter
begin

text \<open>
  The options the person filter dialog of TaskTable offers
  (src/unnamed/part_003): \<open>uniquePeopleInBoardItems\<close> (lines 963--997), the
  people found in the person columns of the loaded items, one per id, taken
  from the user cache when cached, and the checkbox values of the dialog
  (lines 1048--1113): \<open>String(currentUserId)\<close>, \<open>'No user'\<close>, then
  \<open>String(user.id)\<close> per person.  The \<open>Map\<close> of the memo is an association
  list updated by \<open>AList.update\<close>, which keeps the position of a present key
  as \<open>Map.prototype.set\<close> does; keys are compared as values, which is
  SameValueZero on the numbers and strings the platform uses as ids.
  \<open>filter_dialog_content\<close> is the whole content of a column's filter
  dialog (lines 999--1141) and \<open>filter_dialog_click\<close> the effect of each of
  its controls on \<open>activeFilters\<close>.
\<close>

text \<open>One person \<open>p\<close> of a cell (lines 978--987): with a truthy \<open>p.id\<close>, the
  cached user under \<open>cachedUsers[p.id]\<close> keyed by its own \<open>id\<close>, or a
  placeholder keyed by \<open>p.id\<close>.\<close>

definition person_entry :: "(string \<rightharpoonup> json) \<Rightarrow> json \<Rightarrow> (json option \<times> json) option" where
  "person_entry cache p =
     (let pid = js_get p ''id''
      in if \<not> js_truthy pid then None
         else (let cu = cache (js_string pid)
               in if js_truthy cu then Some (js_get (the cu) ''id'', the cu)
                  else Some (pid, JObj [(''id'', the pid), (''name'', JStr ''Unknown User''),
                                        (''photo_original'', JNull)])))"

text \<open>One column value (lines 966--993): only in a person or people column,
  with a non-blank value; a parse error or a \<open>null\<close> person is caught and
  contributes nothing.\<close>

definition cv_people_entries :: "json list \<Rightarrow> (string \<rightharpoonup> json) \<Rightarrow> json \<Rightarrow> (json option \<times> json) list" where
  "cv_people_entries cols cache cv =
     (case find (\<lambda>col. js_get col ''id'' = js_get cv ''id'') cols of
        Some meta \<Rightarrow>
          if (js_get meta ''type'' = Some (JStr ''person'') \<or> js_get meta ''type'' = Some (JStr ''people''))
             \<and> \<not> cv_value_blank (Some cv)
          then (case parsed_persons cv of
                  Some ps \<Rightarrow> List.map_filter (person_entry cache) ps
                | None \<Rightarrow> [])
          else []
      | None \<Rightarrow> [])"

definition people_entries :: "json list \<Rightarrow> json list \<Rightarrow> (string \<rightharpoonup> json) \<Rightarrow> (json option \<times> json) list" where
  "people_entries items cols cache =
     concat (map (\<lambda>it. concat (map (cv_people_entries cols cache) (item_cvs it))) items)"

text \<open>\<open>Array.from(peopleMap.values())\<close> after every \<open>peopleMap.set\<close>.\<close>

definition unique_people :: "json list \<Rightarrow> json list \<Rightarrow> (string \<rightharpoonup> json) \<Rightarrow> json list" where
  "unique_people items cols cache =
     map snd (fold (\<lambda>(k, v). AList.update k v) (people_entries items cols cache) [])"

text \<open>The checkbox values of the person filter dialog, in order.\<close>

definition person_option_values :: "json option \<Rightarrow> json list \<Rightarrow> string list" where
  "person_option_values cur people =
     (if js_truthy cur then [js_string cur] else []) @ [''No user'']
     @ map (\<lambda>u. js_string (js_get u ''id'')) people"

text \<open>The status filter dialog (lines 1009--1046).  A row per entry of
  \<open>columnMeta.statusOptions\<close> when it is an array: its filter value
  \<open>option.label === '' ? 'No status' : option.label\<close> (line 1014), checked
  when \<open>currentSelectedFilters\<close> (line 1000) includes it (line 1015).  A
  label that is not a string would be stored as a filter value of another
  type than the state's (\<open>None\<close>).\<close>

definition status_filter_value :: "status_option \<Rightarrow> string option" where
  "status_filter_value opt = (case so_label opt of JStr l \<Rightarrow> Some (if l = [] then ''No status'' else l) | _ \<Rightarrow> None)"

definition current_selected_filters :: "(string \<times> string list) list \<Rightarrow> string \<Rightarrow> string list" where
  "current_selected_filters fs c = (case map_of fs c of Some l \<Rightarrow> l | None \<Rightarrow> [])"

definition status_option_rows :: "(string \<times> string list) list \<Rightarrow> string \<Rightarrow> col_meta \<Rightarrow> (string \<times> bool) list option" where
  "status_option_rows fs c meta =
     (case cm_status_options meta of
        None \<Rightarrow> Some []
      | Some os \<Rightarrow> those (map (\<lambda>opt. map_option (\<lambda>v. (v, v \<in> set (current_selected_filters fs c)))
                                                 (status_filter_value opt)) os))"

text \<open>The two controls of a row: the row itself (\<open>Flex onClick\<close>, line 1025)
  and its checkbox (line 1027).  Both call \<open>handleFilterChange\<close> with the
  negation of \<open>isChecked\<close> of the render; a click on the checkbox runs its
  \<open>onChange\<close> and, as the click bubbles to the row, the row's \<open>onClick\<close>,
  each through the functional updater of \<open>setActiveFilters\<close>.  A value with
  no row on screen is \<open>None\<close>.\<close>

datatype status_click = Status_row_click string | Status_checkbox_click string

definition status_dialog_click :: "string \<Rightarrow> col_meta \<Rightarrow> status_click \<Rightarrow> table_state \<Rightarrow> table_state option" where
  "status_dialog_click c meta k t =
     (case status_option_rows (active_filters t) c meta of
        None \<Rightarrow> None
      | Some rows \<Rightarrow>
          (case k of
             Status_row_click v \<Rightarrow>
               map_option (\<lambda>chk. handle_filter_change c v (\<not> chk) t) (map_of rows v)
           | Status_checkbox_click v \<Rightarrow>
               map_option (\<lambda>chk. handle_filter_change c v (\<not> chk) (handle_filter_change c v (\<not> chk) t))
                 (map_of rows v)))"

text \<open>One row of the filter dialog: the value its controls pass to
  \<open>handleFilterChange\<close>, whether its checkbox is checked, and its label.\<close>

record filter_row =
  fr_value :: string
  fr_checked :: bool
  fr_label :: string

text \<open>The text colour of a status row on the option's colour (line 1017).\<close>

definition status_text_color :: "json \<Rightarrow> string" where
  "status_text_color bg = (if bg = JStr ''#c4c4c4'' \<or> bg = JStr ''#e0e0e0'' then ''#323338'' else ''#fff'')"

text \<open>The sections of \<open>renderFilterOptions\<close> (lines 1007--1119): the status
  rows with their text colour, the user rows with the \<open>No users found in
  this column.\<close> notice when there is no person (line 1112), or the default
  text.\<close>

datatype filter_section =
    Status_rows "(filter_row \<times> string) list"
  | User_rows "filter_row list" bool
  | No_filter_options

definition filter_rows :: "filter_section \<Rightarrow> filter_row list" where
  "filter_rows sec = (case sec of Status_rows rs \<Rightarrow> map fst rs | User_rows rs _ \<Rightarrow> rs | No_filter_options \<Rightarrow> [])"

text \<open>A user row (lines 1089--1108): \<open>String(user.id)\<close>, checked when the
  column's filters include it, labelled \<open>user.name || 'Unknown User'\<close>.\<close>

definition user_filter_row :: "string list \<Rightarrow> json \<Rightarrow> filter_row" where
  "user_filter_row sel u =
     (let v = js_string (js_get u ''id'');
          n = js_get u ''name''
      in \<lparr>fr_value = v, fr_checked = v \<in> set sel,
          fr_label = (if js_truthy n then js_string n else ''Unknown User'')\<rparr>)"

text \<open>\<open>renderFilterDialogContent(columnMeta)\<close> (lines 999--1141): the section
  for the column's type and whether \<open>Clear Filter\<close> is shown
  (\<open>isFilterActiveForColumn\<close>, line 1001).  The fixed rows of the person
  section are \<open>My Tasks\<close> when \<open>currentUserId\<close> is truthy (lines 1052--1069)
  and \<open>No user\<close> (lines 1070--1085).\<close>

definition filter_dialog_content ::
  "(string \<times> string list) list \<Rightarrow> json option \<Rightarrow> json list \<Rightarrow> col_meta \<Rightarrow> (filter_section \<times> bool) option" where
  "filter_dialog_content fs cur people meta =
     (let c = js_string (cm_id meta);
          sel = current_selected_filters fs c;
          row = (\<lambda>v l. \<lparr>fr_value = v, fr_checked = v \<in> set sel, fr_label = l\<rparr>)
      in map_option (\<lambda>sec. (sec, sel \<noteq> []))
           (if meta_type_is meta ''status''
            then (case cm_status_options meta of
                    None \<Rightarrow> Some (Status_rows [])
                  | Some os \<Rightarrow>
                      map_option Status_rows
                        (those (map (\<lambda>opt. map_option (\<lambda>v. (row v v, status_text_color (so_color opt)))
                                                       (status_filter_value opt)) os)))
            else if meta_type_is meta ''person'' \<or> meta_type_is meta ''people''
            then Some (User_rows ((if js_truthy cur then [row (js_string cur) ''My Tasks''] else [])
                                  @ [row ''No user'' ''No user''] @ map (user_filter_row sel) people)
                                 (people = []))
            else Some No_filter_options))"

text \<open>The controls of the dialog: a row (its \<open>onClick\<close>), the checkbox of a
  row, whose \<open>onChange\<close> runs and whose click then bubbles to the row, both
  with the negation of the rendered \<open>checked\<close>, and \<open>Clear Filter\<close> (line
  1130).  A control that is not on the dialog is \<open>None\<close>.  The checkbox
  click is a click on the input element itself; a click on the label of the
  \<open>Checkbox\<close> component, which the browser forwards to the input, is not
  modelled.\<close>

datatype filter_click = Filter_row_click string | Filter_checkbox_click string | Clear_filter_click

definition filter_dialog_click ::
  "json option \<Rightarrow> json list \<Rightarrow> col_meta \<Rightarrow> filter_click \<Rightarrow> table_state \<Rightarrow> table_state option" where
  "filter_dialog_click cur people meta k t =
     (let c = js_string (cm_id meta)
      in case filter_dialog_content (active_filters t) cur people meta of
           None \<Rightarrow> None
         | Some (sec, clear) \<Rightarrow>
             (case k of
                Filter_row_click v \<Rightarrow>
                  map_option (\<lambda>r. handle_filter_change c v (\<not> fr_checked r) t)
                    (find (\<lambda>r. fr_value r = v) (filter_rows sec))
              | Filter_checkbox_click v \<Rightarrow>
                  map_option (\<lambda>r. handle_filter_change c v (\<not> fr_checked r) (handle_filter_change c v (\<not> fr_checked r) t))
                    (find (\<lambda>r. fr_value r = v) (filter_rows sec))
              | Clear_filter_click \<Rightarrow> if clear then Some (handle_clear_filter c t) else None))"

subsection \<open>Properties\<close>

lemma fold_update_keys:
  "fst ` set (fold (\<lambda>(k, v). AList.update k v) es al) = fst ` set al \<union> fst ` set es"
proof (induction es arbitrary: al)
  case (Cons e es)
  then show ?case by (cases e) (simp add: dom_update; blast)
qed simp

lemma update_set_subset: "set (AList.update k v al) \<subseteq> insert (k, v) (set al)"
  by (induction al) auto

lemma fold_update_inv:
  assumes "\<forall>(k, v) \<in> set al. P k v" and "\<forall>(k, v) \<in> set es. P k v"
  shows "\<forall>(k, v) \<in> set (fold (\<lambda>(k, v). AList.update k v) es al). P k v"
  using assms
proof (induction es arbitrary: al)
  case (Cons e es)
  obtain k v where e: "e = (k, v)" by fastforce
  have "\<forall>(k', v') \<in> set (AList.update k v al). P k' v'"
    using update_set_subset [of k v al] Cons.prems e by fastforce
  with Cons.IH [of "AList.update k v al"] Cons.prems(2) e show ?case by simp
qed simp

text \<open>Every entry of the memo is keyed by its person's own \<open>id\<close>.\<close>

lemma person_entry_keyed: "person_entry cache p = Some (k, v) \<Longrightarrow> js_get v ''id'' = k"
  by (auto simp: person_entry_def Let_def js_get_def js_truthy_def split: if_splits option.splits)

lemma cv_people_entries_map_filter:
  "\<exists>ps. cv_people_entries cols cache cv = List.map_filter (person_entry cache) ps"
  by (auto simp: cv_people_entries_def List.map_filter_simps split: option.split intro: exI [of _ "[]"])

lemma people_entries_keyed:
  assumes "(k, v) \<in> set (people_entries items cols cache)"
  shows "js_get v ''id'' = k"
proof -
  from assms obtain cv where "(k, v) \<in> set (cv_people_entries cols cache cv)"
    by (auto simp: people_entries_def)
  moreover obtain ps where "cv_people_entries cols cache cv = List.map_filter (person_entry cache) ps"
    using cv_people_entries_map_filter by blast
  ultimately obtain p where "person_entry cache p = Some (k, v)"
    by (auto simp: in_set_map_filter)
  then show ?thesis by (rule person_entry_keyed)
qed

lemma unique_people_ids:
  assumes "k \<in> fst ` set (people_entries items cols cache)"
  shows "js_string k \<in> set (map (\<lambda>u. js_string (js_get u ''id'')) (unique_people items cols cache))"
proof -
  let ?m = "fold (\<lambda>(k, v). AList.update k v) (people_entries items cols cache) []"
  have keyed: "\<forall>(k, v) \<in> set ?m. js_get v ''id'' = k"
    by (rule fold_update_inv) (auto dest: people_entries_keyed)
  from assms have "k \<in> fst ` set ?m"
    by (simp only: fold_update_keys) simp
  then obtain v where kv: "(k, v) \<in> set ?m" by force
  with keyed have "js_get v ''id'' = k" by blast
  with kv show ?thesis
    by (force simp: unique_people_def)
qed

lemma person_entry_key:
  assumes "js_truthy (js_get p ''id'')"
    and "\<And>k u. cache k = Some u \<Longrightarrow> js_truthy (Some u) \<Longrightarrow> js_string (js_get u ''id'') = k"
  shows "\<exists>k v. person_entry cache p = Some (k, v) \<and> js_string k = js_string (js_get p ''id'')"
proof (cases "cache (js_string (js_get p ''id''))")
  case None
  then show ?thesis using assms(1) by (simp add: person_entry_def Let_def js_truthy_def)
next
  case (Some u)
  then show ?thesis using assms by (cases "js_truthy (Some u)") (auto simp: person_entry_def Let_def)
qed

text \<open>Claim C34.  Every person listed in a non-blank person-column value of a
  loaded item is offered in the person filter dialog, as \<open>String(p.id)\<close>,
  whether the user is cached or not, provided each cached user carries the id
  it is cached under; and checking that option alone keeps the cell.\<close>

theorem person_option_offered:
  assumes cache_ids: "\<And>k u. cache k = Some u \<Longrightarrow> js_truthy (Some u) \<Longrightarrow> js_string (js_get u ''id'') = k"
    and it: "it \<in> set items" and cv: "cv \<in> set (item_cvs it)"
    and meta: "find (\<lambda>col. js_get col ''id'' = js_get cv ''id'') cols = Some meta"
    and ty: "js_get meta ''type'' = Some (JStr ''person'') \<or> js_get meta ''type'' = Some (JStr ''people'')"
    and nb: "\<not> cv_value_blank (Some cv)"
    and ps: "parsed_persons cv = Some ps" and p: "p \<in> set ps" and pid: "js_truthy (js_get p ''id'')"
  shows "js_string (js_get p ''id'') \<in> set (person_option_values cur (unique_people items cols cache))
       \<and> person_filter (Some cv) [js_string (js_get p ''id'')]"
proof -
  obtain k v where pe: "person_entry cache p = Some (k, v)"
      and ks: "js_string k = js_string (js_get p ''id'')"
    using person_entry_key [OF pid cache_ids] by blast
  have "(k, v) \<in> set (cv_people_entries cols cache cv)"
    using meta ty nb ps p pe by (auto simp: cv_people_entries_def in_set_map_filter)
  then have "(k, v) \<in> set (people_entries items cols cache)"
    using it cv by (auto simp: people_entries_def)
  then have "js_string k \<in> set (map (\<lambda>u. js_string (js_get u ''id'')) (unique_people items cols cache))"
    by (intro unique_people_ids) force
  moreover have "person_filter (Some cv) [js_string (js_get p ''id'')]"
    using nb ps p pid by (auto simp: person_filter_def list_ex_iff)
  ultimately show ?thesis using ks by (simp add: person_option_values_def)
qed

theorem person_option_offered_witness:
  \<open>JObj [(''id'', JStr ''1''), (''column_values'', JArr [JObj [(''id'', JStr ''person''), (''value'', JStr ''{"personsAndTeams":[{"id":7,"kind":"person"}]}'')]])] \<in> set [JObj [(''id'', JStr ''1''), (''column_values'', JArr [JObj [(''id'', JStr ''person''), (''value'', JStr ''{"personsAndTeams":[{"id":7,"kind":"person"}]}'')]])]]
   \<and> JObj [(''id'', JStr ''person''), (''value'', JStr ''{"personsAndTeams":[{"id":7,"kind":"person"}]}'')] \<in> set (item_cvs (JObj [(''id'', JStr ''1''), (''column_values'', JArr [JObj [(''id'', JStr ''person''), (''value'', JStr ''{"personsAndTeams":[{"id":7,"kind":"person"}]}'')]])]))
   \<and> find (\<lambda>col. js_get col ''id'' = js_get (JObj [(''id'', JStr ''person''), (''value'', JStr ''{"personsAndTeams":[{"id":7,"kind":"person"}]}'')]) ''id'') [JObj [(''id'', JStr ''person''), (''type'', JStr ''people'')]] = Some (JObj [(''id'', JStr ''person''), (''type'', JStr ''people'')])
   \<and> js_get (JObj [(''id'', JStr ''person''), (''type'', JStr ''people'')]) ''type'' = Some (JStr ''people'')
   \<and> \<not> cv_value_blank (Some (JObj [(''id'', JStr ''person''), (''value'', JStr ''{"personsAndTeams":[{"id":7,"kind":"person"}]}'')]))
   \<and> parsed_persons (JObj [(''id'', JStr ''person''), (''value'', JStr ''{"personsAndTeams":[{"id":7,"kind":"person"}]}'')]) = Some [JObj [(''id'', JNum 7 0), (''kind'', JStr ''person'')]]
   \<and> js_truthy (js_get (JObj [(''id'', JNum 7 0), (''kind'', JStr ''person'')]) ''id'')
   \<and> ''7'' \<in> set (person_option_values None (unique_people [JObj [(''id'', JStr ''1''), (''column_values'', JArr [JObj [(''id'', JStr ''person''), (''value'', JStr ''{"personsAndTeams":[{"id":7,"kind":"person"}]}'')]])]] [JObj [(''id'', JStr ''person''), (''type'', JStr ''people'')]] Map.empty))
   \<and> person_filter (Some (JObj [(''id'', JStr ''person''), (''value'', JStr ''{"personsAndTeams":[{"id":7,"kind":"person"}]}'')])) [''7'']\<close>
proof -
  have nb: \<open>\<not> cv_value_blank (Some (JObj [(''id'', JStr ''person''), (''value'', JStr ''{"personsAndTeams":[{"id":7,"kind":"person"}]}'')]))\<close>
    by (simp add: cv_value_blank_def js_get_def js_truthy_def js_string_def js_trim_def js_is_space_def)
  have ps: \<open>parsed_persons (JObj [(''id'', JStr ''person''), (''value'', JStr ''{"personsAndTeams":[{"id":7,"kind":"person"}]}'')]) = Some [JObj [(''id'', JNum 7 0), (''kind'', JStr ''person'')]]\<close>
    by code_simp
  have s7: "js_string (js_get (JObj [(''id'', JNum 7 0), (''kind'', JStr ''person'')]) ''id'') = ''7''"
    by code_simp
  have \<open>js_string (js_get (JObj [(''id'', JNum 7 0), (''kind'', JStr ''person'')]) ''id'') \<in> set (person_option_values None (unique_people [JObj [(''id'', JStr ''1''), (''column_values'', JArr [JObj [(''id'', JStr ''person''), (''value'', JStr ''{"personsAndTeams":[{"id":7,"kind":"person"}]}'')]])]] [JObj [(''id'', JStr ''person''), (''type'', JStr ''people'')]] Map.empty))
       \<and> person_filter (Some (JObj [(''id'', JStr ''person''), (''value'', JStr ''{"personsAndTeams":[{"id":7,"kind":"person"}]}'')])) [js_string (js_get (JObj [(''id'', JNum 7 0), (''kind'', JStr ''person'')]) ''id'')]\<close>
    by (rule person_option_offered [where cache = Map.empty and it = \<open>JObj [(''id'', JStr ''1''), (''column_values'', JArr [JObj [(''id'', JStr ''person''), (''value'', JStr ''{"personsAndTeams":[{"id":7,"kind":"person"}]}'')]])]\<close>
          and cv = \<open>JObj [(''id'', JStr ''person''), (''value'', JStr ''{"personsAndTeams":[{"id":7,"kind":"person"}]}'')]\<close>
          and meta = \<open>JObj [(''id'', JStr ''person''), (''type'', JStr ''people'')]\<close> and ps = \<open>[JObj [(''id'', JNum 7 0), (''kind'', JStr ''person'')]]\<close>])
       (simp_all add: nb ps item_cvs_def js_get_def js_truthy_def)
  with nb ps s7 show ?thesis
    by (simp add: item_cvs_def js_get_def js_truthy_def)
qed

text \<open>The clicks on a status row.  Checking an unchecked value through its
  checkbox appends it twice, so \<open>activeFilters\<close> holds a list with
  duplicates where the spec's view state has a set; the row click appends it
  once; either click on a checked value removes every copy.\<close>

lemma current_selected_filters_change:
  "current_selected_filters (active_filters (handle_filter_change c v b t)) c
     = (if b then current_selected_filters (active_filters t) c @ [v]
        else filter (\<lambda>x. x \<noteq> v) (current_selected_filters (active_filters t) c))"
  by (simp add: handle_filter_change_def current_selected_filters_def update_conv' Let_def)

lemma status_checkbox_click_unchecked:
  assumes "status_option_rows (active_filters t) c meta = Some rows" and "map_of rows v = Some False"
    and "status_dialog_click c meta (Status_checkbox_click v) t = Some t'"
  shows "current_selected_filters (active_filters t') c = current_selected_filters (active_filters t) c @ [v, v]"
  using assms by (auto simp: status_dialog_click_def current_selected_filters_change)

lemma status_row_click_unchecked:
  assumes "status_option_rows (active_filters t) c meta = Some rows" and "map_of rows v = Some False"
    and "status_dialog_click c meta (Status_row_click v) t = Some t'"
  shows "current_selected_filters (active_filters t') c = current_selected_filters (active_filters t) c @ [v]"
  using assms by (auto simp: status_dialog_click_def current_selected_filters_change)

lemma status_click_checked:
  assumes "status_option_rows (active_filters t) c meta = Some rows" and "map_of rows v = Some True"
    and "status_dialog_click c meta k t = Some t'" and "k \<in> {Status_row_click v, Status_checkbox_click v}"
  shows "current_selected_filters (active_filters t') c = filter (\<lambda>x. x \<noteq> v) (current_selected_filters (active_filters t) c)"
  using assms by (auto simp: status_dialog_click_def current_selected_filters_change)

lemma filter_rows_checked:
  assumes "filter_dialog_content fs cur people meta = Some (sec, clear)" and "r \<in> set (filter_rows sec)"
  shows "fr_checked r = (fr_value r \<in> set (current_selected_filters fs (js_string (cm_id meta))))"
proof (cases "meta_type_is meta ''status''")
  case True
  show ?thesis
  proof (cases "cm_status_options meta")
    case (Some os)
    with assms(1) True obtain z where
      z: "those (map (\<lambda>opt. map_option (\<lambda>v. (\<lparr>fr_value = v,
              fr_checked = v \<in> set (current_selected_filters fs (js_string (cm_id meta))), fr_label = v\<rparr>,
              status_text_color (so_color opt))) (status_filter_value opt)) os) = Some z"
      and sec: "sec = Status_rows z"
      by (auto simp: filter_dialog_content_def Let_def)
    from assms(2) sec obtain b where "(r, b) \<in> set z" by (auto simp: filter_rows_def)
    from those_map_Some_set [OF z this] show ?thesis by auto
  qed (use assms True in \<open>auto simp: filter_dialog_content_def filter_rows_def Let_def\<close>)
qed (use assms in \<open>auto simp: filter_dialog_content_def filter_rows_def user_filter_row_def Let_def
       split: if_splits\<close>)

lemma find_filter_row:
  assumes "filter_dialog_content fs cur people meta = Some (sec, clear)" and "r \<in> set (filter_rows sec)"
  shows "\<exists>r'. find (\<lambda>x. fr_value x = fr_value r) (filter_rows sec) = Some r' \<and> fr_value r' = fr_value r
              \<and> fr_checked r' = fr_checked r"
proof -
  from assms(2) obtain r' where f: "find (\<lambda>x. fr_value x = fr_value r) (filter_rows sec) = Some r'"
    by (cases "find (\<lambda>x. fr_value x = fr_value r) (filter_rows sec)") (auto simp: find_None_iff)
  then have "r' \<in> set (filter_rows sec)" and v: "fr_value r' = fr_value r" by (auto dest: find_SomeD)
  with filter_rows_checked [OF assms(1)] assms(2) f show ?thesis by auto
qed

lemma filter_row_click:
  assumes "filter_dialog_content (active_filters t) cur people meta = Some (sec, clear)"
    and "r \<in> set (filter_rows sec)"
  shows "\<exists>t'. filter_dialog_click cur people meta (Filter_row_click (fr_value r)) t = Some t'
           \<and> current_selected_filters (active_filters t') (js_string (cm_id meta))
               = (if fr_checked r
                  then filter (\<lambda>x. x \<noteq> fr_value r) (current_selected_filters (active_filters t) (js_string (cm_id meta)))
                  else current_selected_filters (active_filters t) (js_string (cm_id meta)) @ [fr_value r])"
proof -
  from find_filter_row [OF assms] obtain r' where
    "find (\<lambda>x. fr_value x = fr_value r) (filter_rows sec) = Some r'" and "fr_checked r' = fr_checked r" by auto
  with assms(1) show ?thesis
    by (simp add: filter_dialog_click_def current_selected_filters_change Let_def)
qed

text \<open>\<open>Clear Filter\<close> is on the dialog exactly when the column has an active
  value, and it removes every value of the column.\<close>

lemma filter_clear_click:
  assumes "filter_dialog_content (active_filters t) cur people meta = Some (sec, clear)"
  shows "clear = (current_selected_filters (active_filters t) (js_string (cm_id meta)) \<noteq> [])"
    and "clear \<Longrightarrow> filter_dialog_click cur people meta Clear_filter_click t
                    = Some (handle_clear_filter (js_string (cm_id meta)) t)"
    and "current_selected_filters (active_filters (handle_clear_filter c t)) c = []"
  using assms
  by (auto simp: filter_dialog_content_def filter_dialog_click_def handle_clear_filter_def
      current_selected_filters_def Let_def delete_conv' split: if_splits option.splits)

text \<open>Claim C4.  Ticking an unticked row of the filter dialog through its
  checkbox stores its value twice, for status and person columns alike: the
  checkbox's \<open>onChange\<close> and the row's \<open>onClick\<close>, reached as the click
  bubbles, both call \<open>handleFilterChange\<close> with \<open>true\<close>, and each appends.
  The spec's view state holds a set of values per column.\<close>

theorem filter_checkbox_stores_twice:
  assumes "filter_dialog_content (active_filters t) cur people meta = Some (sec, clear)"
    and "r \<in> set (filter_rows sec)" and "\<not> fr_checked r"
  shows "\<exists>t'. filter_dialog_click cur people meta (Filter_checkbox_click (fr_value r)) t = Some t'
           \<and> current_selected_filters (active_filters t') (js_string (cm_id meta))
               = current_selected_filters (active_filters t) (js_string (cm_id meta)) @ [fr_value r, fr_value r]"
proof -
  from find_filter_row [OF assms(1,2)] assms(3) obtain r' where
    "find (\<lambda>x. fr_value x = fr_value r) (filter_rows sec) = Some r'" and "\<not> fr_checked r'" by auto
  with assms(1) show ?thesis
    by (simp add: filter_dialog_click_def current_selected_filters_change Let_def)
qed

theorem filter_checkbox_stores_twice_witness:
  "let meta = \<lparr>cm_id = Some (JStr ''s''), cm_title = None, cm_type = Some (JStr ''status''),
               cm_status_options = Some [\<lparr>so_id = ''1'', so_label = JStr ''Done'', so_value = JNull,
                                           so_color = JStr ''#00c875''\<rparr>]\<rparr>;
       r = \<lparr>fr_value = ''Done'', fr_checked = False, fr_label = ''Done''\<rparr>
   in filter_dialog_content (active_filters initial_table) None [] meta = Some (Status_rows [(r, ''#fff'')], False)
      \<and> (\<exists>t'. filter_dialog_click None [] meta (Filter_checkbox_click ''Done'') initial_table = Some t'
              \<and> current_selected_filters (active_filters t') ''s'' = [''Done'', ''Done''])"
proof -
  define meta where "meta = \<lparr>cm_id = Some (JStr ''s''), cm_title = None, cm_type = Some (JStr ''status''),
               cm_status_options = Some [\<lparr>so_id = ''1'', so_label = JStr ''Done'', so_value = JNull,
                                           so_color = JStr ''#00c875''\<rparr>]\<rparr>"
  define r where "r = \<lparr>fr_value = ''Done'', fr_checked = False, fr_label = ''Done''\<rparr>"
  have c: "filter_dialog_content (active_filters initial_table) None [] meta = Some (Status_rows [(r, ''#fff'')], False)"
    by (simp add: meta_def r_def filter_dialog_content_def initial_table_def current_selected_filters_def
                  meta_type_is_def status_filter_value_def status_text_color_def)
  have "r \<in> set (filter_rows (Status_rows [(r, ''#fff'')]))" by (simp add: filter_rows_def)
  from filter_checkbox_stores_twice [OF c this] c show ?thesis
    by (simp add: meta_def r_def initial_table_def current_selected_filters_def js_string_def Let_def)
qed

end
