(* ===== verification/ItemName.thy ===== *)
theory ItemName
  imports Table
begin

text \<open>
  The name shown in the item-name cell of TaskTable (src/unnamed/part_003
  lines 657--663): \<open>item.name || 'Untitled'\<close>, unwrapped when its string
  form matches the Ruby-hash rendering \<open>/^{"text"=>"(.*?)"}$/\<close> that the
  platform stores after a text value was written to the name column.  The
  regular expression is modelled the way the engine runs it: the literal
  prefix at position 0, then the lazy \<open>(.*?)\<close>, which tries the suffix
  \<open>"}\<close> followed by the end of input before each further character, and
  \<open>.\<close>, which rejects the line terminators.  Strings are UTF-8 bytes: the
  terminators are LF, CR and the three-byte encodings of U+2028 and U+2029.
  The matcher is a \<open>function\<close> whose termination is proved by a measure, and
  it is proved equal to a direct description by slicing.
\<close>

definition ruby_prefix :: string where
  \<open>ruby_prefix = ''{"text"=>"''\<close>

definition ruby_suffix :: string where
  \<open>ruby_suffix = ''"}''\<close>

text \<open>\<open>.\<close> at byte \<open>j\<close>: not a line terminator.\<close>

definition regex_dot_at :: "string \<Rightarrow> nat \<Rightarrow> bool" where
  "regex_dot_at s j =
     (let c = s ! j
      in c \<noteq> CHR 0x0A \<and> c \<noteq> CHR 0x0D
         \<and> \<not> (c = CHR 0xE2 \<and> (take 2 (drop (Suc j) s) = [CHR 0x80, CHR 0xA8]
                                \<or> take 2 (drop (Suc j) s) = [CHR 0x80, CHR 0xA9])))"

text \<open>The lazy group from byte \<open>j\<close>: accept when the rest is exactly the
  suffix, else consume one more byte if \<open>.\<close> matches it.\<close>

function lazy_capture :: "string \<Rightarrow> nat \<Rightarrow> string option" where
  "lazy_capture s j =
     (if drop j s = ruby_suffix then Some (take (j - length ruby_prefix) (drop (length ruby_prefix) s))
      else if j < length s \<and> regex_dot_at s j then lazy_capture s (Suc j)
      else None)"
  by pat_completeness auto
termination
  by (relation "measure (\<lambda>(s, j). length s - j)") auto

declare lazy_capture.simps [simp del]

text \<open>\<open>String(name).match(rubyHashRegex)\<close>: the anchor \<open>^\<close> admits position 0
  only; the result is the captured group.\<close>

definition ruby_hash_match :: "string \<Rightarrow> string option" where
  "ruby_hash_match s =
     (if take (length ruby_prefix) s = ruby_prefix then lazy_capture s (length ruby_prefix) else None)"

text \<open>\<open>currentItemName\<close>: \<open>match && match[1]\<close> replaces the name by a
  non-empty capture; otherwise the value is kept as it is.\<close>

definition item_current_name :: "json \<Rightarrow> json" where
  "item_current_name item =
     (let n = (if js_truthy (js_get item ''name'') then the (js_get item ''name'') else JStr ''Untitled'')
      in case ruby_hash_match (js_string (Some n)) of
           Some m \<Rightarrow> if m \<noteq> [] then JStr m else n
         | None \<Rightarrow> n)"

lemma length_ruby_affixes [simp]: "length ruby_prefix = 10" "length ruby_suffix = 2"
  by (simp_all add: ruby_prefix_def ruby_suffix_def)

lemma suffix_position:
  assumes "drop j s \<noteq> ruby_suffix" and "drop (length s - 2) s = ruby_suffix"
  shows "j + 2 \<noteq> length s"
proof
  assume "j + 2 = length s"
  then have "length s - 2 = j" by simp
  with assms show False by simp
qed

lemma lazy_capture_closed:
  "lazy_capture s j =
     (if j + 2 \<le> length s \<and> drop (length s - 2) s = ruby_suffix \<and> (\<forall>k \<in> {j..<length s - 2}. regex_dot_at s k)
      then Some (take (length s - 12) (drop 10 s)) else None)"
proof (induction s j rule: lazy_capture.induct)
  case (1 s j)
  show ?case
  proof (cases "drop j s = ruby_suffix")
    case True
    have "length (drop j s) = length ruby_suffix"
      using True by (rule arg_cong)
    then have j: "j = length s - 2" "j + 2 \<le> length s"
      by simp_all
    show ?thesis
      using True j by (subst lazy_capture.simps) simp
  next
    case False
    then have eq: "lazy_capture s j = (if j < length s \<and> regex_dot_at s j then lazy_capture s (Suc j) else None)"
      by (subst lazy_capture.simps) simp
    show ?thesis
    proof (cases "j < length s \<and> regex_dot_at s j")
      case True
      with "1.IH" False eq have l: "lazy_capture s j =
          (if Suc j + 2 \<le> length s \<and> drop (length s - 2) s = ruby_suffix \<and> (\<forall>k \<in> {Suc j..<length s - 2}. regex_dot_at s k)
           then Some (take (length s - 12) (drop 10 s)) else None)" by simp
      have "j + 2 \<noteq> length s \<or> drop (length s - 2) s \<noteq> ruby_suffix"
        using suffix_position [OF False] by blast
      moreover have "j + 2 < length s \<Longrightarrow> {j..<length s - 2} = insert j {Suc j..<length s - 2}"
        by auto
      ultimately show ?thesis using l True
        by (cases "j + 2 < length s") auto
    next
      case nd: False
      have "\<not> (j + 2 \<le> length s \<and> drop (length s - 2) s = ruby_suffix \<and> (\<forall>k \<in> {j..<length s - 2}. regex_dot_at s k))"
      proof
        assume c: "j + 2 \<le> length s \<and> drop (length s - 2) s = ruby_suffix \<and> (\<forall>k \<in> {j..<length s - 2}. regex_dot_at s k)"
        with False have "j + 2 \<noteq> length s" by (blast dest: suffix_position)
        with c nd show False by auto
      qed
      with eq nd show ?thesis by simp
    qed
  qed
qed

lemma ruby_hash_match_closed:
  "ruby_hash_match s =
     (if take 10 s = ruby_prefix \<and> 12 \<le> length s \<and> drop (length s - 2) s = ruby_suffix
         \<and> (\<forall>k \<in> {10..<length s - 2}. regex_dot_at s k)
      then Some (take (length s - 12) (drop 10 s)) else None)"
  by (auto simp: ruby_hash_match_def lazy_capture_closed)

lemma regex_dot_at_wrapped:
  assumes "k < length m" and "set m \<inter> {CHR 0x0A, CHR 0x0D, CHR 0xE2} = {}"
  shows "regex_dot_at (ruby_prefix @ m @ ruby_suffix) (10 + k)"
proof -
  have "(ruby_prefix @ m @ ruby_suffix) ! (10 + k) = m ! k"
    using assms(1) by (simp add: nth_append)
  moreover have "m ! k \<in> set m" using assms(1) by simp
  ultimately show ?thesis using assms(2) by (auto simp: regex_dot_at_def Let_def)
qed

lemma ruby_hash_match_wrapped:
  assumes "set m \<inter> {CHR 0x0A, CHR 0x0D, CHR 0xE2} = {}"
  shows "ruby_hash_match (ruby_prefix @ m @ ruby_suffix) = Some m"
proof -
  have "\<forall>k \<in> {10..<length (ruby_prefix @ m @ ruby_suffix) - 2}. regex_dot_at (ruby_prefix @ m @ ruby_suffix) k"
  proof
    fix k assume "k \<in> {10..<length (ruby_prefix @ m @ ruby_suffix) - 2}"
    then have "k = 10 + (k - 10)" "k - 10 < length m" by auto
    then obtain i where "k = 10 + i" "i < length m" by blast
    with regex_dot_at_wrapped [OF _ assms] show "regex_dot_at (ruby_prefix @ m @ ruby_suffix) k" by simp
  qed
  then show ?thesis
    by (simp add: ruby_hash_match_closed ruby_prefix_def ruby_suffix_def)
qed

text \<open>Claim C30.  A name the platform stored in the Ruby-hash form
  \<open>{"text"=>"m"}\<close> is shown, and passed to the rename handlers, as \<open>m\<close>,
  for every non-empty \<open>m\<close> free of line terminators.\<close>

theorem item_name_roundtrip:
  assumes "m \<noteq> []" and "set m \<inter> {CHR 0x0A, CHR 0x0D, CHR 0xE2} = {}"
  shows "item_current_name (JObj [(''name'', JStr (ruby_prefix @ m @ ruby_suffix))]) = JStr m"
  using assms ruby_hash_match_wrapped [OF assms(2)]
  by (simp add: item_current_name_def js_get_def js_truthy_def js_string_def ruby_prefix_def)

theorem item_name_roundtrip_witness:
  \<open>''Task 1'' \<noteq> [] \<and> set ''Task 1'' \<inter> {CHR 0x0A, CHR 0x0D, CHR 0xE2} = {}
   \<and> item_current_name (JObj [(''name'', JStr ''{"text"=>"Task 1"}'')]) = JStr ''Task 1''\<close>
proof -
  have w: \<open>ruby_prefix @ ''Task 1'' @ ruby_suffix = ''{"text"=>"Task 1"}''\<close>
    by (simp add: ruby_prefix_def ruby_suffix_def)
  have "set ''Task 1'' \<inter> {CHR 0x0A, CHR 0x0D, CHR 0xE2} = {}" by simp
  with item_name_roundtrip [of "''Task 1''"] w show ?thesis by simp
qed

end
