(* ===== verification/TableUI.thy ===== *)
theory TableUI
  imports Editing TableContext ItemName
begin

text \<open>
  TaskTable as an event system (src/unnamed/part_003): one event per handler
  the render wires to a control, and the two mount effects that change the
  table state.  \<open>tt_step\<close> is the transition of one event; it is \<open>None\<close> when
  the control is not on screen (the name input exists only in the row whose
  id is \<open>===\<close> to \<open>editingItemId\<close>; a status option only in a status cell).
  Rows are taken from all loaded items, a superset of the filtered rows, so
  every invariant proved here holds of the real screen as well.  The
  double-click on an item name (line 689) calls
  \<open>monday.execute('openItemCard', ...)\<close>, a navigation of the host with no
  state of the model; no control calls \<open>handleDoubleClick\<close> (line 196).
  Dialog and hover handlers change only the presentation state
  \<open>cellDialogState\<close>, which is not modelled.
\<close>

datatype tt_event =
    Ev_filter string string bool
  | Ev_clear_filter string
  | Ev_sort string "json option"
  | Ev_name_input json string
  | Ev_name_save json
  | Ev_name_key json string
  | Ev_open_item_card json
  | Ev_status json col_meta status_option
  | Ev_user_fetched json
  | Ev_context "json option"

text \<open>\<open>editingItemId === item.id\<close> (line 668): the row shows the input.\<close>

definition row_editing :: "table_state \<Rightarrow> json \<Rightarrow> bool" where
  "row_editing t it = (case js_get it ''id'' of None \<Rightarrow> False | Some v \<Rightarrow> editing_matches (editing_item_id t) v)"

text \<open>The status dropdown of a cell (lines 700--716) lists
  \<open>columnMeta.statusOptions\<close> of a status column.\<close>

definition status_option_shown :: "col_meta list \<Rightarrow> col_meta \<Rightarrow> status_option \<Rightarrow> bool" where
  "status_option_shown metas meta opt =
     (meta \<in> set metas \<and> meta_type_is meta ''status''
      \<and> (case cm_status_options meta of Some os \<Rightarrow> opt \<in> set os | None \<Rightarrow> False))"

text \<open>One event.  \<open>items\<close> is \<open>boardItems\<close>, \<open>cols\<close> is \<open>allBoardColumns\<close>,
  \<open>metas\<close> is \<open>columnsForTable\<close>.  The handlers receive \<open>item.id\<close>,
  \<open>item.boardId\<close> (a string: App tags every item with its board's string
  id) and \<open>currentItemName\<close>.\<close>

definition tt_step :: "json api \<Rightarrow> json list \<Rightarrow> json list \<Rightarrow> col_meta list \<Rightarrow> tt_event
                       \<Rightarrow> table_state \<times> net \<Rightarrow> (edit_effect list \<times> table_state \<times> net) option" where
  "tt_step api items cols metas e c =
     (let (t, s) = c
      in case e of
           Ev_filter col v b \<Rightarrow> Some ([], handle_filter_change col v b t, s)
         | Ev_clear_filter col \<Rightarrow> Some ([], handle_clear_filter col t, s)
         | Ev_sort col st \<Rightarrow> Some ([], on_sort col st t, s)
         | Ev_name_input it v \<Rightarrow>
             if it \<in> set items \<and> row_editing t it then Some ([], t\<lparr>edited_item_name := v\<rparr>, s) else None
         | Ev_name_save it \<Rightarrow>
             if it \<in> set items \<and> row_editing t it
             then Some (handle_save_edit api (the (js_get it ''id'')) (js_string (js_get it ''boardId''))
                          (item_current_name it) items t s)
             else None
         | Ev_name_key it k \<Rightarrow>
             if it \<in> set items \<and> row_editing t it
             then Some (handle_key_down api k (the (js_get it ''id'')) (js_string (js_get it ''boardId''))
                          (item_current_name it) items t s)
             else None
         | Ev_open_item_card it \<Rightarrow>
             if it \<in> set items \<and> \<not> row_editing t it then Some ([], t, s) else None
         | Ev_status it meta opt \<Rightarrow>
             if it \<in> set items \<and> status_option_shown metas meta opt
             then (let (es, s') = handle_status_change api (Some opt) it meta s in Some (es, t, s'))
             else None
         | Ev_user_fetched uid \<Rightarrow>
             if uid \<in> set (users_to_fetch items cols (cached_users t))
             then (let (u, t', s') = fetch_and_cache_user api (Some uid) t s in Some ([], t', s'))
             else None
         | Ev_context ctx \<Rightarrow> Some ([], fetch_context_and_user_id ctx t, s))"

text \<open>The states reachable from the first render.\<close>

inductive tt_reach :: "json api \<Rightarrow> json list \<Rightarrow> json list \<Rightarrow> col_meta list \<Rightarrow> table_state \<times> net \<Rightarrow> bool"
  for api items cols metas where
  tt_init: "tt_reach api items cols metas (initial_table, s)"
| tt_trans: "tt_reach api items cols metas c \<Longrightarrow> tt_step api items cols metas e c = Some (es, c')
             \<Longrightarrow> tt_reach api items cols metas c'"

text \<open>The focus effect (lines 100--104), run after a render in which
  \<open>editingItemId\<close> changed: \<open>focus()\<close> is called when \<open>editingItemId\<close> is not
  \<open>null\<close> and the ref holds a rendered rename input, i.e. some displayed row
  shows it.\<close>

definition focus_effect :: "json list \<Rightarrow> table_state \<Rightarrow> bool" where
  "focus_effect rows t \<longleftrightarrow>
     editing_item_id t \<notin> {None, Some JNull} \<and> list_ex (row_editing t) rows"

lemma fetch_and_cache_user_editing:
  "fetch_and_cache_user api u t s = (v, t', s') \<Longrightarrow> editing_item_id t' = editing_item_id t"
  by (auto simp: fetch_and_cache_user_def Let_def split: if_splits prod.splits sum.splits option.splits list.splits json.splits)

lemma handle_save_edit_editing:
  "handle_save_edit api i b n items t s = (es, t', s') \<Longrightarrow> editing_item_id t' \<in> {None, editing_item_id t}"
  by (auto simp: handle_save_edit_def Let_def split: if_splits prod.splits sum.splits option.splits)

lemma handle_key_down_editing:
  "handle_key_down api k i b n items t s = (es, t', s') \<Longrightarrow> editing_item_id t' \<in> {None, editing_item_id t}"
  by (auto simp: handle_key_down_def split: if_splits dest: handle_save_edit_editing)

lemma fetch_context_editing: "editing_item_id (fetch_context_and_user_id ctx t) = editing_item_id t"
  by (simp add: fetch_context_and_user_id_def Let_def split: option.split)

lemma tt_step_editing:
  assumes "tt_step api items cols metas e (t, s) = Some (es, t', s')" and "editing_item_id t = None"
  shows "editing_item_id t' = None"
  using assms
  by (cases e) (auto simp: tt_step_def handle_filter_change_def handle_clear_filter_def on_sort_def
      fetch_context_editing Let_def split: if_splits prod.splits
      dest: handle_save_edit_editing handle_key_down_editing fetch_and_cache_user_editing)

lemma tt_reach_editing: "tt_reach api items cols metas c \<Longrightarrow> editing_item_id (fst c) = None"
proof (induction rule: tt_reach.induct)
  case (tt_init s)
  then show ?case by (simp add: initial_table_def)
next
  case (tt_trans c e es c')
  then show ?case by (cases c; cases c') (auto intro: tt_step_editing)
qed

text \<open>The focus effect never focuses: the rename input of a row whose id is
  \<open>null\<close> is rendered, but \<open>editingItemId\<close> stays \<open>null\<close>.\<close>

lemma tt_reach_no_focus: "tt_reach api items cols metas (t, s) \<Longrightarrow> \<not> focus_effect rows t"
  using tt_reach_editing [of api items cols metas "(t, s)"] by (simp add: focus_effect_def)

lemma rename_events_disabled:
  assumes "tt_reach api items cols metas (t, s)" and "js_get it ''id'' \<noteq> Some JNull"
  shows "tt_step api items cols metas (Ev_name_input it v) (t, s) = None
       \<and> tt_step api items cols metas (Ev_name_save it) (t, s) = None
       \<and> tt_step api items cols metas (Ev_name_key it k) (t, s) = None"
  using tt_reach_editing [OF assms(1)] assms(2)
  by (auto simp: tt_step_def row_editing_def editing_matches_def split: option.splits)

text \<open>The inline rename cannot be reached from the screen: in every
  state reachable from the first render by the table's controls and effects,
  \<open>editingItemId\<close> is still \<open>null\<close>, so the name input (and with it
  \<open>handleSaveEdit\<close> and \<open>handleKeyDown\<close>) is rendered for no row, except a
  row whose \<open>id\<close> is itself \<open>null\<close>: the double-click opens the item card and
  nothing calls \<open>handleDoubleClick\<close>.\<close>

theorem rename_input_unreachable:
  assumes "tt_reach api items cols metas (t, s)"
  shows "editing_item_id t = None \<and> (\<forall>it. row_editing t it \<longleftrightarrow> js_get it ''id'' = Some JNull)"
  using tt_reach_editing [OF assms]
  by (auto simp: row_editing_def editing_matches_def split: option.splits)

theorem rename_input_unreachable_witness:
  "tt_reach (\<lambda>q n. Api_data JNull) [JObj [(''id'', JStr ''1''), (''boardId'', JStr ''9''), (''name'', JStr ''A'')]] [] []
      (handle_filter_change ''status'' ''Done'' True initial_table, \<lparr>calls = 0, waits = []\<rparr>)
   \<and> editing_item_id (handle_filter_change ''status'' ''Done'' True initial_table) = None
   \<and> \<not> row_editing (handle_filter_change ''status'' ''Done'' True initial_table)
         (JObj [(''id'', JStr ''1''), (''boardId'', JStr ''9''), (''name'', JStr ''A'')])"
proof -
  have r: "tt_reach (\<lambda>q n. Api_data JNull) [JObj [(''id'', JStr ''1''), (''boardId'', JStr ''9''), (''name'', JStr ''A'')]] [] []
      (handle_filter_change ''status'' ''Done'' True initial_table, \<lparr>calls = 0, waits = []\<rparr>)"
    by (rule tt_trans [OF tt_init, where e = "Ev_filter ''status'' ''Done'' True" and es = "[]"])
       (simp add: tt_step_def)
  from rename_input_unreachable [OF r] r show ?thesis
    by (simp add: js_get_def)
qed

end
