(* ===== verification/JsonFuel.thy ===== *)
theory JsonFuel
  imports ViewFilter
begin

text \<open>
  Adequacy of the fuel of the JSON parser of Json: every sub-parser consumes
  input (\<open>parse_shorter\<close>), so a call with more fuel than characters never
  runs out (\<open>parse_fuel\<close>), by induction along the mutual recursion of
  \<open>parse_value\<close>, \<open>parse_elems\<close> and \<open>parse_members\<close>.  \<open>json_parse\<close> gives
  \<open>length s + 1\<close>, so its \<open>None\<close> is exactly the \<open>SyntaxError\<close> of
  \<open>JSON.parse\<close>: a malformed value or trailing non-whitespace.
\<close>

lemma length_skip_ws: "length (skip_ws s) \<le> length s"
  by (rule length_dropWhile_le)

lemma parse_chars_shorter: "parse_chars s = Some (t, r) \<Longrightarrow> length r < length s"
proof (induction s arbitrary: t rule: parse_chars.induct)
  case 1
  then show ?case by simp
next
  case (2 c s)
  then show ?case
    by (fastforce split: if_splits list.splits option.splits prod.splits)
qed

lemma parse_frac_le: "parse_frac s = Some (f, r) \<Longrightarrow> length r \<le> length s"
  by (auto simp: parse_frac_def length_dropWhile_le le_SucI split: list.splits if_splits)

lemma parse_exp_le: "parse_exp s = Some (x, r) \<Longrightarrow> length r \<le> length s"
  by (auto simp: parse_exp_def length_dropWhile_le le_SucI split: list.splits if_splits prod.splits)

lemma parse_int_digits_lt: "parse_int_digits s = Some (d, r) \<Longrightarrow> length r < length s"
  by (auto simp: parse_int_digits_def length_dropWhile_le le_imp_less_Suc split: list.splits if_splits)

lemma parse_number_shorter: "parse_number s = Some (v, r) \<Longrightarrow> length r < length s"
  by (auto simp: parse_number_def split: list.splits if_splits prod.splits option.splits
      dest!: parse_int_digits_lt parse_frac_le parse_exp_le)

lemma parse_lit_le: "parse_lit w v s = Inr (v', r) \<Longrightarrow> length r \<le> length s"
  by (auto simp: parse_lit_def split: if_splits)

lemma parse_shorter:
  "parse_value n s = Inr (v, r) \<Longrightarrow> length r < length s"
  "parse_elems n acc s = Inr (v, r) \<Longrightarrow> length r < length s"
  "parse_members n kvs s = Inr (v, r) \<Longrightarrow> length r < length s"
proof (induction n s and n acc s and n kvs s arbitrary: v r and v r and v r
       rule: parse_value_parse_elems_parse_members.induct)
  case (2 n s)
  show ?case
  proof (cases "skip_ws s")
    case Nil
    with "2.prems" show ?thesis by (simp add: parse_value.simps)
  next
    case (Cons c r0)
    note sc = this
    have l: "length r0 < length s" using length_skip_ws [of s] sc by simp
    consider (lit) "c = CHR ''n'' \<or> c = CHR ''t'' \<or> c = CHR ''f''" | (str) "c = CHR 0x22"
      | (arr) "c = CHR ''[''" | (obj) "c = CHR ''{''"
      | (other) "c \<noteq> CHR ''n''" "c \<noteq> CHR ''t''" "c \<noteq> CHR ''f''" "c \<noteq> CHR 0x22"
                "c \<noteq> CHR ''[''" "c \<noteq> CHR ''{''"
      by blast
    then show ?thesis
    proof cases
      case lit
      with "2.prems" sc l show ?thesis by (auto simp: parse_value.simps dest!: parse_lit_le)
    next
      case str
      with "2.prems" sc have e: "(case parse_chars r0 of None \<Rightarrow> Inl Syntax_error
          | Some (t, r') \<Rightarrow> Inr (JStr t, r')) = Inr (v, r)"
        by (simp add: parse_value.simps)
      show ?thesis
      proof (cases "parse_chars r0")
        case None
        with e show ?thesis by simp
      next
        case (Some p)
        with e have "parse_chars r0 = Some (fst p, r)" by (cases p) simp
        then have "length r < length r0" by (rule parse_chars_shorter)
        with l show ?thesis by simp
      qed
    next
      case arr
      show ?thesis
      proof (cases "skip_ws r0")
        case Nil
        with "2.prems" sc arr show ?thesis by (simp add: parse_value.simps)
      next
        case (Cons d r')
        have lr: "length r' < length r0" using length_skip_ws [of r0] Cons by simp
        show ?thesis
        proof (cases "d = CHR '']''")
          case True
          with "2.prems" sc Cons arr lr l show ?thesis by (simp add: parse_value.simps)
        next
          case False
          with "2.prems" sc Cons arr have e: "parse_elems n [] r0 = Inr (v, r)"
            by (simp add: parse_value.simps)
          have "length r < length r0"
            by (rule "2.IH"(1) [OF sc]) (use arr Cons False e in simp_all)
          with l show ?thesis by simp
        qed
      qed
    next
      case obj
      show ?thesis
      proof (cases "skip_ws r0")
        case Nil
        with "2.prems" sc obj show ?thesis by (simp add: parse_value.simps)
      next
        case (Cons d r')
        have lr: "length r' < length r0" using length_skip_ws [of r0] Cons by simp
        show ?thesis
        proof (cases "d = CHR ''}''")
          case True
          with "2.prems" sc Cons obj lr l show ?thesis by (simp add: parse_value.simps)
        next
          case False
          with "2.prems" sc Cons obj have e: "parse_members n [] r0 = Inr (v, r)"
            by (simp add: parse_value.simps)
          have "length r < length r0"
            by (rule "2.IH"(2) [OF sc]) (use obj Cons False e in simp_all)
          with l show ?thesis by simp
        qed
      qed
    next
      case other
      with "2.prems" sc have e: "(if c = CHR ''-'' \<or> is_digit c
          then (case parse_number (c # r0) of None \<Rightarrow> Inl Syntax_error | Some x \<Rightarrow> Inr x)
          else Inl Syntax_error) = Inr (v, r)"
        by (simp add: parse_value.simps)
      then have "parse_number (c # r0) = Some (v, r)"
        by (simp split: if_splits option.splits)
      then have "length r < length (c # r0)" by (rule parse_number_shorter)
      with length_skip_ws [of s] sc show ?thesis by simp
    qed
  qed
next
  case (4 n acc s)
  obtain x r1 where pv: "parse_value (Suc n) s = Inr (x, r1)"
    using "4.prems" by (auto simp: parse_elems.simps split: sum.splits)
  have l1: "length r1 < length s" by (rule "4.IH"(1) [OF pv])
  obtain d r' where sk: "skip_ws r1 = d # r'"
    using "4.prems" pv by (auto simp: parse_elems.simps split: list.splits)
  have l2: "length r' < length r1" using length_skip_ws [of r1] sk by simp
  show ?case
  proof (cases "d = CHR '',''")
    case True
    with "4.prems" pv sk have e: "parse_elems n (acc @ [x]) r' = Inr (v, r)"
      by (simp add: parse_elems.simps)
    have "length r < length r'"
      by (rule "4.IH"(2)) (use pv sk True e in simp_all)
    with l1 l2 show ?thesis by simp
  next
    case False
    with "4.prems" pv sk l1 l2 show ?thesis
      by (simp add: parse_elems.simps split: if_splits)
  qed
next
  case (6 n kvs s)
  obtain q r0 where sq: "skip_ws s = q # r0"
    using "6.prems" by (auto simp: parse_members.simps split: list.splits)
  have l0: "length r0 < length s" using length_skip_ws [of s] sq by simp
  obtain k r1 where pc: "parse_chars r0 = Some (k, r1)"
    using "6.prems" sq by (auto simp: parse_members.simps split: if_splits option.splits)
  have l1: "length r1 < length r0" using pc by (rule parse_chars_shorter)
  obtain c r2 where sk1: "skip_ws r1 = c # r2" and q: "q = CHR 0x22" and c: "c = CHR '':''"
    using "6.prems" sq pc by (auto simp: parse_members.simps split: if_splits list.splits)
  have l2: "length r2 < length r1" using length_skip_ws [of r1] sk1 by simp
  obtain x r3 where pv: "parse_value (Suc n) r2 = Inr (x, r3)"
    using "6.prems" sq pc sk1 q c by (auto simp: parse_members.simps split: sum.splits)
  have l3: "length r3 < length r2"
    by (rule "6.IH"(1)) (use sq pc sk1 q c pv in simp_all)
  obtain d r4 where sk3: "skip_ws r3 = d # r4"
    using "6.prems" sq pc sk1 q c pv by (auto simp: parse_members.simps split: list.splits)
  have l4: "length r4 < length r3" using length_skip_ws [of r3] sk3 by simp
  show ?case
  proof (cases "d = CHR '',''")
    case True
    with "6.prems" sq pc sk1 q c pv sk3 have e: "parse_members n (kvs @ [(k, x)]) r4 = Inr (v, r)"
      by (simp add: parse_members.simps)
    have "length r < length r4"
      by (rule "6.IH"(2)) (use sq pc sk1 q c pv sk3 True e in simp_all)
    with l0 l1 l2 l3 l4 show ?thesis by simp
  next
    case False
    with "6.prems" sq pc sk1 q c pv sk3 l0 l1 l2 l3 l4 show ?thesis
      by (simp add: parse_members.simps split: if_splits)
  qed
qed (simp_all add: parse_value.simps parse_elems.simps parse_members.simps)

lemma parse_fuel:
  "length s < m \<Longrightarrow> parse_value m s \<noteq> Inl Out_of_fuel"
  "length s < m \<Longrightarrow> parse_elems m acc s \<noteq> Inl Out_of_fuel"
  "length s < m \<Longrightarrow> parse_members m kvs s \<noteq> Inl Out_of_fuel"
proof (induction m s and m acc s and m kvs s rule: parse_value_parse_elems_parse_members.induct)
  case (2 n s)
  show ?case
  proof (cases "skip_ws s")
    case Nil
    then show ?thesis by (simp add: parse_value.simps del: dropWhile_eq_Nil_conv)
  next
    case (Cons c r0)
    note sc = this
    have l: "length r0 < n" using length_skip_ws [of s] sc "2.prems" by simp
    consider (arr) "c = CHR ''[''" | (obj) "c = CHR ''{''" | (other) "c \<noteq> CHR ''[''" "c \<noteq> CHR ''{''"
      by blast
    then show ?thesis
    proof cases
      case arr
      show ?thesis
      proof (cases "skip_ws r0")
        case Nil
        with sc arr show ?thesis by (simp add: parse_value.simps del: dropWhile_eq_Nil_conv)
      next
        case (Cons d r')
        show ?thesis
        proof (cases "d = CHR '']''")
          case True
          with sc arr Cons show ?thesis by (simp add: parse_value.simps)
        next
          case False
          have "parse_elems n [] r0 \<noteq> Inl Out_of_fuel"
            by (rule "2.IH"(1) [OF sc]) (use arr Cons False l in simp_all)
          with sc arr Cons False show ?thesis by (simp add: parse_value.simps)
        qed
      qed
    next
      case obj
      show ?thesis
      proof (cases "skip_ws r0")
        case Nil
        with sc obj show ?thesis by (simp add: parse_value.simps del: dropWhile_eq_Nil_conv)
      next
        case (Cons d r')
        show ?thesis
        proof (cases "d = CHR ''}''")
          case True
          with sc obj Cons show ?thesis by (simp add: parse_value.simps)
        next
          case False
          have "parse_members n [] r0 \<noteq> Inl Out_of_fuel"
            by (rule "2.IH"(2) [OF sc]) (use obj Cons False l in simp_all)
          with sc obj Cons False show ?thesis by (simp add: parse_value.simps)
        qed
      qed
    next
      case other
      with sc show ?thesis
        by (simp add: parse_value.simps parse_lit_def split: option.split prod.split)
    qed
  qed
next
  case (4 n acc s)
  show ?case
  proof (cases "parse_value (Suc n) s")
    case (Inl err)
    with "4.IH"(1) "4.prems" show ?thesis by (simp add: parse_elems.simps)
  next
    case (Inr p)
    obtain x r1 where pv: "parse_value (Suc n) s = Inr (x, r1)" using Inr by (cases p) simp
    have "length r1 < length s" using pv by (rule parse_shorter(1))
    then have "length (skip_ws r1) < n" using length_skip_ws [of r1] "4.prems" by simp
    then show ?thesis
      using "4.IH"(2) [OF pv] pv
      by (auto simp: parse_elems.simps split: list.split)
  qed
next
  case (6 n kvs s)
  show ?case
  proof (cases "skip_ws s")
    case Nil
    then show ?thesis by (simp add: parse_members.simps del: dropWhile_eq_Nil_conv)
  next
    case (Cons q r0)
    note sq = this
    show ?thesis
    proof (cases "q = CHR 0x22 \<and> parse_chars r0 \<noteq> None")
      case False
      with sq show ?thesis by (auto simp: parse_members.simps split: option.split)
    next
      case True
      then obtain k r1 where pc: "parse_chars r0 = Some (k, r1)" and q: "q = CHR 0x22" by auto
      show ?thesis
      proof (cases "skip_ws r1")
        case Nil
        with sq pc q show ?thesis by (simp add: parse_members.simps del: dropWhile_eq_Nil_conv)
      next
        case (Cons c r2)
        note sk1 = this
        show ?thesis
        proof (cases "c = CHR '':''")
          case False
          with sq pc q sk1 show ?thesis by (simp add: parse_members.simps)
        next
          case c: True
          have l2: "length r2 < Suc n"
            using length_skip_ws [of s] length_skip_ws [of r1] parse_chars_shorter [OF pc] sq sk1 "6.prems" by simp
          have nf: "parse_value (Suc n) r2 \<noteq> Inl Out_of_fuel"
            by (rule "6.IH"(1)) (use sq pc q sk1 c l2 in simp_all)
          show ?thesis
          proof (cases "parse_value (Suc n) r2")
            case (Inl err)
            with nf sq pc q sk1 c show ?thesis by (simp add: parse_members.simps)
          next
            case (Inr p)
            obtain x r3 where pv: "parse_value (Suc n) r2 = Inr (x, r3)" using Inr by (cases p) simp
            have "length r3 < length r2" using pv by (rule parse_shorter(1))
            then have l3: "length (skip_ws r3) < n" using length_skip_ws [of r3] l2 by simp
            show ?thesis
            proof (cases "skip_ws r3")
              case Nil
              with sq pc q sk1 c pv show ?thesis
                by (simp add: parse_members.simps del: dropWhile_eq_Nil_conv)
            next
              case (Cons d r4)
              show ?thesis
              proof (cases "d = CHR '',''")
                case True
                have "parse_members n (kvs @ [(k, x)]) r4 \<noteq> Inl Out_of_fuel"
                  by (rule "6.IH"(2)) (use sq pc q sk1 c pv Cons True l3 in simp_all)
                with sq pc q sk1 c pv Cons True show ?thesis by (simp add: parse_members.simps)
              next
                case False
                with sq pc q sk1 c pv Cons show ?thesis by (simp add: parse_members.simps)
              qed
            qed
          qed
        qed
      qed
    qed
  qed
qed (simp_all add: parse_value.simps parse_elems.simps parse_members.simps)

lemma json_parse_None_iff:
  "json_parse s = None \<longleftrightarrow>
     parse_value (Suc (length s)) s = Inl Syntax_error
     \<or> (\<exists>v r. parse_value (Suc (length s)) s = Inr (v, r) \<and> skip_ws r \<noteq> [])"
proof -
  have nf: "parse_value (Suc (length s)) s \<noteq> Inl Out_of_fuel"
    by (rule parse_fuel(1)) simp
  show ?thesis
  proof (cases "parse_value (Suc (length s)) s")
    case (Inl e)
    with nf show ?thesis by (cases e) (simp_all add: json_parse_def)
  next
    case (Inr p)
    then show ?thesis by (cases p) (simp add: json_parse_def)
  qed
qed

text \<open>\<open>JSON.parse\<close> as modelled always terminates within its fuel:
  the parser never reports \<open>Out_of_fuel\<close> on the fuel \<open>json_parse\<close> gives
  it.  So the \<open>catch\<close> around \<open>JSON.parse(cv.value)\<close> of the person filter
  is taken exactly when the value text is malformed or followed by more than
  whitespace, or lists a \<open>null\<close> person.\<close>

theorem json_parse_fuel_adequate:
  "parse_value (Suc (length s)) s \<noteq> Inl Out_of_fuel
   \<and> (parsed_persons c = None \<longleftrightarrow>
        (let t = js_string (js_get c ''value'')
         in parse_value (Suc (length t)) t = Inl Syntax_error
            \<or> (\<exists>v r. parse_value (Suc (length t)) t = Inr (v, r) \<and> skip_ws r \<noteq> [])
            \<or> (\<exists>pv. json_parse t = Some pv \<and> persons_of pv = None)))"
proof -
  have "parse_value (Suc (length s)) s \<noteq> Inl Out_of_fuel"
    by (rule parse_fuel(1)) simp
  moreover have "parsed_persons c = None \<longleftrightarrow>
        (let t = js_string (js_get c ''value'')
         in parse_value (Suc (length t)) t = Inl Syntax_error
            \<or> (\<exists>v r. parse_value (Suc (length t)) t = Inr (v, r) \<and> skip_ws r \<noteq> [])
            \<or> (\<exists>pv. json_parse t = Some pv \<and> persons_of pv = None))"
    using json_parse_None_iff [of "js_string (js_get c ''value'')"]
    by (auto simp: parsed_persons_def Let_def split: option.split)
  ultimately show ?thesis by blast
qed

end
