(* ===== verification/AppView.thy ===== *)
theory AppView
  imports Selection Sidebar Refresh
begin

text \<open>
  What App shows (src/unnamed/part_005 lines 459--578) and how App and the
  Sidebar component meet.  \<open>app_screen\<close> is the render: the settings
  loader, the full-panel settings error, or the main panel with the menu
  label, the offset of the fixed panel holding the Sidebar, and the content
  area (a loader, or the error lines and one of four bodies).  The column memos run before the early
  returns (lines 366 and 405), so a memo that throws breaks every branch
  (\<open>None\<close>).  \<open>sidebar_props_of\<close> is the element \<open><Sidebar ... />\<close> of lines
  559--572; \<open>sidebar_screen\<close> is the Sidebar's render
  (src/src/components/Sidebar/Sidebar.jsx lines 44--124), which reads only the
  props it destructures (lines 8--17) and its own state.  The controls of
  that screen and the App handler each one calls are \<open>sidebar_controls\<close> and
  \<open>app_on_control\<close>; \<open>view_state_wf\<close> is the type of the selections the
  spec gives, which every control preserves.
\<close>

subsection \<open>The App screen\<close>

datatype main_body =
    Prompt_select_boards
  | Prompt_select_columns
  | No_items
  | Table_shown "json list" "json list"

datatype app_view =
    Screen_loading_settings
  | Screen_settings_error string
  | Screen_main string "nat + string" "(string list \<times> main_body) option"

text \<open>\<open>{columnsError && <p>...}\<close> and \<open>{itemsError && <p>...}\<close> (lines
  515--516): a message is shown when it is a non-empty string.\<close>

definition shown_error :: "string option \<Rightarrow> string list" where
  "shown_error e = (case e of Some m \<Rightarrow> if m \<noteq> [] then [m] else [] | None \<Rightarrow> [])"

text \<open>\<open>isContentLoading\<close> (line 426).\<close>

definition is_content_loading :: "app \<Rightarrow> bool" where
  "is_content_loading a = (is_loading_columns a \<or> is_loading_items a)"

text \<open>The menu button's label (line 493) and the \<open>right\<close> offset of the fixed
  panel that holds the Sidebar (line 546): \<open>0\<close> on screen, \<open>'-100%'\<close> pushed
  out of the viewport.  The panel and its Sidebar are rendered either way.\<close>

definition menu_label :: "bool \<Rightarrow> string" where
  "menu_label is_open = (if is_open then ''Close Settings'' else ''Open Settings'')"

definition sidebar_panel_right :: "bool \<Rightarrow> nat + string" where
  "sidebar_panel_right is_open = (if is_open then Inl 0 else Inr ''-100%'')"

text \<open>Lines 459--578.  \<open>Screen_main\<close> holds the menu label, the panel offset
  and the content area: \<open>None\<close> for the \<open>Loading board data...\<close> loader
  (lines 508--511), otherwise the error lines and one of four bodies (lines
  513--537); \<open>TaskTable\<close> gets \<open>columnsToDisplayInTable\<close> and
  \<open>boardItems\<close>.\<close>

definition app_screen :: "app \<Rightarrow> app_view option" where
  "app_screen a =
     (case all_available_columns (selected_board_ids a) (all_boards_data a) of
        None \<Rightarrow> None
      | Some cols \<Rightarrow>
          Some (if is_app_loading a then Screen_loading_settings
                else case app_error a of
                       Some e \<Rightarrow> Screen_settings_error e
                     | None \<Rightarrow>
                         Screen_main (menu_label (is_sidebar_open a)) (sidebar_panel_right (is_sidebar_open a))
                           (if is_content_loading a then None
                            else Some (shown_error (columns_error a) @ shown_error (items_error a),
                                       if selected_board_ids a = [] then Prompt_select_boards
                                       else if selected_column_ids a = [] then Prompt_select_columns
                                       else if board_items a = [] then No_items
                                       else Table_shown (columns_to_display cols (selected_column_ids a))
                                              (board_items a)))))"

subsection \<open>The Sidebar element and its screen\<close>

text \<open>The data props App passes (lines 559--572); the handler props are the
  controls below.\<close>

record sidebar_props =
  sp_all_available_boards :: "json list"
  sp_is_fetching_all_boards :: bool
  sp_all_boards_fetch_error :: "string option"
  sp_selected_board_ids :: "string list"
  sp_all_board_columns :: "json list"
  sp_selected_column_ids :: "string list"

definition sidebar_props_of :: "app \<Rightarrow> json list \<Rightarrow> sidebar_props" where
  "sidebar_props_of a cols =
     \<lparr>sp_all_available_boards = available_boards a,
      sp_is_fetching_all_boards = fetching_available_boards a,
      sp_all_boards_fetch_error = available_boards_error a,
      sp_selected_board_ids = selected_board_ids a,
      sp_all_board_columns = cols,
      sp_selected_column_ids = selected_column_ids a\<rparr>"

datatype field_section =
    Fields_select_boards
  | Fields_none
  | Field_rows "board_row list"

record sidebar_screen =
  ss_boards :: boards_view
  ss_fields_loading :: bool
  ss_fields :: field_section

text \<open>One field checkbox (lines 109--117): \<open>column.id\<close>, \<open>column.title\<close>,
  \<open>selectedColumnIds.includes(column.id)\<close>.\<close>

definition field_row_of :: "string list \<Rightarrow> json \<Rightarrow> board_row" where
  "field_row_of sel c =
     (let i = js_get c ''id''
      in \<lparr>row_id = i, row_label = js_get c ''title'', row_checked = list_ex (\<lambda>x. i = Some (JStr x)) sel\<rparr>)"

text \<open>Lines 44--124: the board list from the Sidebar's own state, the
  \<open>Loading fields...\<close> notice (lines 100--102) and the field section (lines
  103--121), from \<open>selectedBoardIds\<close>, \<open>allBoardColumns\<close> and
  \<open>selectedColumnIds\<close> only.\<close>

definition sidebar_screen :: "sidebar_props \<Rightarrow> sidebar \<Rightarrow> sidebar_screen option" where
  "sidebar_screen p st =
     map_option
       (\<lambda>bv. \<lparr>ss_boards = bv,
              ss_fields_loading = (sp_all_board_columns p = [] \<and> sp_selected_board_ids p \<noteq> []),
              ss_fields = (if sp_selected_board_ids p = [] then Fields_select_boards
                           else if sp_all_board_columns p = [] then Fields_none
                           else Field_rows (map (field_row_of (sp_selected_column_ids p)) (sp_all_board_columns p)))\<rparr>)
       (sidebar_view st (sp_selected_board_ids p))"

datatype sidebar_control =
    Board_checkbox "json option"
  | Field_checkbox "json option"
  | Select_all_fields
  | Deselect_all_fields

text \<open>The controls on the screen: a checkbox per listed board and field, and
  the two field buttons (lines 84--99).  The board section has no buttons
  (lines 60--61 are an empty \<open>div\<close>).\<close>

definition sidebar_controls :: "sidebar_screen \<Rightarrow> sidebar_control list" where
  "sidebar_controls sc =
     (case ss_boards sc of Board_rows rs \<Rightarrow> map (\<lambda>r. Board_checkbox (row_id r)) rs | _ \<Rightarrow> [])
     @ [Select_all_fields, Deselect_all_fields]
     @ (case ss_fields sc of Field_rows rs \<Rightarrow> map (\<lambda>r. Field_checkbox (row_id r)) rs | _ \<Rightarrow> [])"

text \<open>The App handler a control calls: \<open>onBoardToggle(board.id)\<close>,
  \<open>onColumnToggle(column.id)\<close>, \<open>onSelectAllColumns\<close>,
  \<open>onDeselectAllColumns\<close>.  An id that is not a string is outside the App's
  selection type (\<open>None\<close>).\<close>

definition app_on_control :: "json list \<Rightarrow> sidebar_control \<Rightarrow> app \<Rightarrow> app option" where
  "app_on_control cols c a =
     (case c of
        Board_checkbox (Some (JStr b)) \<Rightarrow> Some (handle_board_toggle b a)
      | Field_checkbox (Some (JStr k)) \<Rightarrow> Some (handle_column_toggle k a)
      | Select_all_fields \<Rightarrow> handle_select_all_columns cols a
      | Deselect_all_fields \<Rightarrow> Some (handle_deselect_all_columns a)
      | _ \<Rightarrow> None)"

text \<open>The types of the view state the spec gives (section 3):
  \<open>selectedBoardIds\<close> is a set and \<open>selectedColumnIds\<close> an ordered set of
  strings, i.e. lists without duplicates.\<close>

definition view_state_wf :: "app \<Rightarrow> bool" where
  "view_state_wf a \<longleftrightarrow> distinct (selected_board_ids a) \<and> distinct (selected_column_ids a)"

subsection \<open>Properties\<close>

lemma app_screen_board_list [simp]:
  "app_screen (a\<lparr>available_boards := bs, fetching_available_boards := f, available_boards_error := e\<rparr>)
   = app_screen a"
  by (simp add: app_screen_def is_content_loading_def split: option.split)

lemma sidebar_screen_board_list [simp]:
  "sidebar_screen (sidebar_props_of (a\<lparr>available_boards := bs, fetching_available_boards := f,
                                      available_boards_error := e\<rparr>) cols) st
   = sidebar_screen (sidebar_props_of a cols) st"
  by (simp add: sidebar_screen_def sidebar_props_of_def)

lemma fetch_boards_for_sidebar_fields:
  assumes "fetch_boards_for_sidebar api a s = Some (a', s')"
  shows "a' = a\<lparr>available_boards := available_boards a', fetching_available_boards := fetching_available_boards a',
                    available_boards_error := available_boards_error a'\<rparr>"
  using assms
  by (auto simp: fetch_boards_for_sidebar_def Let_def split: if_splits prod.splits sum.splits option.splits json.splits)

lemma fetch_boards_for_sidebar_calls:
  assumes "fetch_boards_for_sidebar api a s = Some (a', s')" and "\<not> fetching_available_boards a"
  shows "calls s < calls s'"
  using assms api_call_calls [of api GET_BOARDS_QUERY s]
  by (auto simp: fetch_boards_for_sidebar_def Let_def split: prod.splits sum.splits option.splits json.splits if_splits)

text \<open>Claim C23.  The board list that opening the sidebar fetches
  (\<open>toggleSidebar\<close> calls \<open>fetchBoardsForSidebarSelection\<close>, lines
  441--449) is never shown: the fetch makes a platform call whenever one is
  not already running, and it changes neither the App screen nor the
  Sidebar's screen, since the Sidebar lists the boards of its own fetch and
  does not read \<open>allAvailableBoards\<close>, \<open>isFetchingAllBoards\<close> or
  \<open>allBoardsFetchError\<close>.\<close>

theorem sidebar_board_fetch_invisible:
  assumes "fetch_boards_for_sidebar api a s = Some (a', s')"
  shows "app_screen a' = app_screen a
         \<and> sidebar_screen (sidebar_props_of a' cols) st = sidebar_screen (sidebar_props_of a cols) st
         \<and> (calls s < calls s' \<or> fetching_available_boards a)"
proof -
  have a': "a' = a\<lparr>available_boards := available_boards a', fetching_available_boards := fetching_available_boards a',
                    available_boards_error := available_boards_error a'\<rparr>"
    by (rule fetch_boards_for_sidebar_fields [OF assms])
  have "app_screen a' = app_screen a"
    by (subst a') (rule app_screen_board_list)
  moreover have "sidebar_screen (sidebar_props_of a' cols) st = sidebar_screen (sidebar_props_of a cols) st"
    by (subst a') (rule sidebar_screen_board_list)
  moreover have "calls s < calls s' \<or> fetching_available_boards a"
    using fetch_boards_for_sidebar_calls [OF assms] by blast
  ultimately show ?thesis by blast
qed

theorem sidebar_board_fetch_invisible_witness:
  "let W = (\<lambda>(q::string) (k::nat). Api_data (JObj [(''boards'', JArr [JObj [(''id'', JStr ''7'')]])]));
       S = \<lparr>calls = 0, waits = []\<rparr>
   in fetch_boards_for_sidebar W initial_app S
        = Some (initial_app\<lparr>available_boards := [JObj [(''id'', JStr ''7'')]]\<rparr>, after_call S)
      \<and> app_screen (initial_app\<lparr>available_boards := [JObj [(''id'', JStr ''7'')]]\<rparr>) = app_screen initial_app
      \<and> sidebar_screen (sidebar_props_of (initial_app\<lparr>available_boards := [JObj [(''id'', JStr ''7'')]]\<rparr>) []) initial_sidebar
        = sidebar_screen (sidebar_props_of initial_app []) initial_sidebar
      \<and> calls S < calls (after_call S)"
proof -
  define W :: "json api" where "W = (\<lambda>q k. Api_data (JObj [(''boards'', JArr [JObj [(''id'', JStr ''7'')]])]))"
  define S :: net where "S = \<lparr>calls = 0, waits = []\<rparr>"
  have c: "api_call W GET_BOARDS_QUERY S = (Inr (JObj [(''boards'', JArr [JObj [(''id'', JStr ''7'')]])]), after_call S)"
    by (rule api_call_data) (simp add: W_def)
  have f: "fetch_boards_for_sidebar W initial_app S
             = Some (initial_app\<lparr>available_boards := [JObj [(''id'', JStr ''7'')]]\<rparr>, after_call S)"
    by (simp add: fetch_boards_for_sidebar_def c initial_app_def js_prop_def js_get_def js_truthy_def)
  from sidebar_board_fetch_invisible [OF f, of "[]" initial_sidebar] f show ?thesis
    by (simp add: W_def S_def initial_app_def)
qed

text \<open>Claim C9.  The controls of the sidebar keep the view state well typed:
  with the column list App passes (the memo of line 366), every checkbox and
  button the Sidebar renders leaves both selections free of duplicates.
  Select-all-fields relies on the memo keeping one column per id.\<close>

theorem sidebar_controls_keep_view_state:
  assumes "all_available_columns (selected_board_ids a) (all_boards_data a) = Some cols"
    and "view_state_wf a" and "app_on_control cols c a = Some a'"
  shows "view_state_wf a'"
proof -
  have d: "distinct (map col_id cols)" using assms(1) by (rule all_available_columns_distinct)
  show ?thesis
  proof (cases c)
    case Select_all_fields
    with assms(3) obtain ids where "string_ids cols = Some ids" "a' = a\<lparr>selected_column_ids := ids\<rparr>"
      by (auto simp: app_on_control_def handle_select_all_columns_def)
    with string_ids_distinct [OF _ d] assms(2) show ?thesis by (simp add: view_state_wf_def)
  qed (use assms(2,3) in \<open>auto simp: app_on_control_def view_state_wf_def handle_board_toggle_def
         handle_column_toggle_def handle_deselect_all_columns_def distinct_toggle_id
         split: option.splits json.splits\<close>)
qed

theorem sidebar_controls_keep_view_state_witness:
  "let bd = [''1'' \<mapsto> \<lparr>entry_id = JStr ''1'', entry_name = Some (JStr ''A''),
                  entry_columns = JArr [JObj [(''id'', JStr ''status'')], JObj [(''id'', JStr ''status'')],
                                        JObj [(''id'', JStr ''date'')]]\<rparr>];
       a = initial_app\<lparr>selected_board_ids := [''1''], all_boards_data := bd\<rparr>;
       cols = [JObj [(''id'', JStr ''status'')], JObj [(''id'', JStr ''date'')]]
   in all_available_columns (selected_board_ids a) (all_boards_data a) = Some cols
      \<and> view_state_wf a \<and> app_on_control cols Select_all_fields a = Some (a\<lparr>selected_column_ids := [''status'', ''date'']\<rparr>)
      \<and> view_state_wf (a\<lparr>selected_column_ids := [''status'', ''date'']\<rparr>)"
proof -
  define bd where "bd = [''1'' \<mapsto> \<lparr>entry_id = JStr ''1'', entry_name = Some (JStr ''A''),
                  entry_columns = JArr [JObj [(''id'', JStr ''status'')], JObj [(''id'', JStr ''status'')],
                                        JObj [(''id'', JStr ''date'')]]\<rparr>]"
  define a where "a = initial_app\<lparr>selected_board_ids := [''1''], all_boards_data := bd\<rparr>"
  define cols where "cols = [JObj [(''id'', JStr ''status'')], JObj [(''id'', JStr ''date'')]]"
  have m: "all_available_columns (selected_board_ids a) (all_boards_data a) = Some cols"
    by (simp add: all_available_columns_def a_def bd_def cols_def js_truthy_def js_get_def)
  have w: "view_state_wf a" by (simp add: view_state_wf_def a_def initial_app_def)
  have c: "app_on_control cols Select_all_fields a = Some (a\<lparr>selected_column_ids := [''status'', ''date'']\<rparr>)"
    by (simp add: app_on_control_def handle_select_all_columns_def string_ids_def cols_def js_get_def)
  have "all_available_columns (selected_board_ids a) (all_boards_data a) = Some cols
      \<and> view_state_wf a \<and> app_on_control cols Select_all_fields a = Some (a\<lparr>selected_column_ids := [''status'', ''date'']\<rparr>)
      \<and> view_state_wf (a\<lparr>selected_column_ids := [''status'', ''date'']\<rparr>)"
    using sidebar_controls_keep_view_state [OF m w c] m w c by blast
  then show ?thesis unfolding Let_def by (simp only: a_def bd_def cols_def)
qed

end
