(* ===== verification/CellView.thy ===== *)
theory CellView
  imports TableUI FilterOptions ViewSort
begin

text \<open>
  What a cell of TaskTable shows: \<open>RowRenderer\<close> (src/unnamed/part_003 lines
  620--962) maps an item and a column of \<open>columnsForTable\<close> to the content
  of one \<open>TableCell\<close>.  The branches follow the code: the board-name and
  item-name columns by id, then the status and date columns by type, then,
  for a column value whose \<open>value\<close> is not \<open>null\<close> and not blank, the person,
  numbers and link renderings of its \<open>JSON.parse\<close>d value and the text of
  any other type; every other cell is the empty secondary text.  Class
  names, styles and the dialogs' layout are not modelled; the status dialog's
  options and the avatar hover are the controls of TableUI and are not
  repeated here.  \<open>new Date(text).toLocaleDateString(...)\<close> is the
  parameter \<open>fmt\<close> (\<open>None\<close> for an invalid date), the base URL of the board
  link is \<open>mondayBaseUrl\<close>.  A render that throws (\<open>filter\<close> over a
  \<open>null\<close> person) is \<open>None\<close>.
\<close>

datatype cell_display =
    Cell_blank
  | Cell_board_link string string
  | Cell_name_input string
  | Cell_name json
  | Cell_status string json
  | Cell_date string
  | Cell_avatars "(json option \<times> json option) list"
  | Cell_no_user string
  | Cell_text string
  | Cell_link string string

text \<open>\<open>item.column_values.find(cv => cv.id === columnId)\<close> with
  \<open>columnId = columnMeta.id\<close> (line 630).\<close>

definition cell_column_value :: "json \<Rightarrow> col_meta \<Rightarrow> json option" where
  "cell_column_value item meta = find (\<lambda>cv. js_get cv ''id'' = cm_id meta) (item_cvs item)"

text \<open>The text of a status cell (line 767; the text is computed at line 701): blank for the four texts the
  filter reads as \<open>No status\<close>.\<close>

definition status_shown :: "string \<Rightarrow> string" where
  "status_shown t = (if t = [] \<or> t = ''-'' \<or> t = ''undefined'' \<or> t = ''null'' then [] else t)"

text \<open>Lines 702--706: the colour of the option whose label is the text (the
  \<open>clear\<close> option for an empty text), \<open>#c4c4c4\<close> when none or falsy.\<close>

definition status_cell_color :: "col_meta \<Rightarrow> string \<Rightarrow> json" where
  "status_cell_color meta t =
     (case cm_status_options meta of
        None \<Rightarrow> JStr ''#c4c4c4''
      | Some os \<Rightarrow>
          (case find (\<lambda>opt. so_label opt = JStr t \<or> (t = [] \<and> so_id opt = ''clear'')) os of
             Some opt \<Rightarrow> if js_truthy (Some (so_color opt)) then so_color opt else JStr ''#c4c4c4''
           | None \<Rightarrow> JStr ''#c4c4c4''))"

text \<open>\<open>columnValue && columnValue.value !== null &&
  String(columnValue.value).trim() !== ''\<close> (line 787).\<close>

definition cell_value_present :: "json option \<Rightarrow> bool" where
  "cell_value_present cv =
     (case cv of
        None \<Rightarrow> False
      | Some c \<Rightarrow> js_get c ''value'' \<noteq> Some JNull \<and> js_trim (js_string (js_get c ''value'')) \<noteq> [])"

text \<open>Lines 788--793: \<open>JSON.parse(columnValue.value)\<close>, \<open>None\<close> when it
  throws (\<open>parsedValue\<close> stays \<open>null\<close>).\<close>

definition cell_parsed :: "json \<Rightarrow> json option" where
  "cell_parsed c = json_parse (js_string (js_get c ''value''))"

text \<open>Lines 798--803: the persons of \<open>personsAndTeams\<close>, or of the value
  itself when it is an array, else none.\<close>

definition cell_persons :: "json \<Rightarrow> json list option" where
  "cell_persons c = (case cell_parsed c of None \<Rightarrow> Some [] | Some pv \<Rightarrow> persons_of pv)"

text \<open>One avatar per person: \<open>personData.id\<close> and
  \<open>cachedUsers[personData.id]\<close>.\<close>

definition person_avatars :: "(string \<rightharpoonup> json) \<Rightarrow> json list \<Rightarrow> (json option \<times> json option) list" where
  "person_avatars cache ps = map (\<lambda>p. (js_get p ''id'', cache (js_string (js_get p ''id'')))) ps"

text \<open>The value-based renderings, lines 795--938.\<close>

definition value_cell :: "table_state \<Rightarrow> col_meta \<Rightarrow> json \<Rightarrow> cell_display option" where
  "value_cell t meta c =
     (let pv = cell_parsed c
      in if meta_type_is meta ''person'' \<or> meta_type_is meta ''people'' then
           (case cell_persons c of
              None \<Rightarrow> None
            | Some [] \<Rightarrow>
                Some (Cell_no_user (if ''No user'' \<in> set (current_selected_filters (active_filters t) (js_string (cm_id meta)))
                                    then ''No user'' else []))
            | Some ps \<Rightarrow> Some (Cell_avatars (person_avatars (cached_users t) ps)))
         else if meta_type_is meta ''numbers'' then
           Some (Cell_text (if js_truthy (js_get c ''text'') then js_string (js_get c ''text'')
                            else (case js_prop pv ''number'' of
                                    None \<Rightarrow> []
                                  | Some JNull \<Rightarrow> []
                                  | Some n \<Rightarrow> js_string (Some n))))
         else if meta_type_is meta ''link'' then
           (if js_truthy (js_prop pv ''url'')
            then Some (Cell_link (js_string (if js_truthy (js_prop pv ''text'') then js_prop pv ''text'' else js_prop pv ''url''))
                                 (js_string (js_prop pv ''url'')))
            else Some Cell_blank)
         else Some (Cell_text (display_text (Some c))))"

text \<open>The text of a date cell (lines 773--786): \<open>formattedDate\<close> stays
  \<open>''\<close> unless \<open>columnValue.text\<close> is truthy and parses to a valid date,
  which \<open>fmt\<close> formats as \<open>toLocaleDateString('en-US', {month: 'short',
  day: 'numeric'})\<close> does.\<close>

definition date_cell_text :: "(string \<Rightarrow> string option) \<Rightarrow> json option \<Rightarrow> string" where
  "date_cell_text fmt cv =
     (case cv of
        Some c \<Rightarrow> if js_truthy (js_get c ''text'')
                  then (case fmt (js_string (js_get c ''text'')) of Some d \<Rightarrow> d | None \<Rightarrow> [])
                  else []
      | None \<Rightarrow> [])"

text \<open>The content of the cell of \<open>item\<close> in the column \<open>meta\<close>.\<close>

definition cell_content :: "(string \<Rightarrow> string option) \<Rightarrow> json option \<Rightarrow> table_state \<Rightarrow> json \<Rightarrow> col_meta
                            \<Rightarrow> cell_display option" where
  "cell_content fmt url t item meta =
     (let cv = cell_column_value item meta
      in if cm_id meta = Some (JStr ''board_name_column'') then
           Some (Cell_board_link (if js_truthy (js_get item ''boardName'') then js_string (js_get item ''boardName'')
                                  else ''Unknown Board'')
                                 (board_url url (js_get item ''boardId'')))
         else if cm_id meta = Some (JStr ''item_name_column'') then
           Some (if row_editing t item then Cell_name_input (edited_item_name t) else Cell_name (item_current_name item))
         else if meta_type_is meta ''status'' then
           Some (Cell_status (status_shown (status_text cv)) (status_cell_color meta (status_text cv)))
         else if meta_type_is meta ''date'' then
           Some (Cell_date (date_cell_text fmt cv))
         else if cell_value_present cv then value_cell t meta (the cv)
         else Some Cell_blank)"

text \<open>A row: one cell per column; a cell that throws breaks the render.\<close>

definition row_view :: "(string \<Rightarrow> string option) \<Rightarrow> json option \<Rightarrow> table_state \<Rightarrow> col_meta list \<Rightarrow> json
                        \<Rightarrow> cell_display list option" where
  "row_view fmt url t metas item = those (map (cell_content fmt url t item) metas)"

subsection \<open>The header and the table\<close>

record header_view =
  hv_title :: "json option"
  hv_filterable :: bool
  hv_filter_active :: bool
  hv_dialog_open :: bool
  hv_sort_state :: "json option"

text \<open>Line 1158: \<open>['status', 'person', 'people'].includes(headerCell.type)\<close>.\<close>

definition header_filterable :: "col_meta \<Rightarrow> bool" where
  "header_filterable meta \<longleftrightarrow>
     meta_type_is meta ''status'' \<or> meta_type_is meta ''person'' \<or> meta_type_is meta ''people''"

text \<open>Lines 1159--1160, the highlight of the filter button.\<close>

definition header_filter_active :: "(string \<times> string list) list \<Rightarrow> col_meta \<Rightarrow> bool" where
  "header_filter_active fs meta \<longleftrightarrow>
     current_selected_filters fs (js_string (cm_id meta)) \<noteq> []
     \<or> (cm_id meta = Some (JStr ''current_user_filter'')
        \<and> ''true'' \<in> set (current_selected_filters fs ''current_user_filter''))"

text \<open>\<open>sorting[headerCell.id]\<close> (line 1198) of the one-key object \<open>onSort\<close>
  stores.\<close>

definition header_sort_state :: "(string \<times> json option) option \<Rightarrow> col_meta \<Rightarrow> json option" where
  "header_sort_state srt meta =
     (case srt of Some (c, st) \<Rightarrow> if js_string (cm_id meta) = c then st else None | None \<Rightarrow> None)"

text \<open>One header cell (lines 1157--1200).  \<open>openFilterDialogId\<close> is
  \<open>None\<close> for \<open>null\<close> and \<open>Some i\<close> for the id of the open column.\<close>

definition header_cell :: "(string \<times> string list) list \<Rightarrow> (string \<times> json option) option \<Rightarrow> json option option
                           \<Rightarrow> col_meta \<Rightarrow> header_view" where
  "header_cell fs srt open_id meta =
     \<lparr>hv_title = cm_title meta, hv_filterable = header_filterable meta,
      hv_filter_active = header_filter_active fs meta,
      hv_dialog_open = (header_filterable meta \<and> open_id = Some (cm_id meta)),
      hv_sort_state = header_sort_state srt meta\<rparr>"

text \<open>\<open>handleFilterButtonClick\<close> (lines 1147--1149) and
  \<open>handleFilterDialogClose\<close> (lines 1151--1153).\<close>

definition filter_button_click :: "json option option \<Rightarrow> json option \<Rightarrow> json option option" where
  "filter_button_click prev cid = (if prev = Some cid then None else Some cid)"

definition filter_dialog_close :: "json option option \<Rightarrow> json option option" where
  "filter_dialog_close prev = None"

text \<open>The \<open>My Tasks\<close> button (line 1210):
  \<open>handleFilterChange('current_user_filter', 'true',
  !activeFilters['current_user_filter']?.includes('true'))\<close>.\<close>

definition my_tasks_click :: "table_state \<Rightarrow> table_state" where
  "my_tasks_click t =
     handle_filter_change ''current_user_filter'' ''true''
       (\<not> ''true'' \<in> set (current_selected_filters (active_filters t) ''current_user_filter'')) t"

datatype table_screen = Table_empty_state | Table_view "header_view list" "cell_display list list"

text \<open>The render of TaskTable (lines 1206--1242): the \<open>EmptyState\<close> when
  \<open>boardItems\<close> is empty, else the headers of \<open>columnsForTable\<close> and a row
  per item of \<open>filteredAndSortedBoardItems\<close>.  \<open>lc\<close> and \<open>date_of\<close> are the
  comparator's parameters of ViewSort.  \<open>HeaderRenderer\<close> calls
  \<open>useState\<close> and \<open>useCallback\<close> from inside this branch, so the number of
  hooks of TaskTable depends on \<open>boardItems\<close> being empty.\<close>

definition task_table_screen :: "(string \<Rightarrow> string \<Rightarrow> int) \<Rightarrow> (string \<Rightarrow> int option) \<Rightarrow> (string \<Rightarrow> string option)
                                 \<Rightarrow> json option \<Rightarrow> string list \<Rightarrow> json list \<Rightarrow> json list \<Rightarrow> table_state
                                 \<Rightarrow> json option option \<Rightarrow> table_screen option" where
  "task_table_screen lc date_of fmt url columnIds allBoardColumns boardItems t open_id =
     (let metas = columns_for_table columnIds allBoardColumns
      in if boardItems = [] then Some Table_empty_state
         else map_option (Table_view (map (header_cell (active_filters t) (sorting t) open_id) metas))
                (those (map (row_view fmt url t metas)
                            (view_items lc date_of columnIds allBoardColumns boardItems t))))"

text \<open>The column values the items query returns carry \<open>value\<close> as a JSON
  string or \<open>null\<close> (the query requests \<open>value\<close>, part_000).\<close>

definition cv_values_wf :: "json \<Rightarrow> bool" where
  "cv_values_wf item =
     list_all (\<lambda>cv. case js_get cv ''value'' of Some JNull \<Rightarrow> True | Some (JStr s) \<Rightarrow> True | _ \<Rightarrow> False) (item_cvs item)"

subsection \<open>Properties\<close>

lemma my_tasks_click_toggles:
  "current_user_filter_on (active_filters (my_tasks_click t)) \<longleftrightarrow> \<not> current_user_filter_on (active_filters t)"
  by (simp add: my_tasks_click_def handle_filter_change_def current_user_filter_on_def current_selected_filters_def
                update_conv' Let_def split: option.split)

lemma cell_column_value_cv_find:
  "cm_id meta = Some (JStr c) \<Longrightarrow> cell_column_value item meta = cv_find item c"
  by (simp add: cell_column_value_def cv_find_def has_id_def [abs_def])

lemma normalize_status_shown: "normalize_status t = (if status_shown t = [] then ''No status'' else status_shown t)"
  by (simp add: normalize_status_def status_shown_def)

lemma value_cell_no_user:
  assumes "value_cell t meta c = Some (Cell_no_user x)"
  shows "(meta_type_is meta ''person'' \<or> meta_type_is meta ''people'') \<and> cell_persons c = Some []
         \<and> x = (if ''No user'' \<in> set (current_selected_filters (active_filters t) (js_string (cm_id meta))) then ''No user'' else [])"
  using assms by (auto simp: value_cell_def Let_def split: if_splits option.splits list.splits)

lemma cell_content_no_user:
  assumes "cell_content fmt url t item meta = Some (Cell_no_user x)"
  shows "\<exists>c. cell_column_value item meta = Some c \<and> cell_value_present (Some c) \<and> value_cell t meta c = Some (Cell_no_user x)"
  using assms by (cases "cell_column_value item meta") (auto simp: cell_content_def Let_def cell_value_present_def split: if_splits)

text \<open>A value the cell renders is not blank for the filter.\<close>

lemma cell_value_present_not_blank:
  assumes "cell_value_present (Some c)" and "c \<in> set (item_cvs item)" and "cv_values_wf item"
  shows "\<not> cv_value_blank (Some c)"
proof -
  from assms(2,3) have v: "case js_get c ''value'' of Some JNull \<Rightarrow> True | Some (JStr s) \<Rightarrow> True | _ \<Rightarrow> False"
    by (simp add: cv_values_wf_def list_all_iff)
  have "\<exists>s. js_get c ''value'' = Some (JStr s) \<and> js_trim s \<noteq> []"
    using v assms(1) by (auto simp: cell_value_present_def js_string_def split: option.splits json.splits)
  then obtain s where "js_get c ''value'' = Some (JStr s)" "js_trim s \<noteq> []" by blast
  then show ?thesis by (auto simp: cv_value_blank_def js_truthy_def js_string_def js_trim_def)
qed

text \<open>A non-blank cell without persons fails every person filter.\<close>

lemma person_filter_no_persons:
  assumes "\<not> cv_value_blank (Some c)" and "cell_persons c = Some []"
  shows "\<not> person_filter (Some c) vals"
  using assms by (auto simp: person_filter_def parsed_persons_def cell_persons_def cell_parsed_def split: option.splits)

text \<open>The status cell shows the text the status filter matches: a filter value
  keeps the item exactly when it is the shown text, or \<open>No status\<close> for a
  blank cell.\<close>

lemma status_cell_filter_agree:
  assumes "meta_type_is meta ''status''" and "cm_id meta = Some (JStr c)"
    and "c \<noteq> ''board_name_column''" and "c \<noteq> ''item_name_column''" and "c \<noteq> ''current_user_filter''"
    and "find (\<lambda>m. cm_id m = Some (JStr c)) metas = Some meta" and "vals \<noteq> []"
  shows "\<exists>shown color. cell_content fmt url t item meta = Some (Cell_status shown color)
           \<and> (column_filter metas item (c, vals) \<longleftrightarrow> (if shown = [] then ''No status'' else shown) \<in> set vals)"
  using assms
  by (simp add: cell_content_def column_filter_def cell_column_value_cv_find normalize_status_shown Let_def)

text \<open>An item whose person value lists no person (e.g.
  \<open>{"personsAndTeams":[]}\<close>, a cleared people column) shows an empty person
  cell, and the \<open>No user\<close> filter hides it.\<close>

lemma empty_person_cell_hidden_by_no_user:
  \<open>let meta = \<lparr>cm_id = Some (JStr ''p''), cm_title = None, cm_type = Some (JStr ''people''), cm_status_options = None\<rparr>;
       it = JObj [(''id'', JStr ''1''), (''column_values'', JArr [JObj [(''id'', JStr ''p''), (''value'', JStr ''{"personsAndTeams":[]}'')]])]
   in cell_content (\<lambda>_. None) None initial_table it meta = Some (Cell_no_user [])
      \<and> \<not> column_filter [meta] it (''p'', [''No user''])\<close>
  by code_simp

text \<open>Claim C18.  The \<open>No user\<close> label of the person cell (lines 903--911)
  is never shown in the filtered table: it is rendered only when the
  column's filter holds \<open>No user\<close> and the cell's value is not blank but
  lists no person, and the person filter rejects exactly such an item, since
  it reads \<open>No user\<close> as a blank value only.  Column values are those of the
  items query (a string or \<open>null\<close>).\<close>

theorem no_user_label_never_shown:
  assumes "it \<in> set (filter_items metas cols (active_filters t) uid items)"
    and "find (\<lambda>m. cm_id m = Some (JStr c)) metas = Some meta"
    and "c \<noteq> ''current_user_filter''" and "cv_values_wf it"
  shows "cell_content fmt url t it meta \<noteq> Some (Cell_no_user ''No user'')"
proof
  assume cell: "cell_content fmt url t it meta = Some (Cell_no_user ''No user'')"
  have id: "cm_id meta = Some (JStr c)" using assms(2) by (auto dest: find_SomeD)
  from cell_content_no_user [OF cell] obtain cv where cv: "cell_column_value it meta = Some cv"
    and present: "cell_value_present (Some cv)" and vc: "value_cell t meta cv = Some (Cell_no_user ''No user'')"
    by blast
  from value_cell_no_user [OF vc] id
  have ty: "meta_type_is meta ''person'' \<or> meta_type_is meta ''people''" and np: "cell_persons cv = Some []"
    and nu: "''No user'' \<in> set (current_selected_filters (active_filters t) c)"
    by (auto simp: js_string_def split: if_splits)
  from nu obtain vals where fs: "map_of (active_filters t) c = Some vals" and nv: "''No user'' \<in> set vals"
    by (cases "map_of (active_filters t) c") (auto simp: current_selected_filters_def)
  from assms(1) fs have cf: "column_filter metas it (c, vals)"
    by (auto simp: filter_items_def list_all_iff dest: map_of_SomeD)
  have cvin: "cv \<in> set (item_cvs it)" using cv by (auto simp: cell_column_value_def dest: find_SomeD)
  have find_cv: "cv_find it c = Some cv" using cv id by (simp add: cell_column_value_cv_find)
  have "\<not> cv_value_blank (Some cv)" using present cvin assms(4) by (rule cell_value_present_not_blank)
  then have "\<not> person_filter (Some cv) vals" using np by (rule person_filter_no_persons)
  moreover have "column_filter metas it (c, vals) = person_filter (cv_find it c) vals"
    using assms(2,3) nv ty by (auto simp: column_filter_def meta_type_is_def)
  ultimately show False using cf find_cv by simp
qed

theorem no_user_label_never_shown_witness:
  "let meta = \<lparr>cm_id = Some (JStr ''p''), cm_title = None, cm_type = Some (JStr ''person''), cm_status_options = None\<rparr>;
       it = JObj [(''id'', JStr ''1''), (''column_values'', JArr [JObj [(''id'', JStr ''p''), (''value'', JNull)]])];
       t = initial_table\<lparr>active_filters := [(''p'', [''No user''])]\<rparr>
   in it \<in> set (filter_items [meta] [] (active_filters t) None [it])
      \<and> find (\<lambda>m. cm_id m = Some (JStr ''p'')) [meta] = Some meta
      \<and> ''p'' \<noteq> ''current_user_filter'' \<and> cv_values_wf it
      \<and> cell_content (\<lambda>_. None) None t it meta \<noteq> Some (Cell_no_user ''No user'')"
proof -
  define meta where "meta = \<lparr>cm_id = Some (JStr ''p''), cm_title = None, cm_type = Some (JStr ''person''), cm_status_options = None\<rparr>"
  define it where "it = JObj [(''id'', JStr ''1''), (''column_values'', JArr [JObj [(''id'', JStr ''p''), (''value'', JNull)]])]"
  define t where "t = initial_table\<lparr>active_filters := [(''p'', [''No user''])]\<rparr>"
  have m: "it \<in> set (filter_items [meta] [] (active_filters t) None [it])"
    by (simp add: filter_items_def filter_by_current_user_def current_user_filter_on_def column_filter_def
                  person_filter_def cv_value_blank_def cv_find_def has_id_def item_cvs_def meta_type_is_def
                  js_get_def js_truthy_def meta_def it_def t_def)
  have f: "find (\<lambda>m. cm_id m = Some (JStr ''p'')) [meta] = Some meta" by (simp add: meta_def)
  have w: "cv_values_wf it" by (simp add: cv_values_wf_def item_cvs_def js_get_def it_def)
  have "''p'' \<noteq> ''current_user_filter''" by simp
  with no_user_label_never_shown [OF m f _ w] m f w
  have "it \<in> set (filter_items [meta] [] (active_filters t) None [it])
      \<and> find (\<lambda>m. cm_id m = Some (JStr ''p'')) [meta] = Some meta
      \<and> ''p'' \<noteq> ''current_user_filter'' \<and> cv_values_wf it
      \<and> cell_content (\<lambda>_. None) None t it meta \<noteq> Some (Cell_no_user ''No user'')" by blast
  from this [unfolded meta_def it_def t_def] show ?thesis unfolding Let_def .
qed

text \<open>The dialog of a header is rendered only for a filterable column (line
  1165), so its default branch (\<open>No filter options for this column
  type.\<close>, line 1117) is never shown; and a dialog that offers \<open>Clear
  Filter\<close> sits under a highlighted filter button.\<close>

lemma filter_dialog_default_dead:
  "header_filterable meta \<Longrightarrow> filter_dialog_content fs cur people meta \<noteq> Some (No_filter_options, b)"
  by (auto simp: header_filterable_def filter_dialog_content_def meta_type_is_def Let_def split: option.splits)

lemma filter_dialog_clear_highlight:
  "filter_dialog_content fs cur people meta = Some (sec, True) \<Longrightarrow> header_filter_active fs meta"
  by (auto simp: filter_dialog_content_def header_filter_active_def Let_def split: if_splits option.splits)

end
