(* ===== verification/CellDialog.thy ===== *)
theory CellDialog
  imports CellView
begin

text \<open>
  The dialogs of TaskTable's cells (src/unnamed/part_003): the state
  \<open>cellDialogState\<close> (lines 84--92), the timer reference
  \<open>dialogHoverTimeoutRef\<close> (line 98), the handlers that change them
  (\<open>handleCellDialogClick\<close>, \<open>handleAvatarMouseEnter\<close>,
  \<open>handleAvatarMouseLeave\<close>, lines 353--384), the other writers (the
  status dialog's \<open>onClose\<close>, line 744, the reset at the start of
  \<open>handleStatusChange\<close>, line 313, and \<open>clearTimeout\<close> on entering the
  user details, line 402), and the content of the user-details dialog
  (\<open>renderUserDetailsDialogContent\<close>, lines 387--451).  The browser's timers
  are explicit: \<open>setTimeout\<close> returns the next positive id and queues the
  callback, \<open>clearTimeout\<close> removes it, and a queued callback may run at any
  later step.  \<open>event.currentTarget\<close> is an element, named by a number.
\<close>

record dialog_state =
  dlg_open :: bool
  dlg_item :: "json option"
  dlg_column :: "col_meta option"
  dlg_user :: "json option"
  dlg_anchor :: "nat option"
  dlg_header :: bool
  dlg_hover :: bool

definition dialog_closed :: dialog_state where
  "dialog_closed = \<lparr>dlg_open = False, dlg_item = None, dlg_column = None, dlg_user = None, dlg_anchor = None,
                    dlg_header = False, dlg_hover = False\<rparr>"

record dialog_sys =
  dialog :: dialog_state
  hover_ref :: "nat option"
  pending :: "nat list"
  next_timer :: nat

definition dialog_init :: dialog_sys where
  "dialog_init = \<lparr>dialog = dialog_closed, hover_ref = None, pending = [], next_timer = 1\<rparr>"

datatype dialog_event =
    Cell_click json col_meta nat
  | Avatar_enter json nat
  | Avatar_leave
  | Details_enter
  | Cell_dialog_close
  | Status_pick
  | Timer_fire nat

text \<open>\<open>clearTimeout(id)\<close>.\<close>

definition clear_timer :: "nat option \<Rightarrow> dialog_sys \<Rightarrow> dialog_sys" where
  "clear_timer r d = (case r of None \<Rightarrow> d | Some i \<Rightarrow> d\<lparr>pending := filter (\<lambda>j. j \<noteq> i) (pending d)\<rparr>)"

text \<open>One event.  \<open>handleAvatarMouseEnter\<close> clears the referenced timer
  when the reference is truthy but leaves the reference set;
  \<open>handleAvatarMouseLeave\<close> overwrites it with a new timer that closes
  whatever dialog is open when it fires.\<close>

definition dialog_step :: "dialog_event \<Rightarrow> dialog_sys \<Rightarrow> dialog_sys option" where
  "dialog_step e d =
     (case e of
        Cell_click it meta el \<Rightarrow>
          Some (d\<lparr>dialog := \<lparr>dlg_open = True, dlg_item = Some it, dlg_column = Some meta, dlg_user = None,
                              dlg_anchor = Some el, dlg_header = False, dlg_hover = False\<rparr>\<rparr>)
      | Avatar_enter u el \<Rightarrow>
          Some ((clear_timer (hover_ref d) d)
                  \<lparr>dialog := \<lparr>dlg_open = True, dlg_item = None, dlg_column = None, dlg_user = Some u,
                               dlg_anchor = Some el, dlg_header = False, dlg_hover = True\<rparr>\<rparr>)
      | Avatar_leave \<Rightarrow>
          Some (d\<lparr>hover_ref := Some (next_timer d), pending := pending d @ [next_timer d],
                  next_timer := Suc (next_timer d)\<rparr>)
      | Details_enter \<Rightarrow> Some (clear_timer (hover_ref d) d)
      | Cell_dialog_close \<Rightarrow> Some (d\<lparr>dialog := dialog_closed\<rparr>)
      | Status_pick \<Rightarrow> Some (d\<lparr>dialog := dialog_closed\<rparr>)
      | Timer_fire i \<Rightarrow>
          if i \<in> set (pending d)
          then Some (d\<lparr>pending := filter (\<lambda>j. j \<noteq> i) (pending d), dialog := dialog_closed\<rparr>)
          else None)"

primrec dialog_run :: "dialog_event list \<Rightarrow> dialog_sys \<Rightarrow> dialog_sys option" where
  "dialog_run [] d = Some d"
| "dialog_run (e # es) d = (case dialog_step e d of None \<Rightarrow> None | Some d' \<Rightarrow> dialog_run es d')"

text \<open>The \<open>open\<close> prop of the status dialog of a cell (line 743) and of a
  person's hover dialog (lines 834 and 876).\<close>

definition cell_dialog_shown :: "dialog_state \<Rightarrow> json \<Rightarrow> col_meta \<Rightarrow> bool" where
  "cell_dialog_shown st it meta \<longleftrightarrow>
     dlg_open st \<and> \<not> dlg_header st \<and> \<not> dlg_hover st
     \<and> (case dlg_item st of None \<Rightarrow> None | Some x \<Rightarrow> js_get x ''id'') = js_get it ''id''
     \<and> (case dlg_column st of None \<Rightarrow> None | Some c \<Rightarrow> cm_id c) = cm_id meta"

definition hover_dialog_shown :: "dialog_state \<Rightarrow> json \<Rightarrow> bool" where
  "hover_dialog_shown st p \<longleftrightarrow>
     dlg_open st \<and> dlg_hover st \<and> (case dlg_user st of None \<Rightarrow> None | Some u \<Rightarrow> js_get u ''id'') = js_get p ''id''"

subsection \<open>The user details\<close>

text \<open>The user an avatar passes (lines 849 and 892): the cached user, or
  \<open>{ id: personData.id, name: userName, photo_original: userPhoto }\<close> with
  \<open>userName = 'Unknown'\<close> and no photo.\<close>

definition avatar_user :: "(string \<rightharpoonup> json) \<Rightarrow> json \<Rightarrow> json" where
  "avatar_user cache p =
     (case cache (js_string (js_get p ''id'')) of
        Some u \<Rightarrow> if js_truthy (Some u) then u else JObj ((case js_get p ''id'' of Some i \<Rightarrow> [(''id'', i)] | None \<Rightarrow> []) @ [(''name'', JStr ''Unknown'')])
      | None \<Rightarrow> JObj ((case js_get p ''id'' of Some i \<Rightarrow> [(''id'', i)] | None \<Rightarrow> []) @ [(''name'', JStr ''Unknown'')]))"

datatype user_details =
    Details_loading
  | Details_shown "json option" string "json option" "json option" "string option"

text \<open>Lines 387--451: the loading notice for a user with no name, email or
  id; otherwise the photo, \<open>user.name || 'Unknown User'\<close>, the title and the
  email when truthy, and the URL \<open>View Profile\<close> opens.\<close>

definition user_details_view :: "json option \<Rightarrow> json \<Rightarrow> user_details" where
  "user_details_view url u =
     (if \<not> js_truthy (Some u)
         \<or> (\<not> js_truthy (js_get u ''name'') \<and> \<not> js_truthy (js_get u ''email'') \<and> \<not> js_truthy (js_get u ''id''))
      then Details_loading
      else Details_shown (if js_truthy (js_get u ''photo_original'') then js_get u ''photo_original'' else None)
                         (if js_truthy (js_get u ''name'') then js_string (js_get u ''name'') else ''Unknown User'')
                         (if js_truthy (js_get u ''title'') then js_get u ''title'' else None)
                         (if js_truthy (js_get u ''email'') then js_get u ''email'' else None)
                         (redirect_to_user_profile url (js_get u ''id'')))"

text \<open>Timer ids are fresh: every pending or referenced id is below the next
  one \<open>setTimeout\<close> returns.\<close>

definition dialog_wf :: "dialog_sys \<Rightarrow> bool" where
  "dialog_wf d \<longleftrightarrow>
     0 < next_timer d \<and> list_all (\<lambda>i. i < next_timer d) (pending d)
     \<and> (case hover_ref d of None \<Rightarrow> True | Some i \<Rightarrow> i < next_timer d)"

subsection \<open>Properties\<close>

lemma clear_timer_fields [simp]:
  "dialog (clear_timer r d) = dialog d" "hover_ref (clear_timer r d) = hover_ref d"
  "next_timer (clear_timer r d) = next_timer d"
  by (simp_all add: clear_timer_def split: option.split)

lemma clear_timer_pendingD: "i \<in> set (pending (clear_timer r d)) \<Longrightarrow> i \<in> set (pending d)"
  by (auto simp: clear_timer_def split: option.splits)

lemma dialog_step_wf:
  assumes "dialog_wf d" and "dialog_step e d = Some d'"
  shows "dialog_wf d'"
proof (cases e)
  case (Avatar_enter u el)
  with assms have "d' = (clear_timer (hover_ref d) d)\<lparr>dialog := \<lparr>dlg_open = True, dlg_item = None, dlg_column = None,
      dlg_user = Some u, dlg_anchor = Some el, dlg_header = False, dlg_hover = True\<rparr>\<rparr>"
    by (simp add: dialog_step_def)
  with assms(1) show ?thesis
    by (auto simp: dialog_wf_def list_all_iff dest: clear_timer_pendingD split: option.splits)
next
  case Details_enter
  with assms have "d' = clear_timer (hover_ref d) d" by (simp add: dialog_step_def)
  with assms(1) show ?thesis
    by (auto simp: dialog_wf_def list_all_iff dest: clear_timer_pendingD split: option.splits)
next
  case Avatar_leave
  with assms have "d' = d\<lparr>hover_ref := Some (next_timer d), pending := pending d @ [next_timer d],
                            next_timer := Suc (next_timer d)\<rparr>"
    by (simp add: dialog_step_def)
  with assms(1) show ?thesis by (auto simp: dialog_wf_def list_all_iff less_Suc_eq)
qed (use assms in \<open>auto simp: dialog_step_def dialog_wf_def list_all_iff split: if_splits option.splits\<close>)

lemma dialog_run_wf: "dialog_wf d \<Longrightarrow> dialog_run es d = Some d' \<Longrightarrow> dialog_wf d'"
proof (induction es arbitrary: d)
  case (Cons e es)
  then show ?case by (auto dest: dialog_step_wf split: option.splits)
qed simp

lemma dialog_init_wf: "dialog_wf dialog_init"
  by (simp add: dialog_wf_def dialog_init_def)

text \<open>Leaving an avatar and entering its details cancels exactly the timer
  of that leave: the dialog and every earlier timer stay as they were.\<close>

lemma leave_then_enter_details:
  assumes "dialog_wf d" and "dialog_run [Avatar_leave, Details_enter] d = Some d'"
  shows "dialog d' = dialog d \<and> pending d' = pending d"
proof -
  from assms(1) have "next_timer d \<notin> set (pending d)" by (auto simp: dialog_wf_def list_all_iff)
  then have "filter (\<lambda>j. j \<noteq> next_timer d) (pending d) = pending d" by (auto simp: filter_id_conv)
  with assms(2) show ?thesis by (auto simp: dialog_step_def clear_timer_def)
qed

text \<open>\<open>handleCellDialogClick\<close> leaves a pending hover timer queued: after
  leaving an avatar, a click on a status cell opens its dialog, and the
  timer, firing within 100 ms, closes it.\<close>

lemma stale_hover_timer_closes_cell_dialog:
  "let d = dialog_run [Avatar_enter u 1, Avatar_leave, Cell_click it meta 2] dialog_init
   in cell_dialog_shown (dialog (the d)) it meta
      \<and> dialog_step (Timer_fire 1) (the d) = Some ((the d)\<lparr>pending := [], dialog := dialog_closed\<rparr>)
      \<and> \<not> cell_dialog_shown dialog_closed it meta"
  by (simp add: dialog_step_def dialog_init_def clear_timer_def cell_dialog_shown_def dialog_closed_def)

text \<open>An avatar with no cached user passes a user named \<open>Unknown\<close>, so its
  details never show the loading notice.\<close>

lemma uncached_avatar_details:
  "cache (js_string (js_get p ''id'')) = None \<Longrightarrow>
   user_details_view url (avatar_user cache p) = Details_shown None ''Unknown'' None None (redirect_to_user_profile url (js_get p ''id''))"
  by (simp add: avatar_user_def user_details_view_def js_truthy_def js_get_def js_string_def split: option.split)

end
