(* ===== verification/AppSystem.thy ===== *)
theory AppSystem
  imports AppView Settings
begin

text \<open>
  App.jsx (src/unnamed/part_005) as one event system: the App state with
  the calls of \<open>fetchBoardData\<close> in flight (Refresh), the instance storage
  of the platform with the \<open>setItem\<close> writes not yet applied (Settings), and
  the network, the state of the Sidebar once mounted and the overflow style
  of the document body.  An event is the answer to the settings read of the mount
  effect (lines 158--226), a control of the Sidebar (AppView) or the menu
  button (lines 488--494), a polling tick (lines 270--291), the completion
  of a call in flight, the refetch after an edit (lines 434--438), or the
  platform applying one pending write or rejecting it (the catch block of
  lines 241--245 shows a toast, kept as a list of messages).  After a render, the effects whose
  dependencies changed run, those of the Sidebar first (its mount effect,
  Sidebar.jsx lines 22--42, when the main screen first shows it), then those
  of App in declaration order: the auto-save (lines 229--250), which issues a
  write unless the settings are loading, \<open>loadContentData\<close> (lines
  254--268), and the body-overflow effect (lines 451--459).  Every setter of
  a selection stores a new array, so each selection handler changes the
  dependencies of the first two.  A Sidebar control is enabled when it is on
  the screen the mounted Sidebar renders from its own state and App's props,
  whether the panel is open or pushed off-screen (its checkboxes stay in the
  document).  Writes are applied in any order: \<open>setItem\<close> is not awaited
  between two changes.\<close>

record app_sys =
  ax_sys :: sys
  ax_store :: store
  ax_saves :: "string list"
  ax_net :: net
  ax_sidebar :: "sidebar option"
  ax_overflow :: string
  ax_toasts :: "string list"

text \<open>The body overflow style the effect of lines 451--459 sets: \<open>'hidden'\<close>
  while the panel is open, \<open>''\<close> otherwise.\<close>

definition body_overflow :: "bool \<Rightarrow> string" where
  "body_overflow is_open = (if is_open then ''hidden'' else '''')"

datatype app_event =
    Settings_read "api_error option"
  | Sidebar_control sidebar_control
  | Menu_click
  | Poll_tick
  | Fetch_done nat fetch_result
  | Item_refetch
  | Save_done nat
  | Save_failed nat api_error

text \<open>The main screen (line 478) is on, with its menu button and Sidebar.\<close>

definition on_main_screen :: "app \<Rightarrow> bool" where
  "on_main_screen a = (case app_screen a of Some (Screen_main _ _ _) \<Rightarrow> True | _ \<Rightarrow> False)"

text \<open>The effects after a render: \<open>save\<close> when the selection, the panel flag
  or \<open>isAppLoading\<close> changed, \<open>content\<close> when the selection or
  \<open>isAppLoading\<close> changed.\<close>

definition render_effects :: "bool \<Rightarrow> bool \<Rightarrow> app_sys \<Rightarrow> app_sys" where
  "render_effects save content d =
     (let a = sys_app (ax_sys d);
          d1 = (if save \<and> \<not> is_app_loading a
                then d\<lparr>ax_saves := ax_saves d @ [json_print (settings_json a)]\<rparr> else d)
      in if content then d1\<lparr>ax_sys := load_content (ax_sys d1)\<rparr> else d1)"

text \<open>The overflow effect (lines 451--459) runs when \<open>isSidebarOpen\<close> differs
  from its value at the previous render (the argument): the cleanup resets
  the style to \<open>''\<close>, then the effect sets it from the flag.\<close>

definition overflow_effect :: "bool \<Rightarrow> app_sys \<Rightarrow> app_sys" where
  "overflow_effect was_open d =
     (let is_open = is_sidebar_open (sys_app (ax_sys d))
      in if is_open = was_open then d
         else (d\<lparr>ax_overflow := ''''\<rparr>)\<lparr>ax_overflow := body_overflow is_open\<rparr>)"

text \<open>The Sidebar is an element of the main screen (lines 542--573), inside a
  panel that is only moved off-screen when closed: it mounts with the first
  render of the main screen, and its mount effect (Sidebar.jsx lines 22--42)
  runs before the effects of App in the same commit.\<close>

definition mount_sidebar :: "json api \<Rightarrow> app_sys \<Rightarrow> app_sys" where
  "mount_sidebar api d =
     (if on_main_screen (sys_app (ax_sys d)) \<and> ax_sidebar d = None
      then (let (sb, n) = sidebar_mount api (ax_net d) in d\<lparr>ax_sidebar := Some sb, ax_net := n\<rparr>)
      else d)"

text \<open>The first render shows the settings loader and runs every effect of
  App once, in declaration order: the settings read goes out (answered by
  \<open>Settings_read\<close>), the auto-save and \<open>loadContentData\<close> run behind their
  \<open>isAppLoading\<close> guards, the interval is set (its ticks are \<open>Poll_tick\<close>),
  and the overflow effect sets the style for the closed panel.  The Sidebar
  is not mounted yet.\<close>

definition app_sys_init :: "store \<Rightarrow> net \<Rightarrow> app_sys" where
  "app_sys_init st s =
     render_effects True True
       \<lparr>ax_sys = \<lparr>sys_app = initial_app, flights = []\<rparr>, ax_store = st, ax_saves = [], ax_net = s,
        ax_sidebar = None, ax_overflow = body_overflow (is_sidebar_open initial_app), ax_toasts = []\<rparr>"

text \<open>The interval callback with its guard (lines 276--281).\<close>

definition poll_tick :: "sys \<Rightarrow> sys" where
  "poll_tick s = s\<lparr>sys_app := fetch_start (sys_app s), flights := flights s @ [in_flight (sys_app s) Background]\<rparr>"

text \<open>\<open>getItem('appSettings')\<close> resolves with the stored value, or rejects.\<close>

definition settings_answer :: "api_error option \<Rightarrow> store \<Rightarrow> api_error + json" where
  "settings_answer e st = (case e of Some err \<Rightarrow> Inl err | None \<Rightarrow> Inr (storage_get st settings_key))"

definition app_step :: "json api \<Rightarrow> app_event \<Rightarrow> app_sys \<Rightarrow> app_sys option" where
  "app_step api e d =
     (let a = sys_app (ax_sys d)
      in case e of
           Settings_read err \<Rightarrow>
             if is_app_loading a
             then (case load_settings (settings_answer err (ax_store d)) a (ax_store d) of
                     None \<Rightarrow> None
                   | Some (a', st') \<Rightarrow>
                       Some (overflow_effect (is_sidebar_open a)
                               (render_effects True True
                                 (mount_sidebar api (d\<lparr>ax_sys := (ax_sys d)\<lparr>sys_app := a'\<rparr>, ax_store := st'\<rparr>)))))
             else None
         | Sidebar_control c \<Rightarrow>
             if on_main_screen a
             then (case all_available_columns (selected_board_ids a) (all_boards_data a) of
                     None \<Rightarrow> None
                   | Some cols \<Rightarrow>
                       (case ax_sidebar d of
                          None \<Rightarrow> None
                        | Some sb \<Rightarrow>
                            (case sidebar_screen (sidebar_props_of a cols) sb of
                               None \<Rightarrow> None
                             | Some sc \<Rightarrow>
                                 if c \<in> set (sidebar_controls sc)
                                 then map_option (\<lambda>a'. render_effects True True (d\<lparr>ax_sys := (ax_sys d)\<lparr>sys_app := a'\<rparr>\<rparr>))
                                        (app_on_control cols c a)
                                 else None)))
             else None
         | Menu_click \<Rightarrow>
             if on_main_screen a
             then (let (a1, f) = toggle_sidebar a
                   in if f
                      then map_option (\<lambda>(a2, n2). overflow_effect (is_sidebar_open a)
                                          (render_effects True False (d\<lparr>ax_sys := (ax_sys d)\<lparr>sys_app := a2\<rparr>, ax_net := n2\<rparr>)))
                             (fetch_boards_for_sidebar api a1 (ax_net d))
                      else Some (overflow_effect (is_sidebar_open a)
                                  (render_effects True False (d\<lparr>ax_sys := (ax_sys d)\<lparr>sys_app := a1\<rparr>\<rparr>))))
             else None
         | Poll_tick \<Rightarrow> if tick_guard a then Some (d\<lparr>ax_sys := poll_tick (ax_sys d)\<rparr>) else None
         | Fetch_done i r \<Rightarrow>
             if i < length (flights (ax_sys d)) then Some (d\<lparr>ax_sys := complete_flight i r (ax_sys d)\<rparr>) else None
         | Item_refetch \<Rightarrow> if on_main_screen a then Some (d\<lparr>ax_sys := item_updated (ax_sys d)\<rparr>) else None
         | Save_done i \<Rightarrow>
             if i < length (ax_saves d)
             then Some (d\<lparr>ax_store := storage_set settings_key (ax_saves d ! i) (ax_store d),
                          ax_saves := take i (ax_saves d) @ drop (Suc i) (ax_saves d)\<rparr>)
             else None
         | Save_failed i err \<Rightarrow>
             if i < length (ax_saves d)
             then Some (d\<lparr>ax_saves := take i (ax_saves d) @ drop (Suc i) (ax_saves d),
                          ax_toasts := ax_toasts d @ [''Auto-save error: '' @ message err]\<rparr>)
             else None)"

primrec app_run :: "json api \<Rightarrow> app_event list \<Rightarrow> app_sys \<Rightarrow> app_sys option" where
  "app_run api [] d = Some d"
| "app_run api (e # es) d = (case app_step api e d of None \<Rightarrow> None | Some d' \<Rightarrow> app_run api es d')"

text \<open>The states reachable from the first render with the storage \<open>st\<close>.\<close>

inductive app_reach :: "json api \<Rightarrow> store \<Rightarrow> net \<Rightarrow> app_sys \<Rightarrow> bool" for api st s where
  app_init: "app_reach api st s (app_sys_init st s)"
| app_trans: "app_reach api st s d \<Longrightarrow> app_step api e d = Some d' \<Longrightarrow> app_reach api st s d'"

text \<open>The part of the App state the refresh invariant reads.\<close>

definition refresh_flags :: "app \<Rightarrow> bool \<times> bool \<times> bool" where
  "refresh_flags a = (is_loading_columns a, is_loading_items a, is_polling a)"

subsection \<open>Lemmas\<close>

text \<open>The guards keep the first render's effects idle: no write, no call.\<close>

lemma app_sys_init_eq:
  "app_sys_init st s =
     \<lparr>ax_sys = \<lparr>sys_app = initial_app, flights = []\<rparr>, ax_store = st, ax_saves = [], ax_net = s,
      ax_sidebar = None, ax_overflow = body_overflow False, ax_toasts = []\<rparr>"
  by (simp add: app_sys_init_def render_effects_def load_content_def initial_app_def Let_def)

lemma load_settings_loaded: "load_settings got a st = Some (a', st') \<Longrightarrow> \<not> is_app_loading a'"
  by (auto simp: load_settings_def Let_def split: sum.splits if_splits json.splits option.splits)

lemma load_content_app_loading [simp]:
  "is_app_loading (sys_app (load_content s)) = is_app_loading (sys_app s)"
  by (simp add: load_content_def fetch_start_def fetch_empty_def Let_def)

lemma render_effects_fields [simp]:
  "is_app_loading (sys_app (ax_sys (render_effects sv c d))) = is_app_loading (sys_app (ax_sys d))"
  "ax_store (render_effects sv c d) = ax_store d"
  "ax_net (render_effects sv c d) = ax_net d"
  "ax_sidebar (render_effects sv c d) = ax_sidebar d"
  "ax_overflow (render_effects sv c d) = ax_overflow d"
  "settings_json (sys_app (ax_sys (render_effects sv c d))) = settings_json (sys_app (ax_sys d))"
  by (simp_all add: render_effects_def load_content_def fetch_start_def fetch_empty_def settings_json_def Let_def)

lemma mount_sidebar_fields [simp]:
  "ax_sys (mount_sidebar api d) = ax_sys d"
  "ax_store (mount_sidebar api d) = ax_store d"
  "ax_saves (mount_sidebar api d) = ax_saves d"
  "ax_overflow (mount_sidebar api d) = ax_overflow d"
  by (simp_all add: mount_sidebar_def split: prod.split)

lemma overflow_effect_fields [simp]:
  "ax_sys (overflow_effect b d) = ax_sys d"
  "ax_store (overflow_effect b d) = ax_store d"
  "ax_saves (overflow_effect b d) = ax_saves d"
  "ax_net (overflow_effect b d) = ax_net d"
  "ax_sidebar (overflow_effect b d) = ax_sidebar d"
  by (simp_all add: overflow_effect_def Let_def)

lemma on_main_screen_loaded: "on_main_screen a \<Longrightarrow> \<not> is_app_loading a"
  by (auto simp: on_main_screen_def app_screen_def split: option.splits)

lemma app_on_control_loading: "app_on_control cols c a = Some a' \<Longrightarrow> is_app_loading a' = is_app_loading a"
  by (auto simp: app_on_control_def handle_board_toggle_def handle_column_toggle_def
      handle_select_all_columns_def handle_deselect_all_columns_def split: sidebar_control.splits option.splits json.splits)

lemma fetch_boards_for_sidebar_loading:
  "fetch_boards_for_sidebar api a s = Some (a', s') \<Longrightarrow> is_app_loading a' = is_app_loading a"
  by (auto simp: fetch_boards_for_sidebar_def Let_def split: if_splits prod.splits sum.splits option.splits json.splits)

text \<open>Only the settings read changes \<open>isAppLoading\<close>, and it ends the loading.\<close>

lemma app_step_loading:
  assumes "app_step api e d = Some d'"
  shows "is_app_loading (sys_app (ax_sys d')) =
           (if \<exists>err. e = Settings_read err then False else is_app_loading (sys_app (ax_sys d)))"
proof (cases e)
  case (Settings_read err)
  with assms show ?thesis
    by (auto simp: app_step_def Let_def dest: load_settings_loaded split: if_splits option.splits)
next
  case (Sidebar_control c)
  with assms show ?thesis
    by (auto simp: app_step_def Let_def dest: app_on_control_loading split: if_splits option.splits)
next
  case Menu_click
  with assms show ?thesis
    by (auto simp: app_step_def toggle_sidebar_def Let_def dest: fetch_boards_for_sidebar_loading
        split: if_splits option.splits prod.splits)
qed (use assms in \<open>auto simp: app_step_def poll_tick_def fetch_start_def complete_flight_def item_updated_def
       fetch_empty_def Let_def split: if_splits\<close>)

text \<open>While the settings load, App shows its loader: no control, no tick.\<close>

lemma app_step_while_loading:
  assumes "app_step api e d = Some d'" and "is_app_loading (sys_app (ax_sys d))"
  shows "(\<exists>err. e = Settings_read err) \<or> (\<exists>i r. e = Fetch_done i r \<and> i < length (flights (ax_sys d)))
         \<or> (\<exists>i. e = Save_done i \<and> i < length (ax_saves d))
         \<or> (\<exists>i err. e = Save_failed i err \<and> i < length (ax_saves d))"
  using assms
  by (cases e) (auto simp: app_step_def tick_guard_def Let_def dest: on_main_screen_loaded split: if_splits)

lemma settings_json_load_content [simp]:
  "settings_json (sys_app (load_content s)) = settings_json (sys_app s)"
  by (simp add: load_content_def settings_json_def fetch_start_def fetch_empty_def Let_def)

text \<open>While the settings load, App is still in its first state: the
  loader enables no control and no tick, and there is no call in flight and
  no write to complete.\<close>

lemma app_reach_loading_init:
  assumes "app_reach api st s d" and "is_app_loading (sys_app (ax_sys d))"
  shows "d = app_sys_init st s"
  using assms
proof (induction rule: app_reach.induct)
  case (app_trans d e d')
  from app_step_loading [OF app_trans.hyps(2)] app_trans.prems
  have e: "\<nexists>err. e = Settings_read err" and l: "is_app_loading (sys_app (ax_sys d))"
    by (auto split: if_splits)
  from app_trans.IH [OF l] app_step_while_loading [OF app_trans.hyps(2) l] e show ?case
    by (auto simp: app_sys_init_eq)
qed simp

lemma app_reach_loading:
  assumes "app_reach api st s d" and "is_app_loading (sys_app (ax_sys d))"
  shows "ax_saves d = [] \<and> ax_store d = st \<and> flights (ax_sys d) = []"
  using app_reach_loading_init [OF assms] by (simp add: app_sys_init_eq)

lemma refresh_inv_flags:
  "refresh_flags a' = refresh_flags (sys_app s) \<Longrightarrow> refresh_inv (s\<lparr>sys_app := a'\<rparr>) = refresh_inv s"
  by (simp add: refresh_flags_def refresh_inv_def)

lemma refresh_inv_load_content:
  assumes "refresh_inv s" shows "refresh_inv (load_content s)"
proof -
  have "load_content s = load_content (s\<lparr>sys_app := (sys_app s)\<lparr>selected_board_ids := selected_board_ids (sys_app s),
                                        selected_column_ids := selected_column_ids (sys_app s)\<rparr>\<rparr>)" by simp
  moreover have "refresh_step s (load_content (s\<lparr>sys_app := (sys_app s)\<lparr>selected_board_ids := selected_board_ids (sys_app s),
                                        selected_column_ids := selected_column_ids (sys_app s)\<rparr>\<rparr>))"
    by (rule refresh_step.select)
  ultimately show ?thesis using assms by (metis refresh_inv_step)
qed

lemma load_settings_flags:
  "load_settings got a st = Some (a', st') \<Longrightarrow> refresh_flags a' = refresh_flags a"
  by (auto simp: load_settings_def apply_settings_def apply_selection_def refresh_flags_def Let_def
      split: sum.splits if_splits json.splits option.splits)

lemma app_on_control_flags: "app_on_control cols c a = Some a' \<Longrightarrow> refresh_flags a' = refresh_flags a"
  by (auto simp: app_on_control_def handle_board_toggle_def handle_column_toggle_def refresh_flags_def
      handle_select_all_columns_def handle_deselect_all_columns_def split: sidebar_control.splits option.splits json.splits)

lemma fetch_boards_for_sidebar_flags:
  "fetch_boards_for_sidebar api a s = Some (a', s') \<Longrightarrow> refresh_flags a' = refresh_flags a"
  by (auto simp: fetch_boards_for_sidebar_def refresh_flags_def Let_def
      split: if_splits prod.splits sum.splits option.splits json.splits)

lemma render_effects_refresh_inv:
  "refresh_inv (ax_sys d) \<Longrightarrow> refresh_inv (ax_sys (render_effects sv c d))"
  by (simp add: render_effects_def refresh_inv_load_content Let_def)

text \<open>Every event of the App keeps the refresh invariant: the events of
  Refresh by its step lemma, the others because they leave the flags and the
  calls in flight alone before the effects run.\<close>

lemma app_step_refresh_inv:
  assumes "app_step api e d = Some d'" and "refresh_inv (ax_sys d)"
  shows "refresh_inv (ax_sys d')"
proof (cases e)
  case (Settings_read err)
  with assms(1) obtain a' st' where
    ls: "load_settings (settings_answer err (ax_store d)) (sys_app (ax_sys d)) (ax_store d) = Some (a', st')"
    and d': "d' = overflow_effect (is_sidebar_open (sys_app (ax_sys d)))
            (render_effects True True (mount_sidebar api (d\<lparr>ax_sys := (ax_sys d)\<lparr>sys_app := a'\<rparr>, ax_store := st'\<rparr>)))"
    by (auto simp: app_step_def Let_def split: if_splits option.splits)
  from ls have "refresh_flags a' = refresh_flags (sys_app (ax_sys d))" by (rule load_settings_flags)
  with assms(2) d' show ?thesis by (simp add: render_effects_refresh_inv refresh_inv_flags)
next
  case (Sidebar_control c)
  with assms(1) obtain cols a' where ctl: "app_on_control cols c (sys_app (ax_sys d)) = Some a'"
    and d': "d' = render_effects True True (d\<lparr>ax_sys := (ax_sys d)\<lparr>sys_app := a'\<rparr>\<rparr>)"
    by (auto simp: app_step_def Let_def split: if_splits option.splits)
  from ctl have "refresh_flags a' = refresh_flags (sys_app (ax_sys d))" by (rule app_on_control_flags)
  with assms(2) d' show ?thesis by (simp add: render_effects_refresh_inv refresh_inv_flags)
next
  case Menu_click
  with assms show ?thesis
    by (auto simp: app_step_def toggle_sidebar_def Let_def render_effects_refresh_inv refresh_inv_flags
        refresh_flags_def dest!: fetch_boards_for_sidebar_flags split: if_splits option.splits prod.splits)
next
  case Poll_tick
  with assms(1) have "tick_guard (sys_app (ax_sys d))" and d': "ax_sys d' = poll_tick (ax_sys d)"
    by (auto simp: app_step_def Let_def split: if_splits)
  then have "refresh_step (ax_sys d) (ax_sys d')" unfolding poll_tick_def by (simp add: refresh_step.tick)
  from this assms(2) show ?thesis by (rule refresh_inv_step)
next
  case (Fetch_done i r)
  with assms(1) have "i < length (flights (ax_sys d))" and d': "ax_sys d' = complete_flight i r (ax_sys d)"
    by (auto simp: app_step_def Let_def split: if_splits)
  then have "refresh_step (ax_sys d) (ax_sys d')" by (simp add: refresh_step.complete)
  from this assms(2) show ?thesis by (rule refresh_inv_step)
next
  case Item_refetch
  with assms(1) have "ax_sys d' = item_updated (ax_sys d)" by (auto simp: app_step_def Let_def split: if_splits)
  then have "refresh_step (ax_sys d) (ax_sys d')" by (simp add: refresh_step.updated)
  from this assms(2) show ?thesis by (rule refresh_inv_step)
next
  case (Save_done i)
  with assms show ?thesis by (auto simp: app_step_def Let_def split: if_splits)
next
  case (Save_failed i err)
  with assms show ?thesis by (auto simp: app_step_def Let_def split: if_splits)
qed

lemma load_content_panel [simp]:
  "is_sidebar_open (sys_app (load_content s)) = is_sidebar_open (sys_app s)"
  "app_error (sys_app (load_content s)) = app_error (sys_app s)"
  by (simp_all add: load_content_def fetch_start_def fetch_empty_def Let_def)

lemma render_effects_panel [simp]:
  "is_sidebar_open (sys_app (ax_sys (render_effects sv c d))) = is_sidebar_open (sys_app (ax_sys d))"
  "app_error (sys_app (ax_sys (render_effects sv c d))) = app_error (sys_app (ax_sys d))"
  by (simp_all add: render_effects_def Let_def)

lemma overflow_effect_inv:
  "ax_overflow d = body_overflow b \<Longrightarrow>
   ax_overflow (overflow_effect b d) = body_overflow (is_sidebar_open (sys_app (ax_sys d)))"
  by (simp add: overflow_effect_def Let_def)

lemma app_on_control_panel:
  "app_on_control cols c a = Some a' \<Longrightarrow> is_sidebar_open a' = is_sidebar_open a \<and> app_error a' = app_error a"
  by (auto simp: app_on_control_def handle_board_toggle_def handle_column_toggle_def
      handle_select_all_columns_def handle_deselect_all_columns_def split: sidebar_control.splits option.splits json.splits)

lemma refresh_panel [simp]:
  "is_sidebar_open (sys_app (poll_tick s)) = is_sidebar_open (sys_app s)"
  "app_error (sys_app (poll_tick s)) = app_error (sys_app s)"
  "is_sidebar_open (sys_app (complete_flight i r s)) = is_sidebar_open (sys_app s)"
  "app_error (sys_app (complete_flight i r s)) = app_error (sys_app s)"
  "is_sidebar_open (sys_app (item_updated s)) = is_sidebar_open (sys_app s)"
  "app_error (sys_app (item_updated s)) = app_error (sys_app s)"
  by (simp_all add: poll_tick_def complete_flight_def item_updated_def fetch_start_def fetch_empty_def
      fetch_finish_def record_fetch_error_def Let_def split: fetch_result.split)

lemma fetch_boards_for_sidebar_error:
  "fetch_boards_for_sidebar api a s = Some (a', s') \<Longrightarrow> app_error a' = app_error a"
  by (auto simp: fetch_boards_for_sidebar_def Let_def split: if_splits prod.splits sum.splits option.splits json.splits)

text \<open>The events other than the settings read and the menu button leave the
  panel flag, the overflow style, the settings error and the Sidebar alone.\<close>

lemma app_step_panel:
  assumes "app_step api e d = Some d'" and "\<forall>err. e \<noteq> Settings_read err" and "e \<noteq> Menu_click"
  shows "is_sidebar_open (sys_app (ax_sys d')) = is_sidebar_open (sys_app (ax_sys d))
         \<and> app_error (sys_app (ax_sys d')) = app_error (sys_app (ax_sys d))
         \<and> ax_overflow d' = ax_overflow d \<and> ax_sidebar d' = ax_sidebar d"
  using assms
  by (cases e) (auto simp: app_step_def Let_def dest: app_on_control_panel split: if_splits option.splits)

lemma app_step_menu_click:
  assumes "app_step api Menu_click d = Some d'"
  shows "app_error (sys_app (ax_sys d')) = app_error (sys_app (ax_sys d)) \<and> ax_sidebar d' = ax_sidebar d
         \<and> (\<exists>x. d' = overflow_effect (is_sidebar_open (sys_app (ax_sys d))) x \<and> ax_overflow x = ax_overflow d)"
  using assms
  by (auto simp: app_step_def toggle_sidebar_def Let_def dest: fetch_boards_for_sidebar_error
      split: if_splits option.splits prod.splits)

lemma app_step_overflow:
  assumes "app_step api e d = Some d'" and "ax_overflow d = body_overflow (is_sidebar_open (sys_app (ax_sys d)))"
  shows "ax_overflow d' = body_overflow (is_sidebar_open (sys_app (ax_sys d')))"
proof (cases e)
  case (Settings_read err)
  with assms(1) obtain x where "d' = overflow_effect (is_sidebar_open (sys_app (ax_sys d))) x"
    and "ax_overflow x = ax_overflow d"
    by (auto simp: app_step_def Let_def split: if_splits option.splits)
  with assms(2) show ?thesis by (simp add: overflow_effect_inv)
next
  case Menu_click
  with app_step_menu_click assms(1) obtain x where "d' = overflow_effect (is_sidebar_open (sys_app (ax_sys d))) x"
    and "ax_overflow x = ax_overflow d" by blast
  with assms(2) show ?thesis by (simp add: overflow_effect_inv)
qed (use assms app_step_panel in auto)

lemma collect_columns_empty: "collect_columns Map.empty bs m = Some m"
  by (induction bs) simp_all

lemma all_available_columns_empty [simp]: "all_available_columns sel Map.empty = Some []"
  by (simp add: all_available_columns_def collect_columns_empty)

lemma load_settings_boards_data:
  "load_settings got a st = Some (a', st') \<Longrightarrow> all_boards_data a' = all_boards_data a"
  by (auto simp: load_settings_def apply_settings_def apply_selection_def Let_def
      split: sum.splits if_splits json.splits option.splits)

lemma on_main_screen_iff:
  "all_available_columns (selected_board_ids a) (all_boards_data a) \<noteq> None \<Longrightarrow>
   on_main_screen a = (\<not> is_app_loading a \<and> app_error a = None)"
  by (auto simp: on_main_screen_def app_screen_def split: option.splits)

lemma mount_sidebar_sidebar:
  "ax_sidebar (mount_sidebar api d) =
     (if on_main_screen (sys_app (ax_sys d)) \<and> ax_sidebar d = None
      then Some (fst (sidebar_mount api (ax_net d))) else ax_sidebar d)"
  by (simp add: mount_sidebar_def split: prod.split)

text \<open>The first render of the main screen, for an empty storage and a
  platform that answers every query with an empty board list.\<close>

lemma first_main_screen:
  "\<exists>d'. app_step (\<lambda>q n. Api_data (JObj [(''boards'', JArr [])])) (Settings_read None)
          (app_sys_init Map.empty \<lparr>calls = 0, waits = []\<rparr>) = Some d'
     \<and> \<not> is_app_loading (sys_app (ax_sys d')) \<and> app_error (sys_app (ax_sys d')) = None
     \<and> \<not> is_sidebar_open (sys_app (ax_sys d'))
     \<and> app_screen (sys_app (ax_sys d'))
         = Some (Screen_main ''Open Settings'' (Inr ''-100%'') (Some ([], Prompt_select_boards)))
     \<and> calls (ax_net d') = 1"
  by (simp add: app_step_def app_sys_init_eq initial_app_def load_settings_def settings_answer_def
                storage_get_def settings_value_def js_truthy_def js_prop_def js_get_def render_effects_def
                load_content_def fetch_empty_def Let_def app_screen_def on_main_screen_def menu_label_def
                sidebar_panel_right_def is_content_loading_def shown_error_def mount_sidebar_def
                sidebar_mount_def fetch_boards_def after_call_def overflow_effect_def)

text \<open>Once the settings have loaded, every render issues one write, of the
  settings it shows; the refresh events leave the settings as they are.\<close>

lemma render_effects_saves:
  "\<not> is_app_loading (sys_app (ax_sys d)) \<Longrightarrow>
   ax_saves (render_effects True c d) = ax_saves d @ [json_print (settings_json (sys_app (ax_sys d)))]"
  by (simp add: render_effects_def Let_def)

lemma refresh_settings_json [simp]:
  "settings_json (sys_app (poll_tick s)) = settings_json (sys_app s)"
  "settings_json (sys_app (complete_flight i r s)) = settings_json (sys_app s)"
  "settings_json (sys_app (item_updated s)) = settings_json (sys_app s)"
  by (simp_all add: settings_json_def poll_tick_def complete_flight_def item_updated_def fetch_start_def
      fetch_empty_def fetch_finish_def record_fetch_error_def Let_def split: fetch_result.split)

subsection \<open>Properties\<close>

text \<open>Claim C35.  The auto-save never runs before the settings are loaded
  (the spec: never before the initial load completes, so that defaults do not
  clobber the stored view): in every reachable state where the settings are
  still loading, no write has been issued and the storage is as it was; and
  the answer of the settings read issues exactly one write, of the settings
  just loaded.\<close>

theorem no_save_before_settings_load:
  assumes "app_reach api st s d"
  shows "(is_app_loading (sys_app (ax_sys d)) \<longrightarrow> ax_saves d = [] \<and> ax_store d = st)
         \<and> (app_step api (Settings_read err) d = Some d'
            \<longrightarrow> ax_saves d' = [json_print (settings_json (sys_app (ax_sys d')))])"
proof (rule conjI; rule impI)
  assume "is_app_loading (sys_app (ax_sys d))"
  with app_reach_loading [OF assms] show "ax_saves d = [] \<and> ax_store d = st" by simp
next
  assume r: "app_step api (Settings_read err) d = Some d'"
  then have l: "is_app_loading (sys_app (ax_sys d))" by (simp add: app_step_def Let_def split: if_splits)
  with app_reach_loading [OF assms] have nil: "ax_saves d = []" by simp
  from r l obtain a' st' where ls: "load_settings (settings_answer err (ax_store d)) (sys_app (ax_sys d)) (ax_store d) = Some (a', st')"
    and d': "d' = overflow_effect (is_sidebar_open (sys_app (ax_sys d)))
            (render_effects True True (mount_sidebar api (d\<lparr>ax_sys := (ax_sys d)\<lparr>sys_app := a'\<rparr>, ax_store := st'\<rparr>)))"
    by (auto simp: app_step_def Let_def split: option.splits)
  from ls have "\<not> is_app_loading a'" by (rule load_settings_loaded)
  with d' nil show "ax_saves d' = [json_print (settings_json (sys_app (ax_sys d')))]"
    by (simp add: render_effects_def Let_def)
qed

theorem no_save_before_settings_load_witness:
  "let W = (\<lambda>(q::string) (n::nat). Api_data JNull); S = \<lparr>calls = 0, waits = []\<rparr>
   in app_reach W Map.empty S (app_sys_init Map.empty S)
      \<and> is_app_loading (sys_app (ax_sys (app_sys_init Map.empty S)))
      \<and> ax_saves (app_sys_init Map.empty S) = [] \<and> ax_store (app_sys_init Map.empty S) = Map.empty
      \<and> (\<exists>d'. app_step W (Settings_read None) (app_sys_init Map.empty S) = Some d'
              \<and> ax_saves d' = [json_print (settings_json (sys_app (ax_sys d')))])"
proof -
  define W :: "json api" where "W = (\<lambda>q n. Api_data JNull)"
  define S :: net where "S = \<lparr>calls = 0, waits = []\<rparr>"
  have r: "app_reach W Map.empty S (app_sys_init Map.empty S)" by (rule app_init)
  have "\<exists>d'. app_step W (Settings_read None) (app_sys_init Map.empty S) = Some d'"
    by (simp add: app_step_def app_sys_init_eq initial_app_def load_settings_def settings_answer_def
                  storage_get_def settings_value_def js_truthy_def js_prop_def js_get_def Let_def)
  then obtain d' where d': "app_step W (Settings_read None) (app_sys_init Map.empty S) = Some d'" by blast
  from no_save_before_settings_load [OF r, of None d'] d'
  have "ax_saves d' = [json_print (settings_json (sys_app (ax_sys d')))]" by simp
  with r d' show ?thesis by (auto simp: W_def S_def app_sys_init_eq initial_app_def)
qed

text \<open>Claim C6.  A settings read that fails (a rejected \<open>getItem\<close>, e.g. a
  transient error of the host) loses the stored view: the \<open>catch\<close> block
  removes the stored settings, \<open>finally\<close> ends the loading, and the
  auto-save then writes the defaults (no board, no column, panel closed),
  whatever was stored before.  The spec deletes only corrupted values and
  forbids saving defaults over the stored view.\<close>

theorem settings_read_failure_saves_defaults:
  "map_option (\<lambda>d. ax_store d settings_key) (app_run api [Settings_read (Some e), Save_done 0] (app_sys_init st s))
     = Some (Some (JStr (json_print (settings_json initial_app))))"
  by (simp add: app_step_def app_sys_init_eq load_settings_def settings_answer_def render_effects_def
                load_content_def fetch_empty_def storage_set_def storage_remove_def settings_json_def
                initial_app_def Let_def)

text \<open>The writes of the auto-save are not ordered: after the
  settings load, opening the panel issues a second write while the first is
  pending, and if the platform applies them in the other order, the storage
  keeps the closed panel although nothing is pending and the panel is open.\<close>

theorem settings_writes_reordered:
  "let W = (\<lambda>(q::string) (n::nat). Api_data (JObj [(''boards'', JArr [])]));
       d = app_run W [Settings_read None, Menu_click, Save_done 1, Save_done 0]
             (app_sys_init Map.empty \<lparr>calls = 0, waits = []\<rparr>)
   in d \<noteq> None \<and> ax_saves (the d) = [] \<and> is_sidebar_open (sys_app (ax_sys (the d)))
      \<and> ax_store (the d) settings_key \<noteq> Some (JStr (json_print (settings_json (sys_app (ax_sys (the d))))))"
proof -
  define W :: "json api" where "W = (\<lambda>q n. Api_data (JObj [(''boards'', JArr [])]))"
  have c: "api_call W q s = (Inr (JObj [(''boards'', JArr [])]), after_call s)" for q s
    by (rule api_call_data) (simp add: W_def)
  show ?thesis
    unfolding W_def [symmetric]
    by (simp add: app_step_def app_sys_init_eq initial_app_def load_settings_def settings_answer_def
                  storage_get_def settings_value_def js_truthy_def js_prop_def js_get_def render_effects_def
                  load_content_def fetch_empty_def on_main_screen_def app_screen_def all_available_columns_def
                  toggle_sidebar_def fetch_boards_for_sidebar_def c storage_set_def settings_json_def Let_def)
qed

text \<open>Claim C28.  The auto-save follows every change of the settings: an
  event of App that changes the saved settings (the selected boards, the
  selected columns or the panel flag) appends exactly one write to the
  pending writes, of the settings the new state shows (spec: the settings
  are saved whenever they change).\<close>

theorem auto_save_follows_changes:
  assumes "app_step api e d = Some d'"
    and "settings_json (sys_app (ax_sys d')) \<noteq> settings_json (sys_app (ax_sys d))"
  shows "ax_saves d' = ax_saves d @ [json_print (settings_json (sys_app (ax_sys d')))]"
proof (cases e)
  case (Settings_read err)
  with assms(1) obtain a' st' where
    ls: "load_settings (settings_answer err (ax_store d)) (sys_app (ax_sys d)) (ax_store d) = Some (a', st')"
    and d': "d' = overflow_effect (is_sidebar_open (sys_app (ax_sys d)))
            (render_effects True True (mount_sidebar api (d\<lparr>ax_sys := (ax_sys d)\<lparr>sys_app := a'\<rparr>, ax_store := st'\<rparr>)))"
    by (auto simp: app_step_def Let_def split: if_splits option.splits)
  from ls have "\<not> is_app_loading a'" by (rule load_settings_loaded)
  with d' show ?thesis by (simp add: render_effects_saves)
next
  case (Sidebar_control c)
  with assms(1) obtain cols a' where ctl: "app_on_control cols c (sys_app (ax_sys d)) = Some a'"
    and m: "on_main_screen (sys_app (ax_sys d))"
    and d': "d' = render_effects True True (d\<lparr>ax_sys := (ax_sys d)\<lparr>sys_app := a'\<rparr>\<rparr>)"
    by (auto simp: app_step_def Let_def split: if_splits option.splits)
  from ctl on_main_screen_loaded [OF m] have "\<not> is_app_loading a'" by (simp add: app_on_control_loading)
  with d' show ?thesis by (simp add: render_effects_saves)
next
  case Menu_click
  with assms(1) have m: "on_main_screen (sys_app (ax_sys d))" by (simp add: app_step_def Let_def split: if_splits)
  hence nl: "\<not> is_app_loading (sys_app (ax_sys d))" by (rule on_main_screen_loaded)
  have fl: "\<not> is_app_loading a2" if "fetch_boards_for_sidebar api a1 n = Some (a2, n2)"
    and "is_app_loading a1 = is_app_loading (sys_app (ax_sys d))" for a1 n a2 n2
    using fetch_boards_for_sidebar_loading [OF that(1)] that(2) nl by simp
  from assms(1) Menu_click m nl show ?thesis
    by (auto simp: app_step_def toggle_sidebar_def Let_def render_effects_saves
        dest: fl split: if_splits option.splits prod.splits)
qed (use assms in \<open>auto simp: app_step_def Let_def split: if_splits\<close>)

theorem auto_save_follows_changes_witness:
  "let W = (\<lambda>(q::string) (n::nat). Api_data (JObj [(''boards'', JArr [])]));
       d = the (app_step W (Settings_read None) (app_sys_init Map.empty \<lparr>calls = 0, waits = []\<rparr>))
   in \<exists>d'. app_step W Menu_click d = Some d'
        \<and> settings_json (sys_app (ax_sys d')) \<noteq> settings_json (sys_app (ax_sys d))
        \<and> ax_saves d' = ax_saves d @ [json_print (settings_json (sys_app (ax_sys d')))]"
proof -
  define W :: "json api" where "W = (\<lambda>q n. Api_data (JObj [(''boards'', JArr [])]))"
  define d where "d = the (app_step W (Settings_read None) (app_sys_init Map.empty \<lparr>calls = 0, waits = []\<rparr>))"
  have c: "api_call W q s = (Inr (JObj [(''boards'', JArr [])]), after_call s)" for q s
    by (rule api_call_data) (simp add: W_def)
  have "\<exists>d'. app_step W Menu_click d = Some d'
        \<and> settings_json (sys_app (ax_sys d')) \<noteq> settings_json (sys_app (ax_sys d))"
    by (simp add: d_def app_step_def app_sys_init_eq initial_app_def load_settings_def settings_answer_def
                  storage_get_def settings_value_def js_truthy_def js_prop_def js_get_def render_effects_def
                  load_content_def fetch_empty_def on_main_screen_def app_screen_def all_available_columns_def
                  toggle_sidebar_def fetch_boards_for_sidebar_def c settings_json_def Let_def)
  then obtain d' where s: "app_step W Menu_click d = Some d'"
    and ne: "settings_json (sys_app (ax_sys d')) \<noteq> settings_json (sys_app (ax_sys d))" by blast
  from auto_save_follows_changes [OF s ne] s ne show ?thesis
    unfolding W_def [symmetric] d_def [symmetric] Let_def by blast
qed

text \<open>Claim C37.  In every state of App reachable from the first render, by
  any interleaving of the settings read, the Sidebar controls, the menu
  button, polling ticks, refetches after edits, completions of calls in any
  order with any outcome and storage writes, the loading flags are up only
  while a foreground call is in flight and \<open>isPolling\<close> only while some
  call is: when every call has completed, no spinner is left on.\<close>

theorem app_spinner_invariant:
  assumes "app_reach api st s d"
  shows "refresh_inv (ax_sys d)"
  using assms
proof (induction rule: app_reach.induct)
  case app_init
  show ?case by (simp add: app_sys_init_eq initial_app_def refresh_inv_def)
next
  case (app_trans d e d')
  from app_trans.hyps(2) app_trans.IH show ?case by (rule app_step_refresh_inv)
qed

theorem app_spinner_invariant_witness:
  "app_reach (\<lambda>q n. Api_data JNull) Map.empty \<lparr>calls = 0, waits = []\<rparr> (app_sys_init Map.empty \<lparr>calls = 0, waits = []\<rparr>)
   \<and> refresh_inv (ax_sys (app_sys_init Map.empty \<lparr>calls = 0, waits = []\<rparr>))"
proof -
  have r: "app_reach (\<lambda>q n. Api_data JNull) Map.empty \<lparr>calls = 0, waits = []\<rparr> (app_sys_init Map.empty \<lparr>calls = 0, waits = []\<rparr>)"
    by (rule app_init)
  from app_spinner_invariant [OF r] r show ?thesis by simp
qed

text \<open>Claim C5.  The page behind the settings panel is locked from scrolling
  exactly while the panel is open: in every reachable state the body's
  overflow style is what the effect of lines 451--459 sets for the current
  \<open>isSidebarOpen\<close> (also after the settings load restores an open panel),
  and on the main screen it is \<open>'hidden'\<close> exactly when the panel sits at
  \<open>right: 0\<close> and the menu button reads \<open>Close Settings\<close>.\<close>

theorem body_scroll_locked_iff_panel_open:
  assumes "app_reach api st s d"
  shows "ax_overflow d = body_overflow (is_sidebar_open (sys_app (ax_sys d)))
         \<and> (app_screen (sys_app (ax_sys d)) = Some (Screen_main lbl r c)
            \<longrightarrow> (ax_overflow d = ''hidden'') = (r = Inl 0) \<and> (lbl = ''Close Settings'') = (r = Inl 0))"
proof -
  from assms have inv: "ax_overflow d = body_overflow (is_sidebar_open (sys_app (ax_sys d)))"
  proof (induction rule: app_reach.induct)
    case app_init
    show ?case by (simp add: app_sys_init_eq initial_app_def)
  next
    case (app_trans d e d')
    from app_trans.hyps(2) app_trans.IH show ?case by (rule app_step_overflow)
  qed
  moreover have "app_screen (sys_app (ax_sys d)) = Some (Screen_main lbl r c)
      \<Longrightarrow> lbl = menu_label (is_sidebar_open (sys_app (ax_sys d)))
          \<and> r = sidebar_panel_right (is_sidebar_open (sys_app (ax_sys d)))"
    by (auto simp: app_screen_def split: option.splits if_splits)
  ultimately show ?thesis
    by (auto simp: body_overflow_def menu_label_def sidebar_panel_right_def)
qed

theorem body_scroll_locked_iff_panel_open_witness:
  "\<exists>d'. app_step (\<lambda>q n. Api_data (JObj [(''boards'', JArr [])])) (Settings_read None)
          (app_sys_init Map.empty \<lparr>calls = 0, waits = []\<rparr>) = Some d'
     \<and> app_reach (\<lambda>q n. Api_data (JObj [(''boards'', JArr [])])) Map.empty \<lparr>calls = 0, waits = []\<rparr> d'
     \<and> app_screen (sys_app (ax_sys d'))
         = Some (Screen_main ''Open Settings'' (Inr ''-100%'') (Some ([], Prompt_select_boards)))
     \<and> ax_overflow d' = ''''"
proof -
  from first_main_screen obtain d' where
    d': "app_step (\<lambda>q n. Api_data (JObj [(''boards'', JArr [])])) (Settings_read None)
          (app_sys_init Map.empty \<lparr>calls = 0, waits = []\<rparr>) = Some d'"
    and o: "\<not> is_sidebar_open (sys_app (ax_sys d'))"
    and v: "app_screen (sys_app (ax_sys d'))
         = Some (Screen_main ''Open Settings'' (Inr ''-100%'') (Some ([], Prompt_select_boards)))"
    by blast
  have r: "app_reach (\<lambda>q n. Api_data (JObj [(''boards'', JArr [])])) Map.empty \<lparr>calls = 0, waits = []\<rparr> d'"
    by (rule app_trans [OF app_init d'])
  from body_scroll_locked_iff_panel_open [OF r, of "''Open Settings''" "Inr ''-100%''"] v o
  have "ax_overflow d' = ''''" by (simp add: body_overflow_def)
  with d' r v show ?thesis by blast
qed

text \<open>Claim C7.  The Sidebar exists exactly when the settings have loaded
  without error: it is not mounted while the loader or the settings error is
  shown, and it is mounted, with its own board query sent, as soon as the
  main screen first renders, whether or not the panel is ever opened (the
  closed panel is only moved off-screen).\<close>

theorem sidebar_mounted_iff_settings_loaded:
  assumes "app_reach api st s d"
  shows "(ax_sidebar d \<noteq> None) = (\<not> is_app_loading (sys_app (ax_sys d)) \<and> app_error (sys_app (ax_sys d)) = None)"
  using assms
proof (induction rule: app_reach.induct)
  case app_init
  show ?case by (simp add: app_sys_init_eq initial_app_def)
next
  case (app_trans d e d')
  show ?case
  proof (cases "\<exists>err. e = Settings_read err")
    case True
    then obtain err where e: "e = Settings_read err" by blast
    with app_trans.hyps(2) have l: "is_app_loading (sys_app (ax_sys d))"
      by (simp add: app_step_def Let_def split: if_splits)
    with app_trans.hyps(1) have d: "d = app_sys_init st s" by (rule app_reach_loading_init)
    from app_trans.hyps(2) e l obtain a' st' where
      ls: "load_settings (settings_answer err (ax_store d)) (sys_app (ax_sys d)) (ax_store d) = Some (a', st')"
      and d': "d' = overflow_effect (is_sidebar_open (sys_app (ax_sys d)))
            (render_effects True True (mount_sidebar api (d\<lparr>ax_sys := (ax_sys d)\<lparr>sys_app := a'\<rparr>, ax_store := st'\<rparr>)))"
      by (auto simp: app_step_def Let_def split: option.splits)
    from ls have "\<not> is_app_loading a'" by (rule load_settings_loaded)
    moreover from ls d have "all_boards_data a' = Map.empty"
      by (simp add: load_settings_boards_data app_sys_init_eq initial_app_def)
    ultimately show ?thesis using d d' by (simp add: mount_sidebar_sidebar on_main_screen_iff app_sys_init_eq)
  next
    case False
    with app_step_loading [OF app_trans.hyps(2)]
    have "is_app_loading (sys_app (ax_sys d')) = is_app_loading (sys_app (ax_sys d))" by simp
    moreover have "app_error (sys_app (ax_sys d')) = app_error (sys_app (ax_sys d)) \<and> ax_sidebar d' = ax_sidebar d"
      using False app_trans.hyps(2) app_step_panel [of api e d d'] app_step_menu_click [of api d d']
      by (cases "e = Menu_click") auto
    ultimately show ?thesis using app_trans.IH by simp
  qed
qed

theorem sidebar_mounted_iff_settings_loaded_witness:
  "\<exists>d'. app_step (\<lambda>q n. Api_data (JObj [(''boards'', JArr [])])) (Settings_read None)
          (app_sys_init Map.empty \<lparr>calls = 0, waits = []\<rparr>) = Some d'
     \<and> app_reach (\<lambda>q n. Api_data (JObj [(''boards'', JArr [])])) Map.empty \<lparr>calls = 0, waits = []\<rparr> d'
     \<and> ax_sidebar d' \<noteq> None \<and> \<not> is_sidebar_open (sys_app (ax_sys d')) \<and> calls (ax_net d') = 1"
proof -
  from first_main_screen obtain d' where
    d': "app_step (\<lambda>q n. Api_data (JObj [(''boards'', JArr [])])) (Settings_read None)
          (app_sys_init Map.empty \<lparr>calls = 0, waits = []\<rparr>) = Some d'"
    and l: "\<not> is_app_loading (sys_app (ax_sys d'))" and e: "app_error (sys_app (ax_sys d')) = None"
    and o: "\<not> is_sidebar_open (sys_app (ax_sys d'))" and c: "calls (ax_net d') = 1"
    by blast
  have r: "app_reach (\<lambda>q n. Api_data (JObj [(''boards'', JArr [])])) Map.empty \<lparr>calls = 0, waits = []\<rparr> d'"
    by (rule app_trans [OF app_init d'])
  from sidebar_mounted_iff_settings_loaded [OF r] l e have "ax_sidebar d' \<noteq> None" by simp
  with d' r o c show ?thesis by blast
qed

end
