(* ===== verification/Avatars.thy ===== *)
theory Avatars
  imports CellDialog Editing
begin

text \<open>
  The avatars of TaskTable (src/unnamed/part_003): the avatar of each person
  of a person cell (lines 806--898), the same in the \<open>AvatarGroup\<close> of
  several persons and alone, and the avatars of the user rows of the filter
  dialog (lines 1060--1106).  \<open>s.substring(0, 2).toUpperCase()\<close> counts
  UTF-16 units and maps characters by Unicode case, so it is the parameter
  \<open>initials\<close> on the string; the same method called on any other value
  throws.  The hover of an avatar passes \<open>avatar_user\<close> (CellDialog) to
  \<open>handleAvatarMouseEnter\<close>, and the dialog of the person is open when that
  user's \<open>id\<close> is \<open>===\<close> to \<open>personData.id\<close>.
\<close>

text \<open>\<open>a || b\<close>.\<close>

definition js_or :: "json option \<Rightarrow> json option \<Rightarrow> json option" where
  "js_or a b = (if js_truthy a then a else b)"

text \<open>\<open>v.substring(0, 2).toUpperCase()\<close>: \<open>None\<close> when \<open>v\<close> is not a string.\<close>

definition js_initials :: "(string \<Rightarrow> string) \<Rightarrow> json option \<Rightarrow> string option" where
  "js_initials initials v = (case v of Some (JStr s) \<Rightarrow> Some (initials s) | _ \<Rightarrow> None)"

text \<open>\<open>avatarText\<close> of a person (lines 817 and 820--824, repeated at 863 and
  866--870) from \<open>cachedUser = cachedUsers[personData.id]\<close>.\<close>

definition avatar_text :: "(string \<Rightarrow> string) \<Rightarrow> json option \<Rightarrow> string option" where
  "avatar_text initials cachedUser =
     (let userName = js_or (js_prop cachedUser ''name'') (Some (JStr ''Unknown''))
      in if js_truthy cachedUser
         then (case (if js_truthy userName then js_initials initials userName else Some ''NP'') of
                 None \<Rightarrow> None
               | Some t \<Rightarrow>
                   if userName = Some (JStr '''') \<and> js_truthy (js_prop cachedUser ''id'')
                   then js_initials initials (js_prop cachedUser ''id'')
                   else Some t)
         else Some ''?'')"

text \<open>\<open>getAvatarLabel\<close> (lines 806--809), on \<open>cachedUser || { id: personData.id }\<close>.\<close>

definition avatar_label :: "json \<Rightarrow> string" where
  "avatar_label user =
     (if js_truthy (js_get user ''name'') then js_string (js_get user ''name'')
      else if js_truthy (js_get user ''id'') then ''User ID: '' @ js_string (js_get user ''id'')
      else ''Unknown User'')"

text \<open>What an \<open>Avatar\<close> shows: its text, the photo when \<open>type\<close> is
  \<open>IMG\<close> (\<open>src = photo || undefined\<close>), and its \<open>ariaLabel\<close>.\<close>

record avatar =
  av_text :: string
  av_photo :: "json option"
  av_label :: string

text \<open>The avatar of \<open>personData\<close> in a person cell (lines 843--853 and
  885--895).\<close>

definition person_avatar :: "(string \<Rightarrow> string) \<Rightarrow> (string \<rightharpoonup> json) \<Rightarrow> json \<Rightarrow> avatar option" where
  "person_avatar initials cache personData =
     (let cachedUser = cache (js_string (js_get personData ''id''));
          userPhoto = js_prop cachedUser ''photo_original''
      in map_option
           (\<lambda>t. \<lparr>av_text = t, av_photo = (if js_truthy userPhoto then userPhoto else None),
                 av_label = avatar_label (if js_truthy cachedUser then the cachedUser
                                          else JObj (case js_get personData ''id'' of Some i \<Rightarrow> [(''id'', i)] | None \<Rightarrow> []))\<rparr>)
           (avatar_text initials cachedUser))"

text \<open>The avatar of a user row of the filter dialog (lines 1100--1106), and
  the fixed avatars of the \<open>My Tasks\<close> and \<open>No user\<close> rows (lines 1060--1066
  and 1077--1083).\<close>

definition dialog_user_avatar :: "(string \<Rightarrow> string) \<Rightarrow> json \<Rightarrow> avatar option" where
  "dialog_user_avatar initials user =
     (let n = js_get user ''name''; ph = js_get user ''photo_original''
      in map_option (\<lambda>t. \<lparr>av_text = t, av_photo = (if js_truthy ph then ph else None),
                          av_label = (if js_truthy n then js_string n else ''User Avatar'')\<rparr>)
           (if js_truthy n then js_initials initials n else Some ''NP''))"

definition dialog_user_avatars :: "(string \<Rightarrow> string) \<Rightarrow> json option \<Rightarrow> json list \<Rightarrow> avatar list option" where
  "dialog_user_avatars initials cur people =
     map_option (\<lambda>avs. (if js_truthy cur then [\<lparr>av_text = ''Me'', av_photo = None, av_label = ''My Tasks''\<rparr>] else [])
                       @ [\<lparr>av_text = ''?'', av_photo = None, av_label = ''No user''\<rparr>] @ avs)
       (those (map (dialog_user_avatar initials) people))"

text \<open>The avatars of a person cell, one per person of \<open>personsInColumn\<close>:
  in the \<open>AvatarGroup\<close> when there are several (lines 813--858), alone
  otherwise (lines 860--898); the group's \<open>max={3}\<close> counter is the
  library's.\<close>

definition cell_avatars :: "(string \<Rightarrow> string) \<Rightarrow> (string \<rightharpoonup> json) \<Rightarrow> json list \<Rightarrow> avatar list option" where
  "cell_avatars initials cache personsInColumn = those (map (person_avatar initials cache) personsInColumn)"

subsection \<open>Properties\<close>

lemma avatar_user_id:
  "js_get (avatar_user cache p) ''id'' =
     (if js_truthy (cache (js_string (js_get p ''id''))) then js_get (the (cache (js_string (js_get p ''id'')))) ''id''
      else js_get p ''id'')"
  by (auto simp: avatar_user_def js_get_def js_truthy_def split: option.splits)

lemma avatar_hover_dialog_shown_iff:
  "dialog_step (Avatar_enter (avatar_user cache p) el) d = Some d' \<Longrightarrow>
   hover_dialog_shown (dialog d') p =
     (js_truthy (cache (js_string (js_get p ''id''))) \<longrightarrow> js_get (the (cache (js_string (js_get p ''id'')))) ''id'' = js_get p ''id'')"
  by (auto simp: dialog_step_def hover_dialog_shown_def avatar_user_id clear_timer_def split: option.splits)

lemma fetch_and_cache_user_cached:
  assumes "js_truthy userId" and "fetch_and_cache_user api userId t s = (u, t', s')"
  shows "cached_users t' (js_string userId) = Some u"
proof (cases "js_truthy (cached_users t (js_string userId))")
  case True
  then obtain x where x: "cached_users t (js_string userId) = Some x"
    by (cases "cached_users t (js_string userId)") (simp_all add: js_truthy_def)
  with True assms show ?thesis by (auto simp: fetch_and_cache_user_def)
next
  case False
  show ?thesis
  proof (cases "query_monday api (GET_USER_DETAILS_QUERY (js_string userId)) 3 500 s")
    case (Pair r s1)
    show ?thesis
    proof (cases r)
      case (Inl e)
      with assms False Pair show ?thesis by (auto simp: fetch_and_cache_user_def Let_def)
    next
      case (Inr dd)
      show ?thesis
      proof (cases "js_prop (Some dd) ''users''")
        case None
        with assms False Pair Inr show ?thesis by (auto simp: fetch_and_cache_user_def Let_def)
      next
        case (Some us)
        with assms False Pair Inr show ?thesis
          by (cases us) (auto simp: fetch_and_cache_user_def Let_def split: list.splits)
      qed
    qed
  qed
qed

text \<open>The filter dialog's avatars line up with its user rows: one per row.\<close>

lemma dialog_user_avatars_rows:
  assumes "filter_dialog_content fs cur people meta = Some (User_rows rows b, c)"
    and "dialog_user_avatars initials cur people = Some avs"
  shows "length avs = length rows"
  using assms
  by (auto simp: filter_dialog_content_def dialog_user_avatars_def Let_def dest!: those_length
      split: if_splits option.splits)

text \<open>A person cell shows one avatar per person.\<close>

lemma cell_avatars_length:
  "cell_avatars initials cache ps = Some avs \<Longrightarrow> length avs = length ps"
  by (auto simp: cell_avatars_def dest: those_length)

text \<open>Claim C25.  The details dialog of a person's avatar does not open on
  hover once the person's user is cached from the platform: the people
  column value gives the person's \<open>id\<close> as a number, the platform's user
  carries it as a string, and the \<open>open\<close> prop compares
  \<open>cellDialogState.user?.id === personData.id\<close> (lines 834 and 876),
  while \<open>handleAvatarMouseEnter\<close> stored the cached user.\<close>

theorem cached_user_hover_not_shown:
  assumes "js_get p ''id'' = Some (JNum m e)" and "m \<noteq> 0"
    and "fetch_and_cache_user api (js_get p ''id'') t s = (u, t', s')"
    and "js_get u ''id'' = Some (JStr x)"
    and "dialog_step (Avatar_enter (avatar_user (cached_users t') p) el) d = Some d'"
  shows "\<not> hover_dialog_shown (dialog d') p"
proof -
  from assms(1,2) have "js_truthy (js_get p ''id'')" by (simp add: js_truthy_def)
  from fetch_and_cache_user_cached [OF this assms(3)]
  have "cached_users t' (js_string (js_get p ''id'')) = Some u" .
  moreover from assms(4) have "js_truthy (Some u)" by (auto simp: js_get_def js_truthy_def split: json.splits)
  ultimately have "js_truthy (cached_users t' (js_string (js_get p ''id'')))"
    and "js_get (the (cached_users t' (js_string (js_get p ''id'')))) ''id'' \<noteq> js_get p ''id''"
    using assms(1,4) by simp_all
  with avatar_hover_dialog_shown_iff [OF assms(5)] show ?thesis by blast
qed

text \<open>Claim C19.  A cached user whose name is empty or missing gets the
  initials of \<open>'Unknown'\<close> on its avatar: \<open>userName\<close> already falls back to
  \<open>'Unknown'\<close> (line 817), so the fallback to the initials of the user's id
  (line 823) and the text \<open>'NP'\<close> are never used.\<close>

theorem avatar_text_unknown_name:
  assumes "js_truthy cu" and "\<not> js_truthy (js_prop cu ''name'')"
  shows "avatar_text initials cu = Some (initials ''Unknown'')"
proof -
  have "js_or (js_prop cu ''name'') (Some (JStr ''Unknown'')) = Some (JStr ''Unknown'')"
    using assms(2) by (simp add: js_or_def)
  moreover have "js_truthy (Some (JStr ''Unknown''))" by (simp add: js_truthy_def)
  ultimately show ?thesis
    unfolding avatar_text_def Let_def using assms(1) by (simp add: js_initials_def)
qed

text \<open>The user the platform returns for person \<open>42\<close> of a people column value.\<close>

lemma user_42_cached:
  "fetch_and_cache_user (\<lambda>q n. Api_data (JObj [(''users'', JArr [JObj [(''id'', JStr ''42''), (''name'', JStr ''Ann'')]])]))
     (Some (JNum 42 0)) initial_table \<lparr>calls = 0, waits = []\<rparr>
   = (JObj [(''id'', JStr ''42''), (''name'', JStr ''Ann'')],
      initial_table\<lparr>cached_users := [''42'' \<mapsto> JObj [(''id'', JStr ''42''), (''name'', JStr ''Ann'')]]\<rparr>,
      \<lparr>calls = 1, waits = []\<rparr>)"
  by (simp add: fetch_and_cache_user_def query_monday_data initial_table_def js_truthy_def js_string_def
                js_number_string_def js_prop_def js_get_def after_call_def int_to_dec_def nat_to_dec.simps char_of_def bit_simps Let_def)

theorem cached_user_hover_not_shown_witness:
  "\<exists>d'. dialog_step (Avatar_enter (avatar_user [''42'' \<mapsto> JObj [(''id'', JStr ''42''), (''name'', JStr ''Ann'')]]
                                     (JObj [(''id'', JNum 42 0)])) 1) dialog_init = Some d'
        \<and> \<not> hover_dialog_shown (dialog d') (JObj [(''id'', JNum 42 0)])"
proof -
  obtain d' where d': "dialog_step (Avatar_enter (avatar_user [''42'' \<mapsto> JObj [(''id'', JStr ''42''), (''name'', JStr ''Ann'')]]
                                     (JObj [(''id'', JNum 42 0)])) 1) dialog_init = Some d'"
    by (simp add: dialog_step_def)
  have p: "js_get (JObj [(''id'', JNum 42 0)]) ''id'' = Some (JNum 42 0)" by (simp add: js_get_def)
  have u: "js_get (JObj [(''id'', JStr ''42''), (''name'', JStr ''Ann'')]) ''id'' = Some (JStr ''42'')"
    by (simp add: js_get_def)
  from cached_user_hover_not_shown [OF p _ user_42_cached [unfolded p [symmetric]] u, of 1 dialog_init d'] d'
  have "\<not> hover_dialog_shown (dialog d') (JObj [(''id'', JNum 42 0)])" by (simp add: initial_table_def)
  with d' show ?thesis by blast
qed

theorem avatar_text_unknown_name_witness:
  "js_truthy (Some (JObj [(''id'', JStr ''42''), (''name'', JStr '''')]))
   \<and> \<not> js_truthy (js_prop (Some (JObj [(''id'', JStr ''42''), (''name'', JStr '''')])) ''name'')
   \<and> avatar_text (take 2) (Some (JObj [(''id'', JStr ''42''), (''name'', JStr '''')])) = Some ''Un''"
proof -
  have t: "js_truthy (Some (JObj [(''id'', JStr ''42''), (''name'', JStr '''')]))" by (simp add: js_truthy_def)
  have n: "\<not> js_truthy (js_prop (Some (JObj [(''id'', JStr ''42''), (''name'', JStr '''')])) ''name'')"
    by (simp add: js_truthy_def js_prop_def js_get_def)
  from avatar_text_unknown_name [OF t n, of "take 2"] t n show ?thesis by simp
qed

end
