(* ===== verification/Spec2Isabelle.thy ===== *)
theory Spec2Isabelle
  imports Retry Queries AppState Aggregation Settings Selection Table ViewFilter ViewSort Refresh Editing Sidebar TableContext FilterOptions ItemName TableUI JsonFuel AppView CellView CellDialog AppSystem Avatars
begin

text \<open>
  \<^bold>\<open>A verification development for MyWorkView\<close>, a board-data viewer embedded
  in the monday.com platform (React, JavaScript).  The sources are the
  concatenated files under src/unnamed: part_000 is src/api/mondayQueries.js,
  part_001 the hook src/hooks/useMondayAPI.js (\<open>queryMonday\<close>), part_003
  src/components/TaskTable/TaskTable.jsx, part_005 src/App.jsx; part_002 and
  part_004 are documentation; src/src/components/Sidebar/Sidebar.jsx is the
  sidebar.  Every network call of the app is \<open>retry(() => queryMonday(q))\<close>
  on a GraphQL document of mondayQueries.js; App.jsx aggregates the answers
  into its React state, persists the selection in the platform's storage, and
  passes the items to TaskTable, which filters and sorts them for display.

  \<^bold>\<open>Theories and what they model.\<close>
  \<^item> Prelude: the JavaScript string built-ins the code calls (\<open>includes\<close>,
    \<open>trim\<close>, \<open>join\<close>, \<open>toLowerCase\<close>), executable and proved equal to
    the library's \<open>sublist\<close> and \<open>prefix\<close>.  \<open>js_trim\<close> strips the ASCII
    white space (tab, LF, VT, FF, CR, space); the Unicode spaces
    \<open>String.prototype.trim\<close> also strips (NBSP, U+2028, ...) are multi-byte
    in the byte strings of the model and are kept.
  \<^item> Retry: the two nested executors.  \<open>query_monday\<close> is \<open>queryMonday\<close>
    (part_001 lines 9--40), split into its \<open>try\<close> block (\<open>query_try\<close>) and
    its \<open>catch\<close> block (\<open>query_catch\<close>); \<open>retry\<close> is the \<open>retry\<close> of
    App.jsx (part_005 lines 22--44) with its classifier \<open>retry_transient\<close>;
    \<open>api_call\<close> composes them at the default budgets.  The platform is an
    oracle \<open>api q n\<close>, the outcome of the n-th call with document q (data, an
    error list, or a rejection), and the state \<open>net\<close> counts the calls and
    records every awaited delay, so the theorems state exactly how often the
    platform is called and how long the app waits.
  \<^item> Json: the JSON values, \<open>JSON.stringify\<close> (\<open>json_print\<close>) and
    \<open>JSON.parse\<close> (\<open>json_parse\<close>, a fuel-bounded recursive-descent parser
    whose fuel \<open>length s + 1\<close> always suffices, since every recursive call
    consumes input or descends into a shorter suffix), and the JavaScript
    property reads (\<open>js_get\<close>, truthiness, guarded \<open>a && a.k\<close>).  The main
    theorem is the round trip \<open>json_parse (json_print v) = Some v\<close>.
  \<^item> Queries: every document of mondayQueries.js as the exact string its
    template literal builds.
  \<^item> AppState: the \<open>useState\<close> fields of App as a record.
  \<^item> Aggregation: \<open>fetchBoardData\<close> (part_005 lines 83--155) as a function of
    the state and the network: columns first, then one items request per
    selected board in selection order, fail-fast, with the \<open>catch\<close> routing.
    A \<open>null\<close> board in the columns answer throws at \<open>board.id\<close>, as a
    non-array \<open>boards\<close> throws at \<open>forEach\<close>.
  \<^item> Settings: \<open>loadSettings\<close> and the auto-save effect (part_005 lines
    158--250) over the instance storage as a map.
  \<^item> Selection: the toggle, select-all and deselect-all handlers, the sidebar
    board fetch, the column dedup memo and \<open>columnsToDisplayInTable\<close>
    (part_005 lines 293--449).
  \<^item> Table, ViewFilter, ViewSort: TaskTable's state, \<open>columnsForTable\<close> with
    the status options (ECMAScript \<open>Object.entries\<close> order),
    \<open>getStatusColorStyle\<close>, the filter and sort handlers as an inductive step
    relation, and \<open>filteredAndSortedBoardItems\<close> (part_003 lines 454--619):
    the per-type filters, the current-user filter, \<open>parseFloat\<close>, the pairwise
    comparator of every column type and a stable insertion sort.
    \<open>localeCompare\<close> and \<open>new Date\<close> are parameters of the comparator.
  \<^item> Refresh: \<open>fetchBoardData\<close> split at its awaits (proved equal to the
    sequential model of Aggregation), and an inductive step relation over the
    App state and the calls in flight: polling ticks with their guard (part_005
    lines 270--291), selection changes with the \<open>loadContentData\<close> effect
    (lines 254--268), the refetch of \<open>handleItemUpdated\<close> after an edit
    (lines 434--438), and completions of calls in any order with any outcome.
    The requests of one refresh are answered in one completion, so
    \<open>setAllBoardsData\<close>, which the code calls between the columns request
    and the items requests, takes effect in the model with the setters after
    them (\<open>fetch_finish\<close>): an event between the two sees the older board
    data (in AppSystem, the columns the Sidebar offers); the flags and
    invariants of Refresh do not read \<open>allBoardsData\<close>.
  \<^item> Editing: TaskTable's user cache (\<open>fetchAndCacheUser\<close> and the prefetch
    effect), the rename (\<open>handleSaveEdit\<close>, \<open>handleDoubleClick\<close>,
    \<open>handleKeyDown\<close>) and \<open>handleStatusChange\<close>, whose effects beyond the
    table state (mutation sent, refetch requested, alert shown) are a list of
    events.
  \<^item> Sidebar: the sidebar's own board list (Sidebar.jsx lines 18--80): its
    state, the mount effect \<open>fetchBoards\<close>, which calls \<open>monday.api\<close>
    directly, and the loading / error / rows branches of its render.
  \<^item> TableContext: TaskTable's two mount effects that read the platform
    context (\<open>fetchContextAndUserId\<close>, \<open>fetchMondayBaseUrl\<close> with its
    account-slug fallback) and the profile and board links built from
    \<open>mondayBaseUrl\<close>.
  \<^item> FilterOptions: the person options of TaskTable's filter dialog
    (\<open>uniquePeopleInBoardItems\<close> and the checkbox values), the memo's
    \<open>Map\<close> as an association list under \<open>AList.update\<close>; the whole content
    of a column's filter dialog (part_003 lines 999--1141: status rows with
    their colours, user rows, Clear Filter) and the clicks on its controls.
    A checkbox click is a click on the checkbox's input element; a click on
    the label the \<open>Checkbox\<close> component wraps around it is forwarded by the
    browser to the input and may reach the row's handler once more, which is
    not modelled.
  \<^item> ItemName: the text of TaskTable's item-name cell (part_003 lines
    657--663), with the Ruby-hash regular expression run as the engine runs
    it: a lazy group tried byte by byte (a \<open>function\<close> terminating by a
    measure), proved equal to a closed description by slicing.
  \<^item> TableUI: TaskTable as an event system: one event per control of the
    rendered table wired to a state-changing handler (filter, sort, name
    input, save, key, status option, double click) and the two mount
    effects, with the focus effect of the rename input (lines 100--104); \<open>tt_step\<close> returns \<open>None\<close> for a control not on screen, and
    \<open>tt_reach\<close> is reachability from the first render.
  \<^item> JsonFuel: that the fuel \<open>length s + 1\<close> of the JSON parser is enough:
    every call of the three mutually recursive parsers returns a result
    shorter than its input, proved by induction on the parser's own rules.
  \<^item> AppView: what App renders (part_005 lines 459--578): the settings
    loader, the settings error, or the main panel with the menu label, the
    offset of the fixed Sidebar panel (pushed off-screen, not removed, when
    closed) and the content area (the loader, or the error lines and body);
    the props of the \<open>Sidebar\<close> element, the Sidebar's whole screen
    (Sidebar.jsx lines 44--124), its controls and the App handler each calls.
  \<^item> CellView: TaskTable's render (part_003 lines 620--962 and
    1144--1242): the content of every cell by column type (board link, item
    name or its input, status text and colour, date, avatars, numbers, link,
    text), the header cells with their filter button and sort state, the
    \<open>My Tasks\<close> button, and the table or its \<open>EmptyState\<close>.
  \<^item> CellDialog: \<open>cellDialogState\<close> and the hover timer reference of
    TaskTable with the click, hover and close handlers (part_003 lines
    84--98, 353--403), the browser's timers as an explicit queue of ids, and
    the content of the user-details dialog.
  \<^item> Avatars: the avatar of each person of a person cell (part_003 lines
    806--898) and of each user row of the filter dialog (lines 1052--1106):
    its text, photo and label.  \<open>substring(0, 2).toUpperCase()\<close> counts
    UTF-16 units and maps Unicode case, which strings of 8-bit characters
    do not model, so it is the parameter \<open>initials\<close>; called on a value that
    is not a string it throws (\<open>None\<close>).  The hover of an avatar meets the
    dialog state of CellDialog and the user cache of Editing.
  \<^item> AppSystem: App as one event system composing the components above: the
    App state with its calls in flight, the instance storage with the
    pending \<open>setItem\<close> writes, the network, the state of the Sidebar once
    mounted and the body's overflow style; events are the answer of the
    settings read, the Sidebar controls, the menu button, polling ticks,
    completions, the refetch after an edit and the storage applying a write,
    each followed by the effects React runs: the Sidebar's mount fetch when
    the main screen first shows it (Sidebar.jsx lines 22--42), then App's
    auto-save, \<open>loadContentData\<close> and body-overflow effect (part_005 lines
    229--268, 451--459).  The first render runs every effect
    (\<open>app_sys_init\<close>): the auto-save's \<open>isAppLoading\<close> guard is what keeps it
    idle there.  A Sidebar control is enabled when it is on the
    screen the mounted Sidebar renders.  The board fetch of the menu button
    (\<open>fetchBoardsForSidebarSelection\<close>) is answered within the menu-click
    event: no other event runs between its request and its setters.
    \<open>app_reach\<close> is reachability from the first render.

  \<^bold>\<open>Conventions.\<close>  State updates of React setters are record updates applied
  in the order the code calls them.  A thrown exception the code catches is a
  branch of the model; one it does not catch is \<open>Inl\<close> of an \<open>api_error\<close>.
  Where the code would store a value of another type than a state field's
  (e.g. a board id that is not a string) the model returns \<open>None\<close>.  Numbers
  are exact decimals (no double rounding), strings are byte lists.

  \<^bold>\<open>What the lemmas show.\<close>  Retry: the call budget (1 to 24 calls per
  request), its exact use under persistent rate limits, 429s and concurrency
  limits, and which errors are never retried.  Json and Queries: the
  print/parse round trip and that the rename payload decodes back to the name;
  the items query requests every column but does not escape ids.
  Aggregation: attribution of items to their board in selection order, the
  items kept on failure, the non-atomic commit of the board data, the call
  bound, and the error routing by message text.  Settings: the save/load round
  trip, discarding of corrupted values, the empty-string case, and that a
  re-save after a load writes the same value.  Selection: toggles refine
  symmetric difference on sets; the column memo keeps the first column per id.
  View: filter semantics per type, inert and cleared filters, the filter-key
  invariant over all reachable table states (rule induction), equivalence of
  the numeric sort with the library's \<open>sort_key\<close> in both directions, the
  date and link comparator defects, and that the view is a permutation of the
  filtered items.  Refresh: the split is exact; the loading flags and
  \<open>isPolling\<close> are set only while calls are in flight (rule induction over
  all interleavings); two background refreshes, or a background and a
  foreground one, can nevertheless run at the same time.  Editing: a failed
  rename alerts without refetching but discards the typed name; the user
  prefetch calls the platform once per occurrence of a person, not once per id.
  Sidebar: its request is made once, never retried, and an error response
  (a rate limit included) shows an empty board list with no error.
  TableContext: a context that gives the account URL as \<open>accountUrl\<close> but has
  no \<open>account\<close> object leaves every link on \<open>https://monday.com\<close>, the
  slug fallback untried.  FilterOptions: every person of a person cell is
  offered in the filter dialog, and checking it keeps the cell, provided
  each cached user carries the id it is cached under; ticking a row through
  its checkbox stores the value twice (the click reaches both the checkbox
  and the row), and the dialog's default branch is dead.  ItemName: a name
  stored as \<open>{"text"=>"m"}\<close> is shown as \<open>m\<close>.  TableUI: in every
  reachable table state \<open>editingItemId\<close> is \<open>null\<close>, so the inline rename
  is dead code (rule induction over all events), and the focus effect never
  focuses.  JsonFuel: the parser never
  runs out of fuel, so \<open>JSON.parse\<close> fails exactly on syntax errors.
  AppView: the board list App fetches when the sidebar opens costs a call
  and changes neither screen; every Sidebar control keeps both selections
  free of duplicates (the set types of the spec's view state).  Refresh
  also shows liveness: from every reachable state, completing the calls in
  flight, whatever their outcomes, ends in a settled state with no spinner.
  CellView: a status cell shows the text the status filter matches; the
  person cell's \<open>No user\<close> label never appears in the filtered table, while
  a cell listing no person looks empty and is hidden by the \<open>No user\<close>
  filter; the \<open>My Tasks\<close> button toggles the current-user filter.
  CellDialog: timer ids stay fresh, entering the user details cancels the
  timer of the last leave only, and a click on a status cell does not cancel
  a pending hover timer, which then closes the status dialog.  AppSystem:
  no write happens before the settings load, and the first one holds the
  loaded settings; every event that changes the saved settings is followed
  by exactly one write, of the new settings; the spinner invariant of Refresh holds in every state of
  the whole App; a failed settings read replaces the stored view by the
  defaults; writes applied out of order leave stale settings stored; the
  page behind the panel is locked from scrolling exactly while the panel is
  open; the Sidebar exists exactly when the settings loaded without error,
  and sends its own boards query with the first main screen whether or not
  the panel is ever opened.  Avatars: once the prefetch has cached a
  person's user from the platform, hovering the person's avatar never shows
  the details dialog, because the column value's numeric id is compared by
  \<open>===\<close> with the user's string id; a cached user with no name shows the
  initials of \<open>'Unknown'\<close>, so the fallback to its id is dead.  The
  section at the end relates App and TaskTable: TaskTable never shows its
  \<open>EmptyState\<close> under App.

  \<^bold>\<open>Not modelled.\<close>  Every operation of the program that changes
  state and every effect is a definition above, and so are the branches and
  controls of every screen with the texts that depend on the state.  Left
  out, as presentation with no state: fixed headings and labels, class names,
  styles and layout (the \<open>TableCell\<close> wrapper of part_003 lines 941--960,
  the panels of App and the Sidebar), the counter \<open>AvatarGroup\<close> draws past
  \<open>max={3}\<close>, which is the library's, the toasts of the selection handlers
  (part_005 lines 307--351), which only notify, and \<open>TableErrorState\<close>
  (part_003 lines 66--73), which is declared but never rendered.  The
  monday SDK, React and the browser are the oracle and the parameters of
  the model (\<open>api\<close>, \<open>fmt\<close>, \<open>initials\<close>, the platform context).  The README
  (part_002 and part_004) holds no code.
\<close>

section \<open>Across components\<close>

text \<open>App mounts TaskTable only with items (part_005 line 523), so TaskTable
  never shows its own \<open>EmptyState\<close> and always takes the branch that calls
  the hooks of \<open>HeaderRenderer\<close>: their number stays the same between
  renders.\<close>

lemma app_table_never_empty_state:
  assumes "app_screen a = Some (Screen_main lbl r (Some (es, Table_shown cols items)))"
  shows "task_table_screen lc date_of fmt url (map (\<lambda>c. js_string (js_get c ''id'')) cols) cols items t oid
         \<noteq> Some Table_empty_state"
proof -
  from assms have "items \<noteq> []"
    by (auto simp: app_screen_def split: option.splits if_splits)
  then show ?thesis by (simp add: task_table_screen_def Let_def)
qed

end
